(* ===== verification/Prelude.thy ===== *)
theory Prelude
  imports Main "HOL-Library.AList"
begin

text \<open>
  Shared vocabulary of the development: the outcome of a Go call (a value, an error value
  or a run-time panic), the error values the controllers build and inspect
  (\<^verbatim>\<open>errors.As\<close> chains, \<^verbatim>\<open>multierr\<close>), pointers as options, and the
  helpers of \<^verbatim>\<open>github.com/samber/lo\<close> and
  \<^verbatim>\<open>github.com/alibabacloud-go/tea\<close> that the sources call.

  Conventions used everywhere: a Go map that is only looked up is an association list read
  with \<^term>\<open>map_of\<close>; where the code ranges over a map, the order of the association list
  is the iteration order of that run, so a statement about every list is a statement about
  every iteration order. A \<^verbatim>\<open>sets.Set[string]\<close> is a list read through
  \<^term>\<open>set\<close>. Points in time and durations are integers (nanoseconds).
\<close>

section \<open>Named collections\<close>

named_theorems go_simps \<open>unfolding rules of the Go run-time helpers\<close>
named_theorems inv_intros \<open>preservation of component invariants\<close>

section \<open>Durations\<close>

definition Second :: int where [go_simps]: "Second = 1000000000"
definition Minute :: int where [go_simps]: "Minute = 60 * Second"
definition Hour :: int where [go_simps]: "Hour = 60 * Minute"

text \<open>The zero \<^verbatim>\<open>time.Time\<close>: the first of January of year 1, counted from the
  Unix epoch.\<close>

definition zeroTime :: int where [go_simps]: "zeroTime = - 62135596800 * Second"

section \<open>Errors as values\<close>

text \<open>
  The reasons a Kubernetes API error can carry, as far as the code distinguishes them.
\<close>

datatype status_reason = NotFound | Conflict | OtherReason string

text \<open>
  Error values. \<^term>\<open>ErrorString\<close> is \<^verbatim>\<open>errors.New\<close> or
  \<^verbatim>\<open>fmt.Errorf\<close> without \<^verbatim>\<open>%w\<close>, \<^term>\<open>Wrap\<close> is
  \<^verbatim>\<open>fmt.Errorf\<close> with \<^verbatim>\<open>%w\<close>, \<^term>\<open>MultiErr\<close> a
  \<^verbatim>\<open>multierr\<close> with at least two members. The typed errors of karpenter embed an
  error but define no \<^verbatim>\<open>Unwrap\<close>, so \<^verbatim>\<open>errors.As\<close> stops there.
\<close>

datatype gerror =
    ErrorString string
  | Wrap string gerror
  | MultiErr "gerror list"
  | SDKError "int option"
  | StatusError status_reason string
  | NodeClaimNotFoundError gerror
  | InsufficientCapacityError gerror
  | NodeClassNotReadyError gerror
  | InstanceStateOperationNotSupportedError string

text \<open>
  \<^verbatim>\<open>errors.As\<close>: the first error of the chain (depth first) that satisfies the type
  test; the test sees the error itself, and only wrapped and combined errors are unwrapped.
\<close>

fun errors_as :: "(gerror \<Rightarrow> 'a option) \<Rightarrow> gerror \<Rightarrow> 'a option"
  and errors_as_list :: "(gerror \<Rightarrow> 'a option) \<Rightarrow> gerror list \<Rightarrow> 'a option" where
  "errors_as p (Wrap m e) = (case p (Wrap m e) of Some a \<Rightarrow> Some a | None \<Rightarrow> errors_as p e)"
| "errors_as p (MultiErr es) =
     (case p (MultiErr es) of Some a \<Rightarrow> Some a | None \<Rightarrow> errors_as_list p es)"
| "errors_as p e = p e"
| "errors_as_list p [] = None"
| "errors_as_list p (e # es) =
     (case errors_as p e of Some a \<Rightarrow> Some a | None \<Rightarrow> errors_as_list p es)"

fun as_NodeClaimNotFound :: "gerror \<Rightarrow> gerror option" where
  "as_NodeClaimNotFound (NodeClaimNotFoundError e) = Some e"
| "as_NodeClaimNotFound _ = None"

fun as_InsufficientCapacity :: "gerror \<Rightarrow> gerror option" where
  "as_InsufficientCapacity (InsufficientCapacityError e) = Some e"
| "as_InsufficientCapacity _ = None"

fun as_NodeClassNotReady :: "gerror \<Rightarrow> gerror option" where
  "as_NodeClassNotReady (NodeClassNotReadyError e) = Some e"
| "as_NodeClassNotReady _ = None"

fun as_StateNotSupported :: "gerror \<Rightarrow> string option" where
  "as_StateNotSupported (InstanceStateOperationNotSupportedError i) = Some i"
| "as_StateNotSupported _ = None"

fun as_SDKError :: "gerror \<Rightarrow> int option option" where
  "as_SDKError (SDKError c) = Some c"
| "as_SDKError _ = None"

fun as_StatusError :: "gerror \<Rightarrow> status_reason option" where
  "as_StatusError (StatusError r m) = Some r"
| "as_StatusError _ = None"

definition IsNodeClaimNotFoundError :: "gerror option \<Rightarrow> bool" where
  "IsNodeClaimNotFoundError err =
     (case err of None \<Rightarrow> False | Some e \<Rightarrow> errors_as as_NodeClaimNotFound e \<noteq> None)"

definition IgnoreNodeClaimNotFoundError :: "gerror option \<Rightarrow> gerror option" where
  "IgnoreNodeClaimNotFoundError err = (if IsNodeClaimNotFoundError err then None else err)"

definition IsInsufficientCapacityError :: "gerror option \<Rightarrow> bool" where
  "IsInsufficientCapacityError err =
     (case err of None \<Rightarrow> False | Some e \<Rightarrow> errors_as as_InsufficientCapacity e \<noteq> None)"

definition IsNodeClassNotReadyError :: "gerror option \<Rightarrow> bool" where
  "IsNodeClassNotReadyError err =
     (case err of None \<Rightarrow> False | Some e \<Rightarrow> errors_as as_NodeClassNotReady e \<noteq> None)"

text \<open>\<^verbatim>\<open>apierrors.IsNotFound\<close>, \<^verbatim>\<open>apierrors.IsConflict\<close> and
  \<^verbatim>\<open>client.IgnoreNotFound\<close>.\<close>

definition api_IsNotFound :: "gerror option \<Rightarrow> bool" where
  "api_IsNotFound err =
     (case err of None \<Rightarrow> False | Some e \<Rightarrow> errors_as as_StatusError e = Some NotFound)"

definition api_IsConflict :: "gerror option \<Rightarrow> bool" where
  "api_IsConflict err =
     (case err of None \<Rightarrow> False | Some e \<Rightarrow> errors_as as_StatusError e = Some Conflict)"

definition IgnoreNotFound :: "gerror option \<Rightarrow> gerror option" where
  "IgnoreNotFound err = (if api_IsNotFound err then None else err)"

text \<open>\<^verbatim>\<open>multierr.Append\<close> and \<^verbatim>\<open>multierr.Combine\<close>: nil is dropped, one
  error stays itself, several are flattened into one list.\<close>

fun flatten_err :: "gerror \<Rightarrow> gerror list" where
  "flatten_err (MultiErr es) = es"
| "flatten_err e = [e]"

definition multierr_of :: "gerror list \<Rightarrow> gerror option" where
  "multierr_of es = (case es of [] \<Rightarrow> None | [e] \<Rightarrow> Some e | _ \<Rightarrow> Some (MultiErr es))"

definition multierr_Combine :: "gerror option list \<Rightarrow> gerror option" where
  "multierr_Combine es =
     (case List.map_filter (\<lambda>e. e) es of
        [] \<Rightarrow> None
      | [e] \<Rightarrow> Some e
      | nz \<Rightarrow> Some (MultiErr (concat (map flatten_err nz))))"

definition multierr_Append :: "gerror option \<Rightarrow> gerror option \<Rightarrow> gerror option" where
  "multierr_Append a b = multierr_Combine [a, b]"

lemma multierr_Combine_None_iff [simp]:
  "multierr_Combine es = None \<longleftrightarrow> (\<forall>e \<in> set es. e = None)"
proof -
  have "List.map_filter (\<lambda>e. e) es = [] \<longleftrightarrow> (\<forall>e \<in> set es. e = None)"
    by (induction es) (auto simp: List.map_filter_def)
  then show ?thesis
    by (auto simp: multierr_Combine_def split: list.splits)
qed

lemma multierr_Append_None [simp]:
  "multierr_Append None e = e" "multierr_Append e None = e"
  by (cases e; simp add: multierr_Append_def multierr_Combine_def List.map_filter_def)+

section \<open>Outcomes\<close>

text \<open>What a call of a Go function with an error result can do: return a value, return an
  error, or panic (a nil dereference, a failed \<^verbatim>\<open>lo.Must\<close>).\<close>

datatype 'a outcome = Ok 'a | Err gerror | Panic

fun outcome_map :: "('a \<Rightarrow> 'b) \<Rightarrow> 'a outcome \<Rightarrow> 'b outcome" where
  "outcome_map f (Ok a) = Ok (f a)"
| "outcome_map f (Err e) = Err e"
| "outcome_map f Panic = Panic"

fun outcome_bind :: "'a outcome \<Rightarrow> ('a \<Rightarrow> 'b outcome) \<Rightarrow> 'b outcome" where
  "outcome_bind (Ok a) f = f a"
| "outcome_bind (Err e) f = Err e"
| "outcome_bind Panic f = Panic"

fun outcome_wrap :: "string \<Rightarrow> 'a outcome \<Rightarrow> 'a outcome" where
  "outcome_wrap m (Err e) = Err (Wrap m e)"
| "outcome_wrap m r = r"

fun outcome_err :: "'a outcome \<Rightarrow> gerror option" where
  "outcome_err (Err e) = Some e"
| "outcome_err _ = None"

lemma outcome_bind_Ok_iff [simp]:
  "outcome_bind r f = Ok b \<longleftrightarrow> (\<exists>a. r = Ok a \<and> f a = Ok b)"
  by (cases r) auto

lemma outcome_map_Ok_iff [simp]:
  "outcome_map f r = Ok b \<longleftrightarrow> (\<exists>a. r = Ok a \<and> b = f a)"
  by (cases r) auto

lemma outcome_wrap_Ok_iff [simp]: "outcome_wrap m r = Ok a \<longleftrightarrow> r = Ok a"
  by (cases r) auto

section \<open>Helpers of lo and tea\<close>

text \<open>\<^verbatim>\<open>tea.StringValue\<close>, \<^verbatim>\<open>tea.Int32Value\<close>,
  \<^verbatim>\<open>lo.FromPtr\<close>: the zero value for nil.\<close>

definition StringValue :: "string option \<Rightarrow> string" where
  "StringValue p = (case p of None \<Rightarrow> [] | Some s \<Rightarrow> s)"

definition IntValue :: "int option \<Rightarrow> int" where
  "IntValue p = (case p of None \<Rightarrow> 0 | Some n \<Rightarrow> n)"

lemma StringValue_simps [simp]: "StringValue None = []" "StringValue (Some s) = s"
  by (simp_all add: StringValue_def)

lemma IntValue_simps [simp]: "IntValue None = 0" "IntValue (Some n) = n"
  by (simp_all add: IntValue_def)

text \<open>\<^verbatim>\<open>lo.Assign\<close> on two maps: the right one wins.\<close>

definition assign :: "('k \<times> 'v) list \<Rightarrow> ('k \<times> 'v) list \<Rightarrow> ('k \<times> 'v) list" where
  "assign m1 m2 = AList.updates (map fst m2) (map snd m2) m1"

lemma map_of_assign:
  "distinct (map fst m2) \<Longrightarrow> map_of (assign m1 m2) = map_of m1 ++ map_of m2"
proof (induction m2 arbitrary: m1)
  case Nil
  then show ?case by (simp add: assign_def)
next
  case (Cons p m2)
  obtain k v where p: "p = (k, v)" by (cases p)
  have IH: "map_of (assign (AList.update k v m1) m2) = map_of (AList.update k v m1) ++ map_of m2"
    using Cons by simp
  have k: "k \<notin> dom (map_of m2)"
    using Cons.prems p by (auto simp: dom_map_of_conv_image_fst)
  have "assign m1 (p # m2) = assign (AList.update k v m1) m2"
    by (simp add: assign_def p)
  then show ?case
    using IH k p by (auto simp: update_conv' map_add_def fun_eq_iff split: option.splits)
qed

lemma distinct_assign: "distinct (map fst m1) \<Longrightarrow> distinct (map fst (assign m1 m2))"
  by (simp add: assign_def distinct_updates)

text \<open>A Go map read: the zero value of a string for a missing key.\<close>

definition map_get :: "(string \<times> string) list \<Rightarrow> string \<Rightarrow> string" where
  "map_get m k = StringValue (map_of m k)"

text \<open>\<^verbatim>\<open>lo.MinBy\<close>: the first element no later element is smaller than.\<close>

fun min_by :: "('a \<Rightarrow> 'a \<Rightarrow> bool) \<Rightarrow> 'a \<Rightarrow> 'a list \<Rightarrow> 'a" where
  "min_by lt m [] = m"
| "min_by lt m (x # xs) = min_by lt (if lt x m then x else m) xs"

lemma min_by_mem: "min_by lt m xs \<in> insert m (set xs)"
  by (induction xs arbitrary: m) auto

lemma min_by_key_le:
  fixes key :: "'a \<Rightarrow> 'b::linorder"
  shows "y \<in> insert m (set xs) \<Longrightarrow> key (min_by (\<lambda>a b. key a < key b) m xs) \<le> key y"
proof (induction xs arbitrary: m y)
  case Nil
  then show ?case by simp
next
  case (Cons x xs)
  let ?m = "if key x < key m then x else m"
  have m: "key (min_by (\<lambda>a b. key a < key b) ?m xs) \<le> key ?m"
    by (rule Cons.IH) simp
  show ?case
  proof (cases "y \<in> set xs")
    case True
    then show ?thesis using Cons.IH[of y ?m] by simp
  next
    case False
    with Cons.prems have "y = x \<or> y = m" by auto
    then have "key ?m \<le> key y" by auto
    with m show ?thesis by simp
  qed
qed

text \<open>\<^verbatim>\<open>lo.Uniq\<close>: first occurrences, in order.\<close>

fun uniq_from :: "'a list \<Rightarrow> 'a list \<Rightarrow> 'a list" where
  "uniq_from seen [] = []"
| "uniq_from seen (x # xs) =
     (if x \<in> set seen then uniq_from seen xs else x # uniq_from (x # seen) xs)"

definition uniq :: "'a list \<Rightarrow> 'a list" where
  "uniq xs = uniq_from [] xs"

lemma set_uniq_from: "set (uniq_from seen xs) = set xs - set seen"
  by (induction xs arbitrary: seen) auto

lemma set_uniq [simp]: "set (uniq xs) = set xs"
  by (simp add: uniq_def set_uniq_from)

lemma distinct_uniq_from: "distinct (uniq_from seen xs)"
  by (induction xs arbitrary: seen) (auto simp: set_uniq_from)

lemma distinct_uniq [simp]: "distinct (uniq xs)"
  by (simp add: uniq_def distinct_uniq_from)

lemma find_Some_iff_mem: "find P xs = Some x \<Longrightarrow> x \<in> set xs \<and> P x"
  by (induction xs) (auto split: if_splits)

lemma option_ext: "(\<And>c. x = Some c \<longleftrightarrow> y = Some c) \<Longrightarrow> x = y"
  by (cases x; cases y) auto

lemma map_of_mapSnd: "map_of (map (\<lambda>(k, v). (k, f v)) m) k = map_option f (map_of m k)"
  by (induction m) auto

text \<open>A loop whose body may fail: the first failure ends it.\<close>

fun outcome_mapM :: "('a \<Rightarrow> 'b outcome) \<Rightarrow> 'a list \<Rightarrow> 'b list outcome" where
  "outcome_mapM f [] = Ok []"
| "outcome_mapM f (x # xs) = outcome_bind (f x) (\<lambda>y. outcome_map (\<lambda>ys. y # ys) (outcome_mapM f xs))"

fun outcome_fold :: "('a \<Rightarrow> 's \<Rightarrow> 's outcome) \<Rightarrow> 'a list \<Rightarrow> 's \<Rightarrow> 's outcome" where
  "outcome_fold f [] s = Ok s"
| "outcome_fold f (x # xs) s = outcome_bind (f x s) (outcome_fold f xs)"

lemma outcome_mapM_Ok:
  "outcome_mapM f xs = Ok ys \<longleftrightarrow> list_all2 (\<lambda>x y. f x = Ok y) xs ys"
proof (induction xs arbitrary: ys)
  case (Cons x xs)
  then show ?case by (cases ys) auto
qed auto

section \<open>Machine integers and pointers\<close>

text \<open>The value of an \<^verbatim>\<open>int32\<close> or \<^verbatim>\<open>int64\<close> expression: two's complement
  wrap-around.\<close>

definition int32 :: "int \<Rightarrow> int" where
  "int32 n = (n + 2 ^ 31) mod 2 ^ 32 - 2 ^ 31"

definition int64 :: "int \<Rightarrow> int" where
  "int64 n = (n + 2 ^ 63) mod 2 ^ 64 - 2 ^ 63"

lemma int32_id [simp]: "- (2 ^ 31) \<le> n \<Longrightarrow> n < 2 ^ 31 \<Longrightarrow> int32 n = n"
  by (simp add: int32_def)

lemma int64_id [simp]: "- (2 ^ 63) \<le> n \<Longrightarrow> n < 2 ^ 63 \<Longrightarrow> int64 n = n"
  by (simp add: int64_def)

text \<open>Dereferencing a nil pointer panics.\<close>

definition deref :: "'a option \<Rightarrow> 'a outcome" where
  "deref x = (case x of None \<Rightarrow> Panic | Some a \<Rightarrow> Ok a)"

lemma deref_simps [simp]: "deref None = Panic" "deref (Some a) = Ok a"
  by (simp_all add: deref_def)

section \<open>Paged answers\<close>

text \<open>Page \<open>k\<close> (from 0) of a list served in pages of \<open>n\<close>.\<close>

definition page_of :: "nat \<Rightarrow> 'a list \<Rightarrow> nat \<Rightarrow> 'a list" where
  "page_of n xs k = take n (drop (k * n) xs)"

lemma page_of_last:
  "length (page_of n xs k) < n \<Longrightarrow> page_of n xs k = drop (k * n) xs"
  by (simp add: page_of_def)

lemma page_of_append_rest:
  "page_of n xs k @ take m (drop (Suc k * n) xs) = take (n + m) (drop (k * n) xs)"
  by (simp add: page_of_def take_add)

lemma page_of_short:
  "length xs < Suc k * n \<Longrightarrow> page_of n xs k = drop (k * n) xs"
  by (simp add: page_of_def)

text \<open>
  Pages linked by tokens, as the ECS API serves them: the loop asks for the next page by the
  token of the last one and stops at a page without items (a nil response, body or list is
  one) or without a token. It ends only if the tokens do, so not returning is the value None.
\<close>

record 'a token_page =
  pgItems :: "'a list"
  pgNextToken :: "string option"

partial_function (option) token_loop ::
  "(string option \<Rightarrow> 'a token_page option outcome) \<Rightarrow> string option \<Rightarrow> 'a list \<Rightarrow> 'a list outcome option" where
  "token_loop api token acc =
     (case api token of
        Err e \<Rightarrow> Some (Err e)
      | Panic \<Rightarrow> Some Panic
      | Ok None \<Rightarrow> Some (Ok acc)
      | Ok (Some pg) \<Rightarrow>
          if pgItems pg = [] then Some (Ok acc)
          else if StringValue (pgNextToken pg) = [] then Some (Ok (acc @ pgItems pg))
          else token_loop api (pgNextToken pg) (acc @ pgItems pg))"

text \<open>An API that serves non-empty pages, each naming the next by its token.\<close>

fun serves_pages ::
  "(string option \<Rightarrow> 'a token_page option outcome) \<Rightarrow> string option \<Rightarrow> 'a token_page list \<Rightarrow> bool" where
  "serves_pages api token [] = (api token = Ok None)"
| "serves_pages api token (pg # pgs) =
     (api token = Ok (Some pg) \<and> pgItems pg \<noteq> []
      \<and> (if StringValue (pgNextToken pg) = [] then pgs = [] else serves_pages api (pgNextToken pg) pgs))"

lemma token_loop_pages:
  "serves_pages api token pgs \<Longrightarrow>
   token_loop api token acc = Some (Ok (acc @ concat (map pgItems pgs)))"
proof (induction pgs arbitrary: token acc)
  case Nil
  then show ?case by (simp add: token_loop.simps)
next
  case (Cons pg pgs)
  then show ?case by (subst token_loop.simps) (auto split: if_splits)
qed

text \<open>What holds of the items of every page holds of the items a loop returns.\<close>

lemma token_loop_all:
  assumes "token_loop api token acc = Some (Ok xs)"
    and "\<And>t pg x. api t = Ok (Some pg) \<Longrightarrow> x \<in> set (pgItems pg) \<Longrightarrow> P x" and "\<And>x. x \<in> set acc \<Longrightarrow> P x"
  shows "\<forall>x \<in> set xs. P x"
proof -
  let ?Q = "\<lambda>api t acc r. (\<forall>t pg x. api t = Ok (Some pg) \<longrightarrow> x \<in> set (pgItems pg) \<longrightarrow> P x) \<longrightarrow>
      (\<forall>x \<in> set acc. P x) \<longrightarrow> (\<forall>ys. r = Ok ys \<longrightarrow> (\<forall>y \<in> set ys. P y))"
  have "?Q api token acc (Ok xs)"
  proof (rule token_loop.raw_induct[where P = ?Q, OF _ assms(1)])
    fix loop api t acc r
    assume IH: "\<And>api t acc r. loop api t acc = Some r \<Longrightarrow> ?Q api t acc r"
      and step: "(case api t of Ok None \<Rightarrow> Some (Ok acc)
        | Ok (Some pg) \<Rightarrow> if pgItems pg = [] then Some (Ok acc)
            else if StringValue (pgNextToken pg) = [] then Some (Ok (acc @ pgItems pg))
            else loop api (pgNextToken pg) (acc @ pgItems pg)
        | Err e \<Rightarrow> Some (Err e) | Panic \<Rightarrow> Some Panic) = Some r"
    from step IH[of api _ _ r] show "?Q api t acc r"
      by (cases "api t") (fastforce split: option.splits if_splits)+
  qed
  with assms(2,3) show ?thesis by blast
qed

end
