(* ===== verification/Go_Strings.thy ===== *)
theory Go_Strings
  imports Prelude
begin

text \<open>
  The functions of Go's packages \<^verbatim>\<open>strings\<close>, \<^verbatim>\<open>strconv\<close> and
  \<^verbatim>\<open>fmt\<close> that the sources use, on byte strings. Case mapping is the ASCII one:
  the strings it is applied to (GPU and CPU model names) are ASCII.
\<close>

section \<open>Package strings\<close>

definition HasPrefix :: "string \<Rightarrow> string \<Rightarrow> bool" where
  "HasPrefix s p = (take (length p) s = p)"

definition HasSuffix :: "string \<Rightarrow> string \<Rightarrow> bool" where
  "HasSuffix s p = HasPrefix (rev s) (rev p)"

fun Contains :: "string \<Rightarrow> string \<Rightarrow> bool" where
  "Contains [] p = (p = [])"
| "Contains (c # s) p = (HasPrefix (c # s) p \<or> Contains s p)"

definition TrimPrefix :: "string \<Rightarrow> string \<Rightarrow> string" where
  "TrimPrefix s p = (if HasPrefix s p then drop (length p) s else s)"

text \<open>\<^verbatim>\<open>strings.Split\<close> with a one-byte separator: never empty.\<close>

fun split_char :: "char \<Rightarrow> string \<Rightarrow> string list" where
  "split_char d [] = [[]]"
| "split_char d (c # s) =
     (if c = d then [] # split_char d s
      else (case split_char d s of [] \<Rightarrow> [[c]] | w # ws \<Rightarrow> (c # w) # ws))"

fun join_with :: "string \<Rightarrow> string list \<Rightarrow> string" where
  "join_with sep [] = []"
| "join_with sep [w] = w"
| "join_with sep (w # ws) = w @ sep @ join_with sep ws"

text \<open>\<^verbatim>\<open>strings.ReplaceAll\<close> for a non-empty pattern: non-overlapping, left to
  right. (The sources never replace the empty string.)\<close>

function ReplaceAll :: "string \<Rightarrow> string \<Rightarrow> string \<Rightarrow> string" where
  "ReplaceAll s old new =
     (if old \<noteq> [] \<and> s \<noteq> [] \<and> HasPrefix s old
      then new @ ReplaceAll (drop (length old) s) old new
      else case s of [] \<Rightarrow> [] | c # s' \<Rightarrow> c # ReplaceAll s' old new)"
  by pat_completeness auto
termination
  by (relation "measure (\<lambda>(s, old, new). length s)") auto

declare ReplaceAll.simps [simp del]

text \<open>\<^verbatim>\<open>strings.ToLower\<close> on ASCII.\<close>

definition lower_char :: "char \<Rightarrow> char" where
  "lower_char c =
     (if 65 \<le> (of_char c :: nat) \<and> (of_char c :: nat) \<le> 90
      then char_of ((of_char c :: nat) + 32) else c)"

definition ToLower :: "string \<Rightarrow> string" where
  "ToLower s = map lower_char s"

lemma HasPrefix_append [simp]: "HasPrefix (p @ s) p"
  by (simp add: HasPrefix_def)

lemma HasPrefix_Nil [simp]: "HasPrefix s []"
  by (simp add: HasPrefix_def)

lemma Contains_append_right: "Contains (u @ p @ v) p"
proof (induction u)
  case Nil
  show ?case
  proof (cases "p @ v")
    case Nil
    then show ?thesis by simp
  next
    case (Cons c s)
    have "HasPrefix (p @ v) p" by simp
    with Cons show ?thesis by simp
  qed
qed simp

lemma Contains_iff: "Contains s p \<longleftrightarrow> (\<exists>u v. s = u @ p @ v)"
proof
  show "Contains s p \<Longrightarrow> \<exists>u v. s = u @ p @ v"
  proof (induction s)
    case Nil
    then show ?case by simp
  next
    case (Cons c s)
    show ?case
    proof (cases "HasPrefix (c # s) p")
      case True
      then have "c # s = [] @ p @ drop (length p) (c # s)"
        unfolding HasPrefix_def by (metis append_Nil append_take_drop_id)
      then show ?thesis by blast
    next
      case False
      with Cons obtain u v where "s = u @ p @ v" by auto
      then have "c # s = (c # u) @ p @ v" by simp
      then show ?thesis by blast
    qed
  qed
next
  assume "\<exists>u v. s = u @ p @ v"
  then show "Contains s p" by (auto simp: Contains_append_right)
qed

lemma split_char_nonempty [simp]: "split_char d s \<noteq> []"
  by (induction s) (auto split: list.splits)

lemma split_char_no_sep: "d \<notin> set s \<Longrightarrow> split_char d s = [s]"
  by (induction s) auto

lemma split_char_append:
  "d \<notin> set w \<Longrightarrow> split_char d (w @ d # s) = w # split_char d s"
  by (induction w) auto

lemma split_char_pieces: "w \<in> set (split_char d s) \<Longrightarrow> d \<notin> set w"
proof (induction s arbitrary: w)
  case Nil
  then show ?case by simp
next
  case (Cons c s)
  show ?case
  proof (cases "c = d")
    case True
    with Cons show ?thesis by auto
  next
    case False
    obtain v vs where "split_char d s = v # vs"
      by (cases "split_char d s") auto
    with False Cons show ?thesis by auto
  qed
qed

lemma join_split_char: "join_with [d] (split_char d s) = s"
proof (induction s)
  case Nil
  then show ?case by simp
next
  case (Cons c s)
  obtain w ws where ws: "split_char d s = w # ws"
    by (cases "split_char d s") auto
  with Cons show ?case by (cases ws) auto
qed

lemma ReplaceAll_char:
  "ReplaceAll s [a] [b] = map (\<lambda>c. if c = a then b else c) s"
proof (induction s)
  case Nil
  then show ?case by (simp add: ReplaceAll.simps)
next
  case (Cons c s)
  then show ?case
    by (simp add: ReplaceAll.simps[of "c # s"] HasPrefix_def)
qed

section \<open>Decimal numbers\<close>

definition digit_char :: "nat \<Rightarrow> char" where
  "digit_char d = char_of (48 + d)"

function nat_digits :: "nat \<Rightarrow> string" where
  "nat_digits n = (if n < 10 then [digit_char n] else nat_digits (n div 10) @ [digit_char (n mod 10)])"
  by pat_completeness auto
termination
  by (relation "measure id") auto

declare nat_digits.simps [simp del]

text \<open>\<^verbatim>\<open>fmt.Sprint\<close> / \<^verbatim>\<open>%d\<close> of an integer.\<close>

definition itoa :: "int \<Rightarrow> string" where
  "itoa n = (if n < 0 then CHR ''-'' # nat_digits (nat (- n)) else nat_digits (nat n))"

definition char_digit :: "char \<Rightarrow> nat option" where
  "char_digit c =
     (let v = (of_char c :: nat) in if 48 \<le> v \<and> v \<le> 57 then Some (v - 48) else None)"

fun digits_val :: "nat \<Rightarrow> string \<Rightarrow> nat option" where
  "digits_val acc [] = Some acc"
| "digits_val acc (c # s) =
     (case char_digit c of None \<Rightarrow> None | Some d \<Rightarrow> digits_val (acc * 10 + d) s)"

text \<open>\<^verbatim>\<open>strconv.Atoi\<close>: optional sign, at least one digit, in the range of
  \<^verbatim>\<open>int64\<close>; every failure is the error value.\<close>

definition unsigned_val :: "string \<Rightarrow> nat option" where
  "unsigned_val s = (if s = [] then None else digits_val 0 s)"

definition in_int64 :: "int \<Rightarrow> bool" where
  "in_int64 n = (- (2 ^ 63) \<le> n \<and> n < 2 ^ 63)"

definition Atoi :: "string \<Rightarrow> int option" where
  "Atoi s =
     (let v = (case s of
          [] \<Rightarrow> None
        | c # s' \<Rightarrow>
            (if c = CHR ''-'' then map_option (\<lambda>n. - int n) (unsigned_val s')
             else if c = CHR ''+'' then map_option int (unsigned_val s')
             else map_option int (unsigned_val s)))
      in case v of None \<Rightarrow> None | Some n \<Rightarrow> if in_int64 n then Some n else None)"

lemma char_digit_digit_char [simp]: "d < 10 \<Longrightarrow> char_digit (digit_char d) = Some d"
  by (simp add: char_digit_def digit_char_def)

lemma digits_val_append:
  "digits_val a (s @ t) = (case digits_val a s of None \<Rightarrow> None | Some b \<Rightarrow> digits_val b t)"
  by (induction s arbitrary: a) (auto split: option.splits)

lemma digits_val_nat_digits: "digits_val 0 (nat_digits n) = Some n"
proof (induction n rule: nat_digits.induct)
  case (1 n)
  show ?case
  proof (cases "n < 10")
    case True
    then show ?thesis by (simp add: nat_digits.simps[of n])
  next
    case False
    with "1.IH" show ?thesis
      by (simp add: nat_digits.simps[of n] digits_val_append)
  qed
qed

lemma nat_digits_nonempty [simp]: "nat_digits n \<noteq> []"
  by (subst nat_digits.simps) simp

lemma nat_digits_chars: "c \<in> set (nat_digits n) \<Longrightarrow> char_digit c \<noteq> None"
proof (induction n rule: nat_digits.induct)
  case (1 n)
  then show ?case
    by (cases "n < 10") (auto simp: nat_digits.simps[of n])
qed

lemma nat_digits_hd:
  assumes "nat_digits n = c # s"
  shows "c \<noteq> CHR ''-''" and "c \<noteq> CHR ''+''"
proof -
  have "char_digit c \<noteq> None"
    using assms nat_digits_chars[of c n] by simp
  then show "c \<noteq> CHR ''-''" and "c \<noteq> CHR ''+''"
    by (auto simp: char_digit_def)
qed

lemma unsigned_val_nat_digits [simp]: "unsigned_val (nat_digits n) = Some n"
  by (simp add: unsigned_val_def digits_val_nat_digits)

text \<open>Printing and parsing agree on the range of the machine integer.\<close>

lemma Atoi_itoa: "in_int64 n \<Longrightarrow> Atoi (itoa n) = Some n"
proof (cases "n < 0")
  case True
  then show "in_int64 n \<Longrightarrow> Atoi (itoa n) = Some n"
    by (simp add: Atoi_def itoa_def)
next
  case False
  obtain c s where cs: "nat_digits (nat n) = c # s"
    by (cases "nat_digits (nat n)") auto
  have "unsigned_val (c # s) = Some (nat n)"
    using cs unsigned_val_nat_digits[of "nat n"] by simp
  moreover have "c \<noteq> CHR ''-''" "c \<noteq> CHR ''+''"
    using nat_digits_hd[OF cs] .
  ultimately show "in_int64 n \<Longrightarrow> Atoi (itoa n) = Some n"
    using False cs by (simp add: Atoi_def itoa_def)
qed

lemma itoa_inj: "in_int64 m \<Longrightarrow> in_int64 n \<Longrightarrow> itoa m = itoa n \<Longrightarrow> m = n"
  by (metis Atoi_itoa option.inject)

lemma nat_digits_inj: "nat_digits m = nat_digits n \<Longrightarrow> m = n"
  by (metis digits_val_nat_digits option.inject)

text \<open>A separator that occurs in neither prefix splits uniquely.\<close>

lemma append_sep_inj:
  "a @ d # b = a' @ d # b' \<Longrightarrow> d \<notin> set a \<Longrightarrow> d \<notin> set a' \<Longrightarrow> a = a' \<and> b = b'"
proof (induction a arbitrary: a')
  case Nil
  then show ?case by (cases a') auto
next
  case (Cons x a)
  then show ?case by (cases a') auto
qed

end
