(* ===== verification/Labels.thy ===== *)
theory Labels
  imports Go_Strings
begin

text \<open>
  The label keys, annotation keys, tag keys and resource names:
  \<^verbatim>\<open>src/pkg/apis/apis.go\<close>, \<^verbatim>\<open>src/pkg/apis/v1alpha1/labels.go\<close>, and the
  keys of karpenter and Kubernetes they are used with. \<open>label_defs\<close> unfolds them; the
  inequalities that the proofs about requirements need are simp rules.
\<close>

named_theorems label_defs \<open>definitions of label, annotation and tag keys\<close>

definition Group :: string where [label_defs]: "Group = ''karpenter.k8s.alibabacloud''"
definition CompatibilityGroup :: string where
  [label_defs]: "CompatibilityGroup = ''compatibility.'' @ Group"
definition coreGroup :: string where [label_defs]: "coreGroup = ''karpenter.sh''"

definition CapacityTypeSpot :: string where [label_defs]: "CapacityTypeSpot = ''spot''"
definition CapacityTypeOnDemand :: string where
  [label_defs]: "CapacityTypeOnDemand = ''on-demand''"
definition NodePoolLabelKey :: string where
  [label_defs]: "NodePoolLabelKey = coreGroup @ ''/nodepool''"
definition CapacityTypeLabelKey :: string where
  [label_defs]: "CapacityTypeLabelKey = coreGroup @ ''/capacity-type''"
definition NodeRegisteredLabelKey :: string where
  [label_defs]: "NodeRegisteredLabelKey = coreGroup @ ''/registered''"
definition UnregisteredTaintKey :: string where
  [label_defs]: "UnregisteredTaintKey = coreGroup @ ''/unregistered''"

definition LabelTopologyZone :: string where
  [label_defs]: "LabelTopologyZone = ''topology.kubernetes.io/zone''"
definition LabelTopologyRegion :: string where
  [label_defs]: "LabelTopologyRegion = ''topology.kubernetes.io/region''"
definition LabelInstanceTypeStable :: string where
  [label_defs]: "LabelInstanceTypeStable = ''node.kubernetes.io/instance-type''"
definition LabelArchStable :: string where [label_defs]: "LabelArchStable = ''kubernetes.io/arch''"
definition LabelOSStable :: string where [label_defs]: "LabelOSStable = ''kubernetes.io/os''"
definition LabelWindowsBuild :: string where
  [label_defs]: "LabelWindowsBuild = ''node.kubernetes.io/windows-build''"

definition TerminationFinalizer :: string where
  [label_defs]: "TerminationFinalizer = Group @ ''/termination''"

definition AlibabaCloudToKubeArchitectures :: "(string \<times> string) list" where
  "AlibabaCloudToKubeArchitectures = [(''x86_64'', ''amd64''), (''arm64'', ''arm64'')]"

definition ImageFamilyAlibabaCloudLinux3 :: string where
  [label_defs]: "ImageFamilyAlibabaCloudLinux3 = ''AlibabaCloudLinux3''"
definition ImageFamilyContainerOS :: string where
  [label_defs]: "ImageFamilyContainerOS = ''ContainerOS''"
definition ECSAMDCPUModelValue :: string where [label_defs]: "ECSAMDCPUModelValue = ''AMD''"
definition ECSIntelCPUModelValue :: string where [label_defs]: "ECSIntelCPUModelValue = ''Intel''"
definition ResourceNVIDIAGPU :: string where [label_defs]: "ResourceNVIDIAGPU = ''nvidia.com/gpu''"
definition ResourceAMDGPU :: string where [label_defs]: "ResourceAMDGPU = ''amd.com/gpu''"
definition ResourcePrivateIPv4Address :: string where
  [label_defs]: "ResourcePrivateIPv4Address = ''vpc.alibabacloud.com/PrivateIPv4Address''"
definition ECSClusterIDTagKey :: string where [label_defs]: "ECSClusterIDTagKey = ''ecs:ecs-cluster-id''"

definition LabelNodeClass :: string where [label_defs]: "LabelNodeClass = Group @ ''/ecsnodeclass''"
definition LabelTopologyZoneID :: string where
  [label_defs]: "LabelTopologyZoneID = ''topology.k8s.alibabacloud/zone-id''"
definition LabelInstanceCategory :: string where
  [label_defs]: "LabelInstanceCategory = Group @ ''/instance-category''"
definition LabelInstanceFamily :: string where
  [label_defs]: "LabelInstanceFamily = Group @ ''/instance-family''"
definition LabelInstanceGeneration :: string where
  [label_defs]: "LabelInstanceGeneration = Group @ ''/instance-generation''"
definition LabelInstanceSize :: string where
  [label_defs]: "LabelInstanceSize = Group @ ''/instance-size''"
definition LabelInstanceCPU :: string where
  [label_defs]: "LabelInstanceCPU = Group @ ''/instance-cpu''"
definition LabelInstanceCPUModel :: string where
  [label_defs]: "LabelInstanceCPUModel = Group @ ''/instance-cpu-model''"
definition LabelInstanceMemory :: string where
  [label_defs]: "LabelInstanceMemory = Group @ ''/instance-memory''"
definition LabelInstanceGPUName :: string where
  [label_defs]: "LabelInstanceGPUName = Group @ ''/instance-gpu-name''"
definition LabelInstanceGPUManufacturer :: string where
  [label_defs]: "LabelInstanceGPUManufacturer = Group @ ''/instance-gpu-manufacturer''"
definition LabelInstanceGPUCount :: string where
  [label_defs]: "LabelInstanceGPUCount = Group @ ''/instance-gpu-count''"
definition LabelInstanceGPUMemory :: string where
  [label_defs]: "LabelInstanceGPUMemory = Group @ ''/instance-gpu-memory''"
definition AnnotationECSNodeClassHash :: string where
  [label_defs]: "AnnotationECSNodeClassHash = Group @ ''/ecsnodeclass-hash''"
definition AnnotationClusterNameTaggedCompatability :: string where
  [label_defs]: "AnnotationClusterNameTaggedCompatability = CompatibilityGroup @ ''/cluster-name-tagged''"
definition AnnotationECSNodeClassHashVersion :: string where
  [label_defs]: "AnnotationECSNodeClassHashVersion = Group @ ''/ecsnodeclass-hash-version''"
definition AnnotationInstanceTagged :: string where
  [label_defs]: "AnnotationInstanceTagged = Group @ ''/tagged''"
definition TagNodeClaim :: string where [label_defs]: "TagNodeClaim = coreGroup @ ''/nodeclaim''"
definition TagName :: string where [label_defs]: "TagName = ''Name''"

text \<open>The labels that may be undefined on one side of a compatibility check: karpenter's
  own, extended by the \<^verbatim>\<open>init\<close> function of the provider's API package.\<close>

definition providerWellKnownLabels :: "string list" where
  "providerWellKnownLabels =
     [LabelInstanceCategory, LabelInstanceFamily, LabelInstanceGeneration, LabelInstanceSize,
      LabelInstanceCPU, LabelInstanceCPUModel, LabelInstanceMemory, LabelInstanceGPUName,
      LabelInstanceGPUManufacturer, LabelInstanceGPUCount, LabelInstanceGPUMemory,
      LabelTopologyZoneID, LabelWindowsBuild]"

definition WellKnownLabels :: "string list" where
  "WellKnownLabels =
     [NodePoolLabelKey, LabelTopologyZone, LabelTopologyRegion, LabelInstanceTypeStable,
      LabelArchStable, LabelOSStable, CapacityTypeLabelKey, LabelWindowsBuild]
     @ providerWellKnownLabels"

text \<open>karpenter's aliases of labels, extended by the \<^verbatim>\<open>init\<close> function of
  \<^verbatim>\<open>src/pkg/operator/operator.go\<close>.\<close>

definition NormalizedLabels :: "(string \<times> string) list" where
  "NormalizedLabels =
     [(''topology.diskplugin.csi.alibabacloud.com/zone'', LabelTopologyZone),
      (''failure-domain.beta.kubernetes.io/zone'', LabelTopologyZone),
      (''beta.kubernetes.io/arch'', LabelArchStable),
      (''beta.kubernetes.io/os'', LabelOSStable),
      (''beta.kubernetes.io/instance-type'', LabelInstanceTypeStable),
      (''failure-domain.beta.kubernetes.io/region'', LabelTopologyRegion)]"

lemma capacity_type_neq [simp]:
  "CapacityTypeSpot \<noteq> CapacityTypeOnDemand" "CapacityTypeOnDemand \<noteq> CapacityTypeSpot"
  "CapacityTypeSpot \<noteq> []" "CapacityTypeOnDemand \<noteq> []"
  by (simp_all add: label_defs)

lemma offering_keys_neq [simp]:
  "CapacityTypeLabelKey \<noteq> LabelTopologyZone" "LabelTopologyZone \<noteq> CapacityTypeLabelKey"
  "CapacityTypeLabelKey \<noteq> LabelTopologyZoneID" "LabelTopologyZoneID \<noteq> CapacityTypeLabelKey"
  "LabelTopologyZone \<noteq> LabelTopologyZoneID" "LabelTopologyZoneID \<noteq> LabelTopologyZone"
  by (simp_all add: label_defs)

lemma offering_keys_normal [simp]:
  "map_of NormalizedLabels CapacityTypeLabelKey = None"
  "map_of NormalizedLabels LabelTopologyZone = None"
  "map_of NormalizedLabels LabelTopologyZoneID = None"
  by (simp_all add: NormalizedLabels_def label_defs)

lemma offering_keys_well_known [simp]:
  "CapacityTypeLabelKey \<in> set WellKnownLabels" "LabelTopologyZone \<in> set WellKnownLabels"
  "LabelTopologyZoneID \<in> set WellKnownLabels"
  by (simp_all add: WellKnownLabels_def providerWellKnownLabels_def)

lemma annotation_keys_neq [simp]:
  "AnnotationECSNodeClassHash \<noteq> AnnotationECSNodeClassHashVersion"
  "AnnotationECSNodeClassHashVersion \<noteq> AnnotationECSNodeClassHash"
  "AnnotationInstanceTagged \<noteq> AnnotationClusterNameTaggedCompatability"
  "AnnotationClusterNameTaggedCompatability \<noteq> AnnotationInstanceTagged"
  by (simp_all add: label_defs)

end
