(* ===== verification/Sched.thy ===== *)
theory Sched
  imports Labels
begin

text \<open>
  Karpenter's scheduling requirements, as far as the provider uses them:
  \<^verbatim>\<open>src/vendor/sigs.k8s.io/karpenter/pkg/scheduling/requirement.go\<close> and
  \<^verbatim>\<open>requirements.go\<close>. A requirement denotes a set of label values
  (\<open>req_has\<close>); the main fact is that \<open>Intersection\<close> denotes the intersection. The order
  of \<open>values\<close> and of the association list \<open>requirements\<close> stands for Go's map iteration
  order.
\<close>

datatype node_op = OpIn | OpNotIn | OpExists | OpDoesNotExist | OpGt | OpLt

record requirement =
  Key :: string
  complement :: bool
  reqValues :: "string list"
  greaterThan_r :: "int option"
  lessThan_r :: "int option"
  MinValues :: "int option"

type_synonym requirements = "(string \<times> requirement) list"

definition MaxInt64 :: int where "MaxInt64 = 2 ^ 63 - 1"

text \<open>The integer a \<^verbatim>\<open>Gt\<close> or \<^verbatim>\<open>Lt\<close> requirement carries: the error of
  \<^verbatim>\<open>strconv.Atoi\<close> is ignored (the values are validated by the API server), which
  leaves 0.\<close>

definition bound_value :: "string list \<Rightarrow> int" where
  "bound_value vs = (case vs of [] \<Rightarrow> 0 | v # _ \<Rightarrow> IntValue (Atoi v))"

definition NewRequirementWithFlexibility ::
  "string \<Rightarrow> node_op \<Rightarrow> int option \<Rightarrow> string list \<Rightarrow> requirement" where
  "NewRequirementWithFlexibility key op mv vs =
     (let key' = (case map_of NormalizedLabels key of Some n \<Rightarrow> n | None \<Rightarrow> key) in
      if op = OpIn then
        \<lparr>Key = key', complement = False, reqValues = remdups vs, greaterThan_r = None,
         lessThan_r = None, MinValues = mv\<rparr>
      else
        \<lparr>Key = key', complement = (op \<noteq> OpDoesNotExist),
         reqValues = (if op = OpNotIn then remdups vs else []),
         greaterThan_r = (if op = OpGt then Some (bound_value vs) else None),
         lessThan_r = (if op = OpLt then Some (bound_value vs) else None),
         MinValues = mv\<rparr>)"

definition NewRequirement :: "string \<Rightarrow> node_op \<Rightarrow> string list \<Rightarrow> requirement" where
  "NewRequirement key op vs = NewRequirementWithFlexibility key op None vs"

definition withinIntPtrs :: "string \<Rightarrow> int option \<Rightarrow> int option \<Rightarrow> bool" where
  "withinIntPtrs v gt lt =
     (if gt = None \<and> lt = None then True
      else case Atoi v of
          None \<Rightarrow> False
        | Some n \<Rightarrow> (case gt of None \<Rightarrow> True | Some g \<Rightarrow> g < n)
                 \<and> (case lt of None \<Rightarrow> True | Some l \<Rightarrow> n < l))"

definition maxIntPtr :: "int option \<Rightarrow> int option \<Rightarrow> int option" where
  "maxIntPtr a b = (case (a, b) of
     (None, _) \<Rightarrow> b | (_, None) \<Rightarrow> a | (Some x, Some y) \<Rightarrow> if y < x then a else b)"

definition minIntPtr :: "int option \<Rightarrow> int option \<Rightarrow> int option" where
  "minIntPtr a b = (case (a, b) of
     (None, _) \<Rightarrow> b | (_, None) \<Rightarrow> a | (Some x, Some y) \<Rightarrow> if x < y then a else b)"

text \<open>Set union, difference and intersection on the list representation.\<close>

definition combine_values :: "requirement \<Rightarrow> requirement \<Rightarrow> string list" where
  "combine_values r q =
     (if complement r \<and> complement q
      then reqValues r @ filter (\<lambda>v. v \<notin> set (reqValues r)) (reqValues q)
      else if complement r then filter (\<lambda>v. v \<notin> set (reqValues r)) (reqValues q)
      else if complement q then filter (\<lambda>v. v \<notin> set (reqValues q)) (reqValues r)
      else filter (\<lambda>v. v \<in> set (reqValues q)) (reqValues r))"

definition Intersection :: "requirement \<Rightarrow> requirement \<Rightarrow> requirement" where
  "Intersection r q =
     (let compl = (complement r \<and> complement q);
          gt = maxIntPtr (greaterThan_r r) (greaterThan_r q);
          lt = minIntPtr (lessThan_r r) (lessThan_r q);
          mv = maxIntPtr (MinValues r) (MinValues q)
      in if (case (gt, lt) of (Some g, Some l) \<Rightarrow> l \<le> g | _ \<Rightarrow> False)
         then NewRequirementWithFlexibility (Key r) OpDoesNotExist mv []
         else \<lparr>Key = Key r, complement = compl,
               reqValues = filter (\<lambda>v. withinIntPtrs v gt lt) (combine_values r q),
               greaterThan_r = (if compl then gt else None),
               lessThan_r = (if compl then lt else None), MinValues = mv\<rparr>)"

definition req_has :: "requirement \<Rightarrow> string \<Rightarrow> bool" where
  "req_has r v =
     ((if complement r then v \<notin> set (reqValues r) else v \<in> set (reqValues r))
      \<and> withinIntPtrs v (greaterThan_r r) (lessThan_r r))"

definition req_len :: "requirement \<Rightarrow> int" where
  "req_len r = (if complement r then MaxInt64 - int (length (reqValues r))
                else int (length (reqValues r)))"

definition req_operator :: "requirement \<Rightarrow> node_op" where
  "req_operator r =
     (if complement r then (if req_len r < MaxInt64 then OpNotIn else OpExists)
      else if 0 < req_len r then OpIn else OpDoesNotExist)"

text \<open>\<^verbatim>\<open>Any\<close>: the first value in iteration order; for an open requirement a random
  integer within the bounds, drawn by \<open>rnd\<close> (\<^verbatim>\<open>rand.Intn\<close>).\<close>

definition req_any :: "(int \<Rightarrow> int) \<Rightarrow> requirement \<Rightarrow> string" where
  "req_any rnd r =
     (case req_operator r of
        OpIn \<Rightarrow> hd (reqValues r)
      | OpDoesNotExist \<Rightarrow> []
      | _ \<Rightarrow> (let lo = (case greaterThan_r r of None \<Rightarrow> 0 | Some g \<Rightarrow> g + 1);
                 hi = (case lessThan_r r of None \<Rightarrow> MaxInt64 | Some l \<Rightarrow> l)
             in itoa (rnd (hi - lo) + lo)))"

definition req_insert :: "string list \<Rightarrow> requirement \<Rightarrow> requirement" where
  "req_insert vs r = r\<lparr>reqValues := fold List.insert vs (reqValues r)\<rparr>"

definition reqs_add1 :: "requirement \<Rightarrow> requirements \<Rightarrow> requirements" where
  "reqs_add1 r rs =
     (case map_of rs (Key r) of
        None \<Rightarrow> AList.update (Key r) r rs
      | Some e \<Rightarrow> AList.update (Key r) (Intersection r e) rs)"

definition reqs_add :: "requirement list \<Rightarrow> requirements \<Rightarrow> requirements" where
  "reqs_add qs rs = fold reqs_add1 qs rs"

definition NewRequirements :: "requirement list \<Rightarrow> requirements" where
  "NewRequirements qs = reqs_add qs []"

record selector_requirement =
  selKey :: string
  selOperator :: node_op
  selValues :: "string list"
  selMinValues :: "int option"

definition NewNodeSelectorRequirementsWithMinValues ::
  "selector_requirement list \<Rightarrow> requirements" where
  "NewNodeSelectorRequirementsWithMinValues qs =
     NewRequirements (map (\<lambda>q. NewRequirementWithFlexibility (selKey q) (selOperator q)
       (selMinValues q) (selValues q)) qs)"

definition NewNodeSelectorRequirements :: "selector_requirement list \<Rightarrow> requirements" where
  "NewNodeSelectorRequirements qs =
     NewRequirements (map (\<lambda>q. NewRequirementWithFlexibility (selKey q) (selOperator q)
       None (selValues q)) qs)"

definition reqs_get :: "requirements \<Rightarrow> string \<Rightarrow> requirement" where
  "reqs_get rs k = (case map_of rs k of Some r \<Rightarrow> r | None \<Rightarrow> NewRequirement k OpExists [])"

definition reqs_has :: "requirements \<Rightarrow> string \<Rightarrow> bool" where
  "reqs_has rs k = (map_of rs k \<noteq> None)"

definition HasMinValues :: "requirements \<Rightarrow> bool" where
  "HasMinValues rs = list_ex (\<lambda>(k, r). MinValues r \<noteq> None) rs"

definition negative_op :: "node_op \<Rightarrow> bool" where
  "negative_op op = (op = OpNotIn \<or> op = OpDoesNotExist)"

definition key_intersects :: "requirement \<Rightarrow> requirement \<Rightarrow> bool" where
  "key_intersects existing incoming =
     (req_len (Intersection existing incoming) \<noteq> 0
      \<or> negative_op (req_operator incoming) \<and> negative_op (req_operator existing))"

text \<open>\<^verbatim>\<open>Intersects\<close> and \<^verbatim>\<open>Compatible\<close>, read as "returns nil".\<close>

definition Intersects :: "requirements \<Rightarrow> requirements \<Rightarrow> bool" where
  "Intersects rs qs =
     list_all (\<lambda>(k, q). reqs_has rs k \<longrightarrow> key_intersects (reqs_get rs k) (reqs_get qs k)) qs"

definition Compatible :: "string list \<Rightarrow> requirements \<Rightarrow> requirements \<Rightarrow> bool" where
  "Compatible allowUndefined rs qs =
     (list_all (\<lambda>(k, q). k \<in> set allowUndefined \<or> reqs_has rs k
         \<or> negative_op (req_operator (reqs_get qs k))) qs
      \<and> Intersects rs qs)"

abbreviation IsCompatible :: "requirements \<Rightarrow> requirements \<Rightarrow> bool" where
  "IsCompatible rs qs \<equiv> Compatible WellKnownLabels rs qs"

section \<open>What a requirement denotes\<close>

lemma withinIntPtrs_None [simp]: "withinIntPtrs v None None"
  by (simp add: withinIntPtrs_def)

lemma withinIntPtrs_combine:
  "withinIntPtrs v (maxIntPtr g g') (minIntPtr l l') \<longleftrightarrow>
     withinIntPtrs v g l \<and> withinIntPtrs v g' l'"
  by (auto simp: withinIntPtrs_def maxIntPtr_def minIntPtr_def split: option.splits)

lemma withinIntPtrs_empty_range:
  "l \<le> g \<Longrightarrow> \<not> withinIntPtrs v (Some g) (Some l)"
  by (auto simp: withinIntPtrs_def split: option.splits)

lemma combine_values_set:
  "v \<in> set (combine_values r q) \<longleftrightarrow>
     (if complement r \<and> complement q then v \<in> set (reqValues r) \<or> v \<in> set (reqValues q)
      else (if complement r then v \<notin> set (reqValues r) else v \<in> set (reqValues r))
         \<and> (if complement q then v \<notin> set (reqValues q) else v \<in> set (reqValues q)))"
  by (auto simp: combine_values_def)

lemma req_has_DoesNotExist [simp]:
  "\<not> req_has (NewRequirementWithFlexibility k OpDoesNotExist mv vs) v"
  by (simp add: req_has_def NewRequirementWithFlexibility_def Let_def)

lemma req_has_Intersection:
  "req_has (Intersection r q) v \<longleftrightarrow> req_has r v \<and> req_has q v"
proof -
  let ?gt = "maxIntPtr (greaterThan_r r) (greaterThan_r q)"
  let ?lt = "minIntPtr (lessThan_r r) (lessThan_r q)"
  have within: "withinIntPtrs v ?gt ?lt \<longleftrightarrow>
      withinIntPtrs v (greaterThan_r r) (lessThan_r r) \<and> withinIntPtrs v (greaterThan_r q) (lessThan_r q)"
    by (rule withinIntPtrs_combine)
  show ?thesis
  proof (cases "case (?gt, ?lt) of (Some g, Some l) \<Rightarrow> l \<le> g | _ \<Rightarrow> False")
    case True
    then have "\<not> withinIntPtrs v ?gt ?lt"
      by (auto split: option.splits dest: withinIntPtrs_empty_range)
    with within have "\<not> (req_has r v \<and> req_has q v)"
      by (simp add: req_has_def)
    moreover have "\<not> req_has (Intersection r q) v"
      unfolding Intersection_def Let_def if_P[OF True] by simp
    ultimately show ?thesis by simp
  next
    case False
    show ?thesis
      unfolding Intersection_def Let_def if_not_P[OF False] req_has_def
      using within by (auto simp: combine_values_set)
  qed
qed

lemma req_has_In [simp]: "req_has (NewRequirement k OpIn vs) v \<longleftrightarrow> v \<in> set vs"
  by (simp add: req_has_def NewRequirement_def NewRequirementWithFlexibility_def)

lemma req_has_Exists [simp]: "req_has (NewRequirement k OpExists vs) v"
  by (simp add: req_has_def NewRequirement_def NewRequirementWithFlexibility_def Let_def)

lemma Key_NewRequirement:
  "map_of NormalizedLabels k = None \<Longrightarrow> Key (NewRequirement k op vs) = k"
  by (simp add: NewRequirement_def NewRequirementWithFlexibility_def Let_def)

lemma reqs_get_add1_same:
  "reqs_get (reqs_add1 r rs) (Key r) =
     (case map_of rs (Key r) of None \<Rightarrow> r | Some e \<Rightarrow> Intersection r e)"
  by (simp add: reqs_get_def reqs_add1_def update_conv' split: option.splits)

lemma map_of_reqs_add1_other:
  "k \<noteq> Key r \<Longrightarrow> map_of (reqs_add1 r rs) k = map_of rs k"
  by (simp add: reqs_add1_def update_conv' split: option.splits)

text \<open>Adding a requirement constrains its key to the values allowed before and by it.\<close>

lemma req_has_reqs_add1:
  "req_has (reqs_get (reqs_add1 r rs) k) v \<longleftrightarrow>
     req_has (reqs_get rs k) v \<and> (k = Key r \<longrightarrow> req_has r v)"
proof (cases "k = Key r")
  case True
  show ?thesis
  proof (cases "map_of rs (Key r)")
    case None
    then have "reqs_get rs k = NewRequirement k OpExists []"
      using True by (simp add: reqs_get_def)
    with None True show ?thesis by (simp add: reqs_get_add1_same)
  next
    case (Some e)
    then have "reqs_get rs k = e"
      using True by (simp add: reqs_get_def)
    with Some True show ?thesis by (auto simp: reqs_get_add1_same req_has_Intersection)
  qed
next
  case False
  then show ?thesis by (simp add: reqs_get_def map_of_reqs_add1_other)
qed

lemma req_has_reqs_add:
  "req_has (reqs_get (reqs_add qs rs) k) v \<longleftrightarrow>
     req_has (reqs_get rs k) v \<and> (\<forall>q \<in> set qs. Key q = k \<longrightarrow> req_has q v)"
  by (induction qs arbitrary: rs) (auto simp: reqs_add_def req_has_reqs_add1)

lemma req_has_NewRequirements:
  "req_has (reqs_get (NewRequirements qs) k) v \<longleftrightarrow> (\<forall>q \<in> set qs. Key q = k \<longrightarrow> req_has q v)"
proof -
  have "reqs_get [] k = NewRequirement k OpExists []"
    by (simp add: reqs_get_def)
  then show ?thesis by (simp add: NewRequirements_def req_has_reqs_add)
qed

section \<open>Compatibility of single-valued requirements\<close>

lemma req_operator_In: "req_operator (NewRequirement k OpIn (v # vs)) = OpIn"
  by (cases vs) (auto simp: req_operator_def req_len_def NewRequirement_def
      NewRequirementWithFlexibility_def)

lemma req_any_In1 [simp]: "req_any rnd (NewRequirement k OpIn [v]) = v"
  using req_operator_In[of k v "[]"]
  by (simp add: req_any_def NewRequirement_def NewRequirementWithFlexibility_def)

text \<open>A requirement meets the single value \<open>v\<close> exactly when it allows \<open>v\<close>.\<close>

lemma key_intersects_In1:
  assumes "greaterThan_r q = None \<and> lessThan_r q = None \<or> complement q"
  shows "key_intersects q (NewRequirement k OpIn [v]) \<longleftrightarrow> req_has q v"
proof -
  let ?n = "NewRequirement k OpIn [v]"
  have nc: "\<not> complement ?n" "greaterThan_r ?n = None" "lessThan_r ?n = None" "reqValues ?n = [v]"
    by (simp_all add: NewRequirement_def NewRequirementWithFlexibility_def)
  have op: "\<not> negative_op (req_operator ?n)"
    by (simp add: req_operator_In negative_op_def)
  have compl: "\<not> complement (Intersection q ?n)"
    using nc by (simp add: Intersection_def Let_def NewRequirementWithFlexibility_def)
  have bounds: "greaterThan_r (Intersection q ?n) = None" "lessThan_r (Intersection q ?n) = None"
    using nc by (simp_all add: Intersection_def Let_def NewRequirementWithFlexibility_def)
  have vals: "w \<in> set (reqValues (Intersection q ?n)) \<longleftrightarrow> req_has q w \<and> w = v" for w
    using req_has_Intersection[of q ?n w] compl bounds by (simp add: req_has_def nc)
  have "req_len (Intersection q ?n) \<noteq> 0 \<longleftrightarrow> reqValues (Intersection q ?n) \<noteq> []"
    using compl by (simp add: req_len_def)
  also have "\<dots> \<longleftrightarrow> req_has q v"
    using vals by (metis list.set_intros(1) neq_Nil_conv empty_iff set_empty)
  finally show ?thesis using op by (simp add: key_intersects_def)
qed

section \<open>Requirements with distinct keys\<close>

lemma update_absent: "k \<notin> fst ` set m \<Longrightarrow> AList.update k v m = m @ [(k, v)]"
  by (induction m) auto

lemma reqs_add_distinct:
  "distinct (map Key qs) \<Longrightarrow> Key ` set qs \<inter> fst ` set rs = {} \<Longrightarrow>
   reqs_add qs rs = rs @ map (\<lambda>r. (Key r, r)) qs"
proof (induction qs arbitrary: rs)
  case Nil
  then show ?case by (simp add: reqs_add_def)
next
  case (Cons q qs)
  have "map_of rs (Key q) = None" using Cons.prems by (auto simp: map_of_eq_None_iff)
  moreover have "Key q \<notin> fst ` set rs" using Cons.prems by auto
  ultimately have "reqs_add1 q rs = rs @ [(Key q, q)]"
    by (simp add: reqs_add1_def update_absent)
  with Cons.IH[of "rs @ [(Key q, q)]"] Cons.prems show ?case
    by (auto simp: reqs_add_def)
qed

lemma NewRequirements_distinct:
  "distinct (map Key qs) \<Longrightarrow> NewRequirements qs = map (\<lambda>r. (Key r, r)) qs"
  by (simp add: NewRequirements_def reqs_add_distinct)

lemma req_has_insert:
  "\<not> complement r \<Longrightarrow> greaterThan_r r = None \<Longrightarrow> lessThan_r r = None \<Longrightarrow>
   req_has (req_insert [v] r) w \<longleftrightarrow> w = v \<or> req_has r w"
  by (auto simp: req_has_def req_insert_def)

end
