(* ===== verification/Cloud_Types.thy ===== *)
theory Cloud_Types
  imports Complex_Main Sched "HOL-Library.List_Lexorder" "HOL-Library.Char_ord"
    "HOL-Library.Product_Lexorder" "HOL-Library.Multiset"
begin

text \<open>
  Karpenter's cloud provider vocabulary:
  \<^verbatim>\<open>src/vendor/sigs.k8s.io/karpenter/pkg/cloudprovider/types.go\<close> (instance types,
  offerings, ordering and truncation) and \<^verbatim>\<open>pkg/utils/resources/resources.go\<close>
  (resource lists). Prices are finite 64-bit floats that are only compared, so they are
  rationals here; quantities are exact rationals in base units.
\<close>

type_synonym price = rat
type_synonym resource_list = "(string \<times> rat) list"

definition MaxFloat64 :: rat where
  "MaxFloat64 = (2 ^ 53 - 1) * 2 ^ 971"

definition ResourceCPU :: string where "ResourceCPU = ''cpu''"
definition ResourceMemory :: string where "ResourceMemory = ''memory''"
definition ResourcePods :: string where "ResourcePods = ''pods''"
definition ResourceEphemeralStorage :: string where
  "ResourceEphemeralStorage = ''ephemeral-storage''"

section \<open>Resource lists\<close>

definition quantity :: "resource_list \<Rightarrow> string \<Rightarrow> rat" where
  "quantity rl n = (case map_of rl n of None \<Rightarrow> 0 | Some q \<Rightarrow> q)"

definition res_subtract :: "resource_list \<Rightarrow> resource_list \<Rightarrow> resource_list" where
  "res_subtract lhs rhs = map (\<lambda>(n, q). (n, q - quantity rhs n)) lhs"

definition res_add1 :: "string \<times> rat \<Rightarrow> resource_list \<Rightarrow> resource_list" where
  "res_add1 p rl = AList.update (fst p) (quantity rl (fst p) + snd p) rl"

definition res_merge :: "resource_list list \<Rightarrow> resource_list" where
  "res_merge rls = fold (fold res_add1) rls []"

definition Fits :: "resource_list \<Rightarrow> resource_list \<Rightarrow> bool" where
  "Fits candidate tot =
     (list_all (\<lambda>(n, q). 0 \<le> q) tot \<and> list_all (\<lambda>(n, q). q \<le> quantity tot n) candidate)"

lemma quantity_subtract:
  "map_of lhs n \<noteq> None \<Longrightarrow>
   quantity (res_subtract lhs rhs) n = quantity lhs n - quantity rhs n"
  by (induction lhs) (auto simp: res_subtract_def quantity_def)

lemma quantity_add1:
  "quantity (res_add1 p rl) n = quantity rl n + (if n = fst p then snd p else 0)"
  by (simp add: res_add1_def quantity_def update_conv')

section \<open>Offerings and instance types\<close>

record offering =
  ofRequirements :: requirements
  Price :: price
  ofAvailable :: bool

record overhead =
  KubeReserved :: resource_list
  SystemReserved :: resource_list
  EvictionThreshold :: resource_list

record instance_type =
  itName :: string
  itRequirements :: requirements
  Offerings :: "offering list"
  itCapacity :: resource_list
  Overhead :: overhead

definition zero_offering :: offering where
  "zero_offering = \<lparr>ofRequirements = [], Price = 0, ofAvailable = False\<rparr>"

definition AvailableOfferings :: "offering list \<Rightarrow> offering list" where
  "AvailableOfferings ofs = filter ofAvailable ofs"

definition CompatibleOfferings :: "requirements \<Rightarrow> offering list \<Rightarrow> offering list" where
  "CompatibleOfferings reqs ofs = filter (\<lambda>off. IsCompatible reqs (ofRequirements off)) ofs"

definition HasCompatible :: "requirements \<Rightarrow> offering list \<Rightarrow> bool" where
  "HasCompatible reqs ofs = list_ex (\<lambda>off. IsCompatible reqs (ofRequirements off)) ofs"

definition Cheapest :: "offering list \<Rightarrow> offering" where
  "Cheapest ofs =
     (case ofs of [] \<Rightarrow> zero_offering | off # os \<Rightarrow> min_by (\<lambda>a b. Price a < Price b) off os)"

definition overhead_total :: "overhead \<Rightarrow> resource_list" where
  "overhead_total ov = res_merge [KubeReserved ov, SystemReserved ov, EvictionThreshold ov]"

definition Allocatable :: "instance_type \<Rightarrow> resource_list" where
  "Allocatable it = res_subtract (itCapacity it) (overhead_total (Overhead it))"

definition PodsOf :: "instance_type \<Rightarrow> rat" where
  "PodsOf it = quantity (itCapacity it) ResourcePods"

text \<open>The price an instance type is ordered by.\<close>

definition launch_price :: "requirements \<Rightarrow> instance_type \<Rightarrow> price" where
  "launch_price reqs it =
     (case CompatibleOfferings reqs (AvailableOfferings (Offerings it)) of
        [] \<Rightarrow> MaxFloat64
      | ofs \<Rightarrow> Price (Cheapest ofs))"

text \<open>\<^verbatim>\<open>sort.Slice\<close> by price, then by name. For instance types with distinct names
  the order is total, so the result of the (unstable) sort is this one.\<close>

definition OrderByPrice :: "requirements \<Rightarrow> instance_type list \<Rightarrow> instance_type list" where
  "OrderByPrice reqs its = sort_key (\<lambda>it. (launch_price reqs it, itName it)) its"

text \<open>\<^verbatim>\<open>SatisfiesMinValues\<close>: the values collected so far, per key with a minimum.\<close>

definition collect_values ::
  "requirements \<Rightarrow> instance_type \<Rightarrow> (string \<times> string list) list \<Rightarrow> (string \<times> string list) list"
where
  "collect_values reqs it acc =
     fold (\<lambda>(k, r) m.
       if MinValues r = None then m
       else AList.update (Key r)
         (fold List.insert (reqValues (reqs_get (itRequirements it) (Key r)))
           (case map_of m (Key r) of None \<Rightarrow> [] | Some vs \<Rightarrow> vs)) m) reqs acc"

definition unmet_key :: "requirements \<Rightarrow> (string \<times> string list) list \<Rightarrow> string option" where
  "unmet_key reqs acc =
     map_option fst (find (\<lambda>(k, vs). int (length vs) < IntValue (MinValues (reqs_get reqs k))) acc)"

fun min_values_loop ::
  "requirements \<Rightarrow> nat \<Rightarrow> (string \<times> string list) list \<Rightarrow> string option \<Rightarrow> instance_type list \<Rightarrow>
   nat \<times> gerror option" where
  "min_values_loop reqs i acc bad [] =
     (i, case bad of None \<Rightarrow> None
         | Some k \<Rightarrow> Some (ErrorString (''minValues requirement is not met for '' @ k)))"
| "min_values_loop reqs i acc bad (it # its) =
     (let acc' = collect_values reqs it acc in
      case unmet_key reqs acc' of
        None \<Rightarrow> (Suc i, None)
      | Some k \<Rightarrow> min_values_loop reqs (Suc i) acc' (Some k) its)"

definition SatisfiesMinValues :: "requirements \<Rightarrow> instance_type list \<Rightarrow> nat \<times> gerror option" where
  "SatisfiesMinValues reqs its =
     (if \<not> HasMinValues reqs then (0, None) else min_values_loop reqs 0 [] None its)"

definition Truncate :: "requirements \<Rightarrow> nat \<Rightarrow> instance_type list \<Rightarrow> instance_type list outcome" where
  "Truncate reqs maxItems its =
     (let truncated = take maxItems (OrderByPrice reqs its) in
      if HasMinValues reqs then
        (case snd (SatisfiesMinValues reqs truncated) of
           Some e \<Rightarrow> Err (Wrap ''validating minValues, '' e)
         | None \<Rightarrow> Ok truncated)
      else Ok truncated)"

section \<open>Facts about selection and ordering\<close>

lemma set_AvailableOfferings [simp]:
  "off \<in> set (AvailableOfferings ofs) \<longleftrightarrow> off \<in> set ofs \<and> ofAvailable off"
  by (auto simp: AvailableOfferings_def)

lemma HasCompatible_iff:
  "HasCompatible reqs ofs \<longleftrightarrow> (\<exists>off \<in> set ofs. IsCompatible reqs (ofRequirements off))"
  by (auto simp: HasCompatible_def list_ex_iff)

lemma Cheapest_mem: "ofs \<noteq> [] \<Longrightarrow> Cheapest ofs \<in> set ofs"
proof (cases ofs)
  case (Cons p ps)
  then show ?thesis
    using min_by_mem[of "\<lambda>a b. Price a < Price b" p ps] by (simp add: Cheapest_def)
qed simp

lemma Cheapest_le: "off \<in> set ofs \<Longrightarrow> Price (Cheapest ofs) \<le> Price off"
proof (cases ofs)
  case (Cons p ps)
  assume "off \<in> set ofs"
  with Cons show ?thesis
    using min_by_key_le[of off p ps Price] by (simp add: Cheapest_def)
qed simp

lemma mset_OrderByPrice [simp]: "mset (OrderByPrice reqs its) = mset its"
  by (simp add: OrderByPrice_def)

lemma set_OrderByPrice [simp]: "set (OrderByPrice reqs its) = set its"
  by (simp add: OrderByPrice_def)

lemma sorted_OrderByPrice: "sorted (map (launch_price reqs) (OrderByPrice reqs its))"
proof -
  let ?f = "\<lambda>it. (launch_price reqs it, itName it)"
  have s: "sorted (map ?f (OrderByPrice reqs its))"
    by (simp add: OrderByPrice_def)
  have "sorted_wrt (\<lambda>a b. launch_price reqs a \<le> launch_price reqs b) (OrderByPrice reqs its)"
    using s unfolding sorted_map
    by (rule sorted_wrt_mono_rel[rotated]) (auto simp: less_eq_prod_def)
  then show ?thesis by (simp add: sorted_map)
qed

text \<open>What truncation keeps is no dearer than what it drops.\<close>

lemma take_OrderByPrice_cheapest:
  assumes "x \<in> set (take n (OrderByPrice reqs its))"
    and "y \<in> set (drop n (OrderByPrice reqs its))"
  shows "launch_price reqs x \<le> launch_price reqs y"
proof -
  have "sorted (map (launch_price reqs) (take n (OrderByPrice reqs its) @ drop n (OrderByPrice reqs its)))"
    using sorted_OrderByPrice[of reqs its] by simp
  then have "\<forall>a \<in> set (map (launch_price reqs) (take n (OrderByPrice reqs its))).
      \<forall>b \<in> set (map (launch_price reqs) (drop n (OrderByPrice reqs its))). a \<le> b"
    unfolding map_append sorted_append by blast
  with assms show ?thesis by auto
qed

lemma Truncate_Ok:
  assumes "Truncate reqs n its = Ok r"
  shows "r = take n (OrderByPrice reqs its)"
  using assms by (auto simp: Truncate_def Let_def split: if_splits option.splits)

lemma Truncate_no_min_values:
  "\<not> HasMinValues reqs \<Longrightarrow> Truncate reqs n its = Ok (take n (OrderByPrice reqs its))"
  by (simp add: Truncate_def)

end
