(* ===== verification/Apis.thy ===== *)
theory Apis
  imports Cloud_Types
begin

text \<open>
  The API types: \<^verbatim>\<open>src/pkg/apis/v1alpha1/ecsnodeclass.go\<close> and
  \<^verbatim>\<open>ecsnodeclass_status.go\<close>, the NodeClaim, NodePool and Node fields of karpenter and
  Kubernetes that the provider reads, and the condition sets of
  \<^verbatim>\<open>src/vendor/github.com/awslabs/operatorpkg/status\<close> through which readiness is
  recorded. Readiness is an invariant here: \<open>ready_consistent\<close> says that the root condition
  agrees with the conditions it depends on, and every setter keeps it.
\<close>

section \<open>ECSNodeClass: specification\<close>

record vswitch_selector_term =
  vstTags :: "(string \<times> string) list"
  vstID :: string

record security_group_selector_term =
  sgtTags :: "(string \<times> string) list"
  sgtID :: string
  sgtName :: string

record image_selector_term =
  Alias :: string
  imtID :: string

record kubelet_configuration =
  ClusterDNS :: "string list"
  MaxPods :: "int option"
  PodsPerCore :: "int option"
  kcSystemReserved :: "(string \<times> string) list"
  kcKubeReserved :: "(string \<times> string) list"
  EvictionHard :: "(string \<times> string) list"
  EvictionSoft :: "(string \<times> string) list"
  EvictionSoftGracePeriod :: "(string \<times> int) list"
  EvictionMaxPodGracePeriod :: "int option"
  ImageGCHighThresholdPercent :: "int option"
  ImageGCLowThresholdPercent :: "int option"
  CPUCFSQuota :: "bool option"

text \<open>The zero value \<^verbatim>\<open>&v1alpha1.KubeletConfiguration{}\<close>.\<close>

definition empty_kubelet :: kubelet_configuration where
  "empty_kubelet =
     \<lparr>ClusterDNS = [], MaxPods = None, PodsPerCore = None, kcSystemReserved = [],
      kcKubeReserved = [], EvictionHard = [], EvictionSoft = [], EvictionSoftGracePeriod = [],
      EvictionMaxPodGracePeriod = None, ImageGCHighThresholdPercent = None,
      ImageGCLowThresholdPercent = None, CPUCFSQuota = None\<rparr>"

text \<open>\<open>Categories\<close> is an option because the code tests the slice against nil.\<close>

record system_disk =
  Categories :: "string list option"
  diskSize :: "int option"
  PerformanceLevel :: "string option"

record nodeclass_spec =
  VSwitchSelectorTerms :: "vswitch_selector_term list"
  VSwitchSelectionPolicy :: string
  SecurityGroupSelectorTerms :: "security_group_selector_term list"
  ImageSelectorTerms :: "image_selector_term list"
  KubeletConfiguration :: "kubelet_configuration option"
  SystemDisk :: "system_disk option"
  specTags :: "(string \<times> string) list"
  ResourceGroupID :: string

definition VSwitchSelectionPolicyBalanced :: string where
  "VSwitchSelectionPolicyBalanced = ''balanced''"

definition KubeletMaxPods :: int where "KubeletMaxPods = 110"

definition ECSNodeClassHashVersion :: string where "ECSNodeClassHashVersion = ''v3''"

section \<open>ECSNodeClass: status\<close>

record status_vswitch =
  svID :: string
  svZoneID :: string

record status_security_group =
  ssgID :: string
  ssgName :: string

record status_image =
  siID :: string
  siName :: string
  siRequirements :: "selector_requirement list"

datatype condition_status = ConditionTrue | ConditionFalse | ConditionUnknown

record condition =
  ctType :: string
  ctStatus :: condition_status
  ctReason :: string
  ctMessage :: string
  ctTime :: int

record nodeclass_status =
  stVSwitches :: "status_vswitch list"
  stSecurityGroups :: "status_security_group list"
  stImages :: "status_image list"
  stConditions :: "condition list"

record ecs_nodeclass =
  ncName :: string
  ncUID :: string
  ncAnnotations :: "(string \<times> string) list"
  ncFinalizers :: "string list"
  ncDeletionTimestamp :: "int option"
  ncSpec :: nodeclass_spec
  ncStatus :: nodeclass_status

text \<open>An empty node class, the zero values of the Go structs.\<close>

definition zero_nodeclass :: ecs_nodeclass where
  "zero_nodeclass =
     \<lparr>ncName = [], ncUID = [], ncAnnotations = [], ncFinalizers = [], ncDeletionTimestamp = None,
      ncSpec = \<lparr>VSwitchSelectorTerms = [], VSwitchSelectionPolicy = [],
        SecurityGroupSelectorTerms = [], ImageSelectorTerms = [], KubeletConfiguration = None,
        SystemDisk = None, specTags = [], ResourceGroupID = []\<rparr>,
      ncStatus = \<lparr>stVSwitches = [], stSecurityGroups = [], stImages = [], stConditions = []\<rparr>\<rparr>"

text \<open>
  \<^verbatim>\<open>Hash\<close>: the fields tagged \<^verbatim>\<open>hash:"ignore"\<close> (the three selector lists)
  do not reach the hash function; \<open>hash\<close> is \<^verbatim>\<open>hashstructure.Hash\<close> printed in
  decimal.
\<close>

type_synonym hashed_fields =
  "string \<times> kubelet_configuration option \<times> system_disk option \<times> (string \<times> string) list \<times> string"

definition hashed_spec :: "nodeclass_spec \<Rightarrow> hashed_fields" where
  "hashed_spec sp =
     (VSwitchSelectionPolicy sp, KubeletConfiguration sp, SystemDisk sp, specTags sp,
      ResourceGroupID sp)"

definition Hash :: "(hashed_fields \<Rightarrow> string) \<Rightarrow> ecs_nodeclass \<Rightarrow> string" where
  "Hash hash nc = hash (hashed_spec (ncSpec nc))"

definition ImageFamilyFromAlias :: "string \<Rightarrow> string" where
  "ImageFamilyFromAlias alias = alias"

definition ImageFamily :: "ecs_nodeclass \<Rightarrow> string" where
  "ImageFamily nc =
     (case find (\<lambda>t. Alias t \<noteq> []) (ImageSelectorTerms (ncSpec nc)) of
        Some t \<Rightarrow> ImageFamilyFromAlias (Alias t)
      | None \<Rightarrow> [])"

section \<open>Condition sets\<close>

definition ConditionReady :: string where "ConditionReady = ''Ready''"
definition ConditionTypeVSwitchesReady :: string where
  "ConditionTypeVSwitchesReady = ''VSwitchesReady''"
definition ConditionTypeSecurityGroupsReady :: string where
  "ConditionTypeSecurityGroupsReady = ''SecurityGroupsReady''"
definition ConditionTypeInstanceRAMReady :: string where
  "ConditionTypeInstanceRAMReady = ''InstanceRAMReady''"
definition ConditionTypeImagesReady :: string where
  "ConditionTypeImagesReady = ''ImagesReady''"

lemmas condition_type_defs =
  ConditionReady_def ConditionTypeVSwitchesReady_def ConditionTypeSecurityGroupsReady_def
  ConditionTypeInstanceRAMReady_def ConditionTypeImagesReady_def

definition readyDependents :: "string list" where
  "readyDependents =
     [ConditionTypeVSwitchesReady, ConditionTypeSecurityGroupsReady,
      ConditionTypeInstanceRAMReady, ConditionTypeImagesReady]"

definition cond_get :: "string \<Rightarrow> condition list \<Rightarrow> condition option" where
  "cond_get t cs = find (\<lambda>c. ctType c = t) cs"

definition cond_status :: "string \<Rightarrow> condition list \<Rightarrow> condition_status" where
  "cond_status t cs = (case cond_get t cs of None \<Rightarrow> ConditionUnknown | Some c \<Rightarrow> ctStatus c)"

text \<open>The body of \<^verbatim>\<open>Set\<close> before the root is recomputed: \<open>None\<close> when an equal
  condition is already there (only its transition time is taken over), else the new list,
  sorted by type.\<close>

definition cond_replace ::
  "int \<Rightarrow> string \<Rightarrow> condition_status \<Rightarrow> string \<Rightarrow> string \<Rightarrow> condition list \<Rightarrow> condition list option"
where
  "cond_replace now t st reason msg cs =
     (if list_ex (\<lambda>c. ctType c = t \<and> ctStatus c = st \<and> ctReason c = reason \<and> ctMessage c = msg) cs
      then None
      else Some (sort_key ctType
        (filter (\<lambda>c. ctType c \<noteq> t) cs @
         [\<lparr>ctType = t, ctStatus = st, ctReason = reason, ctMessage = msg, ctTime = now\<rparr>])))"

definition findUnhealthyDependents :: "condition list \<Rightarrow> condition list" where
  "findUnhealthyDependents cs =
     sort_key (\<lambda>c. - ctTime c)
       (filter (\<lambda>c. ctStatus c = ConditionFalse \<or> ctStatus c = ConditionUnknown)
         (filter (\<lambda>c. ctType c \<in> set readyDependents) cs))"

fun status_string :: "condition_status \<Rightarrow> string" where
  "status_string ConditionTrue = ''True''"
| "status_string ConditionFalse = ''False''"
| "status_string ConditionUnknown = ''Unknown''"

definition recomputeRootCondition :: "int \<Rightarrow> condition list \<Rightarrow> condition list" where
  "recomputeRootCondition now cs =
     (let bad = findUnhealthyDependents cs;
          new = (if bad = [] then cond_replace now ConditionReady ConditionTrue ConditionReady [] cs
            else cond_replace now ConditionReady
              (if list_ex (\<lambda>c. ctStatus c = ConditionFalse) bad then ConditionFalse else ConditionUnknown)
              ''UnhealthyDependents''
              (join_with '', '' (map (\<lambda>c. ctType c @ ''='' @ status_string (ctStatus c)) bad)) cs)
      in case new of None \<Rightarrow> cs | Some cs' \<Rightarrow> cs')"

definition cond_set ::
  "int \<Rightarrow> string \<Rightarrow> condition_status \<Rightarrow> string \<Rightarrow> string \<Rightarrow> condition list \<Rightarrow> condition list" where
  "cond_set now t st reason msg cs =
     (case cond_replace now t st reason msg cs of
        None \<Rightarrow> cs
      | Some cs' \<Rightarrow> if t = ConditionReady then cs' else recomputeRootCondition now cs')"

definition SetTrue :: "int \<Rightarrow> string \<Rightarrow> condition list \<Rightarrow> condition list" where
  "SetTrue now t cs = cond_set now t ConditionTrue t [] cs"

definition SetFalse :: "int \<Rightarrow> string \<Rightarrow> string \<Rightarrow> string \<Rightarrow> condition list \<Rightarrow> condition list" where
  "SetFalse now t reason msg cs = cond_set now t ConditionFalse reason msg cs"

definition SetUnknown :: "int \<Rightarrow> string \<Rightarrow> condition list \<Rightarrow> condition list" where
  "SetUnknown now t cs =
     cond_set now t ConditionUnknown ''AwaitingReconciliation'' ''object is awaiting reconciliation'' cs"

text \<open>\<^verbatim>\<open>StatusConditions()\<close>: creating the condition set writes every missing known
  condition as Unknown into the object.\<close>

definition StatusConditions :: "int \<Rightarrow> condition list \<Rightarrow> condition list" where
  "StatusConditions now cs =
     fold (\<lambda>t cs. if cond_get t cs = None then SetUnknown now t cs else cs)
       (readyDependents @ [ConditionReady]) cs"

definition nc_set_conditions :: "condition list \<Rightarrow> ecs_nodeclass \<Rightarrow> ecs_nodeclass" where
  "nc_set_conditions cs nc = nc\<lparr>ncStatus := (ncStatus nc)\<lparr>stConditions := cs\<rparr>\<rparr>"

definition nc_SetTrue :: "int \<Rightarrow> string \<Rightarrow> ecs_nodeclass \<Rightarrow> ecs_nodeclass" where
  "nc_SetTrue now t nc =
     nc_set_conditions (SetTrue now t (StatusConditions now (stConditions (ncStatus nc)))) nc"

definition nc_SetFalse :: "int \<Rightarrow> string \<Rightarrow> string \<Rightarrow> string \<Rightarrow> ecs_nodeclass \<Rightarrow> ecs_nodeclass" where
  "nc_SetFalse now t reason msg nc =
     nc_set_conditions
       (SetFalse now t reason msg (StatusConditions now (stConditions (ncStatus nc)))) nc"

subsection \<open>The root condition follows its dependents\<close>

definition conds_wf :: "condition list \<Rightarrow> bool" where
  "conds_wf cs = distinct (map ctType cs)"

text \<open>The status the root has to have, given its dependents.\<close>

definition root_status :: "condition list \<Rightarrow> condition_status" where
  "root_status cs =
     (if list_ex (\<lambda>t. cond_get t cs \<noteq> None \<and> cond_status t cs = ConditionFalse) readyDependents
      then ConditionFalse
      else if list_ex (\<lambda>t. cond_get t cs \<noteq> None \<and> cond_status t cs = ConditionUnknown) readyDependents
      then ConditionUnknown else ConditionTrue)"

lemma ready_not_dependent [simp]: "ConditionReady \<notin> set readyDependents"
  by (simp add: readyDependents_def condition_type_defs)

lemma find_wf_iff:
  "conds_wf cs \<Longrightarrow> cond_get t cs = Some c \<longleftrightarrow> c \<in> set cs \<and> ctType c = t"
  unfolding cond_get_def conds_wf_def
  by (induction cs) (auto split: if_splits)

lemma cond_get_None_iff: "cond_get t cs = None \<longleftrightarrow> t \<notin> ctType ` set cs"
  by (auto simp: cond_get_def find_None_iff)

lemma conds_wf_replace:
  assumes "conds_wf cs" and "cond_replace now t st r m cs = Some cs'"
  shows "conds_wf cs'"
proof -
  let ?l = "filter (\<lambda>c. ctType c \<noteq> t) cs @
    [\<lparr>ctType = t, ctStatus = st, ctReason = r, ctMessage = m, ctTime = now\<rparr>]"
  have "distinct (map ctType (filter (\<lambda>c. ctType c \<noteq> t) cs))"
    using assms(1) unfolding conds_wf_def by (induction cs) auto
  then have "distinct (map ctType ?l)" by auto
  moreover have "mset (map ctType (sort_key ctType ?l)) = mset (map ctType ?l)"
    by (simp only: mset_map mset_sort)
  ultimately have "distinct (map ctType (sort_key ctType ?l))"
    by (metis mset_eq_imp_distinct_iff)
  with assms(2) show ?thesis
    by (auto simp: cond_replace_def conds_wf_def split: if_splits)
qed

lemma cond_get_replace:
  assumes wf: "conds_wf cs" and r: "cond_replace now t st r m cs = Some cs'"
  shows "cond_get u cs' =
    (if u = t then Some \<lparr>ctType = t, ctStatus = st, ctReason = r, ctMessage = m, ctTime = now\<rparr>
     else cond_get u cs)"
proof -
  have wf': "conds_wf cs'" using conds_wf_replace[OF wf r] .
  have mem: "c \<in> set cs' \<longleftrightarrow> c \<in> set cs \<and> ctType c \<noteq> t \<or>
      c = \<lparr>ctType = t, ctStatus = st, ctReason = r, ctMessage = m, ctTime = now\<rparr>" for c
    using r by (auto simp: cond_replace_def split: if_splits)
  let ?new = "\<lparr>ctType = t, ctStatus = st, ctReason = r, ctMessage = m, ctTime = now\<rparr>"
  show ?thesis
  proof (cases "u = t")
    case True
    have "?new \<in> set cs' \<and> ctType ?new = t" by (simp add: mem)
    then have "cond_get t cs' = Some ?new" using find_wf_iff[OF wf', of t ?new] by blast
    with True show ?thesis by simp
  next
    case False
    have "cond_get u cs' = Some c \<longleftrightarrow> cond_get u cs = Some c" for c
      unfolding find_wf_iff[OF wf'] find_wf_iff[OF wf] using False by (auto simp: mem)
    then have "cond_get u cs' = cond_get u cs" by (rule option_ext)
    with False show ?thesis by simp
  qed
qed

lemma cond_replace_None:
  assumes "conds_wf cs" and "cond_replace now t st r m cs = None"
  shows "cond_status t cs = st" and "cond_get t cs \<noteq> None"
proof -
  obtain c where c: "c \<in> set cs" "ctType c = t" "ctStatus c = st"
    using assms(2) by (auto simp: cond_replace_def list_ex_iff split: if_splits)
  then have "cond_get t cs = Some c" using find_wf_iff[OF assms(1)] by blast
  then show "cond_status t cs = st" and "cond_get t cs \<noteq> None"
    using c by (simp_all add: cond_status_def)
qed

text \<open>No dependent is recorded without the root, and the root has the status its
  dependents ask for.\<close>

definition ready_consistent :: "condition list \<Rightarrow> bool" where
  "ready_consistent cs =
     (conds_wf cs \<and>
      (if cond_get ConditionReady cs = None then list_all (\<lambda>t. cond_get t cs = None) readyDependents
       else cond_status ConditionReady cs = root_status cs))"

lemma set_findUnhealthyDependents:
  "set (findUnhealthyDependents cs) =
     {c \<in> set cs. ctType c \<in> set readyDependents \<and> ctStatus c \<noteq> ConditionTrue}"
proof -
  have "ctStatus c \<noteq> ConditionTrue \<longleftrightarrow> ctStatus c = ConditionFalse \<or> ctStatus c = ConditionUnknown" for c
    by (cases "ctStatus c") auto
  then show ?thesis by (auto simp: findUnhealthyDependents_def)
qed

lemma unhealthy_iff:
  assumes "conds_wf cs" and "st \<noteq> ConditionTrue"
  shows "(\<exists>c \<in> set (findUnhealthyDependents cs). ctStatus c = st) \<longleftrightarrow>
     (\<exists>t \<in> set readyDependents. cond_get t cs \<noteq> None \<and> cond_status t cs = st)"
proof
  assume "\<exists>c \<in> set (findUnhealthyDependents cs). ctStatus c = st"
  then obtain c where c: "c \<in> set cs" "ctType c \<in> set readyDependents" "ctStatus c = st"
    by (auto simp: set_findUnhealthyDependents)
  then have "cond_get (ctType c) cs = Some c" using find_wf_iff[OF assms(1)] by blast
  with c show "\<exists>t \<in> set readyDependents. cond_get t cs \<noteq> None \<and> cond_status t cs = st"
    by (auto simp: cond_status_def intro!: bexI[of _ "ctType c"])
next
  assume "\<exists>t \<in> set readyDependents. cond_get t cs \<noteq> None \<and> cond_status t cs = st"
  then obtain t c where t: "t \<in> set readyDependents" "cond_get t cs = Some c" "ctStatus c = st"
    by (auto simp: cond_status_def)
  then have "c \<in> set cs" "ctType c = t" using find_wf_iff[OF assms(1)] by blast+
  with t assms(2) show "\<exists>c \<in> set (findUnhealthyDependents cs). ctStatus c = st"
    by (auto simp: set_findUnhealthyDependents)
qed

lemma root_status_unhealthy:
  assumes "conds_wf cs"
  shows "root_status cs =
    (if findUnhealthyDependents cs = [] then ConditionTrue
     else if list_ex (\<lambda>c. ctStatus c = ConditionFalse) (findUnhealthyDependents cs)
     then ConditionFalse else ConditionUnknown)"
proof -
  let ?bad = "findUnhealthyDependents cs"
  have F: "list_ex (\<lambda>t. cond_get t cs \<noteq> None \<and> cond_status t cs = ConditionFalse) readyDependents
      \<longleftrightarrow> list_ex (\<lambda>c. ctStatus c = ConditionFalse) ?bad"
    unfolding list_ex_iff using unhealthy_iff[OF assms, of ConditionFalse] by simp
  have U: "list_ex (\<lambda>t. cond_get t cs \<noteq> None \<and> cond_status t cs = ConditionUnknown) readyDependents
      \<longleftrightarrow> list_ex (\<lambda>c. ctStatus c = ConditionUnknown) ?bad"
    unfolding list_ex_iff using unhealthy_iff[OF assms, of ConditionUnknown] by simp
  have "ctStatus c = ConditionUnknown" if "c \<in> set ?bad" "ctStatus c \<noteq> ConditionFalse" for c
    using that by (cases "ctStatus c") (auto simp: set_findUnhealthyDependents)
  then have rest: "list_ex (\<lambda>c. ctStatus c = ConditionUnknown) ?bad"
    if "?bad \<noteq> []" "\<not> list_ex (\<lambda>c. ctStatus c = ConditionFalse) ?bad"
    using that by (cases ?bad) (auto simp: list_ex_iff)
  show ?thesis
    unfolding root_status_def F U using rest by (cases "?bad = []") auto
qed

lemma root_status_cong:
  "(\<And>t. t \<in> set readyDependents \<Longrightarrow> cond_get t cs = cond_get t cs') \<Longrightarrow>
   root_status cs = root_status cs'"
  unfolding root_status_def cond_status_def list_ex_iff by (simp cong: bex_cong)

lemma recomputeRootCondition_get:
  assumes wf: "conds_wf cs"
  shows "conds_wf (recomputeRootCondition now cs)"
    and "u \<noteq> ConditionReady \<Longrightarrow> cond_get u (recomputeRootCondition now cs) = cond_get u cs"
    and "cond_get ConditionReady (recomputeRootCondition now cs) \<noteq> None"
    and "cond_status ConditionReady (recomputeRootCondition now cs) = root_status cs"
proof -
  let ?bad = "findUnhealthyDependents cs"
  obtain r m where step: "recomputeRootCondition now cs =
      (case cond_replace now ConditionReady (root_status cs) r m cs of None \<Rightarrow> cs | Some cs' \<Rightarrow> cs')"
    unfolding recomputeRootCondition_def Let_def root_status_unhealthy[OF wf]
    by (cases "?bad = []") auto
  show "conds_wf (recomputeRootCondition now cs)"
    using step wf conds_wf_replace by (auto split: option.splits)
  show "u \<noteq> ConditionReady \<Longrightarrow> cond_get u (recomputeRootCondition now cs) = cond_get u cs"
    using step wf by (auto split: option.splits simp: cond_get_replace)
  show "cond_get ConditionReady (recomputeRootCondition now cs) \<noteq> None"
    using step wf cond_replace_None(2)[OF wf] by (auto split: option.splits simp: cond_get_replace)
  show "cond_status ConditionReady (recomputeRootCondition now cs) = root_status cs"
  proof (cases "cond_replace now ConditionReady (root_status cs) r m cs")
    case None
    then show ?thesis using step cond_replace_None(1)[OF wf None] by simp
  next
    case (Some cs')
    then show ?thesis using step wf by (simp add: cond_status_def cond_get_replace)
  qed
qed

lemma cond_set_dependent:
  assumes inv: "ready_consistent cs" and t: "t \<in> set readyDependents"
  shows "ready_consistent (cond_set now t st r m cs)"
    and "cond_status t (cond_set now t st r m cs) = st"
    and "cond_get t (cond_set now t st r m cs) \<noteq> None"
    and "cond_get ConditionReady (cond_set now t st r m cs) \<noteq> None"
    and "u \<noteq> t \<Longrightarrow> u \<noteq> ConditionReady \<Longrightarrow> cond_get u (cond_set now t st r m cs) = cond_get u cs"
proof -
  have wf: "conds_wf cs" using inv by (simp add: ready_consistent_def)
  have tr: "t \<noteq> ConditionReady" using t ready_not_dependent by metis
  have *: "ready_consistent (cond_set now t st r m cs) \<and>
      cond_status t (cond_set now t st r m cs) = st \<and>
      cond_get t (cond_set now t st r m cs) \<noteq> None \<and>
      cond_get ConditionReady (cond_set now t st r m cs) \<noteq> None \<and>
      (u \<noteq> t \<longrightarrow> u \<noteq> ConditionReady \<longrightarrow> cond_get u (cond_set now t st r m cs) = cond_get u cs)" for u
  proof (cases "cond_replace now t st r m cs")
    case None
    then have "cond_get t cs \<noteq> None" "cond_status t cs = st"
      using cond_replace_None[OF wf] by auto
    moreover from this(1) inv t have "cond_get ConditionReady cs \<noteq> None"
      by (auto simp: ready_consistent_def list_all_iff split: if_splits)
    ultimately show ?thesis using None inv by (simp add: cond_set_def)
  next
    case (Some cs')
    have wf': "conds_wf cs'" using conds_wf_replace[OF wf Some] .
    note rec = recomputeRootCondition_get[OF wf', where now = now]
    have eq: "cond_set now t st r m cs = recomputeRootCondition now cs'"
      using Some tr by (simp add: cond_set_def)
    have "root_status (recomputeRootCondition now cs') = root_status cs'"
    proof (rule root_status_cong)
      fix v assume "v \<in> set readyDependents"
      then have "v \<noteq> ConditionReady" using ready_not_dependent by metis
      then show "cond_get v (recomputeRootCondition now cs') = cond_get v cs'" by (rule rec(2))
    qed
    then have "ready_consistent (recomputeRootCondition now cs')"
      using rec by (auto simp: ready_consistent_def)
    then show ?thesis
      using eq rec tr cond_get_replace[OF wf Some] by (auto simp: cond_status_def)
  qed
  show "ready_consistent (cond_set now t st r m cs)"
    and "cond_status t (cond_set now t st r m cs) = st"
    and "cond_get t (cond_set now t st r m cs) \<noteq> None"
    and "cond_get ConditionReady (cond_set now t st r m cs) \<noteq> None"
    and "u \<noteq> t \<Longrightarrow> u \<noteq> ConditionReady \<Longrightarrow> cond_get u (cond_set now t st r m cs) = cond_get u cs"
    using * by auto
qed

text \<open>Creating the condition set keeps what is there, adds what is missing as Unknown, and
  never has to write the root itself.\<close>

lemma StatusConditions_fold:
  fixes now :: int
  assumes "ready_consistent cs" and "set ts \<subseteq> set readyDependents"
  defines "cs' \<equiv> fold (\<lambda>t cs. if cond_get t cs = None then SetUnknown now t cs else cs) ts cs"
  shows "ready_consistent cs'"
    and "t \<in> set ts \<Longrightarrow> cond_get t cs' \<noteq> None"
    and "u \<noteq> ConditionReady \<Longrightarrow> cond_get u cs \<noteq> None \<Longrightarrow> cond_get u cs' = cond_get u cs"
    and "u \<noteq> ConditionReady \<Longrightarrow> cond_status u cs' = cond_status u cs"
proof -
  have "ready_consistent cs' \<and> (\<forall>t \<in> set ts. cond_get t cs' \<noteq> None) \<and>
      (\<forall>u. u \<noteq> ConditionReady \<longrightarrow> cond_get u cs \<noteq> None \<longrightarrow> cond_get u cs' = cond_get u cs) \<and>
      (\<forall>u. u \<noteq> ConditionReady \<longrightarrow> cond_status u cs' = cond_status u cs)"
    using assms(1,2) unfolding cs'_def
  proof (induction ts arbitrary: cs)
    case Nil
    then show ?case by simp
  next
    case (Cons t ts)
    let ?step = "if cond_get t cs = None then SetUnknown now t cs else cs"
    have t: "t \<in> set readyDependents" and ts: "set ts \<subseteq> set readyDependents"
      using Cons.prems by auto
    note set = cond_set_dependent[OF Cons.prems(1) t]
    have ok: "ready_consistent ?step" "cond_get t ?step \<noteq> None"
      using set(1,3) Cons.prems(1) by (auto simp: SetUnknown_def)
    have keep: "cond_get u ?step = cond_get u cs"
      if u: "u \<noteq> ConditionReady" "cond_get u cs \<noteq> None" for u
    proof (cases "cond_get t cs = None")
      case True
      with u have "u \<noteq> t" by auto
      from set(5)[OF this u(1)] True show ?thesis by (simp add: SetUnknown_def)
    qed auto
    have keep_status: "cond_status u ?step = cond_status u cs" if u: "u \<noteq> ConditionReady" for u
      using set(5)[of u] set(2) u by (cases "u = t") (auto simp: SetUnknown_def cond_status_def)
    have "t \<noteq> ConditionReady" using t ready_not_dependent by metis
    with Cons.IH[OF ok(1) ts] ok(2) keep keep_status show ?case by (simp add: SetUnknown_def)
  qed
  then show "ready_consistent cs'" and "t \<in> set ts \<Longrightarrow> cond_get t cs' \<noteq> None"
    and "u \<noteq> ConditionReady \<Longrightarrow> cond_get u cs \<noteq> None \<Longrightarrow> cond_get u cs' = cond_get u cs"
    and "u \<noteq> ConditionReady \<Longrightarrow> cond_status u cs' = cond_status u cs"
    by auto
qed

lemma StatusConditions_get:
  assumes "ready_consistent cs"
  shows "ready_consistent (StatusConditions now cs)"
    and "t \<in> set readyDependents \<Longrightarrow> cond_get t (StatusConditions now cs) \<noteq> None"
    and "u \<noteq> ConditionReady \<Longrightarrow> cond_get u cs \<noteq> None \<Longrightarrow>
         cond_get u (StatusConditions now cs) = cond_get u cs"
    and "u \<noteq> ConditionReady \<Longrightarrow> cond_status u (StatusConditions now cs) = cond_status u cs"
proof -
  let ?d = "fold (\<lambda>t cs. if cond_get t cs = None then SetUnknown now t cs else cs) readyDependents cs"
  note f = StatusConditions_fold[OF assms subset_refl, where now = now]
  have v: "ConditionTypeVSwitchesReady \<in> set readyDependents" by (simp add: readyDependents_def)
  have "cond_get ConditionReady ?d \<noteq> None"
    using f(1) f(2)[OF v] v by (auto simp: ready_consistent_def list_all_iff split: if_splits)
  then have "StatusConditions now cs = ?d" by (auto simp: StatusConditions_def)
  with f show "ready_consistent (StatusConditions now cs)"
    and "t \<in> set readyDependents \<Longrightarrow> cond_get t (StatusConditions now cs) \<noteq> None"
    and "u \<noteq> ConditionReady \<Longrightarrow> cond_get u cs \<noteq> None \<Longrightarrow>
         cond_get u (StatusConditions now cs) = cond_get u cs"
    and "u \<noteq> ConditionReady \<Longrightarrow> cond_status u (StatusConditions now cs) = cond_status u cs"
    by simp_all
qed

text \<open>What a setter of the node class does to its conditions.\<close>

abbreviation nc_ready :: "ecs_nodeclass \<Rightarrow> condition_status" where
  "nc_ready nc \<equiv> cond_status ConditionReady (stConditions (ncStatus nc))"

abbreviation nc_consistent :: "ecs_nodeclass \<Rightarrow> bool" where
  "nc_consistent nc \<equiv> ready_consistent (stConditions (ncStatus nc))"

abbreviation nc_cond :: "string \<Rightarrow> ecs_nodeclass \<Rightarrow> condition_status" where
  "nc_cond t nc \<equiv> cond_status t (stConditions (ncStatus nc))"

definition nc_cond_set ::
  "int \<Rightarrow> string \<Rightarrow> condition_status \<Rightarrow> string \<Rightarrow> string \<Rightarrow> ecs_nodeclass \<Rightarrow> ecs_nodeclass" where
  "nc_cond_set now t st r m nc =
     nc_set_conditions (cond_set now t st r m (StatusConditions now (stConditions (ncStatus nc)))) nc"

lemma nc_setters_eq:
  "nc_SetTrue now t nc = nc_cond_set now t ConditionTrue t [] nc"
  "nc_SetFalse now t r m nc = nc_cond_set now t ConditionFalse r m nc"
  by (simp_all add: nc_SetTrue_def nc_SetFalse_def nc_cond_set_def SetTrue_def SetFalse_def)

text \<open>All four dependents are recorded.\<close>

definition nc_complete :: "ecs_nodeclass \<Rightarrow> bool" where
  "nc_complete nc =
     (cond_get ConditionReady (stConditions (ncStatus nc)) \<noteq> None \<and>
      list_all (\<lambda>t. cond_get t (stConditions (ncStatus nc)) \<noteq> None) readyDependents)"

lemma nc_cond_set_conds:
  assumes "nc_consistent nc" and t: "t \<in> set readyDependents"
  shows "nc_consistent (nc_cond_set now t st r m nc)"
    and "nc_complete (nc_cond_set now t st r m nc)"
    and "nc_cond t (nc_cond_set now t st r m nc) = st"
    and "u \<noteq> t \<Longrightarrow> u \<in> set readyDependents \<Longrightarrow>
         nc_cond u (nc_cond_set now t st r m nc) = nc_cond u nc"
proof -
  note sc = StatusConditions_get[OF assms(1), where now = now]
  note set = cond_set_dependent[OF sc(1) t]
  have conds: "stConditions (ncStatus (nc_cond_set now t st r m nc)) =
      cond_set now t st r m (StatusConditions now (stConditions (ncStatus nc)))"
    by (simp add: nc_cond_set_def nc_set_conditions_def)
  show "nc_consistent (nc_cond_set now t st r m nc)" unfolding conds by (rule set(1))
  show "nc_cond t (nc_cond_set now t st r m nc) = st" unfolding conds by (rule set(2))
  have all: "cond_get u (stConditions (ncStatus (nc_cond_set now t st r m nc))) \<noteq> None"
    if u: "u \<in> set readyDependents" for u
  proof (cases "u = t")
    case True
    then show ?thesis unfolding conds using set(3) by simp
  next
    case False
    have "u \<noteq> ConditionReady" using u ready_not_dependent by metis
    then show ?thesis unfolding conds set(5)[OF False \<open>u \<noteq> ConditionReady\<close>] by (intro sc(2) u)
  qed
  have "cond_get ConditionReady (stConditions (ncStatus (nc_cond_set now t st r m nc))) \<noteq> None"
    unfolding conds by (rule set(4))
  with all show "nc_complete (nc_cond_set now t st r m nc)"
    unfolding nc_complete_def list_all_iff by blast
  show "nc_cond u (nc_cond_set now t st r m nc) = nc_cond u nc"
    if "u \<noteq> t" and u: "u \<in> set readyDependents"
  proof -
    have ur: "u \<noteq> ConditionReady" using u ready_not_dependent by metis
    with sc(4)[OF ur] set(5)[OF \<open>u \<noteq> t\<close> ur] show ?thesis
      unfolding conds by (simp add: cond_status_def)
  qed
qed

text \<open>The root is True exactly when every dependent is, once they are recorded.\<close>

lemma nc_ready_iff:
  assumes "nc_consistent nc" and "nc_complete nc"
  shows "nc_ready nc = ConditionTrue \<longleftrightarrow> (\<forall>t \<in> set readyDependents. nc_cond t nc = ConditionTrue)"
    and "nc_ready nc = ConditionFalse \<longleftrightarrow> (\<exists>t \<in> set readyDependents. nc_cond t nc = ConditionFalse)"
proof -
  have root: "nc_ready nc = root_status (stConditions (ncStatus nc))"
    using assms by (auto simp: ready_consistent_def nc_complete_def)
  have some: "cond_get t (stConditions (ncStatus nc)) \<noteq> None" if "t \<in> set readyDependents" for t
    using assms(2) that by (auto simp: nc_complete_def list_all_iff)
  have st: "nc_cond t nc = ConditionTrue \<longleftrightarrow>
      nc_cond t nc \<noteq> ConditionFalse \<and> nc_cond t nc \<noteq> ConditionUnknown" for t
    by (cases "nc_cond t nc") auto
  show "nc_ready nc = ConditionTrue \<longleftrightarrow> (\<forall>t \<in> set readyDependents. nc_cond t nc = ConditionTrue)"
    unfolding root root_status_def list_ex_iff using some st by auto
  show "nc_ready nc = ConditionFalse \<longleftrightarrow> (\<exists>t \<in> set readyDependents. nc_cond t nc = ConditionFalse)"
    unfolding root root_status_def list_ex_iff using some by auto
qed

end
