(* ===== verification/Go_Cache.thy ===== *)
theory Go_Cache
  imports Prelude
begin

text \<open>
  The in-memory cache every provider keeps its remote answers in:
  \<^verbatim>\<open>src/vendor/github.com/patrickmn/go-cache/cache.go\<close>. An item carries the instant it
  expires at (0: never). Reading skips expired items; the janitor removes them later
  (\<open>cache_delete_expired\<close>). The interface the providers rely on is the locale
  \<open>ttl_store\<close>; \<open>read_through\<close> is the pattern "return the cached value, else fetch and
  store" that they share.
\<close>

record 'v cache_item =
  Object :: 'v
  Expiration :: int

record 'v go_cache =
  defaultExpiration :: int
  cache_items :: "(string \<times> 'v cache_item) list"

text \<open>\<^verbatim>\<open>cache.New(de, ci)\<close> with the default expiration; the clean-up interval only
  schedules the janitor.\<close>

definition cache_new :: "int \<Rightarrow> 'v go_cache" where
  "cache_new de = \<lparr>defaultExpiration = (if de = 0 then -1 else de), cache_items = []\<rparr>"

definition item_expired :: "int \<Rightarrow> 'v cache_item \<Rightarrow> bool" where
  "item_expired now it = (0 < Expiration it \<and> Expiration it < now)"

definition cache_get :: "int \<Rightarrow> string \<Rightarrow> 'v go_cache \<Rightarrow> 'v option" where
  "cache_get now k c =
     (case map_of (cache_items c) k of
        None \<Rightarrow> None
      | Some it \<Rightarrow> if item_expired now it then None else Some (Object it))"

definition cache_set :: "int \<Rightarrow> string \<Rightarrow> 'v \<Rightarrow> int \<Rightarrow> 'v go_cache \<Rightarrow> 'v go_cache" where
  "cache_set now k x d c =
     (let d' = (if d = 0 then defaultExpiration c else d);
          e = (if 0 < d' then now + d' else 0)
      in c\<lparr>cache_items := AList.update k \<lparr>Object = x, Expiration = e\<rparr> (cache_items c)\<rparr>)"

definition cache_set_default :: "int \<Rightarrow> string \<Rightarrow> 'v \<Rightarrow> 'v go_cache \<Rightarrow> 'v go_cache" where
  "cache_set_default now k x c = cache_set now k x 0 c"

definition cache_delete :: "string \<Rightarrow> 'v go_cache \<Rightarrow> 'v go_cache" where
  "cache_delete k c = c\<lparr>cache_items := AList.delete k (cache_items c)\<rparr>"

text \<open>The janitor: the keys it evicts (each is reported to \<^verbatim>\<open>onEvicted\<close>) and the
  cache that is left.\<close>

definition cache_delete_expired :: "int \<Rightarrow> 'v go_cache \<Rightarrow> string list \<times> 'v go_cache" where
  "cache_delete_expired now c =
     (map fst (filter (\<lambda>(k, it). item_expired now it) (cache_items c)),
      c\<lparr>cache_items := filter (\<lambda>(k, it). \<not> item_expired now it) (cache_items c)\<rparr>)"

definition cache_list :: "int \<Rightarrow> 'v go_cache \<Rightarrow> (string \<times> 'v) list" where
  "cache_list now c =
     map (\<lambda>(k, it). (k, Object it))
       (filter (\<lambda>(k, it). \<not> item_expired now it) (cache_items c))"

definition cache_flush :: "'v go_cache \<Rightarrow> 'v go_cache" where
  "cache_flush c = c\<lparr>cache_items := []\<rparr>"

text \<open>A Go map has each key once.\<close>

definition cache_wf :: "'v go_cache \<Rightarrow> bool" where
  "cache_wf c = distinct (map fst (cache_items c))"

lemma cache_wf_new [simp, inv_intros]: "cache_wf (cache_new de)"
  by (simp add: cache_wf_def cache_new_def)

lemma cache_wf_set [simp, inv_intros]: "cache_wf c \<Longrightarrow> cache_wf (cache_set now k x d c)"
  by (simp add: cache_wf_def cache_set_def Let_def distinct_update)

lemma cache_wf_set_default [simp, inv_intros]:
  "cache_wf c \<Longrightarrow> cache_wf (cache_set_default now k x c)"
  by (simp add: cache_set_default_def)

lemma cache_wf_delete [simp, inv_intros]: "cache_wf c \<Longrightarrow> cache_wf (cache_delete k c)"
  by (simp add: cache_wf_def cache_delete_def distinct_delete)

lemma distinct_map_fst_filter:
  "distinct (map fst xs) \<Longrightarrow> distinct (map fst (filter P xs))"
  by (induction xs) auto

lemma cache_wf_delete_expired [simp, inv_intros]:
  "cache_wf c \<Longrightarrow> cache_wf (snd (cache_delete_expired now c))"
  by (simp add: cache_wf_def cache_delete_expired_def distinct_map_fst_filter)

lemma cache_wf_flush [simp, inv_intros]: "cache_wf (cache_flush c)"
  by (simp add: cache_wf_def cache_flush_def)

text \<open>A cache with its time to live, as the providers rely on it: every entry has an expiration (the
  zero of \<^verbatim>\<open>NoExpiration\<close> is not used), and none lies further ahead than the time to live.\<close>

definition cache_ok :: "int \<Rightarrow> int \<Rightarrow> 'v go_cache \<Rightarrow> bool" where
  "cache_ok ttl now c = (0 \<le> now \<and> 0 < ttl \<and> cache_wf c \<and> defaultExpiration c = ttl
     \<and> list_all (\<lambda>(k, item). 0 < Expiration item \<and> Expiration item \<le> now + ttl) (cache_items c))"

section \<open>Reads after writes\<close>

lemma cache_get_set:
  assumes "0 \<le> now" and "0 < d"
  shows "cache_get t k' (cache_set now k x d c) =
     (if k' = k then (if t \<le> now + d then Some x else None) else cache_get t k' c)"
  using assms
  by (auto simp: cache_get_def cache_set_def Let_def item_expired_def update_conv')

lemma cache_get_set_other [simp]:
  "k' \<noteq> k \<Longrightarrow> cache_get t k' (cache_set now k x d c) = cache_get t k' c"
  by (simp add: cache_get_def cache_set_def Let_def update_conv')

lemma cache_get_set_default:
  assumes "0 \<le> now" and "0 < defaultExpiration c"
  shows "cache_get t k' (cache_set_default now k x c) =
     (if k' = k then (if t \<le> now + defaultExpiration c then Some x else None)
      else cache_get t k' c)"
  using assms
  by (auto simp: cache_get_def cache_set_default_def cache_set_def Let_def item_expired_def
      update_conv')

lemma defaultExpiration_set [simp]:
  "defaultExpiration (cache_set now k x d c) = defaultExpiration c"
  "defaultExpiration (cache_set_default now k x c) = defaultExpiration c"
  "defaultExpiration (cache_delete k c) = defaultExpiration c"
  "defaultExpiration (cache_flush c) = defaultExpiration c"
  "defaultExpiration (snd (cache_delete_expired now c)) = defaultExpiration c"
  by (simp_all add: cache_set_def cache_set_default_def cache_delete_def cache_flush_def
      cache_delete_expired_def Let_def)

lemma set_update_pairs: "set (AList.update k v m) \<subseteq> insert (k, v) (set m)"
  by (induction m) auto

lemma cache_ok_set:
  assumes "cache_ok ttl now c" "0 \<le> d" "d \<le> ttl"
  shows "cache_ok ttl now (cache_set now k x d c)"
proof -
  obtain e where e: "cache_items (cache_set now k x d c) = AList.update k \<lparr>Object = x, Expiration = e\<rparr> (cache_items c)"
    "0 < e" "e \<le> now + ttl"
    using assms by (auto simp: cache_set_def Let_def cache_ok_def)
  have "0 < Expiration item \<and> Expiration item \<le> now + ttl" if "(k', item) \<in> set (cache_items (cache_set now k x d c))" for k' item
    using that assms(1) e(2,3) set_update_pairs[of k "\<lparr>Object = x, Expiration = e\<rparr>" "cache_items c"]
    unfolding e(1) cache_ok_def list_all_iff by fastforce
  then show ?thesis using assms(1) by (auto simp: cache_ok_def list_all_iff)
qed

lemma cache_ok_ops [simp, inv_intros]:
  "0 < ttl \<Longrightarrow> 0 \<le> now \<Longrightarrow> cache_ok ttl now (cache_new ttl)"
  "cache_ok ttl now c \<Longrightarrow> cache_ok ttl now (cache_set now k x 0 c)"
  "cache_ok ttl now c \<Longrightarrow> cache_ok ttl now (cache_set_default now k x c)"
  "cache_ok ttl now c \<Longrightarrow> cache_ok ttl now (snd (cache_delete_expired t c))"
  "cache_ok ttl now c \<Longrightarrow> cache_ok ttl now (cache_delete k c)"
proof -
  show set: "cache_ok ttl now c \<Longrightarrow> cache_ok ttl now (cache_set now k x 0 c)" for c :: "'v go_cache" and k x
    by (rule cache_ok_set[of _ _ c 0]) (auto simp: cache_ok_def)
  show "cache_ok ttl now c \<Longrightarrow> cache_ok ttl now (cache_set_default now k x c)" for c :: "'v go_cache" and k x
    unfolding cache_set_default_def by (rule set)
qed (auto simp: cache_ok_def cache_new_def cache_delete_def AList.delete_eq cache_delete_expired_def list_all_iff
      cache_wf_def distinct_map_fst_filter)

lemma cache_ok_later: "cache_ok ttl now c \<Longrightarrow> now \<le> t \<Longrightarrow> cache_ok ttl t c"
  by (fastforce simp: cache_ok_def list_all_iff)

lemma cache_ok_served: "cache_ok ttl now c \<Longrightarrow> cache_get t k c \<noteq> None \<Longrightarrow> t \<le> now + ttl"
  by (force simp: cache_ok_def list_all_iff cache_get_def item_expired_def split: option.splits if_splits dest!: map_of_SomeD)

lemma cache_get_delete:
  "cache_get t k' (cache_delete k c) = (if k' = k then None else cache_get t k' c)"
  by (simp add: cache_get_def cache_delete_def delete_conv')

lemma cache_get_flush [simp]: "cache_get t k (cache_flush c) = None"
  by (simp add: cache_get_def cache_flush_def)

lemma cache_get_new [simp]: "cache_get t k (cache_new de) = None"
  by (simp add: cache_get_def cache_new_def)

lemma cache_get_antimono:
  "t \<le> t' \<Longrightarrow> cache_get t' k c = Some v \<Longrightarrow> cache_get t k c = Some v"
  by (auto simp: cache_get_def item_expired_def split: option.splits if_splits)

lemma map_of_filter_snd:
  "distinct (map fst xs) \<Longrightarrow>
   map_of (filter (\<lambda>(k, v). P v) xs) k =
     (case map_of xs k of None \<Rightarrow> None | Some v \<Rightarrow> if P v then Some v else None)"
proof (induction xs)
  case Nil
  then show ?case by simp
next
  case (Cons p xs)
  obtain a b where p: "p = (a, b)" by (cases p)
  have "map_of xs a = None" if "a = k"
    using Cons.prems p by (simp add: map_of_eq_None_iff)
  with Cons p show ?case by (auto split: option.splits)
qed

text \<open>The janitor is invisible to readers at its own time or later.\<close>

lemma cache_get_delete_expired:
  assumes "cache_wf c" and "now \<le> t"
  shows "cache_get t k (snd (cache_delete_expired now c)) = cache_get t k c"
proof -
  have "map_of (filter (\<lambda>(k, it). \<not> item_expired now it) (cache_items c)) k =
    (case map_of (cache_items c) k of None \<Rightarrow> None
     | Some it \<Rightarrow> if \<not> item_expired now it then Some it else None)"
    using assms(1) by (simp add: cache_wf_def map_of_filter_snd)
  with assms(2) show ?thesis
    by (auto simp: cache_get_def cache_delete_expired_def item_expired_def
        split: option.splits)
qed

lemma swept_get:
  assumes "cache_wf c" "cache_get t k (snd (cache_delete_expired now c)) = Some v"
  shows "cache_get t k c = Some v"
proof -
  have m: "map_of (filter (\<lambda>(k, it). \<not> item_expired now it) (cache_items c)) k =
    (case map_of (cache_items c) k of None \<Rightarrow> None
     | Some it \<Rightarrow> if \<not> item_expired now it then Some it else None)"
    using assms(1) by (simp add: cache_wf_def map_of_filter_snd)
  from assms(2) show ?thesis
    by (cases "map_of (cache_items c) k") (auto simp: cache_get_def cache_delete_expired_def m split: if_splits)
qed

lemma map_of_cache_list:
  "cache_wf c \<Longrightarrow> map_of (cache_list now c) k = cache_get now k c"
  by (simp add: cache_list_def map_of_mapSnd cache_wf_def map_of_filter_snd cache_get_def
      split: option.splits)

lemma set_cache_list:
  assumes "cache_wf c"
  shows "(k, v) \<in> set (cache_list now c) \<longleftrightarrow> cache_get now k c = Some v"
proof -
  have "distinct (map fst (cache_list now c))"
    using assms by (simp add: cache_wf_def cache_list_def comp_def case_prod_unfold
        distinct_map_fst_filter)
  then have "(k, v) \<in> set (cache_list now c) \<longleftrightarrow> map_of (cache_list now c) k = Some v"
    by (simp add: map_of_eq_Some_iff)
  with assms show ?thesis by (simp add: map_of_cache_list)
qed

section \<open>The interface\<close>

text \<open>What the providers rely on: a value put at an instant can be read until its time to
  live has passed and not afterwards, other keys are untouched, and an absent key stays
  absent as time passes.\<close>

locale ttl_store =
  fixes get :: "int \<Rightarrow> string \<Rightarrow> 'c \<Rightarrow> 'v option"
    and put :: "int \<Rightarrow> string \<Rightarrow> 'v \<Rightarrow> 'c \<Rightarrow> 'c"
    and ttl :: "'c \<Rightarrow> int"
  assumes get_put_same:
      "0 \<le> now \<Longrightarrow> 0 < ttl c \<Longrightarrow>
       get t k (put now k v c) = (if t \<le> now + ttl c then Some v else None)"
    and get_put_other: "k' \<noteq> k \<Longrightarrow> get t k' (put now k v c) = get t k' c"
    and get_antimono: "t \<le> t' \<Longrightarrow> get t' k c = Some v \<Longrightarrow> get t k c = Some v"
    and ttl_put: "ttl (put now k v c) = ttl c"

text \<open>Return the stored value, else fetch; only a successful fetch is stored.\<close>

definition read_through ::
  "(int \<Rightarrow> string \<Rightarrow> 'c \<Rightarrow> 'v option) \<Rightarrow> (int \<Rightarrow> string \<Rightarrow> 'v \<Rightarrow> 'c \<Rightarrow> 'c) \<Rightarrow>
   int \<Rightarrow> string \<Rightarrow> 'v outcome \<Rightarrow> 'c \<Rightarrow> 'v outcome \<times> 'c" where
  "read_through get put now k fetch c =
     (case get now k c of
        Some v \<Rightarrow> (Ok v, c)
      | None \<Rightarrow> (case fetch of
            Ok v \<Rightarrow> (Ok v, put now k v c)
          | Err e \<Rightarrow> (Err e, c)
          | Panic \<Rightarrow> (Panic, c)))"

context ttl_store
begin

lemma put_overwrites:
  "0 \<le> now \<Longrightarrow> 0 \<le> now' \<Longrightarrow> 0 < ttl c \<Longrightarrow>
   get t k (put now' k v' (put now k v c)) = get t k (put now' k v' c)"
  by (simp add: get_put_same ttl_put)

lemma read_through_miss_again:
  "get now k c = None \<Longrightarrow> \<not> (\<exists>v. fetch = Ok v) \<Longrightarrow>
   snd (read_through get put now k fetch c) = c"
  by (cases fetch) (auto simp: read_through_def)

text \<open>Storing a list of items under their keys: the items are found, other keys are as
  they were.\<close>

lemma ttl_put_all: "ttl (fold (\<lambda>x. put now (f x) x) xs c) = ttl c"
  by (induction xs arbitrary: c) (simp_all add: ttl_put)

lemma get_put_all_other:
  "k \<notin> f ` set xs \<Longrightarrow> get t k (fold (\<lambda>x. put now (f x) x) xs c) = get t k c"
  by (induction xs arbitrary: c) (auto simp: get_put_other)

lemma get_put_all_mem:
  assumes "0 \<le> now" "0 < ttl c" "distinct (map f xs)" "x \<in> set xs"
  shows "get t (f x) (fold (\<lambda>x. put now (f x) x) xs c) = (if t \<le> now + ttl c then Some x else None)"
  using assms(2-4)
proof (induction xs arbitrary: c)
  case (Cons y ys)
  show ?case
  proof (cases "x = y")
    case True
    then have "f x \<notin> f ` set ys" using Cons.prems by auto
    with True Cons.prems assms(1) show ?thesis by (simp add: get_put_all_other get_put_same)
  next
    case False
    with Cons show ?thesis by (simp add: ttl_put)
  qed
qed simp

text \<open>After a successful call every call within the time to live returns the same value,
  whatever the remote side would answer now, and leaves the store alone.\<close>

lemma read_through_stable:
  assumes "0 \<le> now" and "0 < ttl c"
    and miss: "get now k c = None"
    and first: "read_through get put now k fetch c = (Ok v, c')"
    and later: "now \<le> t" "t \<le> now + ttl c"
  shows "read_through get put t k fetch' c' = (Ok v, c')"
proof -
  from first miss have "c' = put now k v c"
    by (auto simp: read_through_def split: outcome.splits)
  with assms get_put_same[of now c t k v] have "get t k c' = Some v" by simp
  then show ?thesis by (simp add: read_through_def)
qed

text \<open>Once the time to live has passed the next call goes to the remote side.\<close>

lemma read_through_refreshes:
  assumes "0 \<le> now" and "0 < ttl c"
    and miss: "get now k c = None"
    and first: "read_through get put now k fetch c = (Ok v, c')"
    and later: "now + ttl c < t"
  shows "fst (read_through get put t k fetch' c') = fetch'"
proof -
  from first miss have "c' = put now k v c"
    by (auto simp: read_through_def split: outcome.splits)
  with assms get_put_same[of now c t k v] have "get t k c' = None" by simp
  then show ?thesis by (auto simp: read_through_def split: outcome.splits)
qed

end

interpretation go_store: ttl_store cache_get cache_set_default defaultExpiration
proof
  fix now :: int and c :: "'a go_cache" and t :: int and k :: string and v :: 'a
  assume "0 \<le> now" and "0 < defaultExpiration c"
  then show "cache_get t k (cache_set_default now k v c) =
      (if t \<le> now + defaultExpiration c then Some v else None)"
    by (simp add: cache_get_set_default)
next
  fix k' k :: string and t now :: int and v :: 'a and c :: "'a go_cache"
  assume "k' \<noteq> k"
  then show "cache_get t k' (cache_set_default now k v c) = cache_get t k' c"
    by (simp add: cache_set_default_def)
next
  fix t t' :: int and k :: string and c :: "'a go_cache" and v :: 'a
  assume "t \<le> t'" and "cache_get t' k c = Some v"
  then show "cache_get t k c = Some v" by (rule cache_get_antimono)
qed simp

section \<open>Change monitor\<close>

text \<open>\<^verbatim>\<open>pretty.ChangeMonitor\<close> (karpenter): the last hash seen per key, for a day.\<close>

definition NewChangeMonitor :: "nat go_cache" where
  "NewChangeMonitor = cache_new (24 * Hour)"

definition HasChanged :: "int \<Rightarrow> string \<Rightarrow> nat \<Rightarrow> nat go_cache \<Rightarrow> bool \<times> nat go_cache" where
  "HasChanged now k hv cm =
     (if cache_get now k cm = Some hv then (False, cm) else (True, cache_set_default now k hv cm))"

lemma HasChanged_ok [simp, inv_intros]: "cache_ok ttl now cm \<Longrightarrow> cache_ok ttl now (snd (HasChanged now k hv cm))"
  by (simp add: HasChanged_def)

end
