(* ===== verification/Go_Regexp.thy ===== *)
theory Go_Regexp
  imports Go_Strings
begin

text \<open>
  Go's package \<^verbatim>\<open>regexp\<close>, for the expressions the sources compile. The semantics of
  \<^verbatim>\<open>FindStringSubmatch\<close> is leftmost-first: the match that starts earliest and, among
  those, the one a backtracking search prefers. \<open>matches\<close> lists the ways an expression can
  match a prefix of the input in that order of preference, so the match is the head of the
  list at the first position where it is not empty.
\<close>

datatype re =
    Eps
  | Cls "char \<Rightarrow> bool"
  | StarC "char \<Rightarrow> bool"
  | PlusC "char \<Rightarrow> bool"
  | Seq re re
  | Opt re
  | Grp nat re

text \<open>A match: the consumed text, the captured groups, the rest of the input.\<close>

type_synonym re_match = "string \<times> (nat \<times> string) list \<times> string"

text \<open>The splits of the input into a run of class characters and a rest, longest first.\<close>

fun spans :: "(char \<Rightarrow> bool) \<Rightarrow> string \<Rightarrow> (string \<times> string) list" where
  "spans p [] = [([], [])]"
| "spans p (c # s) =
     (if p c then map (\<lambda>(t, r). (c # t, r)) (spans p s) @ [([], c # s)] else [([], c # s)])"

definition seq_matches :: "re_match list \<Rightarrow> (string \<Rightarrow> re_match list) \<Rightarrow> re_match list" where
  "seq_matches as b =
     concat (map (\<lambda>(t, cs, r). map (\<lambda>(t', cs', r'). (t @ t', cs @ cs', r')) (b r)) as)"

fun matches :: "re \<Rightarrow> string \<Rightarrow> re_match list" where
  "matches Eps s = [([], [], s)]"
| "matches (Cls p) s = (case s of [] \<Rightarrow> [] | c # s' \<Rightarrow> if p c then [([c], [], s')] else [])"
| "matches (StarC p) s = map (\<lambda>(t, r). (t, [], r)) (spans p s)"
| "matches (PlusC p) s = map (\<lambda>(t, r). (t, [], r)) (filter (\<lambda>(t, r). t \<noteq> []) (spans p s))"
| "matches (Seq a b) s = seq_matches (matches a s) (matches b)"
| "matches (Opt a) s = matches a s @ [([], [], s)]"
| "matches (Grp n a) s = map (\<lambda>(t, cs, r). (t, (n, t) # cs, r)) (matches a s)"

text \<open>A literal string, and the character classes \<^verbatim>\<open>.\<close>, \<^verbatim>\<open>\s\<close>,
  \<^verbatim>\<open>\S\<close>, \<^verbatim>\<open>[a-z]\<close> and \<^verbatim>\<open>[0-9]\<close>.\<close>

fun lit :: "string \<Rightarrow> re" where
  "lit [] = Eps"
| "lit (c # s) = Seq (Cls (\<lambda>x. x = c)) (lit s)"

definition any_char :: "char \<Rightarrow> bool" where
  "any_char c = ((of_char c :: nat) \<noteq> 10)"

definition space_char :: "char \<Rightarrow> bool" where
  "space_char c = ((of_char c :: nat) \<in> {9, 10, 12, 13, 32})"

definition lower_alpha :: "char \<Rightarrow> bool" where
  "lower_alpha c = (97 \<le> (of_char c :: nat) \<and> (of_char c :: nat) \<le> 122)"

definition digit_class :: "char \<Rightarrow> bool" where
  "digit_class c = (char_digit c \<noteq> None)"

text \<open>\<^verbatim>\<open>FindStringSubmatch\<close>: \<open>find_sub\<close> searches every start position,
  \<open>find_sub_anchored\<close> is an expression that begins with \<^verbatim>\<open>^\<close>.\<close>

fun find_sub :: "re \<Rightarrow> string \<Rightarrow> re_match option" where
  "find_sub r [] = (case matches r [] of [] \<Rightarrow> None | m # _ \<Rightarrow> Some m)"
| "find_sub r (c # s) = (case matches r (c # s) of [] \<Rightarrow> find_sub r s | m # _ \<Rightarrow> Some m)"

definition find_sub_anchored :: "re \<Rightarrow> string \<Rightarrow> re_match option" where
  "find_sub_anchored r s = (case matches r s of [] \<Rightarrow> None | m # _ \<Rightarrow> Some m)"

definition group :: "nat \<Rightarrow> re_match \<Rightarrow> string" where
  "group n m = StringValue (map_of (fst (snd m)) n)"

lemma spans_split: "(t, r) \<in> set (spans p s) \<Longrightarrow> s = t @ r \<and> (\<forall>c \<in> set t. p c)"
  by (induction s arbitrary: t r) (auto split: if_splits)

text \<open>A match consumes a prefix of the input.\<close>

lemma matches_split: "(t, cs, r) \<in> set (matches e s) \<Longrightarrow> s = t @ r"
proof (induction e arbitrary: t cs r s)
  case (Seq a b)
  then show ?case by (fastforce simp: seq_matches_def)
next
  case (Cls p)
  then show ?case by (auto split: list.splits if_splits)
qed (auto dest: spans_split)

lemma matches_split_head:
  "matches e s = (c # t, cs, r) # ms \<Longrightarrow> length r < length s"
  using matches_split[of "c # t" cs r e s] by simp

text \<open>\<^verbatim>\<open>ReplaceAllString\<close> for a replacement without \<^verbatim>\<open>$\<close>: non-overlapping
  matches from left to right; an empty match copies a character.\<close>

function replace_all_re :: "re \<Rightarrow> string \<Rightarrow> string \<Rightarrow> string" where
  "replace_all_re e repl s =
     (case matches e s of
        (c # t, cs, r) # _ \<Rightarrow> repl @ replace_all_re e repl r
      | _ \<Rightarrow> (case s of [] \<Rightarrow> [] | c # s' \<Rightarrow> c # replace_all_re e repl s'))"
  by pat_completeness auto
termination
  by (relation "measure (\<lambda>(e, repl, s). length s)")
     (auto dest: matches_split_head)

declare replace_all_re.simps [simp del]

lemma find_sub_match:
  "matches e s = m # ms \<Longrightarrow> find_sub e s = Some m"
  by (cases s) simp_all

lemma find_sub_split:
  "find_sub e s = Some (t, cs, r) \<Longrightarrow> \<exists>u. s = u @ t @ r"
proof (induction s)
  case Nil
  then have "(t, cs, r) \<in> set (matches e [])"
    by (auto split: list.splits)
  then show ?case by (auto dest: matches_split)
next
  case (Cons c s)
  show ?case
  proof (cases "matches e (c # s)")
    case Nil
    with Cons obtain u where "s = u @ t @ r" by auto
    then have "c # s = (c # u) @ t @ r" by simp
    then show ?thesis by blast
  next
    case (Cons m ms)
    with \<open>find_sub e (c # s) = Some (t, cs, r)\<close> have "(t, cs, r) \<in> set (matches e (c # s))"
      by auto
    then have "c # s = [] @ t @ r" by (auto dest: matches_split)
    then show ?thesis by blast
  qed
qed

lemma spans_hd: "\<exists>rest. spans p s = (takeWhile p s, dropWhile p s) # rest"
  by (induction s) auto

section \<open>The preferred match\<close>

lemma seq_matches_Nil [simp]: "seq_matches [] b = []"
  by (simp add: seq_matches_def)

lemma matches_Seq_hd:
  "matches a s = (t, cs, r) # ms \<Longrightarrow> matches b r = (t', cs', r') # ms' \<Longrightarrow>
   \<exists>ms''. matches (Seq a b) s = (t @ t', cs @ cs', r') # ms''"
  by (simp add: seq_matches_def)

lemma matches_Grp_hd:
  "matches a s = (t, cs, r) # ms \<Longrightarrow> \<exists>ms'. matches (Grp n a) s = (t, (n, t) # cs, r) # ms'"
  by simp

lemma matches_lit [simp]: "matches (lit w) (w @ s) = [(w, [], s)]"
  by (induction w) (simp_all add: seq_matches_def)

lemma spans_append:
  "list_all p w \<Longrightarrow> (s = [] \<or> \<not> p (hd s)) \<Longrightarrow> \<exists>rest. spans p (w @ s) = (w, s) # rest"
  using spans_hd[of p "w @ s"] by (cases s) (auto simp: list_all_iff takeWhile_append dropWhile_append)

lemma matches_PlusC_hd:
  assumes "list_all p w" "w \<noteq> []" "s = [] \<or> \<not> p (hd s)"
  shows "\<exists>ms. matches (PlusC p) (w @ s) = (w, [], s) # ms"
  using spans_append[OF assms(1,3)] assms(2) by auto

lemma matches_StarC_hd: "\<exists>t r ms. matches (StarC p) s = (t, [], r) # ms"
  using spans_hd[of p s] by auto

end
