(* ===== verification/Utils.thy ===== *)
theory Utils
  imports Cloud_Types Go_Regexp
begin

text \<open>
  The helpers of \<^verbatim>\<open>src/pkg/utils\<close>: provider ids, capacity types, labels of
  single-valued requirements, the ISO 8601 times of the ECS API
  (\<^verbatim>\<open>utils/utils.go\<close>) and the errors of the SDK (\<^verbatim>\<open>utils/alierrors/errors.go\<close>).
\<close>

section \<open>Package alierrors\<close>

text \<open>A status code that is missing is dereferenced.\<close>

definition IsNotFound :: "gerror option \<Rightarrow> bool outcome" where
  "IsNotFound e =
     (case Option.bind e (errors_as as_SDKError) of
        None \<Rightarrow> Ok False
      | Some None \<Rightarrow> Panic
      | Some (Some code) \<Rightarrow> Ok (code = 404))"

definition WithRequestID :: "string \<Rightarrow> gerror \<Rightarrow> gerror" where
  "WithRequestID rid e = Wrap (''requestId: '' @ rid @ '', '') e"

section \<open>Package utils\<close>

definition instanceIDRegex :: re where
  "instanceIDRegex = Seq (Grp 1 (StarC any_char)) (Seq (lit ''.'') (Grp 2 (StarC any_char)))"

definition ParseInstanceID :: "string \<Rightarrow> string outcome" where
  "ParseInstanceID providerID =
     (case find_sub instanceIDRegex providerID of
        None \<Rightarrow> Err (ErrorString (''parsing instance id '' @ providerID))
      | Some m \<Rightarrow> Ok (group 2 m))"

text \<open>\<^verbatim>\<open>time.Parse("2006-01-02T15:04Z", s)\<close> in nanoseconds of Unix time; the days
  since 1970-01-01 in the proleptic Gregorian calendar.\<close>

definition days_from_civil :: "int \<Rightarrow> int \<Rightarrow> int \<Rightarrow> int" where
  "days_from_civil y m d =
     (let y' = (if m \<le> 2 then y - 1 else y); era = y' div 400; yoe = y' - era * 400;
          doy = (153 * (m + (if 2 < m then -3 else 9)) + 2) div 5 + d - 1;
          doe = yoe * 365 + yoe div 4 - yoe div 100 + doy
      in era * 146097 + doe - 719468)"

definition is_leap :: "int \<Rightarrow> bool" where
  "is_leap y = (y mod 4 = 0 \<and> (y mod 100 \<noteq> 0 \<or> y mod 400 = 0))"

definition days_in_month :: "int \<Rightarrow> int \<Rightarrow> int" where
  "days_in_month y m =
     (if m = 2 then (if is_leap y then 29 else 28) else if m \<in> {4, 6, 9, 11} then 30 else 31)"

definition num_field :: "nat \<Rightarrow> nat \<Rightarrow> string \<Rightarrow> int option" where
  "num_field i n s = map_option int (unsigned_val (take n (drop i s)))"

text \<open>The hour may have one digit; every other field has a fixed width.\<close>

definition ParseISO8601 :: "string \<Rightarrow> int option" where
  "ParseISO8601 str =
     (let s = (if length str = 16 \<and> str ! 12 = CHR '':'' then take 11 str @ ''0'' @ drop 11 str else str) in
      if length s = 17 \<and> s ! 4 = CHR ''-'' \<and> s ! 7 = CHR ''-'' \<and> s ! 10 = CHR ''T''
         \<and> s ! 13 = CHR '':'' \<and> s ! 16 = CHR ''Z''
      then case (num_field 0 4 s, num_field 5 2 s, num_field 8 2 s, num_field 11 2 s, num_field 14 2 s) of
          (Some y, Some mo, Some d, Some h, Some mi) \<Rightarrow>
            (if 1 \<le> mo \<and> mo \<le> 12 \<and> 1 \<le> d \<and> d \<le> days_in_month y mo \<and> h < 24 \<and> mi < 60
             then Some (((days_from_civil y mo d * 24 + h) * 60 + mi) * Minute) else None)
        | _ \<Rightarrow> None
      else None)"

definition GetAllSingleValuedRequirementLabels :: "instance_type option \<Rightarrow> (string \<times> string) list" where
  "GetAllSingleValuedRequirementLabels it =
     (case it of
        None \<Rightarrow> []
      | Some t \<Rightarrow> map (\<lambda>(k, r). (k, hd (reqValues r))) (filter (\<lambda>(k, r). req_len r = 1) (itRequirements t)))"

fun pretty_from :: "('a \<Rightarrow> string) \<Rightarrow> int \<Rightarrow> int \<Rightarrow> 'a list \<Rightarrow> string" where
  "pretty_from sh maxItems i [] = []"
| "pretty_from sh maxItems i (x # xs) =
     (if maxItems - 1 < i then '' and '' @ itoa (int (length (x # xs))) @ '' other(s)''
      else (if 0 < i then '', '' else []) @ sh x @ pretty_from sh maxItems (i + 1) xs)"

definition PrettySlice :: "('a \<Rightarrow> string) \<Rightarrow> 'a list \<Rightarrow> int \<Rightarrow> string" where
  "PrettySlice sh s maxItems = pretty_from sh maxItems 0 s"

definition GetCapacityTypes :: "string \<Rightarrow> string" where
  "GetCapacityTypes spotStrategy = (if spotStrategy \<noteq> ''NoSpot'' then CapacityTypeSpot else CapacityTypeOnDemand)"

section \<open>Lemmas and properties\<close>

lemma spans_filter_hd:
  assumes "list_all p u" "p d" "Q (d # v)" "\<And>w w'. v = w @ w' \<Longrightarrow> \<not> Q w'"
  shows "\<exists>rest. filter (\<lambda>(t, r). Q r) (spans p (u @ d # v)) = (u, d # v) # rest"
  using assms(1)
proof (induction u)
  case Nil
  have "filter (\<lambda>(t, r). Q r) (spans p v) = []"
    using assms(4) by (auto simp: filter_empty_conv dest!: spans_split)
  then have "filter (\<lambda>(t, r). Q r) (map (\<lambda>(t, r). (d # t, r)) (spans p v)) = []"
    by (auto simp: filter_empty_conv)
  with assms(2,3) show ?case by simp
next
  case (Cons c u)
  have "filter (\<lambda>(t, r). Q r) (map (\<lambda>(t, r). (c # t, r)) xs)
      = map (\<lambda>(t, r). (c # t, r)) (filter (\<lambda>(t, r). Q r) xs)" for xs
    by (induction xs) auto
  with Cons show ?case by auto
qed

lemma concat_map_hd:
  "filter (\<lambda>x. f x \<noteq> []) xs = y # ys \<Longrightarrow> f y = m # ms \<Longrightarrow> \<exists>rest. concat (map f xs) = m # rest"
  by (induction xs) (auto split: if_splits)

text \<open>A greedy \<^verbatim>\<open>(.*)\<close> before a dot takes everything up to the last dot.\<close>

lemma instanceIDRegex_match:
  assumes "list_all any_char region" "list_all any_char i" "CHR ''.'' \<notin> set i"
  shows "\<exists>t cs r. find_sub instanceIDRegex (region @ ''.'' @ i) = Some (t, [(1, region), (2, i)], r)"
proof -
  let ?B = "Seq (lit ''.'') (Grp 2 (StarC any_char))"
  let ?f = "\<lambda>(t, r). map (\<lambda>(t', cs', r'). (t @ t', [(1 :: nat, t)] @ cs', r')) (matches ?B r)"
  have noB: "matches ?B w' = []" if "i = w @ w'" for w w'
    using that assms(3) by (cases w') (auto simp: seq_matches_def)
  have "\<exists>ms. matches (StarC any_char) i = (i, [], []) # ms"
    using spans_append[of any_char i "[]"] assms(2) by auto
  then obtain b where b: "matches ?B (CHR ''.'' # i) = (''.'' @ i, [(2, i)], []) # b"
    by (auto simp: seq_matches_def)
  have "\<exists>rest. filter (\<lambda>(t, r). matches ?B r \<noteq> []) (spans any_char (region @ CHR ''.'' # i))
      = (region, CHR ''.'' # i) # rest"
    using b noB assms(1) by (intro spans_filter_hd) (auto simp: any_char_def)
  moreover have "(\<lambda>x. ?f x \<noteq> []) = (\<lambda>(t, r). matches ?B r \<noteq> [])"
    by (auto simp: fun_eq_iff simp del: matches.simps lit.simps)
  ultimately obtain rest where "filter (\<lambda>x. ?f x \<noteq> []) (spans any_char (region @ CHR ''.'' # i))
      = (region, CHR ''.'' # i) # rest"
    by metis
  from concat_map_hd[OF this] b obtain ms where
    "concat (map ?f (spans any_char (region @ CHR ''.'' # i))) = (region @ ''.'' @ i, [(1, region), (2, i)], []) # ms"
    by auto
  moreover have "matches instanceIDRegex s = concat (map ?f (spans any_char s))" for s
    unfolding instanceIDRegex_def matches.simps(5)[of "Grp 1 _"] seq_matches_def[of "matches (Grp 1 _) _"]
    by (auto simp: comp_def simp del: matches.simps(5) lit.simps
        intro!: arg_cong[of _ _ concat] map_cong)
  ultimately have "matches instanceIDRegex (region @ ''.'' @ i) = (region @ ''.'' @ i, [(1, region), (2, i)], []) # ms"
    by (simp only: append_Cons append_Nil)
  from find_sub_match[OF this] show ?thesis by blast
qed

lemma ParseInstanceID_joined:
  assumes "list_all any_char region" "list_all any_char i" "CHR ''.'' \<notin> set i"
  shows "ParseInstanceID (region @ ''.'' @ i) = Ok i"
  using instanceIDRegex_match[OF assms] by (auto simp: ParseInstanceID_def group_def)

text \<open>
  C39. The provider id the cloud provider writes, region and instance id joined by a dot, is
  parsed back to the instance id. (Regions and ids are single lines; ids have no dot.)
\<close>

theorem provider_id_roundtrip:
  assumes "list_all any_char region" "list_all any_char i" "CHR ''.'' \<notin> set i"
  shows "ParseInstanceID (region @ ''.'' @ i) = Ok i"
  by (rule ParseInstanceID_joined[OF assms])

theorem provider_id_roundtrip_witness:
  "ParseInstanceID (''cn-beijing'' @ ''.'' @ ''i-2ze'') = Ok ''i-2ze''"
  by (rule provider_id_roundtrip) (simp_all add: any_char_def)

lemma ParseISO8601_examples:
  "ParseISO8601 ''1970-01-01T00:01Z'' = Some Minute" "ParseISO8601 ''2023-02-29T00:00Z'' = None"
  by code_simp+

end
