(* ===== verification/VSwitch.thy ===== *)
theory VSwitch
  imports Apis Go_Cache Utils
begin

text \<open>
  The vSwitch provider: \<^verbatim>\<open>src/pkg/providers/vswitch/vswitch.go\<close>. It keeps the
  discovered vSwitches and their free IP counts in caches, picks one vSwitch per zone for a
  launch, and tracks the IPs a launch is expected to use (\<^verbatim>\<open>inflightIPs\<close>) until the
  next refresh. The VPC API is a parameter; a page of its answer is \<open>vs_body\<close>.
\<close>

record vpc_vswitch =
  VSwitchId :: "string option"
  ZoneId :: "string option"
  AvailableIpAddressCount :: "int option"

record vs_body =
  TotalCount :: "int option"
  vbVSwitches :: "vpc_vswitch list option"
  vbRequestId :: "string option"

record vs_request =
  vrTags :: "(string \<times> string option) list"
  vrVSwitchId :: "string option"
  vrPageNumber :: int

record vswitch =
  vwID :: string
  vwZoneID :: string
  AvailableIPAddressCount :: int

record vswitch_provider =
  vsCache :: "vpc_vswitch list go_cache"
  availableIPAddressCache :: "int go_cache"
  inflightIPs :: "(string \<times> int) list"

text \<open>\<open>Ok None\<close> is a nil response or a nil body.\<close>

type_synonym vpc_api = "vs_request \<Rightarrow> vs_body option outcome"

definition NewVSwitchProvider ::
  "vpc_vswitch list go_cache \<Rightarrow> int go_cache \<Rightarrow> vswitch_provider" where
  "NewVSwitchProvider c ipc = \<lparr>vsCache = c, availableIPAddressCache = ipc, inflightIPs = []\<rparr>"

section \<open>Discovery\<close>

text \<open>\<^verbatim>\<open>describeVSwitches\<close>: at most 359 pages of 50; the vSwitches handed to the
  callback before the loop ended, and how it ended.\<close>

fun describe_pages ::
  "vpc_api \<Rightarrow> vs_request \<Rightarrow> nat \<Rightarrow> int \<Rightarrow> vpc_vswitch list \<times> unit outcome" where
  "describe_pages api req 0 page = ([], Ok ())"
| "describe_pages api req (Suc n) page =
     (case api (req\<lparr>vrPageNumber := page\<rparr>) of
        Err e \<Rightarrow> ([], Err e)
      | Panic \<Rightarrow> ([], Panic)
      | Ok None \<Rightarrow> ([], Err (ErrorString ''unexpected null value was returned''))
      | Ok (Some b) \<Rightarrow>
          (case (TotalCount b, vbVSwitches b) of
             (Some tc, Some vs) \<Rightarrow>
               (if tc < page * 50 \<or> length vs < 50 then (vs, Ok ())
                else let (rest, r) = describe_pages api req n (page + 1) in (vs @ rest, r))
           | _ \<Rightarrow> ([], Err (WithRequestID (StringValue (vbRequestId b))
                    (ErrorString ''unexpected null value was returned'')))))"

definition describeVSwitches ::
  "vpc_api \<Rightarrow> (string \<times> string option) list \<Rightarrow> string option \<Rightarrow> vpc_vswitch list \<times> unit outcome" where
  "describeVSwitches api tags i =
     describe_pages api \<lparr>vrTags = tags, vrVSwitchId = i, vrPageNumber = 0\<rparr> 359 1"

text \<open>The request of one selector term; the value \<^verbatim>\<open>*\<close> asks for the tag key only.\<close>

definition term_tags :: "vswitch_selector_term \<Rightarrow> (string \<times> string option) list" where
  "term_tags t = map (\<lambda>(k, v). (k, if v = ''*'' then None else Some v)) (vstTags t)"

definition term_id :: "vswitch_selector_term \<Rightarrow> string option" where
  "term_id t = (if vstID t = [] then None else Some (vstID t))"

text \<open>The callback of \<^verbatim>\<open>List\<close>: remember the vSwitch, refresh its free IP count, forget
  the in-flight IPs counted since the last refresh.\<close>

definition process_vswitch ::
  "int \<Rightarrow> vpc_vswitch \<Rightarrow> (string \<times> vpc_vswitch) list \<times> vswitch_provider \<Rightarrow>
   (string \<times> vpc_vswitch) list \<times> vswitch_provider" where
  "process_vswitch now v st =
     (let i = StringValue (VSwitchId v); p = snd st in
      (AList.update i v (fst st),
       p\<lparr>availableIPAddressCache :=
           cache_set_default now i (IntValue (AvailableIpAddressCount v)) (availableIPAddressCache p),
         inflightIPs := AList.delete i (inflightIPs p)\<rparr>))"

fun list_terms ::
  "int \<Rightarrow> vpc_api \<Rightarrow> vswitch_selector_term list \<Rightarrow>
   (string \<times> vpc_vswitch) list \<times> vswitch_provider \<Rightarrow>
   unit outcome \<times> (string \<times> vpc_vswitch) list \<times> vswitch_provider" where
  "list_terms now api [] st = (Ok (), st)"
| "list_terms now api (t # ts) st =
     (let (vs, r) = describeVSwitches api (term_tags t) (term_id t);
          st' = fold (process_vswitch now) vs st
      in case r of
           Ok _ \<Rightarrow> list_terms now api ts st'
         | Err e \<Rightarrow> (Err (Wrap ''describing vSwitches, '' e), st')
         | Panic \<Rightarrow> (Panic, st'))"

text \<open>\<^verbatim>\<open>List\<close>; \<open>hash\<close> is the printed \<^verbatim>\<open>hashstructure\<close> hash of the
  selector terms.\<close>

definition vswitch_List ::
  "(vswitch_selector_term list \<Rightarrow> string outcome) \<Rightarrow> vpc_api \<Rightarrow> int \<Rightarrow> ecs_nodeclass \<Rightarrow>
   vswitch_provider \<Rightarrow> vpc_vswitch list outcome \<times> vswitch_provider" where
  "vswitch_List hash api now nc p =
     (let terms = VSwitchSelectorTerms (ncSpec nc) in
      if terms = [] then (Ok [], p)
      else case hash terms of
        Err e \<Rightarrow> (Err e, p)
      | Panic \<Rightarrow> (Panic, p)
      | Ok h \<Rightarrow>
          (case cache_get now h (vsCache p) of
             Some vs \<Rightarrow> (Ok vs, p)
           | None \<Rightarrow>
               (case list_terms now api terms ([], p) of
                  (Ok _, vs, p') \<Rightarrow>
                    (Ok (map snd vs), p'\<lparr>vsCache := cache_set_default now h (map snd vs) (vsCache p')\<rparr>)
                | (Err e, vs, p') \<Rightarrow> (Err e, p')
                | (Panic, vs, p') \<Rightarrow> (Panic, p'))))"

section \<open>Launch: one vSwitch per zone\<close>

definition availableIPs :: "int \<Rightarrow> status_vswitch list \<Rightarrow> vswitch_provider \<Rightarrow> string \<Rightarrow> int" where
  "availableIPs now svs p i =
     (if i \<in> svID ` set svs then IntValue (cache_get now i (availableIPAddressCache p)) else 0)"

text \<open>The count that decides: the tracked in-flight value if there is one.\<close>

definition effectiveIPs :: "(string \<Rightarrow> int) \<Rightarrow> (string \<times> int) list \<Rightarrow> string \<Rightarrow> int" where
  "effectiveIPs avail inflight i = (case map_of inflight i of Some ips \<Rightarrow> ips | None \<Rightarrow> avail i)"

definition zonal_step ::
  "(string \<Rightarrow> int) \<Rightarrow> (string \<times> int) list \<Rightarrow> status_vswitch \<Rightarrow> (string \<times> vswitch) list \<Rightarrow>
   (string \<times> vswitch) list" where
  "zonal_step avail inflight sv m =
     (let new = AList.update (svZoneID sv)
            \<lparr>vwID = svID sv, vwZoneID = svZoneID sv, AvailableIPAddressCount = avail (svID sv)\<rparr> m
      in case map_of m (svZoneID sv) of
           None \<Rightarrow> new
         | Some v \<Rightarrow>
             (let current = (case map_of inflight (vwID v) of
                    Some ips \<Rightarrow> ips | None \<Rightarrow> AvailableIPAddressCount v)
              in if effectiveIPs avail inflight (svID sv) \<le> current then m else new))"

definition asInt64 :: "rat \<Rightarrow> int" where
  "asInt64 q = (if q = of_int (floor q) \<and> in_int64 (floor q) then floor q else 0)"

definition minPods :: "instance_type list \<Rightarrow> requirements \<Rightarrow> int" where
  "minPods its reqs =
     (case filter (\<lambda>it. HasCompatible reqs (AvailableOfferings (Offerings it))) its of
        [] \<Rightarrow> 0
      | it # rest \<Rightarrow> asInt64 (PodsOf (min_by (\<lambda>a b. PodsOf a < PodsOf b) it rest)))"

definition launch_reqs :: "string \<Rightarrow> string \<Rightarrow> requirements" where
  "launch_reqs capacityType zone =
     NewRequirements
       [NewRequirement CapacityTypeLabelKey OpIn [capacityType],
        NewRequirement LabelTopologyZone OpIn [zone]]"

definition deduct_step ::
  "instance_type list \<Rightarrow> string \<Rightarrow> string \<times> vswitch \<Rightarrow> (string \<times> int) list \<Rightarrow> (string \<times> int) list" where
  "deduct_step its capacityType zv inflight =
     (let v = snd zv;
          prev = (case map_of inflight (vwID v) of
             Some ips \<Rightarrow> ips | None \<Rightarrow> AvailableIPAddressCount v)
      in AList.update (vwID v) (int64 (prev - minPods its (launch_reqs capacityType (vwZoneID v)))) inflight)"

definition zonal_select :: "int \<Rightarrow> status_vswitch list \<Rightarrow> vswitch_provider \<Rightarrow> (string \<times> vswitch) list" where
  "zonal_select now svs p =
     fold (zonal_step (availableIPs now svs p) (inflightIPs p)) svs []"

definition ZonalVSwitchesForLaunch ::
  "int \<Rightarrow> ecs_nodeclass \<Rightarrow> instance_type list \<Rightarrow> string \<Rightarrow> vswitch_provider \<Rightarrow>
   (string \<times> vswitch) list outcome \<times> vswitch_provider" where
  "ZonalVSwitchesForLaunch now nc its capacityType p =
     (let svs = stVSwitches (ncStatus nc) in
      if svs = [] then (Err (ErrorString ''no vSwitches matched selector''), p)
      else let zonal = zonal_select now svs p
           in (Ok zonal, p\<lparr>inflightIPs := fold (deduct_step its capacityType) zonal (inflightIPs p)\<rparr>))"

section \<open>Giving IPs back\<close>

text \<open>\<^verbatim>\<open>UpdateInflightIPs\<close>: the requested vSwitch ids (one per launch template, nil
  entries allowed), the ids of the vSwitches that got an instance (None: no response).\<close>

definition compact_ids :: "string option option list \<Rightarrow> string list" where
  "compact_ids xs =
     filter (\<lambda>i. i \<noteq> []) (uniq (map (\<lambda>x. case x of None \<Rightarrow> [] | Some y \<Rightarrow> StringValue y) xs))"

definition add_back_step ::
  "instance_type list \<Rightarrow> vswitch list \<Rightarrow> string \<Rightarrow> string list \<Rightarrow> string \<times> int \<Rightarrow>
   (string \<times> int) list \<Rightarrow> (string \<times> int) list" where
  "add_back_step its vSwitches capacityType addBack cached inflight =
     (if fst cached \<notin> set addBack then inflight
      else case find (\<lambda>v. vwID v = fst cached) vSwitches of
          None \<Rightarrow> inflight
        | Some v \<Rightarrow>
            (if AvailableIPAddressCount v = snd cached
             then (case map_of inflight (vwID v) of
                     None \<Rightarrow> inflight
                   | Some ips \<Rightarrow> AList.update (vwID v)
                       (int64 (ips + minPods its (launch_reqs capacityType (vwZoneID v)))) inflight)
             else inflight))"

definition UpdateInflightIPs ::
  "int \<Rightarrow> string option option list \<Rightarrow> string option option list option \<Rightarrow> instance_type list \<Rightarrow>
   vswitch list \<Rightarrow> string \<Rightarrow> vswitch_provider \<Rightarrow> vswitch_provider" where
  "UpdateInflightIPs now requested response its vSwitches capacityType p =
     (let reqIDs = compact_ids requested;
          respIDs = (case response of None \<Rightarrow> [] | Some r \<Rightarrow> compact_ids r);
          addBack = filter (\<lambda>i. i \<notin> set respIDs) reqIDs
      in p\<lparr>inflightIPs :=
            fold (add_back_step its vSwitches capacityType addBack)
              (cache_list now (availableIPAddressCache p)) (inflightIPs p)\<rparr>)"

section \<open>Lemmas\<close>

subsection \<open>The choice per zone\<close>

text \<open>What the loop over the status' vSwitches keeps: every entry is a vSwitch of the part of
  the list already seen, filed under its zone, and no other of that part has more IPs.\<close>

definition zonal_inv ::
  "(string \<Rightarrow> int) \<Rightarrow> (string \<times> int) list \<Rightarrow> status_vswitch list \<Rightarrow> (string \<times> vswitch) list \<Rightarrow> bool" where
  "zonal_inv avail inflight svs m =
     (distinct (map fst m) \<and> fst ` set m = svZoneID ` set svs
      \<and> (\<forall>(z, v) \<in> set m. vwZoneID v = z \<and> AvailableIPAddressCount v = avail (vwID v)
           \<and> (\<exists>sv\<in>set svs. svID sv = vwID v \<and> svZoneID sv = z)
           \<and> (\<forall>sv\<in>set svs. svZoneID sv = z \<longrightarrow>
                effectiveIPs avail inflight (svID sv) \<le> effectiveIPs avail inflight (vwID v))))"

lemma zonal_inv_entry:
  assumes "zonal_inv avail inflight svs m" "(z, v) \<in> set m"
  shows "vwZoneID v = z" "AvailableIPAddressCount v = avail (vwID v)"
    "\<exists>sv\<in>set svs. svID sv = vwID v \<and> svZoneID sv = z"
    "\<And>sv. sv \<in> set svs \<Longrightarrow> svZoneID sv = z \<Longrightarrow>
       effectiveIPs avail inflight (svID sv) \<le> effectiveIPs avail inflight (vwID v)"
  using assms by (auto simp: zonal_inv_def)

lemma zonal_invI:
  assumes "distinct (map fst m)" "fst ` set m = svZoneID ` set svs"
    and "\<And>z v. (z, v) \<in> set m \<Longrightarrow> vwZoneID v = z"
    and "\<And>z v. (z, v) \<in> set m \<Longrightarrow> AvailableIPAddressCount v = avail (vwID v)"
    and "\<And>z v. (z, v) \<in> set m \<Longrightarrow> \<exists>sv\<in>set svs. svID sv = vwID v \<and> svZoneID sv = z"
    and "\<And>z v sv. (z, v) \<in> set m \<Longrightarrow> sv \<in> set svs \<Longrightarrow> svZoneID sv = z \<Longrightarrow>
       effectiveIPs avail inflight (svID sv) \<le> effectiveIPs avail inflight (vwID v)"
  shows "zonal_inv avail inflight svs m"
  using assms by (auto simp: zonal_inv_def)

lemma zonal_inv_unique:
  assumes "zonal_inv avail inflight svs m" "(z, v) \<in> set m" "(z, v') \<in> set m"
  shows "v' = v"
  using assms eq_key_imp_eq_value[of m z v' v] by (simp add: zonal_inv_def)

lemma set_update_distinct:
  "distinct (map fst m) \<Longrightarrow> set (AList.update k x m) = insert (k, x) {e \<in> set m. fst e \<noteq> k}"
  by (induction m) (auto simp: image_iff)

lemma zonal_inv_replace:
  assumes "zonal_inv avail inflight svs m"
    and "\<And>v. (svZoneID sv, v) \<in> set m \<Longrightarrow>
       effectiveIPs avail inflight (vwID v) \<le> effectiveIPs avail inflight (svID sv)"
  shows "zonal_inv avail inflight (svs @ [sv]) (AList.update (svZoneID sv)
       \<lparr>vwID = svID sv, vwZoneID = svZoneID sv, AvailableIPAddressCount = avail (svID sv)\<rparr> m)"
proof -
  have d: "distinct (map fst m)" and zones: "fst ` set m = svZoneID ` set svs"
    using assms(1) by (auto simp: zonal_inv_def)
  have old: "effectiveIPs avail inflight (svID s) \<le> effectiveIPs avail inflight (svID sv)"
    if s: "s \<in> set svs" "svZoneID s = svZoneID sv" for s
  proof -
    obtain v where v: "(svZoneID sv, v) \<in> set m"
      using s zones by (metis (no_types, lifting) image_iff prod.collapse)
    from zonal_inv_entry(4)[OF assms(1) v s] assms(2)[OF v] show ?thesis by simp
  qed
  show ?thesis
  proof (rule zonal_invI)
    show "fst ` set (AList.update (svZoneID sv) \<lparr>vwID = svID sv, vwZoneID = svZoneID sv,
        AvailableIPAddressCount = avail (svID sv)\<rparr> m) = svZoneID ` set (svs @ [sv])"
      using zones by (simp add: dom_update)
  qed (use d in \<open>auto simp: set_update_distinct distinct_update
      dest: zonal_inv_entry[OF assms(1)] intro: old zonal_inv_entry(4)[OF assms(1)]\<close>)
qed

lemma zonal_inv_keep:
  assumes "zonal_inv avail inflight svs m" "(svZoneID sv, v) \<in> set m"
    and "effectiveIPs avail inflight (svID sv) \<le> effectiveIPs avail inflight (vwID v)"
  shows "zonal_inv avail inflight (svs @ [sv]) m"
proof -
  have "svZoneID sv \<in> fst ` set m"
    using image_eqI[OF _ assms(2), of _ fst] by simp
  then have zones: "fst ` set m = svZoneID ` set (svs @ [sv])"
    using assms(1) by (simp add: zonal_inv_def insert_absorb)
  show ?thesis
  proof (rule zonal_invI)
    fix z v' s
    assume "(z, v') \<in> set m" "s \<in> set (svs @ [sv])" "svZoneID s = z"
    then show "effectiveIPs avail inflight (svID s) \<le> effectiveIPs avail inflight (vwID v')"
      using zonal_inv_entry(4)[OF assms(1)] zonal_inv_unique[OF assms(1,2)] assms(3) by auto
  qed (use zones assms(1) zonal_inv_entry[OF assms(1)] in \<open>auto simp: zonal_inv_def\<close>)
qed

lemma zonal_inv_step:
  assumes inv: "zonal_inv avail inflight svs m"
  shows "zonal_inv avail inflight (svs @ [sv]) (zonal_step avail inflight sv m)"
proof (cases "map_of m (svZoneID sv)")
  case None
  then have "(svZoneID sv, v) \<notin> set m" for v
    by (metis map_of_eq_None_iff fst_conv image_eqI)
  then have "zonal_inv avail inflight (svs @ [sv]) (AList.update (svZoneID sv)
       \<lparr>vwID = svID sv, vwZoneID = svZoneID sv, AvailableIPAddressCount = avail (svID sv)\<rparr> m)"
    by (intro zonal_inv_replace[OF inv]) blast
  with None show ?thesis by (simp add: zonal_step_def Let_def)
next
  case (Some v)
  then have v: "(svZoneID sv, v) \<in> set m" by (rule map_of_SomeD)
  have only: "v' = v" if "(svZoneID sv, v') \<in> set m" for v'
    by (rule zonal_inv_unique[OF inv v that])
  have cur: "(case map_of inflight (vwID v) of Some ips \<Rightarrow> ips | None \<Rightarrow> AvailableIPAddressCount v)
      = effectiveIPs avail inflight (vwID v)"
    using zonal_inv_entry(2)[OF inv v] by (simp add: effectiveIPs_def split: option.split)
  show ?thesis
  proof (cases "effectiveIPs avail inflight (svID sv) \<le> effectiveIPs avail inflight (vwID v)")
    case True
    with Some cur show ?thesis
      by (simp add: zonal_step_def Let_def zonal_inv_keep[OF inv v])
  next
    case False
    with only have "effectiveIPs avail inflight (vwID v') \<le> effectiveIPs avail inflight (svID sv)"
      if "(svZoneID sv, v') \<in> set m" for v' using that by fastforce
    with Some cur False show ?thesis
      by (simp add: zonal_step_def Let_def zonal_inv_replace[OF inv])
  qed
qed

lemma zonal_inv_fold:
  "zonal_inv avail inflight svs (fold (zonal_step avail inflight) svs [])"
proof (induction svs rule: rev_induct)
  case Nil
  show ?case by (simp add: zonal_inv_def)
next
  case (snoc sv svs)
  then show ?case using zonal_inv_step by simp
qed

lemma zonal_inv_select:
  "zonal_inv (availableIPs now svs p) (inflightIPs p) svs (zonal_select now svs p)"
  by (simp add: zonal_select_def zonal_inv_fold)

lemma zonal_ids_distinct:
  assumes "distinct (map svID svs)"
  shows "distinct (map (vwID \<circ> snd) (zonal_select now svs p))"
proof -
  note inv = zonal_inv_select[of now svs p]
  have "(z, v) = (z', v')"
    if "(z, v) \<in> set (zonal_select now svs p)" "(z', v') \<in> set (zonal_select now svs p)"
      "vwID v = vwID v'" for z v z' v'
  proof -
    have "z = z'"
      using zonal_inv_entry(3)[OF inv that(1)] zonal_inv_entry(3)[OF inv that(2)] that(3) assms
      by (auto simp: distinct_map inj_on_def)
    with that zonal_inv_unique[OF inv] show ?thesis by blast
  qed
  moreover have "distinct (zonal_select now svs p)"
    using inv by (simp add: zonal_inv_def distinct_map)
  ultimately show ?thesis
    by (auto simp: distinct_map inj_on_def)
qed

subsection \<open>In-flight accounting\<close>

lemma deduct_step_map:
  "map_of (deduct_step its ct (z, v) inflight) =
     (map_of inflight)(vwID v \<mapsto>
        int64 ((case map_of inflight (vwID v) of Some ips \<Rightarrow> ips | None \<Rightarrow> AvailableIPAddressCount v)
          - minPods its (launch_reqs ct (vwZoneID v))))"
  by (simp add: deduct_step_def Let_def update_conv')

lemma deduct_other:
  "i \<notin> (vwID \<circ> snd) ` set zonal \<Longrightarrow>
   map_of (fold (deduct_step its ct) zonal inflight) i = map_of inflight i"
  by (induction zonal arbitrary: inflight) (auto simp: deduct_step_map)

lemma deduct_chosen:
  assumes "distinct (map (vwID \<circ> snd) zonal)" "(z, v) \<in> set zonal"
  shows "map_of (fold (deduct_step its ct) zonal inflight) (vwID v) =
     Some (int64 ((case map_of inflight (vwID v) of Some ips \<Rightarrow> ips | None \<Rightarrow> AvailableIPAddressCount v)
       - minPods its (launch_reqs ct (vwZoneID v))))"
  using assms
proof (induction zonal arbitrary: inflight)
  case Nil
  then show ?case by simp
next
  case (Cons e zonal)
  obtain z' v' where e: "e = (z', v')" by (cases e)
  show ?case
  proof (cases "(z, v) = e")
    case True
    with Cons.prems(1) e have "vwID v \<notin> (vwID \<circ> snd) ` set zonal" by auto
    moreover have "e = (z, v)" using True by simp
    ultimately show ?thesis by (simp add: deduct_other deduct_step_map)
  next
    case False
    with Cons.prems(2) have mem: "(z, v) \<in> set zonal" by simp
    with Cons.prems(1) e have "vwID v \<noteq> vwID v'" by force
    with Cons mem e show ?thesis by (simp add: deduct_step_map)
  qed
qed

lemma ZonalVSwitchesForLaunch_Ok:
  "ZonalVSwitchesForLaunch now nc its ct p = (Ok zonal, p') \<longleftrightarrow>
     stVSwitches (ncStatus nc) \<noteq> [] \<and> zonal = zonal_select now (stVSwitches (ncStatus nc)) p
     \<and> p' = p\<lparr>inflightIPs := fold (deduct_step its ct) zonal (inflightIPs p)\<rparr>"
  by (auto simp: ZonalVSwitchesForLaunch_def Let_def)

lemma add_back_other:
  "i \<notin> fst ` set cached \<or> i \<notin> set addBack \<Longrightarrow>
   map_of (fold (add_back_step its vs ct addBack) cached inflight) i = map_of inflight i"
  by (induction cached arbitrary: inflight)
    (auto simp: add_back_step_def update_conv' dest!: find_Some_iff_mem split: option.splits)

lemma add_back_step_hit:
  "vwID v \<in> set addBack \<Longrightarrow> find (\<lambda>w. vwID w = vwID v) vs = Some v \<Longrightarrow>
   map_of (add_back_step its vs ct addBack (vwID v, AvailableIPAddressCount v) inflight) (vwID v) =
     map_option (\<lambda>ips. int64 (ips + minPods its (launch_reqs ct (vwZoneID v)))) (map_of inflight (vwID v))"
  by (auto simp: add_back_step_def update_conv' split: option.splits)

lemma add_back_hit:
  assumes "distinct (map fst cached)" "(vwID v, AvailableIPAddressCount v) \<in> set cached"
    "vwID v \<in> set addBack" "find (\<lambda>w. vwID w = vwID v) vs = Some v"
  shows "map_of (fold (add_back_step its vs ct addBack) cached inflight) (vwID v) =
     map_option (\<lambda>ips. int64 (ips + minPods its (launch_reqs ct (vwZoneID v)))) (map_of inflight (vwID v))"
  using assms(1,2)
proof (induction cached arbitrary: inflight)
  case Nil
  then show ?case by simp
next
  case (Cons c cached)
  obtain i n where c: "c = (i, n)" by (cases c)
  show ?case
  proof (cases "i = vwID v")
    case True
    with Cons.prems c have "n = AvailableIPAddressCount v" "vwID v \<notin> fst ` set cached"
      by (auto simp: image_iff)
    with True c assms(3,4) show ?thesis
      using add_back_step_hit[of v addBack vs] by (simp add: add_back_other)
  next
    case False
    with Cons.prems c have "(vwID v, AvailableIPAddressCount v) \<in> set cached" "distinct (map fst cached)"
      by auto
    moreover have "map_of (add_back_step its vs ct addBack c inflight) (vwID v) = map_of inflight (vwID v)"
      using False c
      by (auto simp: add_back_step_def update_conv' dest!: find_Some_iff_mem split: option.splits)
    ultimately show ?thesis using Cons.IH by simp
  qed
qed

subsection \<open>Discovery\<close>

lemma describe_pages_paged:
  assumes "\<And>k. api (req\<lparr>vrPageNumber := int k + 1\<rparr>) =
      Ok (Some \<lparr>TotalCount = Some (int (length xs)), vbVSwitches = Some (page_of 50 xs k),
        vbRequestId = rid\<rparr>)"
  shows "describe_pages api req n (int k + 1) = (take (n * 50) (drop (k * 50) xs), Ok ())"
proof (induction n arbitrary: k)
  case 0
  then show ?case by simp
next
  case (Suc n)
  show ?case
  proof (cases "int (length xs) < (int k + 1) * 50 \<or> length (page_of 50 xs k) < 50")
    case True
    then have "page_of 50 xs k = drop (k * 50) xs"
      by (auto intro: page_of_short page_of_last)
    moreover from this True have "length (drop (k * 50) xs) \<le> 50" by auto
    ultimately show ?thesis using True by (simp add: assms)
  next
    case False
    have "describe_pages api req n (int k + 1 + 1) = (take (n * 50) (drop (Suc k * 50) xs), Ok ())"
      using Suc[of "Suc k"] by (simp add: add.commute)
    with False show ?thesis
      using page_of_append_rest[of 50 xs k "n * 50"] by (simp add: assms)
  qed
qed

text \<open>What discovery keeps while it collects vSwitches: for each of them the free IP count
  just read is what the cache answers with, and nothing is in flight.\<close>

definition counts_fresh :: "int \<Rightarrow> int \<Rightarrow> vswitch_provider \<Rightarrow> string \<Rightarrow> vpc_vswitch \<Rightarrow> bool" where
  "counts_fresh now ttl p i v =
     (i = StringValue (VSwitchId v) \<and> map_of (inflightIPs p) i = None
      \<and> (\<forall>t. t \<le> now + ttl \<longrightarrow> cache_get t i (availableIPAddressCache p) =
           Some (IntValue (AvailableIpAddressCount v))))"

definition refreshed :: "int \<Rightarrow> int \<Rightarrow> (string \<times> vpc_vswitch) list \<times> vswitch_provider \<Rightarrow> bool" where
  "refreshed now ttl st =
     (defaultExpiration (availableIPAddressCache (snd st)) = ttl \<and> distinct (map fst (fst st))
      \<and> (\<forall>(i, v) \<in> set (fst st). counts_fresh now ttl (snd st) i v))"

lemma counts_fresh_process_same:
  "0 \<le> now \<Longrightarrow> 0 < ttl \<Longrightarrow> defaultExpiration (availableIPAddressCache (snd st)) = ttl \<Longrightarrow>
   counts_fresh now ttl (snd (process_vswitch now v st)) (StringValue (VSwitchId v)) v"
  by (simp add: counts_fresh_def process_vswitch_def Let_def cache_get_set_default delete_conv')

lemma counts_fresh_process_other:
  assumes "i \<noteq> StringValue (VSwitchId v)"
  shows "counts_fresh now ttl (snd (process_vswitch now v st)) i w = counts_fresh now ttl (snd st) i w"
  unfolding counts_fresh_def using assms
  by (simp add: process_vswitch_def Let_def cache_set_default_def delete_conv' del: cache_get_set_default)

lemma refreshed_process:
  assumes "refreshed now ttl st" "0 \<le> now" "0 < ttl"
  shows "refreshed now ttl (process_vswitch now v st)"
proof -
  have d: "distinct (map fst (fst st))" "defaultExpiration (availableIPAddressCache (snd st)) = ttl"
    using assms(1) by (auto simp: refreshed_def)
  have fst_eq: "fst (process_vswitch now v st) = AList.update (StringValue (VSwitchId v)) v (fst st)"
    and ttl_eq: "defaultExpiration (availableIPAddressCache (snd (process_vswitch now v st))) = ttl"
    using d by (simp_all add: process_vswitch_def Let_def)
  have "counts_fresh now ttl (snd (process_vswitch now v st)) i w"
    if "(i, w) \<in> set (fst (process_vswitch now v st))" for i w
  proof (cases "i = StringValue (VSwitchId v)")
    case True
    with that d assms(2,3) show ?thesis
      by (simp add: fst_eq set_update_distinct counts_fresh_process_same)
  next
    case False
    with that d assms(1) show ?thesis
      by (simp add: fst_eq set_update_distinct counts_fresh_process_other refreshed_def) blast
  qed
  then show ?thesis
    using ttl_eq fst_eq d by (auto simp: refreshed_def distinct_update)
qed

lemma refreshed_fold:
  assumes "0 \<le> now" "0 < ttl"
  shows "refreshed now ttl st \<Longrightarrow> refreshed now ttl (fold (process_vswitch now) vs st)"
  by (induction vs arbitrary: st) (simp_all add: refreshed_process assms)

lemma refreshed_list_terms:
  assumes "0 \<le> now" "0 < ttl"
  shows "refreshed now ttl st \<Longrightarrow> refreshed now ttl (snd (list_terms now api ts st))"
proof (induction ts arbitrary: st)
  case Nil
  then show ?case by simp
next
  case (Cons t ts)
  obtain vs r where d: "describeVSwitches api (term_tags t) (term_id t) = (vs, r)" by fastforce
  have "refreshed now ttl (fold (process_vswitch now) vs st)"
    using Cons.prems by (rule refreshed_fold[OF assms])
  with Cons.IH[OF this] show ?case by (cases r) (simp_all add: d Let_def)
qed

lemma vswitch_List_miss:
  assumes "VSwitchSelectorTerms (ncSpec nc) \<noteq> []"
    and "hash (VSwitchSelectorTerms (ncSpec nc)) = Ok h" "cache_get now h (vsCache p) = None"
    and "vswitch_List hash api now nc p = (Ok vs, p')"
  obtains m q where "list_terms now api (VSwitchSelectorTerms (ncSpec nc)) ([], p) = (Ok (), m, q)"
    "vs = map snd m" "p' = q\<lparr>vsCache := cache_set_default now h vs (vsCache q)\<rparr>"
proof -
  obtain r m q where l: "list_terms now api (VSwitchSelectorTerms (ncSpec nc)) ([], p) = (r, m, q)"
    by (metis prod.exhaust)
  with assms have "r = Ok ()" "vs = map snd m"
      "p' = q\<lparr>vsCache := cache_set_default now h (map snd m) (vsCache q)\<rparr>"
    by (cases r; auto simp: vswitch_List_def Let_def)+
  with l show thesis by (auto intro: that)
qed

lemma list_terms_vsCache:
  "vsCache (snd (snd (list_terms now api ts st))) = vsCache (snd st)"
proof (induction ts arbitrary: st)
  case (Cons t ts)
  have "vsCache (snd (fold (process_vswitch now) vs st)) = vsCache (snd st)" for vs
    by (induction vs arbitrary: st) (simp_all add: process_vswitch_def Let_def)
  moreover obtain vs r where d: "describeVSwitches api (term_tags t) (term_id t) = (vs, r)" by fastforce
  ultimately show ?case using Cons by (cases r) (simp_all add: d Let_def)
qed simp

section \<open>Properties\<close>

text \<open>
  C29. For a launch the provider answers with exactly the zones of the node class' vSwitches,
  and for each zone with one of its vSwitches in that zone that has the most free IPs, counting
  the in-flight value of a vSwitch where one is tracked.
\<close>

theorem zonal_choice_has_most_ips:
  assumes "ZonalVSwitchesForLaunch now nc its ct p = (Ok zonal, p')"
    and "svs = stVSwitches (ncStatus nc)"
    and "ips = effectiveIPs (availableIPs now svs p) (inflightIPs p)"
  shows "fst ` set zonal = svZoneID ` set svs
    \<and> (\<forall>z v. map_of zonal z = Some v \<longrightarrow>
         vwZoneID v = z \<and> (\<exists>sv\<in>set svs. svID sv = vwID v \<and> svZoneID sv = z)
         \<and> (\<forall>sv\<in>set svs. svZoneID sv = z \<longrightarrow> ips (svID sv) \<le> ips (vwID v)))"
proof -
  have zonal: "zonal = zonal_select now svs p"
    using assms by (simp add: ZonalVSwitchesForLaunch_Ok)
  note inv = zonal_inv_select[of now svs p, folded zonal]
  have "fst ` set zonal = svZoneID ` set svs" using inv by (simp add: zonal_inv_def)
  moreover have "vwZoneID v = z \<and> (\<exists>sv\<in>set svs. svID sv = vwID v \<and> svZoneID sv = z)
       \<and> (\<forall>sv\<in>set svs. svZoneID sv = z \<longrightarrow> ips (svID sv) \<le> ips (vwID v))"
    if "map_of zonal z = Some v" for z v
    using zonal_inv_entry[OF inv map_of_SomeD[OF that]] assms(3) by blast
  ultimately show ?thesis by blast
qed

text \<open>A provider that has read two vSwitches of zone \<open>b\<close>, ten IPs free in the first and
  twenty in the second, fifteen of these in flight.\<close>

definition sample_vswitches :: ecs_nodeclass where
  "sample_vswitches = zero_nodeclass\<lparr>ncStatus := (ncStatus zero_nodeclass)\<lparr>stVSwitches :=
     [\<lparr>svID = ''vsw-1'', svZoneID = ''b''\<rparr>, \<lparr>svID = ''vsw-2'', svZoneID = ''b''\<rparr>]\<rparr>\<rparr>"

definition sample_provider :: vswitch_provider where
  "sample_provider = \<lparr>vsCache = cache_new 60,
     availableIPAddressCache = cache_set_default 0 ''vsw-2'' 20
       (cache_set_default 0 ''vsw-1'' 10 (cache_new 60)),
     inflightIPs = [(''vsw-2'', 5)]\<rparr>"

lemma sample_zonal:
  "zonal_select 1 (stVSwitches (ncStatus sample_vswitches)) sample_provider =
     [(''b'', \<lparr>vwID = ''vsw-1'', vwZoneID = ''b'', AvailableIPAddressCount = 10\<rparr>)]"
  by code_simp

theorem zonal_choice_has_most_ips_witness:
  "\<exists>zonal. fst (ZonalVSwitchesForLaunch 1 sample_vswitches [] ''spot'' sample_provider) = Ok zonal
     \<and> fst ` set zonal = {''b''}"
proof -
  let ?z = "[(''b'', \<lparr>vwID = ''vsw-1'', vwZoneID = ''b'', AvailableIPAddressCount = 10\<rparr>)]"
  let ?r = "ZonalVSwitchesForLaunch 1 sample_vswitches [] ''spot'' sample_provider"
  have r: "?r = (Ok ?z, snd ?r)"
    using sample_zonal by (simp add: ZonalVSwitchesForLaunch_def Let_def sample_vswitches_def)
  from zonal_choice_has_most_ips[OF r refl refl] have "fst ` set ?z = {''b''}"
    by (simp add: sample_vswitches_def)
  with r show ?thesis by (metis fst_conv)
qed

text \<open>The prediction is the least pod capacity of the types that an available offering lets start.\<close>

lemma minPods_least:
  fixes reqs :: requirements
  assumes "\<forall>it\<in>set its. \<exists>n. PodsOf it = of_int n \<and> in_int64 n"
  defines "fit \<equiv> {it \<in> set its. \<exists>off\<in>set (Offerings it). ofAvailable off \<and> IsCompatible reqs (ofRequirements off)}"
  shows "if fit = {} then minPods its reqs = 0
    else (\<exists>it\<in>fit. PodsOf it = of_int (minPods its reqs)) \<and> (\<forall>it\<in>fit. of_int (minPods its reqs) \<le> PodsOf it)"
proof -
  have fit: "fit = set (filter (\<lambda>it. HasCompatible reqs (AvailableOfferings (Offerings it))) its)"
    by (auto simp: fit_def HasCompatible_iff)
  show ?thesis
  proof (cases "filter (\<lambda>it. HasCompatible reqs (AvailableOfferings (Offerings it))) its")
    case (Cons it rest)
    define m where "m = min_by (\<lambda>a b. PodsOf a < PodsOf b) it rest"
    have m: "m \<in> fit" "\<forall>x\<in>fit. PodsOf m \<le> PodsOf x"
      using min_by_mem[of _ it rest] min_by_key_le[of _ it rest PodsOf] unfolding fit Cons m_def by auto
    from m(1) assms(1) obtain n where n: "PodsOf m = of_int n" "in_int64 n" by (auto simp: fit)
    then have "minPods its reqs = n" using Cons by (simp add: minPods_def m_def asInt64_def)
    with m n(1) show ?thesis by force
  qed (simp add: fit minPods_def)
qed

text \<open>
  C30. A launch takes off the effective count of the vSwitch chosen in each zone the least pod
  capacity of the instance types that an available offering of the capacity type lets start in
  the zone, nothing when there is no such type, in 64-bit arithmetic; it leaves the tracked count
  of every other vSwitch alone. (Distinct ids: the status lists a vSwitch once. Pod capacities are
  whole numbers of 64 bits.)
\<close>

theorem launch_deducts_predicted_ips:
  assumes "ZonalVSwitchesForLaunch now nc its ct p = (Ok zonal, p')"
    and "distinct (map svID (stVSwitches (ncStatus nc)))"
    and "\<forall>it\<in>set its. \<exists>n. PodsOf it = of_int n \<and> in_int64 n"
  shows "(\<forall>(z, v)\<in>set zonal.
       let fit = {it \<in> set its. \<exists>off\<in>set (Offerings it). ofAvailable off
             \<and> IsCompatible (launch_reqs ct (vwZoneID v)) (ofRequirements off)}
       in \<exists>used. map_of (inflightIPs p') (vwID v) = Some (int64
            (effectiveIPs (availableIPs now (stVSwitches (ncStatus nc)) p) (inflightIPs p) (vwID v) - used))
          \<and> (if fit = {} then used = 0
             else (\<exists>it\<in>fit. PodsOf it = of_int used) \<and> (\<forall>it\<in>fit. of_int used \<le> PodsOf it)))
    \<and> (\<forall>i. i \<notin> (vwID \<circ> snd) ` set zonal \<longrightarrow> map_of (inflightIPs p') i = map_of (inflightIPs p) i)"
proof -
  have z: "zonal = zonal_select now (stVSwitches (ncStatus nc)) p"
    and p': "inflightIPs p' = fold (deduct_step its ct) zonal (inflightIPs p)"
    using assms(1) by (auto simp: ZonalVSwitchesForLaunch_Ok)
  have d: "distinct (map (vwID \<circ> snd) zonal)" using zonal_ids_distinct[OF assms(2)] z by simp
  have "map_of (inflightIPs p') (vwID v) = Some (int64
      (effectiveIPs (availableIPs now (stVSwitches (ncStatus nc)) p) (inflightIPs p) (vwID v)
       - minPods its (launch_reqs ct (vwZoneID v))))" if mem: "(zone, v) \<in> set zonal" for zone v
  proof -
    have "AvailableIPAddressCount v = availableIPs now (stVSwitches (ncStatus nc)) p (vwID v)"
      using zonal_inv_entry(2)[OF zonal_inv_select mem[unfolded z]] .
    with deduct_chosen[OF d mem, of its ct "inflightIPs p"] show ?thesis
      by (simp add: p' effectiveIPs_def split: option.split)
  qed
  with minPods_least[OF assms(3)] show ?thesis
    unfolding Let_def by (fastforce simp: p' deduct_other)
qed

definition sample_zonal_type :: "string \<Rightarrow> rat \<Rightarrow> instance_type" where
  "sample_zonal_type n k = \<lparr>itName = n, itRequirements = [],
     Offerings = [\<lparr>ofRequirements = launch_reqs ''spot'' ''b'', Price = 1, ofAvailable = True\<rparr>],
     itCapacity = [(ResourcePods, k)], Overhead = \<lparr>KubeReserved = [], SystemReserved = [], EvictionThreshold = []\<rparr>\<rparr>"

theorem launch_deducts_predicted_ips_witness:
  "map_of (inflightIPs (snd (ZonalVSwitchesForLaunch 1 sample_vswitches
      [sample_zonal_type ''t1'' 7, sample_zonal_type ''t2'' 4] ''spot'' sample_provider))) ''vsw-1'' = Some 6"
proof -
  let ?its = "[sample_zonal_type ''t1'' 7, sample_zonal_type ''t2'' 4]"
  let ?v = "\<lparr>vwID = ''vsw-1'', vwZoneID = ''b'', AvailableIPAddressCount = 10\<rparr> :: vswitch"
  let ?r = "ZonalVSwitchesForLaunch 1 sample_vswitches ?its ''spot'' sample_provider"
  let ?fit = "{it \<in> set ?its. \<exists>off\<in>set (Offerings it). ofAvailable off
     \<and> IsCompatible (launch_reqs ''spot'' ''b'') (ofRequirements off)}"
  have r: "?r = (Ok [(''b'', ?v)], snd ?r)"
    using sample_zonal by (simp add: ZonalVSwitchesForLaunch_def Let_def sample_vswitches_def)
  have ids: "distinct (map svID (stVSwitches (ncStatus sample_vswitches)))"
    by (simp add: sample_vswitches_def)
  have pods: "PodsOf (sample_zonal_type n k) = k" for n k
    by (simp add: PodsOf_def quantity_def sample_zonal_type_def)
  have "\<exists>n. PodsOf it = of_int n \<and> in_int64 n" if "it \<in> set ?its" for it
    using that by (auto simp: pods in_int64_def intro: exI[of _ 7] exI[of _ 4])
  then have ints: "\<forall>it\<in>set ?its. \<exists>n. PodsOf it = of_int n \<and> in_int64 n" by blast
  have "IsCompatible (launch_reqs ''spot'' ''b'') (launch_reqs ''spot'' ''b'')" by code_simp
  then have fit: "?fit = set ?its" by (auto simp: sample_zonal_type_def)
  have eff: "effectiveIPs (availableIPs 1 (stVSwitches (ncStatus sample_vswitches)) sample_provider)
      (inflightIPs sample_provider) ''vsw-1'' = 10" by code_simp
  have "\<exists>used. map_of (inflightIPs (snd ?r)) ''vsw-1'' = Some (int64 (10 - used))
      \<and> (if ?fit = {} then used = 0
         else (\<exists>it\<in>?fit. PodsOf it = of_int used) \<and> (\<forall>it\<in>?fit. of_int used \<le> PodsOf it))"
    using conjunct1[OF launch_deducts_predicted_ips[OF r ids ints], THEN bspec, of "(''b'', ?v)"] eff
    unfolding Let_def by (simp only: list.set insertI1 prod.case vswitch.simps HOL.simp_thms)
  then show ?thesis unfolding fit by (auto simp: pods)
qed

lemma compact_ids_mem: "i \<in> set (compact_ids xs) \<longleftrightarrow> i \<noteq> [] \<and> Some (Some i) \<in> set xs"
proof -
  define f :: "string option option \<Rightarrow> string" where
    "f x = (case x of None \<Rightarrow> [] | Some y \<Rightarrow> StringValue y)" for x
  have "f x = i \<longleftrightarrow> x = Some (Some i)" if "i \<noteq> []" for x
    using that by (cases x) (auto simp: f_def StringValue_def split: option.splits)
  then have "i \<in> f ` set xs \<longleftrightarrow> Some (Some i) \<in> set xs" if "i \<noteq> []"
    using that by (metis image_iff)
  then show ?thesis by (auto simp: compact_ids_def f_def[symmetric])
qed

lemma find_unique:
  "x \<in> set xs \<Longrightarrow> distinct (map f xs) \<Longrightarrow> find (\<lambda>y. f y = f x) xs = Some x"
  by (induction xs) (auto simp: image_iff)

lemma int64_sub_add: "int64 (int64 (a - b) + b) = int64 a"
proof -
  have "(a - b + 2 ^ 63) mod 2 ^ 64 - 2 ^ 63 + b + 2 ^ 63 = (a - b + 2 ^ 63) mod 2 ^ 64 + b" by simp
  moreover have "((a - b + 2 ^ 63) mod 2 ^ 64 + b) mod 2 ^ 64 = (a - b + 2 ^ 63 + b) mod (2 ^ 64 :: int)"
    by (rule mod_add_left_eq)
  ultimately show ?thesis by (simp add: int64_def)
qed

text \<open>
  Giving IPs back undoes the launch for the vSwitches that got no instance: for a requested
  vSwitch outside the response whose cached count is still the one of the launch, the tracked
  count is again the effective count from before the launch.
\<close>

theorem unused_ips_are_given_back:
  assumes "ZonalVSwitchesForLaunch now nc its ct p = (Ok zonal, p')"
    and "distinct (map svID (stVSwitches (ncStatus nc)))" and "(z, v) \<in> set zonal"
    and "Some (Some (vwID v)) \<in> set requested" and "vwID v \<noteq> []"
    and "Some (Some (vwID v)) \<notin> set response"
    and "cache_wf (availableIPAddressCache p)"
    and "cache_get later (vwID v) (availableIPAddressCache p) = Some (AvailableIPAddressCount v)"
  shows "map_of (inflightIPs
      (UpdateInflightIPs later requested (Some response) its (map snd zonal) ct p')) (vwID v) =
    Some (int64 (effectiveIPs (availableIPs now (stVSwitches (ncStatus nc)) p) (inflightIPs p) (vwID v)))"
proof -
  have zs: "zonal = zonal_select now (stVSwitches (ncStatus nc)) p"
    and p': "p' = p\<lparr>inflightIPs := fold (deduct_step its ct) zonal (inflightIPs p)\<rparr>"
    using assms(1) by (auto simp: ZonalVSwitchesForLaunch_Ok)
  have d: "distinct (map (vwID \<circ> snd) zonal)" using zonal_ids_distinct[OF assms(2)] zs by simp
  have v: "find (\<lambda>w. vwID w = vwID v) (map snd zonal) = Some v"
    using find_unique[of v "map snd zonal" vwID] assms(3) d by force
  have count: "AvailableIPAddressCount v = availableIPs now (stVSwitches (ncStatus nc)) p (vwID v)"
    using zonal_inv_entry(2)[OF zonal_inv_select assms(3)[unfolded zs]] .
  have add: "vwID v \<in> set (filter (\<lambda>i. i \<notin> set (compact_ids response)) (compact_ids requested))"
    using assms(4-6) by (simp add: compact_ids_mem)
  have mem: "(vwID v, AvailableIPAddressCount v) \<in> set (cache_list later (availableIPAddressCache p))"
    using assms(8) map_of_cache_list[OF assms(7)] by (metis map_of_SomeD)
  have "distinct (map fst (cache_list later (availableIPAddressCache p)))"
    using assms(7) by (simp add: cache_list_def cache_wf_def comp_def case_prod_beta distinct_map_fst_filter)
  from add_back_hit[OF this mem add v] show ?thesis
    using deduct_chosen[OF d assms(3), of its ct "inflightIPs p"]
    by (simp add: UpdateInflightIPs_def Let_def p' effectiveIPs_def count int64_sub_add split: option.split)
qed

theorem unused_ips_are_given_back_witness:
  "map_of (inflightIPs (UpdateInflightIPs 2 [Some (Some ''vsw-1'')] (Some [None]) []
      [\<lparr>vwID = ''vsw-1'', vwZoneID = ''b'', AvailableIPAddressCount = 10\<rparr>] ''spot''
      (snd (ZonalVSwitchesForLaunch 1 sample_vswitches [] ''spot'' sample_provider)))) ''vsw-1'' = Some 10"
proof -
  let ?v = "\<lparr>vwID = ''vsw-1'', vwZoneID = ''b'', AvailableIPAddressCount = 10\<rparr> :: vswitch"
  let ?r = "ZonalVSwitchesForLaunch 1 sample_vswitches [] ''spot'' sample_provider"
  have r: "?r = (Ok [(''b'', ?v)], snd ?r)"
    using sample_zonal by (simp add: ZonalVSwitchesForLaunch_def Let_def sample_vswitches_def)
  have ids: "distinct (map svID (stVSwitches (ncStatus sample_vswitches)))"
    by (simp add: sample_vswitches_def)
  have eff: "effectiveIPs (availableIPs 1 (stVSwitches (ncStatus sample_vswitches)) sample_provider)
      (inflightIPs sample_provider) ''vsw-1'' = 10"
    and wf: "cache_wf (availableIPAddressCache sample_provider)"
    and get: "cache_get 2 ''vsw-1'' (availableIPAddressCache sample_provider) = Some 10"
    by code_simp+
  from unused_ips_are_given_back[OF r ids, of "''b''" ?v "[Some (Some ''vsw-1'')]" "[None]" 2] eff wf get
  show ?thesis by simp
qed

text \<open>
  C31. When the API serves the vSwitches that match a request in pages of 50, discovery hands
  every one of them to the callback, in order and once, up to the 359 pages it reads.
\<close>

theorem describe_reads_all_pages:
  assumes "\<forall>k. api \<lparr>vrTags = tags, vrVSwitchId = i, vrPageNumber = int k + 1\<rparr> =
      Ok (Some \<lparr>TotalCount = Some (int (length xs)), vbVSwitches = Some (page_of 50 xs k),
        vbRequestId = rid\<rparr>)"
  shows "describeVSwitches api tags i = (take 17950 xs, Ok ())"
  using describe_pages_paged[of api "\<lparr>vrTags = tags, vrVSwitchId = i, vrPageNumber = 0\<rparr>" xs rid 359 0] assms
  by (simp add: describeVSwitches_def)

definition paged_api :: "vpc_vswitch list \<Rightarrow> vpc_api" where
  "paged_api xs req = Ok (Some \<lparr>TotalCount = Some (int (length xs)),
     vbVSwitches = Some (page_of 50 xs (nat (vrPageNumber req - 1))), vbRequestId = None\<rparr>)"

theorem describe_reads_all_pages_witness:
  "describeVSwitches (paged_api (replicate 60 \<lparr>VSwitchId = None, ZoneId = None, AvailableIpAddressCount = None\<rparr>))
     [] None = (replicate 60 \<lparr>VSwitchId = None, ZoneId = None, AvailableIpAddressCount = None\<rparr>, Ok ())"
proof -
  let ?v = "\<lparr>VSwitchId = None, ZoneId = None, AvailableIpAddressCount = None\<rparr> :: vpc_vswitch"
  have "describeVSwitches (paged_api (replicate 60 ?v)) [] None = (take 17950 (replicate 60 ?v), Ok ())"
    by (rule describe_reads_all_pages[where rid = None]) (simp add: paged_api_def)
  then show ?thesis by (simp only: take_replicate) simp
qed

text \<open>
  A discovery that reaches the API answers with vSwitches whose free IP count is the one
  just read until the count cache expires, with nothing in flight; it is then answered from
  the cache, without another request and without touching the provider, until the list expires.
\<close>

theorem discovery_refreshes_counts:
  assumes "VSwitchSelectorTerms (ncSpec nc) \<noteq> []"
    and "hash (VSwitchSelectorTerms (ncSpec nc)) = Ok h" and "cache_get now h (vsCache p) = None"
    and "vswitch_List hash api now nc p = (Ok vs, p')"
    and "0 \<le> now" and "0 < defaultExpiration (vsCache p)"
    and "0 < defaultExpiration (availableIPAddressCache p)"
  shows "(\<forall>v\<in>set vs. map_of (inflightIPs p') (StringValue (VSwitchId v)) = None
       \<and> (\<forall>t. t \<le> now + defaultExpiration (availableIPAddressCache p) \<longrightarrow>
           cache_get t (StringValue (VSwitchId v)) (availableIPAddressCache p') =
             Some (IntValue (AvailableIpAddressCount v))))
    \<and> (\<forall>api' t. t \<le> now + defaultExpiration (vsCache p) \<longrightarrow>
         vswitch_List hash api' t nc p' = (Ok vs, p'))"
proof -
  obtain m q where l: "list_terms now api (VSwitchSelectorTerms (ncSpec nc)) ([], p) = (Ok (), m, q)"
    and vs: "vs = map snd m" and p': "p' = q\<lparr>vsCache := cache_set_default now h vs (vsCache q)\<rparr>"
    using vswitch_List_miss[OF assms(1-4)] by blast
  have "refreshed now (defaultExpiration (availableIPAddressCache p)) ([], p)"
    by (simp add: refreshed_def)
  from refreshed_list_terms[OF assms(5,7) this, of api "VSwitchSelectorTerms (ncSpec nc)"]
  have fresh: "refreshed now (defaultExpiration (availableIPAddressCache p)) (m, q)" using l by simp
  have c: "vsCache q = vsCache p"
    using list_terms_vsCache[of now api "VSwitchSelectorTerms (ncSpec nc)" "([], p)"] l by simp
  have "counts_fresh now (defaultExpiration (availableIPAddressCache p)) p' (StringValue (VSwitchId v)) v"
    if "v \<in> set vs" for v
    using that fresh by (auto simp: vs p' refreshed_def counts_fresh_def)
  moreover have "cache_get t h (vsCache p') = Some vs" if "t \<le> now + defaultExpiration (vsCache p)" for t
    using that assms(5,6) by (simp add: p' c cache_get_set_default)
  ultimately show ?thesis
    using assms(1,2) by (simp add: counts_fresh_def vswitch_List_def Let_def)
qed

theorem discovery_refreshes_counts_witness:
  "fst (vswitch_List (\<lambda>_. Ok ''7'') (\<lambda>_. Err (ErrorString ''throttled'')) 3
     (zero_nodeclass\<lparr>ncSpec := (ncSpec zero_nodeclass)\<lparr>VSwitchSelectorTerms :=
        [\<lparr>vstTags = [], vstID = ''vsw-1''\<rparr>]\<rparr>\<rparr>)
     (snd (vswitch_List (\<lambda>_. Ok ''7'')
        (paged_api [\<lparr>VSwitchId = Some ''vsw-1'', ZoneId = Some ''b'', AvailableIpAddressCount = Some 7\<rparr>]) 1
        (zero_nodeclass\<lparr>ncSpec := (ncSpec zero_nodeclass)\<lparr>VSwitchSelectorTerms :=
           [\<lparr>vstTags = [], vstID = ''vsw-1''\<rparr>]\<rparr>\<rparr>)
        (NewVSwitchProvider (cache_new 60) (cache_new 60))))) =
   Ok [\<lparr>VSwitchId = Some ''vsw-1'', ZoneId = Some ''b'', AvailableIpAddressCount = Some 7\<rparr>]"
proof -
  let ?hash = "\<lambda>_ :: vswitch_selector_term list. Ok ''7''"
  let ?nc = "zero_nodeclass\<lparr>ncSpec := (ncSpec zero_nodeclass)\<lparr>VSwitchSelectorTerms :=
     [\<lparr>vstTags = [], vstID = ''vsw-1''\<rparr>]\<rparr>\<rparr>"
  let ?v = "\<lparr>VSwitchId = Some ''vsw-1'', ZoneId = Some ''b'', AvailableIpAddressCount = Some 7\<rparr> :: vpc_vswitch"
  let ?p = "NewVSwitchProvider (cache_new 60) (cache_new 60)"
  let ?r = "vswitch_List ?hash (paged_api [?v]) 1 ?nc ?p"
  have "fst ?r = Ok [?v]" by code_simp
  then have r: "?r = (Ok [?v], snd ?r)" by (metis prod.collapse)
  have "VSwitchSelectorTerms (ncSpec ?nc) \<noteq> []" "cache_get 1 ''7'' (vsCache ?p) = None"
    "defaultExpiration (vsCache ?p) = 60" "defaultExpiration (availableIPAddressCache ?p) = 60"
    by (simp_all add: NewVSwitchProvider_def cache_new_def cache_get_def)
  from discovery_refreshes_counts[OF this(1) refl this(2) r] this(3,4) show ?thesis by simp
qed

end
