(* ===== verification/Security_Group.thy ===== *)
theory Security_Group
  imports Apis Go_Cache Utils
begin

text \<open>
  The security group provider: \<^verbatim>\<open>src/pkg/providers/securitygroup/securitygroup.go\<close>.
  Selector terms become requests (\<open>getFilterSets\<close>), the requests are answered page by page,
  and the result is cached under the hash of the requests. The ECS API is a parameter; the
  change monitor only decides what is logged and is left out.
\<close>

record ecs_security_group =
  SecurityGroupId :: "string option"
  SecurityGroupName :: "string option"

datatype sg_request =
    ByID string
  | ByName string
  | ByTags "(string \<times> string option) list"

record sg_body =
  sbSecurityGroups :: "ecs_security_group list option"
  sbNextToken :: "string option"
  sbRequestId :: "string option"

type_synonym sg_api = "sg_request \<Rightarrow> string option \<Rightarrow> sg_body option outcome"

definition getFilterSet :: "security_group_selector_term \<Rightarrow> sg_request" where
  "getFilterSet t =
     (if sgtID t \<noteq> [] then ByID (sgtID t)
      else if sgtName t \<noteq> [] then ByName (sgtName t)
      else ByTags (map (\<lambda>(k, v). (k, if v = ''*'' then None else Some v)) (sgtTags t)))"

definition getFilterSets :: "security_group_selector_term list \<Rightarrow> sg_request list" where
  "getFilterSets terms = map getFilterSet terms"

text \<open>One page; a missing list is an error.\<close>

definition sg_page :: "sg_api \<Rightarrow> sg_request \<Rightarrow> string option \<Rightarrow> ecs_security_group token_page option outcome" where
  "sg_page api req token =
     outcome_bind (api req token) (\<lambda>r. case r of
        None \<Rightarrow> Err (ErrorString ''unexpected null value was returned'')
      | Some b \<Rightarrow> (case sbSecurityGroups b of
            None \<Rightarrow> Err (WithRequestID (StringValue (sbRequestId b))
                      (ErrorString ''unexpected null value was returned''))
          | Some sgs \<Rightarrow> Ok (Some \<lparr>pgItems = sgs, pgNextToken = sbNextToken b\<rparr>)))"

text \<open>The groups handed to the callback; \<open>None\<close> when the tokens never end.\<close>

definition describeSecurityGroups :: "sg_api \<Rightarrow> sg_request \<Rightarrow> ecs_security_group list outcome option" where
  "describeSecurityGroups api req = token_loop (sg_page api req) None []"

fun collect_groups ::
  "sg_api \<Rightarrow> sg_request list \<Rightarrow> (string \<times> ecs_security_group) list \<Rightarrow>
   (string \<times> ecs_security_group) list outcome option" where
  "collect_groups api [] m = Some (Ok m)"
| "collect_groups api (f # fs) m =
     (case describeSecurityGroups api f of
        None \<Rightarrow> None
      | Some (Err e) \<Rightarrow> Some (Err (Wrap ''describing security groups, '' e))
      | Some Panic \<Rightarrow> Some Panic
      | Some (Ok sgs) \<Rightarrow>
          collect_groups api fs
            (fold (\<lambda>sg. AList.update (StringValue (SecurityGroupId sg)) sg) sgs m))"

definition getSecurityGroups ::
  "(sg_request list \<Rightarrow> string outcome) \<Rightarrow> sg_api \<Rightarrow> int \<Rightarrow> sg_request list \<Rightarrow>
   ecs_security_group list go_cache \<Rightarrow>
   (ecs_security_group list outcome \<times> ecs_security_group list go_cache) option" where
  "getSecurityGroups hash api now filterSets c =
     (case hash filterSets of
        Err e \<Rightarrow> Some (Err e, c)
      | Panic \<Rightarrow> Some (Panic, c)
      | Ok h \<Rightarrow>
          (case cache_get now h c of
             Some sgs \<Rightarrow> Some (Ok sgs, c)
           | None \<Rightarrow>
               (case collect_groups api filterSets [] of
                  None \<Rightarrow> None
                | Some (Err e) \<Rightarrow> Some (Err e, c)
                | Some Panic \<Rightarrow> Some (Panic, c)
                | Some (Ok m) \<Rightarrow> Some (Ok (map snd m), cache_set_default now h (map snd m) c))))"

text \<open>\<^verbatim>\<open>List\<close> dereferences the id of every group it found, for its log line.\<close>

definition sg_List ::
  "(sg_request list \<Rightarrow> string outcome) \<Rightarrow> sg_api \<Rightarrow> int \<Rightarrow> ecs_nodeclass \<Rightarrow>
   ecs_security_group list go_cache \<Rightarrow>
   (ecs_security_group list outcome \<times> ecs_security_group list go_cache) option" where
  "sg_List hash api now nc c =
     map_option (\<lambda>(r, c').
         (outcome_bind r (\<lambda>sgs. if list_ex (\<lambda>sg. SecurityGroupId sg = None) sgs then Panic else Ok sgs), c'))
       (getSecurityGroups hash api now (getFilterSets (SecurityGroupSelectorTerms (ncSpec nc))) c)"

section \<open>Lemmas\<close>

text \<open>The API's answer to a request, as pages with their groups.\<close>

definition sg_answers :: "sg_api \<Rightarrow> sg_request \<Rightarrow> ecs_security_group list \<Rightarrow> bool" where
  "sg_answers api req sgs =
     (\<exists>pgs. serves_pages (sg_page api req) None pgs \<and> sgs = concat (map pgItems pgs))"

lemma describe_answers: "sg_answers api req sgs \<Longrightarrow> describeSecurityGroups api req = Some (Ok sgs)"
  using token_loop_pages[of "sg_page api req" None _ "[]"]
  by (auto simp: sg_answers_def describeSecurityGroups_def)

definition sg_index :: "ecs_security_group list \<Rightarrow> (string \<times> ecs_security_group) list \<Rightarrow> (string \<times> ecs_security_group) list" where
  "sg_index sgs m = fold (\<lambda>sg. AList.update (StringValue (SecurityGroupId sg)) sg) sgs m"

lemma collect_answers:
  "list_all2 (sg_answers api) fs ss \<Longrightarrow> collect_groups api fs m = Some (Ok (fold sg_index ss m))"
proof (induction arbitrary: m rule: list_all2_induct)
  case (Cons f fs s ss)
  then show ?case by (simp add: describe_answers sg_index_def[symmetric])
qed simp

lemma sg_index_dom: "fst ` set (sg_index sgs m) = fst ` set m \<union> (\<lambda>sg. StringValue (SecurityGroupId sg)) ` set sgs"
  unfolding sg_index_def by (induction sgs arbitrary: m) (auto simp: dom_update)

lemma set_update_subset: "set (AList.update k x al) \<subseteq> insert (k, x) (set al)"
  by (induction al) auto

lemma sg_index_entries:
  "set (sg_index sgs m) \<subseteq> set m \<union> (\<lambda>sg. (StringValue (SecurityGroupId sg), sg)) ` set sgs"
proof (induction sgs arbitrary: m)
  case (Cons s sgs)
  have "sg_index (s # sgs) m = sg_index sgs (AList.update (StringValue (SecurityGroupId s)) s m)"
    by (simp add: sg_index_def)
  with Cons.IH[of "AList.update (StringValue (SecurityGroupId s)) s m"]
    set_update_subset[of "StringValue (SecurityGroupId s)" s m] show ?case by auto
qed (simp add: sg_index_def)

lemma sg_index_distinct: "distinct (map fst m) \<Longrightarrow> distinct (map fst (sg_index sgs m))"
  unfolding sg_index_def by (induction sgs arbitrary: m) (auto simp: distinct_update)

lemma fold_sg_index_from:
  "distinct (map fst m) \<Longrightarrow>
   distinct (map fst (fold sg_index ss m))
   \<and> fst ` set (fold sg_index ss m) = fst ` set m \<union> (\<lambda>sg. StringValue (SecurityGroupId sg)) ` set (concat ss)
   \<and> set (fold sg_index ss m) \<subseteq> set m \<union> (\<lambda>sg. (StringValue (SecurityGroupId sg), sg)) ` set (concat ss)"
proof (induction ss arbitrary: m)
  case (Cons s ss)
  from Cons.IH[OF sg_index_distinct[OF Cons.prems], of s] sg_index_entries[of s m] show ?case
    by (auto simp: sg_index_dom image_Un)
qed simp

text \<open>The index of the answers: one entry per id, each entry an answer under its id.\<close>

lemma sg_index_ids:
  assumes "m = fold sg_index ss []" "\<forall>sg\<in>set (concat ss). SecurityGroupId sg \<noteq> None"
  shows "map SecurityGroupId (map snd m) = map Some (map fst m)" "distinct (map fst m)"
    "Some ` fst ` set m = SecurityGroupId ` set (concat ss)"
proof -
  have f: "distinct (map fst m)" "fst ` set m = (\<lambda>sg. StringValue (SecurityGroupId sg)) ` set (concat ss)"
    "set m \<subseteq> (\<lambda>sg. (StringValue (SecurityGroupId sg), sg)) ` set (concat ss)"
    using fold_sg_index_from[of "[]" ss] assms(1) by simp_all
  have some: "Some (StringValue (SecurityGroupId sg)) = SecurityGroupId sg" if "sg \<in> set (concat ss)" for sg
    using bspec[OF assms(2) that] by (cases "SecurityGroupId sg") simp_all
  show "map SecurityGroupId (map snd m) = map Some (map fst m)"
    using f(3) some by (auto simp del: set_concat)
  show "distinct (map fst m)" by (rule f(1))
  show "Some ` fst ` set m = SecurityGroupId ` set (concat ss)"
    unfolding f(2) image_image using some by (intro image_cong) auto
qed

section \<open>Properties\<close>

text \<open>
  When the API answers every selector term's request with finitely many pages, discovery
  returns, and its result has exactly the ids of the answers, each once; it is remembered for
  the same selector terms until the cache expires.
\<close>

theorem security_groups_are_the_answers:
  assumes "hash (getFilterSets (SecurityGroupSelectorTerms (ncSpec nc))) = Ok h"
    and "cache_get now h c = None" and "0 \<le> now" and "0 < defaultExpiration c"
    and "list_all2 (sg_answers api) (getFilterSets (SecurityGroupSelectorTerms (ncSpec nc))) ss"
    and "\<forall>sg\<in>set (concat ss). SecurityGroupId sg \<noteq> None"
  shows "\<exists>sgs c'. sg_List hash api now nc c = Some (Ok sgs, c')
    \<and> SecurityGroupId ` set sgs = SecurityGroupId ` set (concat ss)
    \<and> distinct (map SecurityGroupId sgs)
    \<and> (\<forall>api' t. t \<le> now + defaultExpiration c \<longrightarrow> sg_List hash api' t nc c' = Some (Ok sgs, c'))"
proof -
  define m where "m = fold sg_index ss []"
  note ix = sg_index_ids[OF m_def assms(6)]
  let ?c = "cache_set_default now h (map snd m) c"
  have ids: "SecurityGroupId ` set (map snd m) = SecurityGroupId ` set (concat ss)"
    using ix(1,3) by (metis image_image list.set_map)
  have no_nil: "\<not> list_ex (\<lambda>sg. SecurityGroupId sg = None) (map snd m)"
    using ids assms(6) by (auto simp: list_ex_iff simp del: set_concat) (metis (no_types, lifting) image_iff snd_conv)
  have "getSecurityGroups hash api now (getFilterSets (SecurityGroupSelectorTerms (ncSpec nc))) c
      = Some (Ok (map snd m), ?c)"
    using assms(1,2) collect_answers[OF assms(5), of "[]"] by (simp add: getSecurityGroups_def m_def)
  then have "sg_List hash api now nc c = Some (Ok (map snd m), ?c)"
    using no_nil by (simp add: sg_List_def)
  moreover have "sg_List hash api' t nc ?c = Some (Ok (map snd m), ?c)"
    if "t \<le> now + defaultExpiration c" for api' t
    using that no_nil assms(1,3,4) by (simp add: sg_List_def getSecurityGroups_def cache_get_set_default)
  moreover have "distinct (map SecurityGroupId (map snd m))"
    unfolding ix(1) using ix(2) by (simp add: distinct_map inj_on_def)
  ultimately show ?thesis using ids by blast
qed

theorem security_groups_are_the_answers_witness:
  "\<exists>sgs c'. sg_List (\<lambda>_. Ok ''7'')
      (\<lambda>req tok. Ok (Some \<lparr>sbSecurityGroups = Some [\<lparr>SecurityGroupId = Some ''sg-1'', SecurityGroupName = Some ''n''\<rparr>],
         sbNextToken = None, sbRequestId = None\<rparr>)) 1
      (zero_nodeclass\<lparr>ncSpec := (ncSpec zero_nodeclass)\<lparr>SecurityGroupSelectorTerms :=
         [\<lparr>sgtTags = [], sgtID = ''sg-1'', sgtName = []\<rparr>]\<rparr>\<rparr>) (cache_new 60) = Some (Ok sgs, c')
    \<and> SecurityGroupId ` set sgs = {Some ''sg-1''}"
proof -
  let ?sg = "\<lparr>SecurityGroupId = Some ''sg-1'', SecurityGroupName = Some ''n''\<rparr>"
  let ?api = "\<lambda>req tok. Ok (Some \<lparr>sbSecurityGroups = Some [?sg], sbNextToken = None, sbRequestId = None\<rparr>)"
  let ?nc = "zero_nodeclass\<lparr>ncSpec := (ncSpec zero_nodeclass)\<lparr>SecurityGroupSelectorTerms :=
         [\<lparr>sgtTags = [], sgtID = ''sg-1'', sgtName = []\<rparr>]\<rparr>\<rparr>"
  have "serves_pages (sg_page ?api (ByID ''sg-1'')) None [\<lparr>pgItems = [?sg], pgNextToken = None\<rparr>]"
    by (simp add: sg_page_def)
  then have "sg_answers ?api (ByID ''sg-1'') [?sg]"
    unfolding sg_answers_def by (intro exI[of _ "[\<lparr>pgItems = [?sg], pgNextToken = None\<rparr>]"]) simp
  then have "list_all2 (sg_answers ?api) (getFilterSets (SecurityGroupSelectorTerms (ncSpec ?nc))) [[?sg]]"
    by (simp add: getFilterSets_def getFilterSet_def)
  from security_groups_are_the_answers[of "\<lambda>_. Ok ''7''" ?nc, OF refl _ _ _ this, of 1 "cache_new 60"] show ?thesis
    by (force simp: cache_new_def cache_get_def)
qed

end
