(* ===== verification/Go_Float.thy ===== *)
theory Go_Float
  imports Complex_Main Go_Strings "HOL-Library.Log_Nat"
begin

text \<open>
  Go's \<^verbatim>\<open>float64\<close> and \<^verbatim>\<open>float32\<close> arithmetic as far as the sources use it: a
  float is the rational it denotes and an operation is the exact operation followed by
  \<open>fl p\<close>, rounding to \<open>p\<close> significant bits, ties to even (\<open>p\<close> is 53 or 24). The values
  that occur (core counts, memory sizes, percentages) are far from the ends of the exponent
  range, so there is no overflow, no subnormal and no NaN here. The main facts are that an
  integer of at most \<open>p\<close> bits is exact (\<open>fl_exact\<close>), the error bound \<open>fl_error\<close>, and when
  the integer part survives rounding (\<open>floor_fl\<close>).
\<close>

section \<open>Rounding\<close>

definition round_half_even :: "rat \<Rightarrow> int" where
  "round_half_even q =
     (let n = floor q; f = q - of_int n in
      if f < 1 / 2 then n else if 1 / 2 < f then n + 1 else if even n then n else n + 1)"

text \<open>The binary exponent of a positive rational.\<close>

definition binexp :: "rat \<Rightarrow> int" where
  "binexp q =
     (let (a, b) = quotient_of q;
          e = bitlen a - bitlen b
      in if q < 2 powi e then e - 1 else e)"

definition fl_unit :: "nat \<Rightarrow> rat \<Rightarrow> rat" where
  "fl_unit p q = 2 powi (binexp q + 1 - int p)"

definition fl_pos :: "nat \<Rightarrow> rat \<Rightarrow> rat" where
  "fl_pos p q = of_int (round_half_even (q / fl_unit p q)) * fl_unit p q"

definition fl :: "nat \<Rightarrow> rat \<Rightarrow> rat" where
  "fl p q = (if q = 0 then 0 else if 0 < q then fl_pos p q else - fl_pos p (- q))"

abbreviation fl64 :: "rat \<Rightarrow> rat" where "fl64 \<equiv> fl 53"
abbreviation fl32 :: "rat \<Rightarrow> rat" where "fl32 \<equiv> fl 24"

text \<open>Conversion to an integer type truncates.\<close>

definition trunc :: "rat \<Rightarrow> int" where
  "trunc q = (if 0 \<le> q then floor q else ceiling q)"

lemma round_half_even_int [simp]: "round_half_even (of_int n) = n"
  by (simp add: round_half_even_def)

lemma round_half_even_error: "\<bar>of_int (round_half_even q) - q\<bar> \<le> 1 / 2"
proof -
  have "of_int \<lfloor>q\<rfloor> \<le> q" "q < of_int \<lfloor>q\<rfloor> + 1" by linarith+
  then show ?thesis by (auto simp: round_half_even_def Let_def abs_le_iff)
qed

lemma round_half_even_ge: "of_int n \<le> q \<Longrightarrow> n \<le> round_half_even q"
proof -
  assume "of_int n \<le> q"
  then have "n \<le> \<lfloor>q\<rfloor>" by (simp add: le_floor_iff)
  then show ?thesis by (auto simp: round_half_even_def Let_def)
qed

lemma bits_bounds:
  fixes a :: int
  assumes "0 < a"
  shows "(2 :: rat) powi (bitlen a - 1) \<le> of_int a" "of_int a < (2 :: rat) powi bitlen a"
proof -
  have bounds: "2 ^ nat (bitlen a - 1) \<le> a" "a < 2 ^ nat (bitlen a)"
    using bitlen_bounds[OF assms] by simp_all
  have pos: "1 \<le> bitlen a"
    using assms bitlen_eq_zero_iff[of a] bitlen_nonneg[of a] by linarith
  have "(of_int (2 ^ nat (bitlen a - 1)) :: rat) \<le> of_int a" "(of_int a :: rat) < of_int (2 ^ nat (bitlen a))"
    using bounds by (simp_all only: of_int_le_iff of_int_less_iff)
  with pos show "(2 :: rat) powi (bitlen a - 1) \<le> of_int a" "of_int a < (2 :: rat) powi bitlen a"
    by (simp_all add: power_int_def)
qed

lemma binexp_bounds:
  assumes "0 < q"
  shows "2 powi binexp q \<le> q \<and> q < 2 powi (binexp q + 1)"
proof -
  obtain a b where ab: "quotient_of q = (a, b)" by fastforce
  have b: "0 < b" using quotient_of_denom_pos[OF ab] .
  have q: "q = of_int a / of_int b" using quotient_of_div[OF ab] .
  have a: "0 < a" using assms b q by (simp add: zero_less_divide_iff)
  define ka kb where "ka = bitlen a" and "kb = bitlen b"
  note fa = bits_bounds[OF a, folded ka_def] and fb = bits_bounds[OF b, folded kb_def]
  have pow: "(2 :: rat) powi (ka - kb - 1) * 2 powi kb = 2 powi (ka - 1)"
    "(2 :: rat) powi (ka - kb + 1) * 2 powi (kb - 1) = 2 powi ka"
    using power_int_add[of "2 :: rat" "ka - kb - 1" kb] power_int_add[of "2 :: rat" "ka - kb + 1" "kb - 1"]
    by simp_all
  have "2 powi (ka - kb - 1) * of_int b \<le> 2 powi (ka - kb - 1) * (2 powi kb :: rat)"
    using fb(2) by (intro mult_left_mono) simp_all
  with fa(1) pow(1) have "2 powi (ka - kb - 1) * of_int b \<le> (of_int a :: rat)" by linarith
  then have lower: "2 powi (ka - kb - 1) \<le> q" using b by (simp add: q pos_le_divide_eq)
  have "2 powi (ka - kb + 1) * (2 powi (kb - 1) :: rat) \<le> 2 powi (ka - kb + 1) * of_int b"
    using fb(1) by (intro mult_left_mono) simp_all
  with fa(2) pow(2) have "(of_int a :: rat) < 2 powi (ka - kb + 1) * of_int b" by linarith
  then have upper: "q < 2 powi (ka - kb + 1)" using b by (simp add: q pos_divide_less_eq)
  show ?thesis
    using lower upper ab by (auto simp: binexp_def Let_def ka_def kb_def not_less)
qed

lemma fl_unit_pos [simp]: "0 < fl_unit p q" "fl_unit p q \<noteq> 0"
  by (simp_all add: fl_unit_def)

lemma fl_unit_le:
  assumes "0 < q"
  shows "fl_unit p q \<le> q * 2 powi (1 - int p)"
proof -
  have "fl_unit p q = 2 powi binexp q * 2 powi (1 - int p)"
    using power_int_add[of "2 :: rat" "binexp q" "1 - int p"] by (simp add: fl_unit_def algebra_simps)
  then show ?thesis
    using binexp_bounds[OF assms] by (simp add: mult_right_mono)
qed

lemma fl_error:
  assumes "0 < q"
  shows "\<bar>fl p q - q\<bar> \<le> q * 2 powi (- int p)"
proof -
  let ?u = "fl_unit p q"
  have "fl p q - q = (of_int (round_half_even (q / ?u)) - q / ?u) * ?u"
    using assms by (simp add: fl_def fl_pos_def left_diff_distrib)
  then have "\<bar>fl p q - q\<bar> = \<bar>of_int (round_half_even (q / ?u)) - q / ?u\<bar> * ?u"
    by (simp add: abs_mult abs_of_pos)
  also have "\<dots> \<le> 1 / 2 * ?u"
    by (intro mult_right_mono round_half_even_error) (simp add: less_imp_le)
  also have "\<dots> \<le> 1 / 2 * (q * 2 powi (1 - int p))"
    using fl_unit_le[OF assms] by simp
  also have "\<dots> = q * 2 powi (- int p)"
    using power_int_add[of "2 :: rat" 1 "- int p"] by simp
  finally show ?thesis .
qed

text \<open>The unit in the last place of a number below \<open>2 ^ p * 2 powi k\<close> divides \<open>2 powi k\<close>.\<close>

lemma fl_unit_dvd:
  assumes "0 < q" "q < 2 powi (k + int p)"
  shows "\<exists>j. 2 powi k / fl_unit p q = of_int (2 ^ j)"
proof -
  have "(2 :: rat) powi binexp q < 2 powi (k + int p)"
    using binexp_bounds[OF assms(1)] assms(2) by linarith
  then have "binexp q < k + int p"
    by (metis linorder_not_less one_le_numeral power_int_increasing)
  then have "2 powi k / fl_unit p q = (2 :: rat) ^ nat (k + int p - 1 - binexp q)"
    by (simp add: fl_unit_def power_int_diff[symmetric])
       (simp add: power_int_def algebra_simps)
  then show ?thesis by (metis of_int_numeral of_int_power)
qed

lemma fl_exact_pos:
  assumes "q = of_int m * 2 powi k" "0 < m" "m < 2 ^ p"
  shows "fl p q = q"
proof -
  have q: "0 < q" using assms(1,2) by simp
  have "(of_int m :: rat) < of_int (2 ^ p)" using assms(3) by (simp only: of_int_less_iff)
  then have "q < 2 powi (k + int p)"
    using assms(1) by (simp add: power_int_add)
  with fl_unit_dvd[OF q] obtain j where "2 powi k / fl_unit p q = of_int (2 ^ j)" by blast
  then have "q / fl_unit p q = of_int (m * 2 ^ j)"
    using assms(1) by (metis (no_types, lifting) of_int_mult times_divide_eq_right)
  then have "fl p q = q / fl_unit p q * fl_unit p q"
    using q by (simp only: fl_def fl_pos_def round_half_even_int) simp
  then show ?thesis by simp
qed

lemma fl_exact_int:
  assumes "0 \<le> m" "m < 2 ^ p"
  shows "fl p (of_int m) = of_int m"
proof (cases "m = 0")
  case False
  with assms fl_exact_pos[of "of_int m" m 0 p] show ?thesis by simp
qed (simp add: fl_def)

lemma fl_nonneg: "0 \<le> q \<Longrightarrow> 0 \<le> fl p q"
  using round_half_even_ge[of 0 "q / fl_unit p q"]
  by (auto simp: fl_def fl_pos_def less_imp_le)

lemma fl_ge_int:
  assumes "0 < q" "q < 2 ^ p" "of_int m \<le> q"
  shows "of_int m \<le> fl p q"
proof -
  obtain j where j: "2 powi 0 / fl_unit p q = of_int (2 ^ j)"
    using fl_unit_dvd[OF assms(1), of 0 p] assms(2) by auto
  have "of_int (m * 2 ^ j) = of_int m / fl_unit p q" using j by (simp add: divide_simps)
  also have "\<dots> \<le> q / fl_unit p q" using assms(3) by (simp add: divide_right_mono less_imp_le)
  finally have "m * 2 ^ j \<le> round_half_even (q / fl_unit p q)" by (rule round_half_even_ge)
  then have "of_int (m * 2 ^ j) * fl_unit p q \<le> fl p q"
    using assms(1) unfolding fl_def fl_pos_def
    by (simp del: of_int_mult)
  moreover have "of_int (m * 2 ^ j) * fl_unit p q = of_int m" using j by (simp add: divide_simps)
  ultimately show ?thesis by (simp only:)
qed

text \<open>The integer part survives rounding when the number keeps a distance from the next
  integer that is larger than the error.\<close>

lemma floor_fl:
  assumes "0 < q" "q < 2 ^ p" "of_int m \<le> q" "q + q * 2 powi (- int p) < of_int m + 1"
  shows "floor (fl p q) = m"
proof -
  have "fl p q \<le> q + q * 2 powi (- int p)" using fl_error[OF assms(1), of p] by linarith
  with assms(4) have "fl p q < of_int m + 1" by linarith
  moreover have "of_int m \<le> fl p q" using fl_ge_int[OF assms(1-3)] .
  ultimately show ?thesis by (simp add: floor_eq_iff)
qed

section \<open>Printing\<close>

text \<open>\<^verbatim>\<open>fmt.Sprintf("%f", x)\<close>, read back as a number: six decimals.\<close>

definition sixDecimals :: "rat \<Rightarrow> rat" where
  "sixDecimals q = of_int (round_half_even (q * 10 ^ 6)) / 10 ^ 6"

text \<open>\<^verbatim>\<open>fmt.Sprint\<close> of a positive \<^verbatim>\<open>float32\<close>: the shortest decimal (at most nine
  digits are needed) that rounds to it, printed positionally when its exponent is from -4 to
  20 and in scientific notation otherwise. \<open>decexp\<close> is the decimal exponent,
  \<open>short_digits\<close> the significant digits as a number of \<open>n\<close> digits.\<close>

fun decexp_up :: "nat \<Rightarrow> rat \<Rightarrow> int" where
  "decexp_up 0 q = 0"
| "decexp_up (Suc n) q =
     (if 10 \<le> q then 1 + decexp_up n (q / 10) else if q < 1 then decexp_up n (q * 10) - 1 else 0)"

definition decexp :: "rat \<Rightarrow> int" where
  "decexp q = decexp_up 64 q"

definition round_digits :: "nat \<Rightarrow> rat \<Rightarrow> int" where
  "round_digits n q = round_half_even (q / 10 powi (decexp q + 1 - int n))"

fun short_digits :: "nat \<Rightarrow> nat \<Rightarrow> rat \<Rightarrow> nat \<times> int" where
  "short_digits 0 n q = (n, round_digits n q)"
| "short_digits (Suc k) n q =
     (if fl32 (of_int (round_digits n q) * 10 powi (decexp q + 1 - int n)) = q
      then (n, round_digits n q) else short_digits k (Suc n) q)"

fun strip_zeros :: "string \<Rightarrow> string" where
  "strip_zeros s = rev (dropWhile (\<lambda>c. c = CHR ''0'') (rev s))"

definition sprint_digits :: "string \<Rightarrow> int \<Rightarrow> string" where
  "sprint_digits ds e =
     (if e < -4 \<or> 21 \<le> e then
        (let frac = strip_zeros (tl ds); x = itoa \<bar>e\<bar> in
         hd ds # (if frac = [] then [] else CHR ''.'' # frac) @ ''e''
         @ (if e < 0 then ''-'' else ''+'') @ (if length x < 2 then CHR ''0'' # x else x))
      else if e < 0 then ''0.'' @ replicate (nat (- e) - 1) CHR ''0'' @ strip_zeros ds
      else let ip = take (nat e + 1) ds; frac = strip_zeros (drop (nat e + 1) ds) in
        ip @ replicate (nat e + 1 - length ds) CHR ''0''
        @ (if frac = [] then [] else CHR ''.'' # frac))"

definition sprint_float32 :: "rat \<Rightarrow> string" where
  "sprint_float32 q =
     (if q = 0 then ''0''
      else let s = (if q < 0 then ''-'' else []); r = \<bar>q\<bar>; (n, d) = short_digits 8 1 r;
               ds = itoa d
           in s @ sprint_digits ds (decexp r + (int (length ds) - int n)))"

end
