(* ===== verification/Instance_Types.thy ===== *)
theory Instance_Types
  imports Apis Go_Float Go_Regexp
begin

text \<open>
  From what ECS says about an instance type to karpenter's instance type:
  \<^verbatim>\<open>src/pkg/providers/instancetype/types.go\<close>. Capacity, reserved resources and the
  labels pods are scheduled by. Floats are the ones of \<open>Go_Float\<close>; quantities are exact.
  Pointers the code dereferences without a test make the whole computation \<open>Panic\<close>.
\<close>

record ecs_type_info =
  InstanceTypeId :: "string option"
  CpuArchitecture :: "string option"
  CpuCoreCount :: "int option"
  MemorySize :: "rat option"
  GPUAmount :: "int option"
  GPUSpec :: "string option"
  GPUMemorySize :: "rat option"
  PhysicalProcessorModel :: "string option"
  EniQuantity :: "int option"
  EniPrivateIpAddressQuantity :: "int option"

definition instanceTypeScheme :: re where
  "instanceTypeScheme =
     Seq (lit ''ecs.'')
       (Seq (Grp 1 (PlusC lower_alpha))
         (Seq (Opt (Grp 2 (Seq (lit ''-'') (Seq (PlusC digit_class) (lit ''tb'')))))
           (Seq (Grp 3 (PlusC digit_class)) (StarC any_char))))"

definition GiBMiBRatio :: int where "GiBMiBRatio = 1024"
definition MiBByteRatio :: int where "MiBByteRatio = 1024 * 1024"
definition TerwayMinENIRequirements :: int where "TerwayMinENIRequirements = 11"
definition BaseHostNetworkPods :: int where "BaseHostNetworkPods = 3"
definition FlannelDefaultPods :: int where "FlannelDefaultPods = 256"
definition ClusterCNITypeTerway :: string where "ClusterCNITypeTerway = ''terway-eniip''"
definition ClusterCNITypeFlannel :: string where "ClusterCNITypeFlannel = ''Flannel''"

record zone_data =
  zdID :: string
  zdAvailable :: bool
  SpotAvailable :: bool

section \<open>Reserved resources\<close>

definition thresholds :: "(int \<times> rat) list" where
  "thresholds = [(1000, fl64 (6 / 100)), (2000, fl64 (1 / 100)), (3000, fl64 (5 / 1000)), (4000, fl64 (5 / 1000))]"

definition calculateCPUOverhead :: "int \<Rightarrow> int" where
  "calculateCPUOverhead cpuM =
     (let steps = fold (\<lambda>(cores, ov) acc.
            if cores \<le> cpuM then acc + trunc (fl64 (1000 * ov)) else acc) thresholds 0
      in if 4000 < cpuM
         then steps + trunc (fl64 (fl64 (of_int (cpuM - 4000)) * fl64 (25 / 10000)))
         else steps)"

definition memoryOverheadMi :: "int \<Rightarrow> int \<Rightarrow> int" where
  "memoryOverheadMi podCount memoryMi =
     trunc (min (fl64 (of_int (11 * podCount + 255))) (fl64 (fl64 (of_int memoryMi) * fl64 (1 / 4)))) + 200"

definition calculateResourceOverhead :: "int \<Rightarrow> int \<Rightarrow> int \<Rightarrow> resource_list" where
  "calculateResourceOverhead podCount cpuM memoryMi =
     [(ResourceCPU, of_int (calculateCPUOverhead cpuM) / 1000),
      (ResourceMemory, of_int (memoryOverheadMi podCount memoryMi) * of_int MiBByteRatio)]"

section \<open>Capacity\<close>

definition cpu :: "ecs_type_info \<Rightarrow> rat outcome" where
  "cpu info = outcome_map of_int (deref (CpuCoreCount info))"

text \<open>Bytes: the size is printed with six decimals and the suffix \<^verbatim>\<open>Gi\<close>, and parsed.\<close>

definition extractMemory :: "ecs_type_info \<Rightarrow> rat" where
  "extractMemory info =
     sixDecimals (case MemorySize info of None \<Rightarrow> 0 | Some m \<Rightarrow> m) * 2 ^ 30"

definition memory :: "rat \<Rightarrow> ecs_type_info \<Rightarrow> rat" where
  "memory overheadPercent info =
     (let mem = extractMemory info in
      if mem = 0 then mem
      else mem - of_int (ceiling (fl64 (fl64 (fl64 (of_int (ceiling mem)) * overheadPercent)
                   / of_int MiBByteRatio))) * of_int MiBByteRatio)"

definition pods :: "ecs_type_info \<Rightarrow> int option \<Rightarrow> int option \<Rightarrow> string \<Rightarrow> int" where
  "pods info maxPods podsPerCore clusterCNI =
     (let count = (case maxPods of
            Some n \<Rightarrow> n
          | None \<Rightarrow>
              if clusterCNI = ClusterCNITypeTerway then
                int32 (int32 (int32 (IntValue (EniQuantity info) - 1)
                  * IntValue (EniPrivateIpAddressQuantity info)) + BaseHostNetworkPods)
              else if clusterCNI = ClusterCNITypeFlannel then FlannelDefaultPods
              else KubeletMaxPods)
      in if 0 < IntValue podsPerCore
         then min (int32 (IntValue podsPerCore * IntValue (CpuCoreCount info))) count
         else count)"

definition lowerKabobCase :: "string \<Rightarrow> string" where
  "lowerKabobCase s =
     ToLower (ReplaceAll (ReplaceAll (ReplaceAll s '' '' ''-'') ''/'' ''-'') ''*'' ''-'')"

definition getGPUManufacturer :: "string \<Rightarrow> string" where
  "getGPUManufacturer gpuName = hd (split_char CHR '' '' gpuName)"

definition getCPUModel :: "string \<Rightarrow> string" where
  "getCPUModel cpuName =
     (if Contains cpuName ECSAMDCPUModelValue then ToLower ECSAMDCPUModelValue
      else if Contains cpuName ECSIntelCPUModelValue then ToLower ECSIntelCPUModelValue
      else [])"

definition gpus_of :: "string \<Rightarrow> ecs_type_info \<Rightarrow> rat outcome" where
  "gpus_of manufacturer info =
     outcome_bind (deref (GPUSpec info)) (\<lambda>spec.
       if ToLower (getGPUManufacturer spec) = manufacturer
       then outcome_map of_int (deref (GPUAmount info))
       else Ok 0)"

definition nvidiaGPUs :: "ecs_type_info \<Rightarrow> rat outcome" where
  "nvidiaGPUs info = gpus_of ''nvidia'' info"

definition amdGPUs :: "ecs_type_info \<Rightarrow> rat outcome" where
  "amdGPUs info = gpus_of ''amd'' info"

definition DefaultSystemDisk :: system_disk where
  "DefaultSystemDisk =
     \<lparr>Categories = Some [''cloud'', ''cloud_ssd'', ''cloud_efficiency'', ''cloud_essd'',
        ''cloud_auto'', ''cloud_essd_entry''],
      diskSize = Some 20, PerformanceLevel = None\<rparr>"

definition ephemeralStorage :: "system_disk option \<Rightarrow> rat outcome" where
  "ephemeralStorage systemDisk =
     outcome_map (\<lambda>n. of_int n * 10 ^ 9)
       (deref (diskSize (case systemDisk of None \<Rightarrow> DefaultSystemDisk | Some d \<Rightarrow> d)))"

definition privateIPv4Address :: "ecs_type_info \<Rightarrow> rat outcome" where
  "privateIPv4Address info =
     outcome_bind (deref (EniPrivateIpAddressQuantity info)) (\<lambda>ips.
       outcome_map (\<lambda>n. of_int (int32 (ips * n))) (deref (EniQuantity info)))"

definition computeCapacity ::
  "rat \<Rightarrow> ecs_type_info \<Rightarrow> int option \<Rightarrow> int option \<Rightarrow> system_disk option \<Rightarrow> string \<Rightarrow>
   resource_list outcome" where
  "computeCapacity overheadPercent info maxPods podsPerCore systemDisk clusterCNI =
     outcome_bind (cpu info) (\<lambda>c.
     outcome_bind (ephemeralStorage systemDisk) (\<lambda>disk.
     outcome_bind (nvidiaGPUs info) (\<lambda>nvidia.
     outcome_bind (amdGPUs info) (\<lambda>amd.
       Ok [(ResourceCPU, c), (ResourceMemory, memory overheadPercent info),
           (ResourceEphemeralStorage, disk),
           (ResourcePods, of_int (pods info maxPods podsPerCore clusterCNI)),
           (ResourceNVIDIAGPU, nvidia), (ResourceAMDGPU, amd)]))))"

section \<open>Labels\<close>

definition extractECSArch :: "string \<Rightarrow> string" where
  "extractECSArch a = (if a = ''X86'' then ''amd64'' else if a = ''ARM'' then ''arm64'' else ''amd64'')"

text \<open>Insert a value into a requirement that is there; the map holds pointers.\<close>

definition reqs_insert :: "string \<Rightarrow> string \<Rightarrow> requirements \<Rightarrow> requirements" where
  "reqs_insert k v rs =
     (case map_of rs k of None \<Rightarrow> rs | Some r \<Rightarrow> AList.update k (req_insert [v] r) rs)"

definition offering_values :: "(int \<Rightarrow> int) \<Rightarrow> string \<Rightarrow> offering list \<Rightarrow> string list" where
  "offering_values rnd k ofs =
     map (\<lambda>off. req_any rnd (reqs_get (ofRequirements off) k)) (AvailableOfferings ofs)"

definition base_requirements ::
  "(int \<Rightarrow> int) \<Rightarrow> ecs_type_info \<Rightarrow> offering list \<Rightarrow> string \<Rightarrow> requirements" where
  "base_requirements rnd info ofs region =
     NewRequirements
       [NewRequirement LabelInstanceTypeStable OpIn [StringValue (InstanceTypeId info)],
        NewRequirement LabelArchStable OpIn [extractECSArch (StringValue (CpuArchitecture info))],
        NewRequirement LabelOSStable OpIn [''linux''],
        NewRequirement LabelTopologyZone OpIn (offering_values rnd LabelTopologyZone ofs),
        NewRequirement LabelTopologyRegion OpIn [region],
        NewRequirement LabelWindowsBuild OpDoesNotExist [],
        NewRequirement CapacityTypeLabelKey OpIn (offering_values rnd CapacityTypeLabelKey ofs),
        NewRequirement LabelInstanceCPU OpIn [itoa (IntValue (CpuCoreCount info))],
        NewRequirement LabelInstanceCPUModel OpDoesNotExist [],
        NewRequirement LabelInstanceMemory OpIn
          [sprint_float32 (fl32 ((case MemorySize info of None \<Rightarrow> 0 | Some m \<Rightarrow> m) * of_int GiBMiBRatio))],
        NewRequirement LabelInstanceCategory OpDoesNotExist [],
        NewRequirement LabelInstanceFamily OpDoesNotExist [],
        NewRequirement LabelInstanceGeneration OpDoesNotExist [],
        NewRequirement LabelInstanceSize OpDoesNotExist [],
        NewRequirement LabelInstanceGPUName OpDoesNotExist [],
        NewRequirement LabelInstanceGPUManufacturer OpDoesNotExist [],
        NewRequirement LabelInstanceGPUCount OpDoesNotExist [],
        NewRequirement LabelInstanceGPUMemory OpDoesNotExist []]"

definition add_zone_ids :: "(int \<Rightarrow> int) \<Rightarrow> offering list \<Rightarrow> requirements \<Rightarrow> requirements" where
  "add_zone_ids rnd ofs rs =
     (let zoneIDs = filter (\<lambda>z. z \<noteq> []) (offering_values rnd LabelTopologyZoneID ofs)
      in if zoneIDs = [] then rs
         else reqs_add [NewRequirement LabelTopologyZoneID OpIn zoneIDs] rs)"

definition add_family_labels :: "string \<Rightarrow> requirements \<Rightarrow> requirements" where
  "add_family_labels i rs =
     (let rs1 = (case find_sub_anchored instanceTypeScheme i of
            None \<Rightarrow> rs
          | Some m \<Rightarrow> reqs_insert LabelInstanceGeneration (group 3 m)
                       (reqs_insert LabelInstanceCategory (group 1 m) rs))
      in case split_char CHR ''.'' i of
           [a, b, c] \<Rightarrow> reqs_insert LabelInstanceSize c
              (reqs_insert LabelInstanceFamily (join_with ''.'' [a, b]) rs1)
         | _ \<Rightarrow> rs1)"

definition add_gpu_labels :: "ecs_type_info \<Rightarrow> requirements \<Rightarrow> requirements" where
  "add_gpu_labels info rs =
     (if IntValue (GPUAmount info) = 0 then rs
      else reqs_insert LabelInstanceGPUMemory
             (sprint_float32 (case GPUMemorySize info of None \<Rightarrow> 0 | Some m \<Rightarrow> m))
           (reqs_insert LabelInstanceGPUCount (itoa (IntValue (GPUAmount info)))
           (reqs_insert LabelInstanceGPUManufacturer (getGPUManufacturer (StringValue (GPUSpec info)))
           (reqs_insert LabelInstanceGPUName (lowerKabobCase (StringValue (GPUSpec info))) rs))))"

definition add_cpu_model :: "ecs_type_info \<Rightarrow> requirements \<Rightarrow> requirements" where
  "add_cpu_model info rs =
     (case PhysicalProcessorModel info of
        None \<Rightarrow> rs
      | Some m \<Rightarrow> reqs_insert LabelInstanceCPUModel (getCPUModel m) rs)"

definition computeRequirements ::
  "(int \<Rightarrow> int) \<Rightarrow> ecs_type_info \<Rightarrow> offering list \<Rightarrow> string \<Rightarrow> requirements" where
  "computeRequirements rnd info ofs region =
     add_cpu_model info (add_gpu_labels info
       (add_family_labels (StringValue (InstanceTypeId info))
         (add_zone_ids rnd ofs (base_requirements rnd info ofs region))))"

section \<open>The instance type\<close>

text \<open>\<open>Ok None\<close> is the nil the caller filters out: a type without offerings (a nil slice;
  \<^verbatim>\<open>createOfferings\<close> never returns an empty slice that is not nil).\<close>

definition NewInstanceType ::
  "(int \<Rightarrow> int) \<Rightarrow> rat \<Rightarrow> ecs_type_info \<Rightarrow> kubelet_configuration \<Rightarrow> string \<Rightarrow> system_disk option \<Rightarrow>
   offering list \<Rightarrow> string \<Rightarrow> instance_type option outcome" where
  "NewInstanceType rnd overheadPercent info kc region systemDisk ofs clusterCNI =
     (if ofs = [] then Ok None
      else
        outcome_bind (deref (InstanceTypeId info)) (\<lambda>name.
        outcome_bind (computeCapacity overheadPercent info (MaxPods kc) (PodsPerCore kc) systemDisk clusterCNI) (\<lambda>cap.
        let reqs = computeRequirements rnd info ofs region;
            reserved = calculateResourceOverhead (ceiling (quantity cap ResourcePods))
              (ceiling (quantity cap ResourceCPU * 1000)) (ceiling (extractMemory info) div MiBByteRatio);
            it = \<lparr>itName = name, itRequirements = reqs, Offerings = ofs, itCapacity = cap,
                  Overhead = \<lparr>KubeReserved = reserved, SystemReserved = [], EvictionThreshold = []\<rparr>\<rparr>
        in if Compatible [] reqs (NewRequirements [NewRequirement LabelOSStable OpIn [''windows'']])
           then outcome_map (\<lambda>ips. Some (it\<lparr>itCapacity :=
                  AList.update ResourcePrivateIPv4Address ips cap\<rparr>)) (privateIPv4Address info)
           else Ok (Some it))))"

section \<open>Lemmas: overhead\<close>

lemma threshold_millis:
  "trunc (fl64 (1000 * fl64 (6 / 100))) = 60" "trunc (fl64 (1000 * fl64 (1 / 100))) = 10"
  "trunc (fl64 (1000 * fl64 (5 / 1000))) = 5"
  by code_simp+

text \<open>The double nearest to 0.0025 is slightly larger, so no whole milli-core is lost.\<close>

lemma fl64_quarter_percent: "fl64 (25 / 10000) = 5764607523034235 / 2305843009213693952"
  by code_simp

lemma fl64_quarter: "fl64 (1 / 4) = 1 / 4"
  by code_simp

lemma cpu_extra:
  assumes "0 < n" "n < 2 ^ 40"
  shows "trunc (fl64 (fl64 (of_int n) * fl64 (25 / 10000))) = n div 400"
proof -
  define c :: rat where "c = 5764607523034235 / 2305843009213693952"
  define r :: rat where "r = of_int n"
  define k where "k = n div 400"
  have c: "1 / 400 \<le> c" "c \<le> 1 / 400 + 1 / 2 ^ 53" by (simp_all add: c_def)
  have n: "fl64 (of_int n) = r" unfolding r_def using assms by (intro fl_exact_int) auto
  have r: "1 \<le> r" "r < 2 ^ 40"
    using assms of_int_less_iff[of n "2 ^ 40", where ?'a = rat] by (simp_all add: r_def)
  have "400 * k \<le> n" "n \<le> 400 * k + 399" by (auto simp: k_def)
  then have "of_int (400 * k) \<le> r" "r \<le> of_int (400 * k + 399)"
    unfolding r_def by (simp_all only: of_int_le_iff)
  then have k: "of_int k \<le> r / 400" "r / 400 \<le> of_int k + 399 / 400" by simp_all
  have prod: "r * (1 / 400) \<le> r * c" "r * c \<le> r * (1 / 400 + 1 / 2 ^ 53)"
    using c r by (intro mult_left_mono, simp_all)+
  have "r * (1 / 400 + 1 / 2 ^ 53) = r / 400 + r / 2 ^ 53" by (simp add: distrib_left)
  moreover have small: "r / 2 ^ 53 < 1 / 8192" using r(2) by simp
  ultimately have upper: "r * c < r / 400 + 1 / 8192" using prod(2) by linarith
  then have le: "r * c \<le> r" using r(1) by linarith
  have "r * c * 2 powi - int 53 \<le> r * 2 powi - int 53"
    using le by (intro mult_right_mono) simp_all
  also have "r * 2 powi - int 53 = r / 2 ^ 53" 
    by (simp only: power_int_minus power_int_of_nat divide_inverse)
  finally have err: "r * c * 2 powi - int 53 < 1 / 8192" using small by linarith
  have pos: "0 < r * c" using prod(1) r(1) by linarith
  have "floor (fl64 (r * c)) = k"
  proof (rule floor_fl)
    show "r * c < 2 ^ 53" using le r(2) by simp
    show "of_int k \<le> r * c" using k(1) prod(1) by linarith
    show "r * c + r * c * 2 powi - int 53 < of_int k + 1" using upper err k(2) by linarith
  qed (rule pos)
  moreover have "0 \<le> fl64 (r * c)" using pos by (intro fl_nonneg) simp
  ultimately show ?thesis
    unfolding fl64_quarter_percent n c_def[symmetric] trunc_def k_def by (simp only: if_True)
qed

lemma trunc_int [simp]: "trunc (of_int n) = n"
  by (simp add: trunc_def)

lemma cpu_schedule:
  assumes "0 \<le> cpuM" "cpuM < 2 ^ 40"
  shows "calculateCPUOverhead cpuM =
    (if 1000 \<le> cpuM then 60 else 0) + (if 2000 \<le> cpuM then 10 else 0)
    + (if 3000 \<le> cpuM then 5 else 0) + (if 4000 \<le> cpuM then 5 else 0)
    + (if 4000 < cpuM then (cpuM - 4000) div 400 else 0)"
proof -
  have "fold (\<lambda>(cores, ov) acc. if cores \<le> cpuM then acc + trunc (fl64 (1000 * ov)) else acc) thresholds 0 =
    (if 1000 \<le> cpuM then 60 else 0) + (if 2000 \<le> cpuM then 10 else 0)
    + (if 3000 \<le> cpuM then 5 else 0) + (if 4000 \<le> cpuM then 5 else 0)"
    unfolding thresholds_def fold.simps comp_apply id_apply prod.case threshold_millis by simp
  moreover have "trunc (fl64 (fl64 (of_int (cpuM - 4000)) * fl64 (25 / 10000))) = (cpuM - 4000) div 400"
    if "4000 < cpuM" using that assms by (intro cpu_extra) simp_all
  ultimately show ?thesis unfolding calculateCPUOverhead_def Let_def by simp
qed

lemma memory_schedule:
  assumes "0 \<le> podCount" "podCount < 2 ^ 40" "0 \<le> memoryMi" "memoryMi < 2 ^ 50"
  shows "memoryOverheadMi podCount memoryMi = min (11 * podCount + 255) (memoryMi div 4) + 200"
proof -
  have p: "fl64 (of_int (11 * podCount + 255)) = of_int (11 * podCount + 255)"
    using assms(1,2) by (intro fl_exact_int) auto
  have m: "fl64 (of_int memoryMi) = of_int memoryMi"
    using assms(3,4) by (intro fl_exact_int) auto
  have q: "fl64 (of_int memoryMi * (1 / 4)) = of_int memoryMi / 4"
  proof (cases "memoryMi = 0")
    case False
    with assms(3,4) fl_exact_pos[of "of_int memoryMi * (1 / 4)" memoryMi "-2" 53] show ?thesis
      by (simp add: power_int_minus)
  qed (simp add: fl_def)
  have fl: "\<lfloor>(of_int memoryMi / 4 :: rat)\<rfloor> = memoryMi div 4"
    using floor_divide_of_int_eq[of memoryMi 4, where ?'a = rat] by simp
  have "trunc (min (of_int (11 * podCount + 255)) (of_int memoryMi / 4)) =
      min (11 * podCount + 255) (memoryMi div 4)"
  proof (cases "of_int (11 * podCount + 255) \<le> (of_int memoryMi / 4 :: rat)")
    case True
    then have "11 * podCount + 255 \<le> memoryMi div 4" using fl by (simp add: le_floor_iff flip: fl)
    with True show ?thesis by (simp only: min_absorb1 trunc_int)
  next
    case False
    then have "memoryMi div 4 \<le> 11 * podCount + 255"
      using fl by (metis floor_mono floor_of_int linorder_le_cases)
    with False assms(3) show ?thesis by (simp add: min_def trunc_def fl del: of_int_add of_int_mult)
  qed
  then show ?thesis unfolding memoryOverheadMi_def p m fl64_quarter q by simp
qed

text \<open>The share of the virtual machine in whole MiB, within a byte of rounding error.\<close>

lemma vm_share:
  fixes gib :: int and pct :: rat
  assumes "1 \<le> gib" "gib < 2 ^ 20" "0 \<le> pct" "pct \<le> 1"
  defines "k \<equiv> ceiling (fl64 (fl64 (fl64 (of_int (gib * 2 ^ 30)) * pct) / of_int MiBByteRatio))"
  shows "1024 * of_int gib * pct - 1 / 2 ^ 20 \<le> of_int k" "of_int k < 1024 * of_int gib * pct + 1 + 1 / 2 ^ 20"
proof -
  define x where "x = 1024 * of_int gib * pct"
  define a where "a = fl64 (of_int gib * 2 ^ 30 * pct)"
  define b where "b = fl64 (a / 2 ^ 20)"
  have "fl64 (of_int (gib * 2 ^ 30)) = of_int (gib * 2 ^ 30)" using assms(1,2) by (intro fl_exact_int) auto
  then have k: "k = ceiling b" by (simp add: k_def b_def a_def MiBByteRatio_def)
  have "(of_int gib :: rat) \<le> 2 ^ 20"
    using assms(2) of_int_le_iff[of gib "2 ^ 20", where ?'a = rat] by simp
  then have x: "0 \<le> x" "x \<le> 2 ^ 30"
    using assms(1,3,4) mult_mono[of "of_int gib :: rat" "2 ^ 20" pct 1] by (simp_all add: x_def mult.commute)
  have "\<bar>b - x\<bar> \<le> 1 / 2 ^ 20"
  proof (cases "pct = 0")
    case False
    then have pos: "0 < of_int gib * 2 ^ 30 * pct" using assms(1,3) by simp
    have powi: "(2 :: rat) powi - int 53 = 1 / 2 ^ 53" by (simp add: power_int_minus power_int_def field_simps)
    have y: "of_int gib * 2 ^ 30 * pct = x * 2 ^ 20" by (simp add: x_def)
    have ea: "\<bar>a - x * 2 ^ 20\<bar> \<le> x * 2 ^ 20 / 2 ^ 53"
      using fl_error[OF pos, of 53] unfolding powi y a_def by simp
    then have "a - x * 2 ^ 20 \<le> x * 2 ^ 20 / 2 ^ 53" "x * 2 ^ 20 - a \<le> x * 2 ^ 20 / 2 ^ 53" by linarith+
    then have a: "a \<le> x * 2 ^ 21" "x * 2 ^ 19 \<le> a" using x(1) by simp_all
    have "0 < x" using pos unfolding y by simp
    with a(2) have "0 < a" by simp
    then have "0 < a / 2 ^ 20" by simp
    from fl_error[OF this, of 53] have eb: "\<bar>b - a / 2 ^ 20\<bar> \<le> a / 2 ^ 20 / 2 ^ 53" unfolding powi b_def by simp
    have "\<bar>a / 2 ^ 20 - x\<bar> \<le> x / 2 ^ 53" using ea by (simp add: abs_le_iff field_simps)
    with eb have "\<bar>b - x\<bar> \<le> a / 2 ^ 20 / 2 ^ 53 + x / 2 ^ 53" by linarith
    also have "\<dots> \<le> 3 * x / 2 ^ 53" using a(1) by (simp add: field_simps)
    also have "\<dots> \<le> 1 / 2 ^ 20" using x(2) by (simp add: field_simps)
    finally show ?thesis .
  qed (simp add: b_def a_def x_def fl_def)
  moreover have "b \<le> of_int k" "of_int k < b + 1" unfolding k by linarith+
  ultimately show "1024 * of_int gib * pct - 1 / 2 ^ 20 \<le> of_int k" "of_int k < 1024 * of_int gib * pct + 1 + 1 / 2 ^ 20"
    unfolding x_def[symmetric] by linarith+
qed

section \<open>Lemmas: labels\<close>

lemma reqs_get_insert:
  "map_of rs k \<noteq> None \<Longrightarrow>
   reqs_get (reqs_insert k v rs) k' = (if k' = k then req_insert [v] (reqs_get rs k) else reqs_get rs k')"
  by (auto simp: reqs_get_def reqs_insert_def update_conv')

lemma reqs_insert_dom [simp]: "(map_of (reqs_insert k v rs) k' = None) = (map_of rs k' = None)"
  by (auto simp: reqs_insert_def update_conv' split: option.splits)

text \<open>The keys of an instance type's requirements are pairwise different.\<close>

definition type_label_keys :: "string list" where
  "type_label_keys =
     [LabelInstanceTypeStable, LabelArchStable, LabelOSStable, LabelTopologyZone, LabelTopologyRegion,
      LabelWindowsBuild, CapacityTypeLabelKey, LabelInstanceCPU, LabelInstanceCPUModel,
      LabelInstanceMemory, LabelInstanceCategory, LabelInstanceFamily, LabelInstanceGeneration,
      LabelInstanceSize, LabelInstanceGPUName, LabelInstanceGPUManufacturer, LabelInstanceGPUCount,
      LabelInstanceGPUMemory]"

lemma type_label_keys_distinct: "distinct (LabelTopologyZoneID # type_label_keys)"
  by (simp add: type_label_keys_def label_defs)

lemma type_label_keys_normal: "k \<in> set type_label_keys \<Longrightarrow> map_of NormalizedLabels k = None"
  by (auto simp: type_label_keys_def NormalizedLabels_def label_defs)

lemma base_requirements_list:
  "base_requirements rnd info ofs region = map (\<lambda>r. (Key r, r))
     [NewRequirement LabelInstanceTypeStable OpIn [StringValue (InstanceTypeId info)],
      NewRequirement LabelArchStable OpIn [extractECSArch (StringValue (CpuArchitecture info))],
      NewRequirement LabelOSStable OpIn [''linux''],
      NewRequirement LabelTopologyZone OpIn (offering_values rnd LabelTopologyZone ofs),
      NewRequirement LabelTopologyRegion OpIn [region],
      NewRequirement LabelWindowsBuild OpDoesNotExist [],
      NewRequirement CapacityTypeLabelKey OpIn (offering_values rnd CapacityTypeLabelKey ofs),
      NewRequirement LabelInstanceCPU OpIn [itoa (IntValue (CpuCoreCount info))],
      NewRequirement LabelInstanceCPUModel OpDoesNotExist [],
      NewRequirement LabelInstanceMemory OpIn
        [sprint_float32 (fl32 ((case MemorySize info of None \<Rightarrow> 0 | Some m \<Rightarrow> m) * of_int GiBMiBRatio))],
      NewRequirement LabelInstanceCategory OpDoesNotExist [],
      NewRequirement LabelInstanceFamily OpDoesNotExist [],
      NewRequirement LabelInstanceGeneration OpDoesNotExist [],
      NewRequirement LabelInstanceSize OpDoesNotExist [],
      NewRequirement LabelInstanceGPUName OpDoesNotExist [],
      NewRequirement LabelInstanceGPUManufacturer OpDoesNotExist [],
      NewRequirement LabelInstanceGPUCount OpDoesNotExist [],
      NewRequirement LabelInstanceGPUMemory OpDoesNotExist []]"
  (is "_ = map _ ?qs")
proof -
  have "map Key ?qs = type_label_keys"
    using type_label_keys_normal by (simp add: Key_NewRequirement type_label_keys_def)
  then show ?thesis
    unfolding base_requirements_def
    using type_label_keys_distinct by (intro NewRequirements_distinct) simp
qed

text \<open>Looking up a key of the list above.\<close>

lemma base_requirements_get:
  assumes "i < length type_label_keys"
  shows "map_of (base_requirements rnd info ofs region) (type_label_keys ! i) =
    Some (snd (base_requirements rnd info ofs region ! i))"
proof -
  let ?b = "base_requirements rnd info ofs region"
  have keys: "map fst ?b = type_label_keys"
    unfolding base_requirements_list
    using type_label_keys_normal by (simp add: Key_NewRequirement type_label_keys_def)
  then have len: "length ?b = length type_label_keys" by (metis length_map)
  have "distinct (map fst ?b)" using keys type_label_keys_distinct by simp
  moreover have "(type_label_keys ! i, snd (?b ! i)) \<in> set ?b"
    using assms len keys by (metis nth_map nth_mem prod.collapse)
  ultimately show ?thesis by (rule map_of_is_SomeI)
qed

lemma type_label_key_index:
  "type_label_keys ! 10 = LabelInstanceCategory" "type_label_keys ! 11 = LabelInstanceFamily"
  "type_label_keys ! 12 = LabelInstanceGeneration" "type_label_keys ! 13 = LabelInstanceSize"
  "type_label_keys ! 2 = LabelOSStable" "type_label_keys ! 3 = LabelTopologyZone"
  "type_label_keys ! 6 = CapacityTypeLabelKey" "length type_label_keys = 18"
  by (simp_all add: type_label_keys_def)

lemma base_requirements_lookup:
  "map_of (base_requirements rnd info ofs region) LabelInstanceCategory =
     Some (NewRequirement LabelInstanceCategory OpDoesNotExist [])"
  "map_of (base_requirements rnd info ofs region) LabelInstanceFamily =
     Some (NewRequirement LabelInstanceFamily OpDoesNotExist [])"
  "map_of (base_requirements rnd info ofs region) LabelInstanceGeneration =
     Some (NewRequirement LabelInstanceGeneration OpDoesNotExist [])"
  "map_of (base_requirements rnd info ofs region) LabelInstanceSize =
     Some (NewRequirement LabelInstanceSize OpDoesNotExist [])"
  "map_of (base_requirements rnd info ofs region) LabelOSStable =
     Some (NewRequirement LabelOSStable OpIn [''linux''])"
  "map_of (base_requirements rnd info ofs region) LabelTopologyZone =
     Some (NewRequirement LabelTopologyZone OpIn (offering_values rnd LabelTopologyZone ofs))"
  "map_of (base_requirements rnd info ofs region) CapacityTypeLabelKey =
     Some (NewRequirement CapacityTypeLabelKey OpIn (offering_values rnd CapacityTypeLabelKey ofs))"
  using base_requirements_get[of 10 rnd info ofs region] base_requirements_get[of 11 rnd info ofs region]
    base_requirements_get[of 12 rnd info ofs region] base_requirements_get[of 13 rnd info ofs region]
    base_requirements_get[of 2 rnd info ofs region] base_requirements_get[of 3 rnd info ofs region]
    base_requirements_get[of 6 rnd info ofs region]
  by (simp_all add: type_label_key_index base_requirements_list)

lemma add_zone_ids_other:
  "k \<noteq> LabelTopologyZoneID \<Longrightarrow> map_of (add_zone_ids rnd ofs rs) k = map_of rs k"
  by (simp add: add_zone_ids_def Let_def reqs_add_def map_of_reqs_add1_other Key_NewRequirement)

text \<open>Keys other than the ones a step writes keep their requirement.\<close>

lemma map_of_reqs_insert_other: "k' \<noteq> k \<Longrightarrow> map_of (reqs_insert k v rs) k' = map_of rs k'"
  by (simp add: reqs_insert_def update_conv' split: option.splits)

lemma map_of_reqs_insert_same:
  "map_of rs k = Some r \<Longrightarrow> map_of (reqs_insert k v rs) k = Some (req_insert [v] r)"
  by (simp add: reqs_insert_def update_conv')

lemma label_keys_neq [simp]:
  "LabelInstanceCategory \<noteq> LabelInstanceGeneration" "LabelInstanceGeneration \<noteq> LabelInstanceCategory"
  "LabelInstanceFamily \<noteq> LabelInstanceSize" "LabelInstanceSize \<noteq> LabelInstanceFamily"
  "LabelInstanceCategory \<noteq> LabelInstanceFamily" "LabelInstanceCategory \<noteq> LabelInstanceSize"
  "LabelInstanceGeneration \<noteq> LabelInstanceFamily" "LabelInstanceGeneration \<noteq> LabelInstanceSize"
  "LabelInstanceFamily \<noteq> LabelInstanceCategory" "LabelInstanceFamily \<noteq> LabelInstanceGeneration"
  "LabelInstanceSize \<noteq> LabelInstanceCategory" "LabelInstanceSize \<noteq> LabelInstanceGeneration"
  by (simp_all add: label_defs)

lemma later_labels_other:
  assumes "k \<in> {LabelInstanceCategory, LabelInstanceFamily, LabelInstanceGeneration, LabelInstanceSize,
      LabelOSStable, LabelTopologyZone, CapacityTypeLabelKey}"
  shows "map_of (add_cpu_model info (add_gpu_labels info rs)) k = map_of rs k"
proof -
  have "k \<notin> {LabelInstanceCPUModel, LabelInstanceGPUName, LabelInstanceGPUManufacturer,
      LabelInstanceGPUCount, LabelInstanceGPUMemory}"
    using assms by (auto simp: label_defs)
  then show ?thesis
    by (simp add: add_cpu_model_def add_gpu_labels_def map_of_reqs_insert_other split: option.splits)
qed

lemma family_labels_other:
  assumes "k \<in> {LabelOSStable, LabelTopologyZone, CapacityTypeLabelKey}"
  shows "map_of (add_family_labels i rs) k = map_of rs k"
proof -
  have "k \<notin> {LabelInstanceCategory, LabelInstanceFamily, LabelInstanceGeneration, LabelInstanceSize}"
    using assms by (auto simp: label_defs)
  then show ?thesis
    by (simp add: add_family_labels_def Let_def map_of_reqs_insert_other split: option.splits list.splits)
qed

text \<open>The regular expression on a name of the usual form.\<close>

lemma instanceTypeScheme_match:
  assumes "list_all lower_alpha cat" "cat \<noteq> []" "list_all digit_class gen" "gen \<noteq> []"
    and "rest = [] \<or> \<not> digit_class (hd rest)"
  shows "\<exists>t r. find_sub_anchored instanceTypeScheme (''ecs.'' @ cat @ gen @ rest) =
     Some (t, [(1, cat), (3, gen)], r)"
proof -
  let ?s = "gen @ rest"
  have no_alpha: "\<not> lower_alpha (hd ?s)" "hd ?s \<noteq> CHR ''-''" and ne: "?s \<noteq> []"
    using assms(3,4)
    by (cases gen; auto simp: digit_class_def char_digit_def lower_alpha_def split: if_splits)+
  obtain m1 where "matches (PlusC lower_alpha) (cat @ ?s) = (cat, [], ?s) # m1"
    using matches_PlusC_hd[of lower_alpha cat ?s] assms(1,2) no_alpha by blast
  then obtain m1' where g1: "matches (Grp 1 (PlusC lower_alpha)) (cat @ ?s) = (cat, [(1, cat)], ?s) # m1'"
    using matches_Grp_hd by blast
  have opt: "matches (Opt (Grp 2 (Seq (lit ''-'') (Seq (PlusC digit_class) (lit ''tb''))))) ?s = [([], [], ?s)]"
    using no_alpha(2) ne by (cases ?s) (simp_all add: seq_matches_def)
  obtain m3 where "matches (PlusC digit_class) ?s = (gen, [], rest) # m3"
    using matches_PlusC_hd[of digit_class gen rest] assms(3-5) by blast
  then obtain m3' where g3: "matches (Grp 3 (PlusC digit_class)) ?s = (gen, [(3, gen)], rest) # m3'"
    using matches_Grp_hd by blast
  obtain t r m4 where st: "matches (StarC any_char) rest = (t, [], r) # m4"
    using matches_StarC_hd by blast
  note step = matches_Seq_hd[OF g3 st]
  from step obtain a1 where a1: "matches (Seq (Grp 3 (PlusC digit_class)) (StarC any_char)) ?s =
      (gen @ t, [(3, gen)], r) # a1" by auto
  from matches_Seq_hd[OF opt a1] obtain a2 where a2:
    "matches (Seq (Opt (Grp 2 (Seq (lit ''-'') (Seq (PlusC digit_class) (lit ''tb'')))))
       (Seq (Grp 3 (PlusC digit_class)) (StarC any_char))) ?s = (gen @ t, [(3, gen)], r) # a2" by auto
  from matches_Seq_hd[OF g1 a2] obtain a3 where a3:
    "matches (Seq (Grp 1 (PlusC lower_alpha))
       (Seq (Opt (Grp 2 (Seq (lit ''-'') (Seq (PlusC digit_class) (lit ''tb'')))))
         (Seq (Grp 3 (PlusC digit_class)) (StarC any_char)))) (cat @ ?s) =
       (cat @ gen @ t, [(1, cat), (3, gen)], r) # a3" by auto
  from matches_Seq_hd[OF matches_lit[of "''ecs.''"] a3] show ?thesis
    by (auto simp: find_sub_anchored_def instanceTypeScheme_def)
qed

lemma split_type_name:
  assumes "CHR ''.'' \<notin> set fam" "CHR ''.'' \<notin> set sz"
  shows "split_char CHR ''.'' (''ecs.'' @ fam @ ''.'' @ sz) = [''ecs'', fam, sz]"
  using split_char_append[of "CHR ''.''" "''ecs''" "fam @ ''.'' @ sz"]
    split_char_append[of "CHR ''.''" fam sz] split_char_no_sep[OF assms(2)] assms(1) by simp

lemma label_chars_no_dot:
  "list_all lower_alpha cat \<Longrightarrow> CHR ''.'' \<notin> set cat"
  "list_all digit_class gen \<Longrightarrow> CHR ''.'' \<notin> set gen"
  by (auto simp: list_all_iff lower_alpha_def digit_class_def char_digit_def)

lemma reqs_get_Some: "map_of rs k = Some r \<Longrightarrow> reqs_get rs k = r"
  by (simp add: reqs_get_def)

lemma req_has_inserted [simp]:
  "req_has (req_insert [v] (NewRequirement k OpDoesNotExist [])) w \<longleftrightarrow> w = v"
  by (auto simp: req_has_def req_insert_def NewRequirement_def NewRequirementWithFlexibility_def Let_def)

lemma computeRequirements_os:
  "map_of (computeRequirements rnd info ofs region) LabelOSStable =
     Some (NewRequirement LabelOSStable OpIn [''linux''])"
proof -
  have "LabelOSStable \<noteq> LabelTopologyZoneID" by (simp add: label_defs)
  then show ?thesis
    by (simp add: computeRequirements_def later_labels_other family_labels_other add_zone_ids_other
        base_requirements_lookup)
qed

text \<open>The image of every instance type is Linux, so the Windows resources are never added.\<close>

lemma never_windows:
  "\<not> Compatible al (computeRequirements rnd info ofs region)
      (NewRequirements [NewRequirement LabelOSStable OpIn [''windows'']])"
proof -
  have k: "Key (NewRequirement LabelOSStable OpIn [''windows'']) = LabelOSStable"
    by (simp add: Key_NewRequirement NormalizedLabels_def label_defs)
  have bounds: "greaterThan_r (NewRequirement LabelOSStable OpIn [''linux'']) = None"
    "lessThan_r (NewRequirement LabelOSStable OpIn [''linux'']) = None"
    by (simp_all add: NewRequirement_def NewRequirementWithFlexibility_def)
  have "NewRequirements [NewRequirement LabelOSStable OpIn [''windows'']] =
      [(LabelOSStable, NewRequirement LabelOSStable OpIn [''windows''])]"
    using k by (simp add: NewRequirements_distinct)
  then show ?thesis
    using key_intersects_In1[of "NewRequirement LabelOSStable OpIn [''linux'']" LabelOSStable "''windows''"] bounds
    by (simp add: Compatible_def Intersects_def reqs_has_def reqs_get_def computeRequirements_os)
qed

section \<open>Properties\<close>

text \<open>
  C17. The CPU reserved on a node, computed in floating point, is the documented schedule in
  exact integers: 6% of the first core, 1% of the second, 0.5% of the third and of the fourth,
  0.25% of the rest, in milli-cores and rounded down.
\<close>

theorem cpu_overhead_exact:
  assumes "0 \<le> cpuM" "cpuM < 2 ^ 40"
  shows "calculateCPUOverhead cpuM =
    (if 1000 \<le> cpuM then 60 else 0) + (if 2000 \<le> cpuM then 10 else 0)
    + (if 3000 \<le> cpuM then 5 else 0) + (if 4000 \<le> cpuM then 5 else 0)
    + (if 4000 < cpuM then (cpuM - 4000) div 400 else 0)"
  using assms by (rule cpu_schedule)

theorem cpu_overhead_exact_witness: "calculateCPUOverhead 8000 = 90"
  using cpu_overhead_exact[of 8000] by simp

text \<open>
  C18. The reserved memory, computed in floating point, is exactly the smaller of
  11 MiB per pod plus 255 MiB and a quarter of the memory rounded down, plus 200 MiB.
\<close>

theorem memory_overhead_exact:
  assumes "0 \<le> podCount" "podCount < 2 ^ 40" "0 \<le> memoryMi" "memoryMi < 2 ^ 50"
  shows "memoryOverheadMi podCount memoryMi = min (11 * podCount + 255) (memoryMi div 4) + 200"
  using assms by (rule memory_schedule)

theorem memory_overhead_exact_witness: "memoryOverheadMi 64 8192 = 1159"
  using memory_overhead_exact[of 64 8192] by simp

text \<open>
  An instance type named \<^verbatim>\<open>ecs.<category><generation><suffix>.<size>\<close> is labelled
  with exactly that category, generation and size, and with the family
  \<^verbatim>\<open>ecs.<category><generation><suffix>\<close>.
\<close>

theorem type_name_labels:
  assumes "InstanceTypeId info = Some (''ecs.'' @ cat @ gen @ suffix @ ''.'' @ sz)"
    and "list_all lower_alpha cat" "cat \<noteq> []" "list_all digit_class gen" "gen \<noteq> []"
    and "suffix = [] \<or> \<not> digit_class (hd suffix)"
    and "CHR ''.'' \<notin> set suffix" "CHR ''.'' \<notin> set sz"
    and "R = computeRequirements rnd info ofs region"
  shows "(req_has (reqs_get R LabelInstanceCategory) v \<longleftrightarrow> v = cat)
    \<and> (req_has (reqs_get R LabelInstanceGeneration) v \<longleftrightarrow> v = gen)
    \<and> (req_has (reqs_get R LabelInstanceFamily) v \<longleftrightarrow> v = ''ecs.'' @ cat @ gen @ suffix)
    \<and> (req_has (reqs_get R LabelInstanceSize) v \<longleftrightarrow> v = sz)"
proof -
  define name where "name = ''ecs.'' @ cat @ gen @ suffix @ ''.'' @ sz"
  define rs where "rs = add_zone_ids rnd ofs (base_requirements rnd info ofs region)"
  have rest: "suffix @ ''.'' @ sz = [] \<or> \<not> digit_class (hd (suffix @ ''.'' @ sz))"
    using assms(6) by (cases suffix) (auto simp: digit_class_def char_digit_def)
  obtain t r where m: "find_sub_anchored instanceTypeScheme name = Some (t, [(1, cat), (3, gen)], r)"
    using instanceTypeScheme_match[OF assms(2-5) rest] by (auto simp: name_def)
  have split: "split_char CHR ''.'' name = [''ecs'', cat @ gen @ suffix, sz]"
    using split_type_name[of "cat @ gen @ suffix" sz] label_chars_no_dot assms(2,4,7,8)
    by (simp add: name_def)
  have R: "R = add_cpu_model info (add_gpu_labels info (add_family_labels name rs))"
    using assms(1) by (simp add: assms(9) computeRequirements_def rs_def name_def)
  have fam: "add_family_labels name rs = reqs_insert LabelInstanceSize sz
      (reqs_insert LabelInstanceFamily (''ecs.'' @ cat @ gen @ suffix)
        (reqs_insert LabelInstanceGeneration gen (reqs_insert LabelInstanceCategory cat rs)))"
    by (simp add: add_family_labels_def m split group_def)
  have base: "map_of rs k = Some (NewRequirement k OpDoesNotExist [])"
    if "k \<in> {LabelInstanceCategory, LabelInstanceFamily, LabelInstanceGeneration, LabelInstanceSize}" for k
  proof -
    have "k \<noteq> LabelTopologyZoneID" using that by (auto simp: label_defs)
    with that base_requirements_lookup show ?thesis by (auto simp: rs_def add_zone_ids_other)
  qed
  have "map_of R LabelInstanceCategory = Some (req_insert [cat] (NewRequirement LabelInstanceCategory OpDoesNotExist []))"
    "map_of R LabelInstanceGeneration = Some (req_insert [gen] (NewRequirement LabelInstanceGeneration OpDoesNotExist []))"
    "map_of R LabelInstanceFamily = Some (req_insert [''ecs.'' @ cat @ gen @ suffix]
        (NewRequirement LabelInstanceFamily OpDoesNotExist []))"
    "map_of R LabelInstanceSize = Some (req_insert [sz] (NewRequirement LabelInstanceSize OpDoesNotExist []))"
    by (simp_all add: R later_labels_other fam map_of_reqs_insert_other map_of_reqs_insert_same base)
  then show ?thesis by (simp add: reqs_get_Some)
qed

text \<open>A general-purpose type of the seventh generation.\<close>

definition sample_info :: ecs_type_info where
  "sample_info =
     \<lparr>InstanceTypeId = Some ''ecs.g7.large'', CpuArchitecture = Some ''X86'', CpuCoreCount = Some 2,
      MemorySize = Some 8, GPUAmount = Some 0, GPUSpec = Some [], GPUMemorySize = None,
      PhysicalProcessorModel = Some ''Intel(R) Xeon(R)'', EniQuantity = Some 3,
      EniPrivateIpAddressQuantity = Some 6\<rparr>"

theorem type_name_labels_witness:
  "req_has (reqs_get (computeRequirements id sample_info [] ''cn-beijing'') LabelInstanceFamily) ''ecs.g7''"
  using type_name_labels[of sample_info "''g''" "''7''" "[]" "''large''" _ id "[]" "''cn-beijing''"]
  by (simp add: sample_info_def lower_alpha_def digit_class_def char_digit_def)

lemma capacity_keys_neq [simp]:
  "ResourceCPU \<noteq> ResourceMemory" "ResourceCPU \<noteq> ResourcePods" "ResourceMemory \<noteq> ResourceCPU"
  "ResourceMemory \<noteq> ResourcePods" "ResourcePods \<noteq> ResourceCPU" "ResourcePods \<noteq> ResourceMemory"
  "ResourceEphemeralStorage \<noteq> ResourcePods" "ResourceEphemeralStorage \<noteq> ResourceCPU"
  "ResourceEphemeralStorage \<noteq> ResourceMemory" "ResourcePods \<noteq> ResourceEphemeralStorage"
  by (simp_all add: ResourceCPU_def ResourceMemory_def ResourcePods_def ResourceEphemeralStorage_def)

lemma gpu_names:
  "ResourceNVIDIAGPU \<noteq> ResourceCPU" "ResourceNVIDIAGPU \<noteq> ResourceMemory" "ResourceNVIDIAGPU \<noteq> ResourcePods" "ResourceNVIDIAGPU \<noteq> ResourceEphemeralStorage"
  "ResourceAMDGPU \<noteq> ResourceCPU" "ResourceAMDGPU \<noteq> ResourceMemory" "ResourceAMDGPU \<noteq> ResourcePods" "ResourceAMDGPU \<noteq> ResourceEphemeralStorage"
  "ResourceAMDGPU \<noteq> ResourceNVIDIAGPU"
  by (simp_all add: label_defs ResourceCPU_def ResourceMemory_def ResourcePods_def ResourceEphemeralStorage_def)

text \<open>The parts of a constructed type.\<close>

lemma new_instance_type_parts:
  assumes "ofs \<noteq> []" and "InstanceTypeId info = Some name" and "CpuCoreCount info = Some cores"
    and g: "nvidiaGPUs info = Ok nv" "amdGPUs info = Ok am"
    and "diskSize (case systemDisk of None \<Rightarrow> DefaultSystemDisk | Some d \<Rightarrow> d) = Some sz"
    and "pods info (MaxPods kc) (PodsPerCore kc) cni = podCount"
  shows "\<exists>it. NewInstanceType rnd pct info kc region systemDisk ofs cni = Ok (Some it)
    \<and> itName it = name \<and> Offerings it = ofs
    \<and> itCapacity it = [(ResourceCPU, of_int cores), (ResourceMemory, memory pct info),
         (ResourceEphemeralStorage, of_int sz * 10 ^ 9), (ResourcePods, of_int podCount),
         (ResourceNVIDIAGPU, nv), (ResourceAMDGPU, am)]
    \<and> quantity (Allocatable it) ResourceCPU = of_int cores - of_int (calculateCPUOverhead (cores * 1000)) / 1000
    \<and> quantity (Allocatable it) ResourceMemory = memory pct info
         - of_int (memoryOverheadMi podCount (ceiling (extractMemory info) div MiBByteRatio)) * of_int MiBByteRatio"
proof -
  define cap where "cap = [(ResourceCPU, of_int cores), (ResourceMemory, memory pct info),
     (ResourceEphemeralStorage, of_int sz * 10 ^ 9), (ResourcePods, of_int podCount),
     (ResourceNVIDIAGPU, nv), (ResourceAMDGPU, am)]"
  have cap: "computeCapacity pct info (MaxPods kc) (PodsPerCore kc) systemDisk cni = Ok cap"
    using g assms(3,6,7) by (simp add: computeCapacity_def cpu_def ephemeralStorage_def cap_def)
  have q: "quantity cap ResourcePods = of_int podCount" "quantity cap ResourceCPU = of_int cores"
    "quantity cap ResourceMemory = memory pct info" by (simp_all add: cap_def quantity_def)
  define it where "it = \<lparr>itName = name, itRequirements = computeRequirements rnd info ofs region,
     Offerings = ofs, itCapacity = cap, Overhead = \<lparr>KubeReserved =
        calculateResourceOverhead podCount (cores * 1000) (ceiling (extractMemory info) div MiBByteRatio),
        SystemReserved = [], EvictionThreshold = []\<rparr>\<rparr>"
  have milli: "ceiling (of_int cores * 1000 :: rat) = cores * 1000"
    using ceiling_of_int[of "cores * 1000", where ?'a = rat] by simp
  have "NewInstanceType rnd pct info kc region systemDisk ofs cni = Ok (Some it)"
    using assms(1,2) cap by (simp add: NewInstanceType_def never_windows it_def q milli Let_def)
  moreover have "quantity (overhead_total (Overhead it)) n = quantity (KubeReserved (Overhead it)) n" for n
    by (simp add: overhead_total_def res_merge_def it_def calculateResourceOverhead_def quantity_add1
        quantity_def[of "[]"] quantity_def[of "_ # _"])
  moreover have "quantity (Allocatable it) ResourceCPU = quantity cap ResourceCPU - quantity (overhead_total (Overhead it)) ResourceCPU"
    "quantity (Allocatable it) ResourceMemory = quantity cap ResourceMemory - quantity (overhead_total (Overhead it)) ResourceMemory"
    by (simp_all add: Allocatable_def it_def quantity_subtract cap_def)
  ultimately show ?thesis
    by (intro exI[of _ it]) (simp add: it_def q cap_def calculateResourceOverhead_def quantity_def[of "_ # _"])
qed

text \<open>How many pods a node takes, in plain integers.\<close>

lemma pods_plain:
  assumes "CpuCoreCount info = Some cores" "EniQuantity info = Some eni" "EniPrivateIpAddressQuantity info = Some ips"
    and "1 \<le> eni" "0 \<le> ips" "eni * ips < 2 ^ 30" "0 \<le> cores" "\<And>c. ppc = Some c \<Longrightarrow> c * cores < 2 ^ 31"
  shows "pods info mp ppc cni =
    (let n = (case mp of Some m \<Rightarrow> m | None \<Rightarrow>
         if cni = ''terway-eniip'' then (eni - 1) * ips + 3 else if cni = ''Flannel'' then 256 else 110)
     in case ppc of Some c \<Rightarrow> if 0 < c then min (c * cores) n else n | None \<Rightarrow> n)"
proof -
  have ips: "ips \<le> eni * ips" using assms(4,5) mult_right_mono[of 1 eni ips] by simp
  have "eni \<le> 2 ^ 30 \<or> ips = 0" using assms(4-6) mult_left_mono[of 1 ips eni] by linarith
  then have net: "int32 (int32 (int32 (eni - 1) * ips) + 3) = (eni - 1) * ips + 3"
    using assms(4-6) ips by (auto simp: left_diff_distrib)
  have core: "int32 (c * cores) = c * cores" if "ppc = Some c" "0 < c" for c
    proof (rule int32_id)
    have "0 \<le> c * cores" using assms(7) that(2) by simp
    then show "- (2 ^ 31) \<le> c * cores" by (rule order_trans[rotated]) simp
  qed (rule assms(8)[OF that(1)])
  show ?thesis
    using assms(1-3) net core
    by (auto simp: pods_def Let_def ClusterCNITypeTerway_def ClusterCNITypeFlannel_def BaseHostNetworkPods_def
        FlannelDefaultPods_def KubeletMaxPods_def split: option.splits)
qed

text \<open>
  C19. What a node of an instance type offers to pods, in plain numbers, when ECS describes the
  type completely (whole GiB of memory), it has an offering and the system disk has a size. The
  number of pods is the one of the kubelet configuration, else the addresses of the secondary
  network interfaces plus three in a Terway cluster, 256 with Flannel, and 110 otherwise, and never more
  than the configured number per core. The memory is what ECS says minus the virtual machine's share
  (the configured percentage, rounded up to a MiB, within a byte of rounding error); of it the
  smaller of 11 MiB per pod plus 255 MiB and a quarter, plus 200 MiB, is reserved. Of the cores
  60 milli-cores are reserved for the first, 10 for the second, 5 for the third and for the fourth and
  2.5 for each further one. GPUs count for the manufacturer their specification starts with.
\<close>

theorem new_instance_type_allocatable:
  assumes "ofs \<noteq> []" and "InstanceTypeId info = Some name"
    and "CpuCoreCount info = Some cores" "1 \<le> cores" "cores < 2 ^ 20"
    and "MemorySize info = Some (of_int gib)" "1 \<le> gib" "gib < 2 ^ 20"
    and "EniQuantity info = Some eni" "EniPrivateIpAddressQuantity info = Some ips" "1 \<le> eni" "0 \<le> ips" "eni * ips < 2 ^ 30"
    and "GPUSpec info = Some spec" and "GPUAmount info = Some g"
    and "diskSize (case systemDisk of None \<Rightarrow> DefaultSystemDisk | Some d \<Rightarrow> d) = Some sz"
    and "\<And>c. PodsPerCore kc = Some c \<Longrightarrow> c * cores < 2 ^ 31" "0 \<le> pct" "pct \<le> 1"
    and "podCount =
      (let n = (case MaxPods kc of Some m \<Rightarrow> m | None \<Rightarrow>
           if cni = ''terway-eniip'' then (eni - 1) * ips + 3 else if cni = ''Flannel'' then 256 else 110)
       in case PodsPerCore kc of Some c \<Rightarrow> if 0 < c then min (c * cores) n else n | None \<Rightarrow> n)"
    and "0 \<le> podCount" "podCount < 2 ^ 31"
  shows "\<exists>it share. NewInstanceType rnd pct info kc region systemDisk ofs cni = Ok (Some it)
    \<and> itName it = name \<and> Offerings it = ofs
    \<and> quantity (itCapacity it) ResourcePods = of_int podCount
    \<and> quantity (itCapacity it) ResourceCPU = of_int cores
    \<and> 1024 * of_int gib * pct - 1 / 2 ^ 20 \<le> of_int share \<and> of_int share < 1024 * of_int gib * pct + 1 + 1 / 2 ^ 20
    \<and> quantity (itCapacity it) ResourceMemory = of_int (1024 * gib - share) * 2 ^ 20
    \<and> quantity (Allocatable it) ResourceCPU
        = of_int cores - of_int (60 + (if 2 \<le> cores then 10 else 0) + (if 3 \<le> cores then 5 else 0)
            + (if 4 \<le> cores then 5 + (cores - 4) * 5 div 2 else 0)) / 1000
    \<and> quantity (Allocatable it) ResourceMemory
        = of_int (1024 * gib - share - (min (11 * podCount + 255) (256 * gib) + 200)) * 2 ^ 20
    \<and> quantity (itCapacity it) ResourceEphemeralStorage = of_int sz * 10 ^ 9
    \<and> quantity (itCapacity it) ResourceNVIDIAGPU
        = (if ToLower (hd (split_char CHR '' '' spec)) = ''nvidia'' then of_int g else 0)
    \<and> quantity (itCapacity it) ResourceAMDGPU
        = (if ToLower (hd (split_char CHR '' '' spec)) = ''amd'' then of_int g else 0)"
proof -
  have podCount: "pods info (MaxPods kc) (PodsPerCore kc) cni = podCount"
    unfolding assms(20) by (rule pods_plain) (use assms in auto)
  have bytes: "extractMemory info = of_int (gib * 2 ^ 30)"
  proof -
    have "sixDecimals (of_int gib) = of_int gib"
      using round_half_even_int[of "gib * 10 ^ 6"] by (simp add: sixDecimals_def)
    then show ?thesis using assms(6) by (simp add: extractMemory_def)
  qed
  then have mi: "ceiling (extractMemory info) div MiBByteRatio = 1024 * gib"
    unfolding bytes ceiling_of_int by (simp add: MiBByteRatio_def)
  define share where "share = ceiling (fl64 (fl64 (fl64 (of_int (gib * 2 ^ 30)) * pct) / of_int MiBByteRatio))"
  note vm = vm_share[OF assms(7,8,18,19), folded share_def]
  have mem: "memory pct info = of_int (1024 * gib - share) * 2 ^ 20"
    unfolding memory_def bytes Let_def ceiling_of_int share_def[symmetric]
    using assms(7) by (simp add: MiBByteRatio_def algebra_simps)
  have cpuM: "calculateCPUOverhead (cores * 1000) = 60 + (if 2 \<le> cores then 10 else 0) + (if 3 \<le> cores then 5 else 0)
      + (if 4 \<le> cores then 5 + (cores - 4) * 5 div 2 else 0)"
  proof -
    have "(cores * 1000 - 4000) div 400 = (cores - 4) * 5 div 2"
      using div_mult_mult2[of 200 "(cores - 4) * 5" 2] by (simp add: algebra_simps)
    with assms(4,5) show ?thesis by (subst cpu_schedule) auto
  qed
  have memM: "memoryOverheadMi podCount (1024 * gib) = min (11 * podCount + 255) (256 * gib) + 200"
    using assms(7,8,21,22) by (subst memory_schedule) simp_all
  have g: "nvidiaGPUs info = Ok (if ToLower (hd (split_char CHR '' '' spec)) = ''nvidia'' then of_int g else 0)"
    "amdGPUs info = Ok (if ToLower (hd (split_char CHR '' '' spec)) = ''amd'' then of_int g else 0)"
    using assms(14,15) by (simp_all add: nvidiaGPUs_def amdGPUs_def gpus_of_def getGPUManufacturer_def)
  from new_instance_type_parts[OF assms(1-3) g assms(16) podCount, of rnd pct region] obtain it where
    it: "NewInstanceType rnd pct info kc region systemDisk ofs cni = Ok (Some it)" "itName it = name" "Offerings it = ofs"
      "itCapacity it = [(ResourceCPU, of_int cores), (ResourceMemory, memory pct info),
         (ResourceEphemeralStorage, of_int sz * 10 ^ 9), (ResourcePods, of_int podCount),
         (ResourceNVIDIAGPU, if ToLower (hd (split_char CHR '' '' spec)) = ''nvidia'' then of_int g else 0),
         (ResourceAMDGPU, if ToLower (hd (split_char CHR '' '' spec)) = ''amd'' then of_int g else 0)]"
      "quantity (Allocatable it) ResourceCPU = of_int cores - of_int (calculateCPUOverhead (cores * 1000)) / 1000"
      "quantity (Allocatable it) ResourceMemory = memory pct info
         - of_int (memoryOverheadMi podCount (ceiling (extractMemory info) div MiBByteRatio)) * of_int MiBByteRatio" by blast
  show ?thesis
    by (intro exI[of _ it] exI[of _ share] conjI it(1-3) vm)
      (simp_all add: it(4,5) it(6)[unfolded mi memM] mem cpuM MiBByteRatio_def quantity_def[of "_ # _"] left_diff_distrib gpu_names)
qed

theorem new_instance_type_allocatable_witness:
  "\<exists>it. NewInstanceType id 0 sample_info empty_kubelet ''cn-beijing'' None [zero_offering] ''Flannel''
      = Ok (Some it) \<and> quantity (itCapacity it) ResourcePods = 256
    \<and> quantity (Allocatable it) ResourceCPU = 1930 / 1000"
  using new_instance_type_allocatable[of "[zero_offering]" sample_info "''ecs.g7.large''" 2 8 3 6 "[]" 0 None 20
      empty_kubelet 0 256 "''Flannel''" id "''cn-beijing''"]
  by (auto simp: sample_info_def DefaultSystemDisk_def empty_kubelet_def)

text \<open>
  A node class that gives a system disk without a size (the field is optional) makes the
  construction of every instance type that has an offering panic: the size is dereferenced
  without a test.
\<close>

theorem disk_without_size_panics:
  assumes "ofs \<noteq> []" and "diskSize d = None"
  shows "NewInstanceType rnd pct info kc region (Some d) ofs cni = Panic"
proof -
  have "computeCapacity pct info mp ppc (Some d) cni = Panic" for mp ppc
    using assms(2) by (cases "CpuCoreCount info") (simp_all add: computeCapacity_def cpu_def ephemeralStorage_def)
  with assms(1) show ?thesis by (cases "InstanceTypeId info") (simp_all add: NewInstanceType_def)
qed

theorem disk_without_size_panics_witness:
  "NewInstanceType id 0 sample_info empty_kubelet ''cn-beijing''
     (Some \<lparr>Categories = Some [''cloud_essd''], diskSize = None, PerformanceLevel = None\<rparr>)
     [zero_offering] ''Flannel'' = Panic"
  by (rule disk_without_size_panics) simp_all

end
