(* ===== verification/Image_Family.thy ===== *)
theory Image_Family
  imports Apis Go_Cache Utils Instance_Types
begin

text \<open>
  Images and system disks: \<^verbatim>\<open>src/pkg/providers/imagefamily\<close>. \<^verbatim>\<open>image.go\<close>
  resolves the image selector terms of a node class, \<^verbatim>\<open>acl3.go\<close> and
  \<^verbatim>\<open>containeros.go\<close> pick the images of a family, \<^verbatim>\<open>resolver.go\<close> keeps the
  instance types that can use one of the node class' disk categories. The ACK and ECS APIs
  and the hash of requirements are parameters.
\<close>

record image =
  imName :: string
  imImageID :: string
  imRequirements :: requirements

text \<open>An image as the APIs describe it.\<close>

record api_image =
  aiImageId :: "string option"
  aiImageName :: "string option"
  aiArchitecture :: "string option"

section \<open>Image families\<close>

datatype image_family = FamilyContainerOS | FamilyAlibabaCloudLinux3

definition GetImageFamily :: "string \<Rightarrow> image_family option" where
  "GetImageFamily family =
     (if family = ImageFamilyContainerOS then Some FamilyContainerOS
      else if family = ImageFamilyAlibabaCloudLinux3 then Some FamilyAlibabaCloudLinux3
      else None)"

definition alibabaCloudLinux3ImageIDRegex :: re where
  "alibabaCloudLinux3ImageIDRegex =
     Seq (lit ''aliyun_3_'') (Seq (StarC any_char) (Seq (lit ''G_alibase_'') (Seq (StarC any_char) (lit ''vhd''))))"

definition ResolveImages_acl3 :: "image list \<Rightarrow> image list" where
  "ResolveImages_acl3 images =
     filter (\<lambda>im. find_sub alibabaCloudLinux3ImageIDRegex (imImageID im) \<noteq> None) images"

definition ResolveImages_containeros :: "image list \<Rightarrow> image list" where
  "ResolveImages_containeros images = filter (\<lambda>im. HasPrefix (imName im) ''ContainerOS'') images"

fun ResolveImages :: "image_family \<Rightarrow> image list \<Rightarrow> image list" where
  "ResolveImages FamilyContainerOS images = ResolveImages_containeros images"
| "ResolveImages FamilyAlibabaCloudLinux3 images = ResolveImages_acl3 images"

section \<open>Resolving selector terms\<close>

text \<open>The architectures Kubernetes knows; images of another one are skipped.\<close>

definition arch_requirements :: "string \<Rightarrow> requirements" where
  "arch_requirements arch = NewRequirements [NewRequirement LabelArchStable OpIn [arch]]"

definition to_images :: "(api_image \<Rightarrow> string) \<Rightarrow> api_image list \<Rightarrow> image list" where
  "to_images i ims =
     concat (map (\<lambda>im. case map_of AlibabaCloudToKubeArchitectures (StringValue (aiArchitecture im)) of
        None \<Rightarrow> []
      | Some arch \<Rightarrow> [\<lparr>imName = StringValue (aiImageName im), imImageID = i im,
                      imRequirements = arch_requirements arch\<rparr>]) ims)"

text \<open>\<open>ackapi\<close> is \<^verbatim>\<open>DescribeKubernetesVersionMetadata\<close>: the images of each entry of
  the answer for a version without its leading \<^verbatim>\<open>v\<close>.\<close>

definition getImagesWithAlias :: "(string \<Rightarrow> api_image list list outcome) \<Rightarrow> string \<Rightarrow> image list outcome" where
  "getImagesWithAlias ackapi k8sVersion =
     (case ackapi (TrimPrefix k8sVersion ''v'') of
        Err e \<Rightarrow> Err (Wrap ''failed to describe k8s version metadata '' e)
      | Panic \<Rightarrow> Panic
      | Ok [] \<Rightarrow> Ok []
      | Ok (ims # _) \<Rightarrow> Ok (to_images (\<lambda>im. StringValue (aiImageId im)) ims))"

definition getImagesWithID :: "(string \<Rightarrow> api_image list outcome) \<Rightarrow> string \<Rightarrow> image list outcome" where
  "getImagesWithID ecsapi i =
     (case ecsapi i of
        Err e \<Rightarrow> Err (ErrorString (''failed to get images through id '' @ i))
      | Panic \<Rightarrow> Panic
      | Ok ims \<Rightarrow> Ok (to_images (\<lambda>_. i) ims))"

record image_env =
  ieAck :: "string \<Rightarrow> api_image list list outcome"
  ieEcs :: "string \<Rightarrow> api_image list outcome"
  termsHash :: "image_selector_term list \<Rightarrow> string outcome"
  reqsHash :: "requirements \<Rightarrow> nat"

definition resolve_term :: "image_env \<Rightarrow> string \<Rightarrow> image_selector_term \<Rightarrow> image list outcome" where
  "resolve_term env k8sVersion t =
     (if Alias t \<noteq> [] then
        outcome_bind (getImagesWithAlias (ieAck env) k8sVersion) (\<lambda>ims.
          case GetImageFamily (Alias t) of
            None \<Rightarrow> Err (ErrorString (''unsupported image family '' @ Alias t))
          | Some fam \<Rightarrow> Ok (ResolveImages fam ims))
      else getImagesWithID (ieEcs env) (imtID t))"

text \<open>The first image with given requirements wins.\<close>

definition add_image :: "image_env \<Rightarrow> image \<Rightarrow> (nat \<times> image) list \<Rightarrow> (nat \<times> image) list" where
  "add_image env im m =
     (let h = reqsHash env (imRequirements im) in
      if map_of m h \<noteq> None then m else AList.update h im m)"

definition GetImages ::
  "image_env \<Rightarrow> int \<Rightarrow> string \<Rightarrow> ecs_nodeclass \<Rightarrow> image list go_cache \<Rightarrow> image list outcome \<times> image list go_cache"
where
  "GetImages env now k8sVersion nc c =
     (case termsHash env (ImageSelectorTerms (ncSpec nc)) of
        Err e \<Rightarrow> (Err e, c)
      | Panic \<Rightarrow> (Panic, c)
      | Ok h \<Rightarrow>
          (case cache_get now h c of
             Some ims \<Rightarrow> (Ok ims, c)
           | None \<Rightarrow>
               (case outcome_fold (\<lambda>t m. outcome_map (\<lambda>ims. fold (add_image env) ims m) (resolve_term env k8sVersion t))
                       (ImageSelectorTerms (ncSpec nc)) [] of
                  Ok m \<Rightarrow> (Ok (map snd m), cache_set_default now h (map snd m) c)
                | Err e \<Rightarrow> (Err e, c)
                | Panic \<Rightarrow> (Panic, c))))"

text \<open>\<^verbatim>\<open>List\<close>, with the answer of the version provider.\<close>

definition image_List ::
  "image_env \<Rightarrow> int \<Rightarrow> string outcome \<Rightarrow> ecs_nodeclass \<Rightarrow> image list go_cache \<Rightarrow> image list outcome \<times> image list go_cache"
where
  "image_List env now k8sVersion nc c =
     (case k8sVersion of
        Err e \<Rightarrow> (Err e, c)
      | Panic \<Rightarrow> (Panic, c)
      | Ok v \<Rightarrow> GetImages env now v nc c)"

section \<open>System disks\<close>

record disk_resource =
  drStatus :: "string option"
  drValue :: "string option"

record disk_zone =
  dzStatus :: "string option"
  dzStatusCategory :: "string option"
  dzAvailableResources :: "disk_resource list option list option"

record disk_body =
  dbAvailableZones :: "disk_zone list option"
  dbRequestId :: "string option"

text \<open>The disks an instance type can use in a zone that is available and in stock.\<close>

definition zone_disks :: "disk_zone \<Rightarrow> string list outcome" where
  "zone_disks az =
     outcome_bind (deref (dzStatus az)) (\<lambda>st.
       if st \<noteq> ''Available'' then Ok []
       else outcome_bind (deref (dzStatusCategory az)) (\<lambda>cat.
         case dzAvailableResources az of
           Some ars \<Rightarrow>
             if cat \<noteq> ''WithStock'' then Ok []
             else Ok (map (\<lambda>r. StringValue (drValue r))
               (filter (\<lambda>r. StringValue (drStatus r) = ''Available'' \<and> StringValue (drValue r) \<noteq> [])
                 (concat (map (\<lambda>ar. case ar of None \<Rightarrow> [] | Some rs \<Rightarrow> rs) ars))))
         | None \<Rightarrow> Ok []))"

definition describeAvailableSystemDisk :: "(string \<Rightarrow> disk_body option outcome) \<Rightarrow> string \<Rightarrow> string list outcome" where
  "describeAvailableSystemDisk api it =
     outcome_bind (api it) (\<lambda>r. case r of
        None \<Rightarrow> Err (ErrorString ''unexpected null value was returned'')
      | Some b \<Rightarrow> (case dbAvailableZones b of
            None \<Rightarrow> Err (WithRequestID (StringValue (dbRequestId b))
                      (ErrorString ''unexpected null value was returned''))
          | Some azs \<Rightarrow> outcome_map concat (outcome_mapM zone_disks azs)))"

definition DiskCompatible :: "string list \<Rightarrow> string list \<Rightarrow> bool" where
  "DiskCompatible available wanted = list_ex (\<lambda>d. d \<in> set available) wanted"

text \<open>One worker: the instance type is kept when one of the wanted categories is available;
  an error drops it without caching.\<close>

definition filter_worker ::
  "(string \<Rightarrow> disk_body option outcome) \<Rightarrow> int \<Rightarrow> string list \<Rightarrow> instance_type \<Rightarrow>
   instance_type list \<times> string list go_cache \<Rightarrow> (instance_type list \<times> string list go_cache) outcome" where
  "filter_worker api now wanted it st =
     (let keep = (\<lambda>disks. if DiskCompatible disks wanted then fst st @ [it] else fst st) in
      case cache_get now (itName it) (snd st) of
        Some disks \<Rightarrow> Ok (keep disks, snd st)
      | None \<Rightarrow>
          (case describeAvailableSystemDisk api (itName it) of
             Err e \<Rightarrow> Ok st
           | Panic \<Rightarrow> Panic
           | Ok disks \<Rightarrow> Ok (keep disks, cache_set_default now (itName it) disks (snd st))))"

text \<open>\<^verbatim>\<open>FilterInstanceTypesBySystemDisk\<close>: the workers run in parallel, so their results
  arrive in an order the scheduler chooses; \<open>order\<close> is that order.\<close>

definition FilterInstanceTypesBySystemDisk ::
  "(instance_type list \<Rightarrow> instance_type list) \<Rightarrow> (string \<Rightarrow> disk_body option outcome) \<Rightarrow> int \<Rightarrow>
   ecs_nodeclass \<Rightarrow> instance_type list \<Rightarrow> string list go_cache \<Rightarrow>
   (instance_type list \<times> string list go_cache) outcome" where
  "FilterInstanceTypesBySystemDisk order api now nc its c =
     (case Option.bind (SystemDisk (ncSpec nc)) Categories of
        None \<Rightarrow> Ok (its, c)
      | Some wanted \<Rightarrow> outcome_fold (filter_worker api now wanted) (order its) ([], c))"

section \<open>Lemmas\<close>

lemma map_of_add_image:
  "map_of (add_image env im m) h =
     (if map_of m h = None \<and> reqsHash env (imRequirements im) = h then Some im else map_of m h)"
  by (auto simp: add_image_def Let_def update_conv')

lemma map_of_fold_add_image:
  "map_of (fold (add_image env) ims m) h =
     (case map_of m h of Some im \<Rightarrow> Some im | None \<Rightarrow> find (\<lambda>im. reqsHash env (imRequirements im) = h) ims)"
  by (induction ims arbitrary: m) (auto simp: map_of_add_image split: option.splits)

lemma distinct_add_image: "distinct (map fst m) \<Longrightarrow> distinct (map fst (fold (add_image env) ims m))"
  by (induction ims arbitrary: m) (auto simp: add_image_def Let_def distinct_update)

lemma resolve_fold:
  assumes "outcome_fold (\<lambda>t m. outcome_map (\<lambda>ims. fold (add_image env) ims m) (f t)) ts m0 = Ok m"
  shows "\<exists>ims. outcome_mapM f ts = Ok ims \<and> m = fold (add_image env) (concat ims) m0"
  using assms
proof (induction ts arbitrary: m0)
  case (Cons t ts)
  then obtain ims where t: "f t = Ok ims"
    "outcome_fold (\<lambda>t m. outcome_map (\<lambda>ims. fold (add_image env) ims m) (f t)) ts (fold (add_image env) ims m0) = Ok m"
    by auto
  from Cons.IH[OF t(2)] obtain rest where "outcome_mapM f ts = Ok rest"
    "m = fold (add_image env) (concat rest) (fold (add_image env) ims m0)" by blast
  with t(1) show ?case by (intro exI[of _ "ims # rest"]) simp
qed simp

text \<open>The disks of an instance type, as the resolver knows them: cached or asked for.\<close>

definition known_disks ::
  "(string \<Rightarrow> disk_body option outcome) \<Rightarrow> int \<Rightarrow> string list go_cache \<Rightarrow> string \<Rightarrow> string list outcome" where
  "known_disks api now c n =
     (case cache_get now n c of Some ds \<Rightarrow> Ok ds | None \<Rightarrow> describeAvailableSystemDisk api n)"

definition disk_ok :: "(string \<Rightarrow> disk_body option outcome) \<Rightarrow> int \<Rightarrow> string list go_cache \<Rightarrow> string list \<Rightarrow> instance_type \<Rightarrow> bool" where
  "disk_ok api now c wanted it =
     (case known_disks api now c (itName it) of Ok ds \<Rightarrow> DiskCompatible ds wanted | _ \<Rightarrow> False)"

lemma cache_get_now_set_default: "cache_get now k (cache_set_default now k' x c) = (if k = k' then Some x else cache_get now k c)"
  by (auto simp: cache_set_default_def cache_set_def cache_get_def Let_def item_expired_def update_conv')

lemma filter_worker_Ok:
  assumes "known_disks api now (snd st) (itName it) \<noteq> Panic"
  shows "\<exists>c'. filter_worker api now wanted it st
      = Ok (if disk_ok api now (snd st) wanted it then fst st @ [it] else fst st, c')
    \<and> (\<forall>n. known_disks api now c' n = known_disks api now (snd st) n)"
proof (cases "cache_get now (itName it) (snd st)")
  case (Some ds)
  then show ?thesis by (simp add: filter_worker_def Let_def disk_ok_def known_disks_def)
next
  case None
  show ?thesis
  proof (cases "describeAvailableSystemDisk api (itName it)")
    case (Ok ds)
    with None show ?thesis
      by (auto simp: filter_worker_def Let_def disk_ok_def known_disks_def cache_get_now_set_default)
  next
    case (Err e)
    with None show ?thesis
      by (intro exI[of _ "snd st"]) (simp add: filter_worker_def disk_ok_def known_disks_def)
  next
    case Panic
    with None assms show ?thesis by (simp add: known_disks_def)
  qed
qed

lemma filter_workers:
  assumes "\<forall>it\<in>set its. known_disks api now (snd st) (itName it) \<noteq> Panic"
  shows "\<exists>c'. outcome_fold (filter_worker api now wanted) its st
      = Ok (fst st @ filter (disk_ok api now (snd st) wanted) its, c')"
  using assms
proof (induction its arbitrary: st)
  case Nil
  then show ?case by (cases st) simp
next
  case (Cons it its)
  then obtain c' where w: "filter_worker api now wanted it st
      = Ok (if disk_ok api now (snd st) wanted it then fst st @ [it] else fst st, c')"
    and same: "\<And>n. known_disks api now c' n = known_disks api now (snd st) n"
    using filter_worker_Ok[of api now st it wanted] by auto
  have "disk_ok api now c' wanted = disk_ok api now (snd st) wanted"
    by (simp add: disk_ok_def same fun_eq_iff)
  with Cons.IH[of "(if disk_ok api now (snd st) wanted it then fst st @ [it] else fst st, c')"] Cons.prems w same
  show ?case by auto
qed

section \<open>Properties\<close>

text \<open>
  Resolving image selectors: the result has, for each set of requirements (up to their
  hash) that some matching image has, exactly the first such image in the order of the terms
  and of the APIs' answers, so an earlier term takes precedence.
\<close>

theorem first_image_wins:
  assumes "cache_get now h c = None" and "termsHash env (ImageSelectorTerms (ncSpec nc)) = Ok h"
    and "GetImages env now v nc c = (Ok ims, c')"
  shows "\<exists>answers. outcome_mapM (resolve_term env v) (ImageSelectorTerms (ncSpec nc)) = Ok answers
    \<and> distinct (map (\<lambda>im. reqsHash env (imRequirements im)) ims)
    \<and> (\<forall>im. im \<in> set ims \<longleftrightarrow>
         find (\<lambda>x. reqsHash env (imRequirements x) = reqsHash env (imRequirements im)) (concat answers) = Some im)"
proof -
  from assms obtain m where m: "outcome_fold (\<lambda>t m. outcome_map (\<lambda>ims. fold (add_image env) ims m) (resolve_term env v t))
      (ImageSelectorTerms (ncSpec nc)) [] = Ok m" and ims: "ims = map snd m"
    by (auto simp: GetImages_def split: outcome.splits)
  from resolve_fold[OF m] obtain answers where a: "outcome_mapM (resolve_term env v) (ImageSelectorTerms (ncSpec nc)) = Ok answers"
    and m': "m = fold (add_image env) (concat answers) []" by blast
  have look: "map_of m h = find (\<lambda>x. reqsHash env (imRequirements x) = h) (concat answers)" for h
    by (simp add: m' map_of_fold_add_image)
  have d: "distinct (map fst m)" using distinct_add_image[of "[]"] m' by simp
  have key: "(k, im) \<in> set m \<longleftrightarrow> find (\<lambda>x. reqsHash env (imRequirements x) = k) (concat answers) = Some im" for k im
    using d look by (metis map_of_SomeD map_of_is_SomeI)
  have hash: "k = reqsHash env (imRequirements im)" if "(k, im) \<in> set m" for k im
    using that key find_Some_iff_mem by fastforce
  then have "map (\<lambda>im. reqsHash env (imRequirements im)) ims = map fst m"
    by (auto simp: ims)
  moreover have "im \<in> set ims \<longleftrightarrow>
      find (\<lambda>x. reqsHash env (imRequirements x) = reqsHash env (imRequirements im)) (concat answers) = Some im" for im
  proof -
    have "im \<in> set ims \<longleftrightarrow> (\<exists>k. (k, im) \<in> set m)" by (force simp: ims)
    with key hash show ?thesis by blast
  qed
  ultimately show ?thesis using a d by metis
qed

text \<open>
  C35. Whatever order the parallel workers finish in, the instance types kept are exactly
  those with an available disk of a wanted category (a type whose disks cannot be determined
  is dropped); without a disk request nothing is filtered.
\<close>

theorem disk_filter_order_independent:
  assumes "mset (order its) = mset its"
    and "\<forall>it\<in>set its. known_disks api now c (itName it) \<noteq> Panic"
  shows "\<exists>kept c'. FilterInstanceTypesBySystemDisk order api now nc its c = Ok (kept, c')
    \<and> mset kept = (case Option.bind (SystemDisk (ncSpec nc)) Categories of
        None \<Rightarrow> mset its
      | Some wanted \<Rightarrow> filter_mset (disk_ok api now c wanted) (mset its))"
proof (cases "Option.bind (SystemDisk (ncSpec nc)) Categories")
  case None
  then show ?thesis by (simp add: FilterInstanceTypesBySystemDisk_def)
next
  case (Some wanted)
  have "\<forall>it\<in>set (order its). known_disks api now c (itName it) \<noteq> Panic"
    using assms by (metis set_mset_mset)
  with filter_workers[of "order its" api now "([], c)" wanted] Some assms(1) show ?thesis
    by (auto simp: FilterInstanceTypesBySystemDisk_def)
qed

definition sample_image_env :: image_env where
  "sample_image_env =
     \<lparr>ieAck = (\<lambda>_. Ok [[\<lparr>aiImageId = Some ''aliyun_3_x64_20G_alibase_20240819.vhd'', aiImageName = Some ''a'',
         aiArchitecture = Some ''x86_64''\<rparr>]]),
      ieEcs = (\<lambda>i. Ok [\<lparr>aiImageId = Some i, aiImageName = Some ''b'', aiArchitecture = Some ''x86_64''\<rparr>]),
      termsHash = (\<lambda>_. Ok ''7''), reqsHash = (\<lambda>_. 0)\<rparr>"

definition sample_image_nc :: ecs_nodeclass where
  "sample_image_nc = zero_nodeclass\<lparr>ncSpec := (ncSpec zero_nodeclass)\<lparr>ImageSelectorTerms :=
     [\<lparr>Alias = ''AlibabaCloudLinux3'', imtID = []\<rparr>, \<lparr>Alias = [], imtID = ''m-1''\<rparr>]\<rparr>\<rparr>"

theorem first_image_wins_witness:
  "\<exists>ims. fst (GetImages sample_image_env 1 ''v1.30.1'' sample_image_nc (cache_new 60)) = Ok ims
     \<and> distinct (map (\<lambda>im. reqsHash sample_image_env (imRequirements im)) ims)"
proof -
  let ?r = "GetImages sample_image_env 1 ''v1.30.1'' sample_image_nc (cache_new 60)"
  have c: "cache_get 1 ''7'' (cache_new 60 :: image list go_cache) = None" by simp
  have t: "termsHash sample_image_env (ImageSelectorTerms (ncSpec sample_image_nc)) = Ok ''7''"
    by (simp add: sample_image_env_def)
  have "\<exists>ims. fst ?r = Ok ims"
    by (simp add: GetImages_def t sample_image_nc_def resolve_term_def getImagesWithAlias_def getImagesWithID_def
        sample_image_env_def GetImageFamily_def ImageFamilyContainerOS_def ImageFamilyAlibabaCloudLinux3_def)
  then obtain ims where "?r = (Ok ims, snd ?r)" by (metis prod.collapse)
  from first_image_wins[OF c t this] this show ?thesis by (metis fst_conv)
qed

definition sample_disk_api :: "string \<Rightarrow> disk_body option outcome" where
  "sample_disk_api n = Ok (Some \<lparr>dbAvailableZones = Some
     [\<lparr>dzStatus = Some ''Available'', dzStatusCategory = Some ''WithStock'', dzAvailableResources = Some
        [Some [\<lparr>drStatus = Some ''Available'', drValue = Some (if n = ''t1'' then ''cloud_essd'' else ''cloud'')\<rparr>]]\<rparr>],
     dbRequestId = None\<rparr>)"

definition sample_type :: "string \<Rightarrow> instance_type" where
  "sample_type n = \<lparr>itName = n, itRequirements = [], Offerings = [], itCapacity = [],
     Overhead = \<lparr>KubeReserved = [], SystemReserved = [], EvictionThreshold = []\<rparr>\<rparr>"

theorem disk_filter_order_independent_witness:
  "\<exists>kept c'. FilterInstanceTypesBySystemDisk rev sample_disk_api 1
      (zero_nodeclass\<lparr>ncSpec := (ncSpec zero_nodeclass)\<lparr>SystemDisk :=
         Some \<lparr>Categories = Some [''cloud_essd''], diskSize = Some 40, PerformanceLevel = None\<rparr>\<rparr>\<rparr>)
      [sample_type ''t1'', sample_type ''t2''] (cache_new 60) = Ok (kept, c')
     \<and> mset kept = {#sample_type ''t1''#}"
proof -
  have k: "known_disks sample_disk_api 1 (cache_new 60) n = Ok [if n = ''t1'' then ''cloud_essd'' else ''cloud'']" for n
    by (simp add: known_disks_def describeAvailableSystemDisk_def sample_disk_api_def zone_disks_def)
  then have "disk_ok sample_disk_api 1 (cache_new 60) [''cloud_essd''] (sample_type ''t1'')"
    "\<not> disk_ok sample_disk_api 1 (cache_new 60) [''cloud_essd''] (sample_type ''t2'')"
    by (simp_all add: disk_ok_def sample_type_def DiskCompatible_def)
  then show ?thesis
    using disk_filter_order_independent[of rev "[sample_type ''t1'', sample_type ''t2'']" sample_disk_api 1 "cache_new 60"
      "zero_nodeclass\<lparr>ncSpec := (ncSpec zero_nodeclass)\<lparr>SystemDisk :=
         Some \<lparr>Categories = Some [''cloud_essd''], diskSize = Some 40, PerformanceLevel = None\<rparr>\<rparr>\<rparr>"] k
    by simp
qed

end
