(* ===== verification/Version.thy ===== *)
theory Version
  imports Go_Cache Go_Regexp
begin

text \<open>
  The Kubernetes version provider: \<^verbatim>\<open>src/pkg/providers/version/version.go\<close>, with the
  generic versions of
  \<^verbatim>\<open>src/vendor/k8s.io/apimachinery/pkg/util/version/version.go\<close> it compares. The API
  server's version string is a parameter.
\<close>

section \<open>Generic versions\<close>

text \<open>\<^verbatim>\<open>([0-9]+(?:\.[0-9]+)*)\<close> at the start of a text: the components, as digit
  strings, and the rest.\<close>

function (sequential) number_list :: "string \<Rightarrow> string list \<times> string" where
  "number_list s =
     (let d = takeWhile digit_class s; r = dropWhile digit_class s in
      if d = [] then ([], s)
      else case r of
        c # r' \<Rightarrow> if c = CHR ''.'' \<and> takeWhile digit_class r' \<noteq> []
                   then (let (ds, t) = number_list r' in (d # ds, t)) else ([d], r)
      | [] \<Rightarrow> ([d], r))"
  by pat_completeness auto
termination
proof (relation "measure length")
  fix s :: string and x xa :: string and c :: char and r
  assume "xa = dropWhile digit_class s" "xa = c # r"
  then have "length (c # r) \<le> length s" using length_dropWhile_le[of digit_class s] by metis
  then show "(r, s) \<in> measure length" by simp
qed simp

declare number_list.simps [simp del]

definition ParseUint :: "string \<Rightarrow> nat option" where
  "ParseUint s = (case unsigned_val s of Some n \<Rightarrow> if n < 2 ^ 64 then Some n else None | None \<Rightarrow> None)"

text \<open>\<^verbatim>\<open>versionMatchRE\<close>: leading white space and a \<^verbatim>\<open>v\<close> are skipped; what
  follows the numbers may be anything but a line break.\<close>

definition version_numbers :: "string \<Rightarrow> string list" where
  "version_numbers str =
     (let s = dropWhile space_char str;
          s' = (case s of c # r \<Rightarrow> if c = CHR ''v'' then r else s | [] \<Rightarrow> s);
          (ds, extra) = number_list s'
      in if list_all any_char extra then ds else [])"

fun parse_components :: "string list \<Rightarrow> nat list option" where
  "parse_components [] = Some []"
| "parse_components (c # cs) =
     (case ParseUint c of
        None \<Rightarrow> None
      | Some n \<Rightarrow> map_option (\<lambda>ns. n # ns) (parse_components cs))"

definition ParseGeneric :: "string \<Rightarrow> nat list outcome" where
  "ParseGeneric str =
     (case version_numbers str of
        [] \<Rightarrow> Err (ErrorString ''could not parse as version'')
      | [c] \<Rightarrow> Err (ErrorString ''illegal version string'')
      | c # cs \<Rightarrow>
          (if HasPrefix c ''0'' \<and> c \<noteq> ''0''
           then Err (ErrorString ''illegal zero-prefixed version component'')
           else case parse_components (c # cs) of
                  None \<Rightarrow> Err (ErrorString ''illegal non-numeric version component'')
                | Some ns \<Rightarrow> Ok ns))"

definition MustParseGeneric :: "string \<Rightarrow> nat list outcome" where
  "MustParseGeneric str = (case ParseGeneric str of Err e \<Rightarrow> Panic | r \<Rightarrow> r)"

definition onlyZeros :: "nat list \<Rightarrow> bool" where
  "onlyZeros ns = list_all (\<lambda>n. n = 0) ns"

fun compareInternal :: "nat list \<Rightarrow> nat list \<Rightarrow> int" where
  "compareInternal (a # as) (b # bs) =
     (if b < a then 1 else if a < b then -1 else compareInternal as bs)"
| "compareInternal as [] = (if onlyZeros as then 0 else 1)"
| "compareInternal [] bs = (if onlyZeros bs then 0 else -1)"

definition LessThan :: "nat list \<Rightarrow> nat list \<Rightarrow> bool" where
  "LessThan v w = (compareInternal v w = -1)"

section \<open>The provider\<close>

definition kubernetesVersionCacheKey :: string where "kubernetesVersionCacheKey = ''kubernetesVersion''"
definition MinK8sVersion :: string where "MinK8sVersion = ''1.28.9''"
definition MaxK8sVersion :: string where "MaxK8sVersion = ''1.31.1''"

definition validateK8sVersion :: "string \<Rightarrow> gerror option outcome" where
  "validateK8sVersion v =
     outcome_bind (MustParseGeneric v) (\<lambda>k8s.
     outcome_bind (MustParseGeneric MinK8sVersion) (\<lambda>lo.
       if LessThan k8s lo then Ok (Some (ErrorString ''karpenter version is not compatible with K8s version''))
       else outcome_map (\<lambda>hi. if LessThan hi k8s
              then Some (ErrorString ''karpenter version is not compatible with K8s version'') else None)
            (MustParseGeneric MaxK8sVersion)))"

record version_provider =
  verCache :: "string go_cache"
  verCm :: "nat go_cache"

definition NewVersionProvider :: "string go_cache \<Rightarrow> version_provider" where
  "NewVersionProvider c = \<lparr>verCache = c, verCm = NewChangeMonitor\<rparr>"

text \<open>\<^verbatim>\<open>Get\<close>: an unsupported version is only logged, an unparsable one panics.
  \<open>hash\<close> is the change monitor's hash.\<close>

definition version_Get ::
  "(string \<Rightarrow> nat) \<Rightarrow> string outcome \<Rightarrow> int \<Rightarrow> version_provider \<Rightarrow> string outcome \<times> version_provider" where
  "version_Get hash serverVersion now p =
     (case cache_get now kubernetesVersionCacheKey (verCache p) of
        Some v \<Rightarrow> (Ok v, p)
      | None \<Rightarrow>
          (case serverVersion of
             Err e \<Rightarrow> (Err e, p)
           | Panic \<Rightarrow> (Panic, p)
           | Ok v \<Rightarrow>
               (let (changed, cm) = HasChanged now ''kubernetes-version'' (hash v) (verCm p);
                    p' = \<lparr>verCache = cache_set_default now kubernetesVersionCacheKey v (verCache p), verCm = cm\<rparr>
                in if changed \<and> validateK8sVersion v = Panic then (Panic, p') else (Ok v, p'))))"

section \<open>Lemmas\<close>

text \<open>What may follow the numbers so that it is not read as another component.\<close>

definition extra_ok :: "string \<Rightarrow> bool" where
  "extra_ok e =
     (list_all any_char e
      \<and> (case e of [] \<Rightarrow> True | c # r \<Rightarrow> \<not> digit_class c \<and> (c = CHR ''.'' \<longrightarrow> takeWhile digit_class r = [])))"

lemma digits_are_digits: "c \<in> set (nat_digits n) \<Longrightarrow> digit_class c"
  using nat_digits_chars by (simp add: digit_class_def)

lemma dot_no_digit [simp]: "\<not> digit_class (CHR ''.'')"
  by (simp add: digit_class_def char_digit_def)

lemma digits_span:
  assumes "r = [] \<or> \<not> digit_class (hd r)"
  shows "takeWhile digit_class (nat_digits n @ r) = nat_digits n"
    and "dropWhile digit_class (nat_digits n @ r) = r"
  using assms digits_are_digits[of _ n] by (cases r; simp add: takeWhile_append2 dropWhile_append2)+

lemma number_list_last:
  assumes "extra_ok e"
  shows "number_list (nat_digits n @ e) = ([nat_digits n], e)"
proof (cases e)
  case Nil
  have "takeWhile digit_class (nat_digits n) = nat_digits n" "dropWhile digit_class (nat_digits n) = []"
    using digits_span[of "[]" n] by simp_all
  with Nil show ?thesis by (subst number_list.simps) (simp only: Let_def append_Nil2 list.case nat_digits_nonempty if_False)
next
  case (Cons c r)
  with assms have "\<not> digit_class c" "c = CHR ''.'' \<longrightarrow> takeWhile digit_class r = []"
    by (simp_all add: extra_ok_def)
  with Cons show ?thesis
    using digits_span[of "c # r" n] by (subst number_list.simps) (auto simp: Let_def)
qed

lemma number_list_more:
  assumes "takeWhile digit_class r \<noteq> []"
  shows "number_list (nat_digits n @ CHR ''.'' # r) =
    (nat_digits n # fst (number_list r), snd (number_list r))"
  using digits_span[of "CHR ''.'' # r" n] assms
  by (subst number_list.simps) (simp add: Let_def case_prod_unfold)

lemma ParseUint_digits: "n < 2 ^ 64 \<Longrightarrow> ParseUint (nat_digits n) = Some n"
  by (simp add: ParseUint_def)

lemma digits_start: "takeWhile digit_class (nat_digits n @ r) \<noteq> []"
proof -
  obtain c w where w: "nat_digits n = c # w" by (cases "nat_digits n") auto
  then have "digit_class c" using digits_are_digits[of c n] by simp
  with w show ?thesis by simp
qed

lemma nat_digits_first: "0 < n \<Longrightarrow> hd (nat_digits n) \<noteq> CHR ''0''"
proof (induction n rule: nat_digits.induct)
  case (1 n)
  show ?case
  proof (cases "n < 10")
    case True
    have "char_digit (digit_char n) = Some n" using True by simp
    moreover have "char_digit (CHR ''0'') = Some 0" by (simp add: char_digit_def)
    ultimately have "digit_char n \<noteq> CHR ''0''" using 1(2) by auto
    with True show ?thesis by (simp add: nat_digits.simps[of n])
  next
    case False
    with 1 show ?thesis by (simp add: nat_digits.simps[of n])
  qed
qed

lemma no_zero_prefix: "HasPrefix (nat_digits n) ''0'' \<Longrightarrow> nat_digits n = ''0''"
proof (cases "n = 0")
  case True
  then show ?thesis by (simp add: nat_digits.simps[of 0] digit_char_def char_of_eq_iff)
next
  case False
  assume "HasPrefix (nat_digits n) ''0''"
  then have "hd (nat_digits n) = CHR ''0''" by (cases "nat_digits n") (auto simp: HasPrefix_def)
  with False nat_digits_first show ?thesis by blast
qed

lemma parse_three:
  assumes "a < 2 ^ 64" "b < 2 ^ 64" "c < 2 ^ 64" "extra_ok e"
  shows "MustParseGeneric (''v'' @ nat_digits a @ ''.'' @ nat_digits b @ ''.'' @ nat_digits c @ e) = Ok [a, b, c]"
proof -
  let ?s = "nat_digits a @ CHR ''.'' # nat_digits b @ CHR ''.'' # nat_digits c @ e"
  have "number_list ?s = ([nat_digits a, nat_digits b, nat_digits c], e)"
    by (simp add: number_list_more number_list_last[OF assms(4)] digits_start)
  moreover have "list_all any_char e" using assms(4) by (simp add: extra_ok_def)
  ultimately have "version_numbers (CHR ''v'' # ?s) = [nat_digits a, nat_digits b, nat_digits c]"
    by (simp add: version_numbers_def space_char_def)
  then show ?thesis
    using assms(1-3) no_zero_prefix[of a] by (auto simp: MustParseGeneric_def ParseGeneric_def ParseUint_digits)
qed

lemma version_bounds:
  "MustParseGeneric MinK8sVersion = Ok [1, 28, 9]" "MustParseGeneric MaxK8sVersion = Ok [1, 31, 1]"
  by (simp_all add: MinK8sVersion_def MaxK8sVersion_def MustParseGeneric_def ParseGeneric_def
      version_numbers_def number_list.simps ParseUint_def unsigned_val_def HasPrefix_def space_char_def
      digit_class_def char_digit_def Let_def)

section \<open>Properties\<close>

lemma validate_three:
  assumes "a < 2 ^ 64" "b < 2 ^ 64" "c < 2 ^ 64" "extra_ok e"
  shows "\<exists>r. validateK8sVersion (''v'' @ nat_digits a @ ''.'' @ nat_digits b @ ''.'' @ nat_digits c @ e) = Ok r
    \<and> (r = None \<longleftrightarrow> a = 1 \<and> (28 < b \<or> b = 28 \<and> 9 \<le> c) \<and> (b < 31 \<or> b = 31 \<and> c \<le> 1))"
  using parse_three[OF assms] version_bounds
  by (auto simp: validateK8sVersion_def LessThan_def onlyZeros_def)

text \<open>
  C40. A server version of the form \<^verbatim>\<open>v\<close>\<open>a.b.c\<close> with any suffix passes the check
  exactly when it lies between the two versions the code declares as \<^verbatim>\<open>MinK8sVersion\<close>
  and \<^verbatim>\<open>MaxK8sVersion\<close>, both included, compared by major, minor and patch number; it is
  never unparsable, so the check does not panic on it.
\<close>

theorem k8s_version_range:
  assumes "a < 2 ^ 64" "b < 2 ^ 64" "c < 2 ^ 64" "extra_ok e"
  shows "\<exists>l1 l2 l3 h1 h2 h3 r. ParseGeneric MinK8sVersion = Ok [l1, l2, l3] \<and> ParseGeneric MaxK8sVersion = Ok [h1, h2, h3]
    \<and> validateK8sVersion (''v'' @ nat_digits a @ ''.'' @ nat_digits b @ ''.'' @ nat_digits c @ e) = Ok r
    \<and> (r = None \<longleftrightarrow> (l1 < a \<or> l1 = a \<and> (l2 < b \<or> l2 = b \<and> l3 \<le> c))
                  \<and> (a < h1 \<or> a = h1 \<and> (b < h2 \<or> b = h2 \<and> c \<le> h3)))"
proof -
  have bounds: "ParseGeneric MinK8sVersion = Ok [1, 28, 9]" "ParseGeneric MaxK8sVersion = Ok [1, 31, 1]"
    using version_bounds by (auto simp: MustParseGeneric_def split: outcome.splits)
  obtain r where r: "validateK8sVersion (''v'' @ nat_digits a @ ''.'' @ nat_digits b @ ''.'' @ nat_digits c @ e) = Ok r"
    "r = None \<longleftrightarrow> a = 1 \<and> (28 < b \<or> b = 28 \<and> 9 \<le> c) \<and> (b < 31 \<or> b = 31 \<and> c \<le> 1)"
    using validate_three[OF assms] by blast
  have "r = None \<longleftrightarrow> (1 < a \<or> 1 = a \<and> (28 < b \<or> 28 = b \<and> 9 \<le> c)) \<and> (a < 1 \<or> a = 1 \<and> (b < 31 \<or> b = 31 \<and> c \<le> 1))"
    unfolding r(2) by auto
  with bounds r(1) show ?thesis by blast
qed

theorem k8s_version_range_witness:
  "\<exists>r. validateK8sVersion (''v'' @ nat_digits 1 @ ''.'' @ nat_digits 30 @ ''.'' @ nat_digits 1 @ ''-aliyun.1'') = Ok r
     \<and> r = None"
proof -
  have "extra_ok ''-aliyun.1''" by (simp add: extra_ok_def any_char_def digit_class_def char_digit_def)
  from k8s_version_range[OF _ _ _ this, of 1 30 1] show ?thesis
    using version_bounds by (auto simp: MustParseGeneric_def)
qed

text \<open>The version that the comment on \<^verbatim>\<open>MinK8sVersion\<close> gives as the lowest one of ACK
  is refused: the constant has a later patch release.\<close>

lemma documented_minimum_refused:
  "\<exists>err. validateK8sVersion (''v'' @ nat_digits 1 @ ''.'' @ nat_digits 28 @ ''.'' @ nat_digits 1 @ ''-aliyun.1'') = Ok (Some err)"
proof -
  have "extra_ok ''-aliyun.1''" by (simp add: extra_ok_def any_char_def digit_class_def char_digit_def)
  from validate_three[OF _ _ _ this, of 1 28 1] show ?thesis by auto
qed

end
