(* ===== verification/Karp_Objects.thy ===== *)
theory Karp_Objects
  imports Apis
begin

text \<open>
  The Kubernetes objects the provider reads and writes: NodeClaim and NodePool of karpenter,
  Node of core/v1, with the fields the sources use, and the writes the controllers send to the
  API server. The API server itself is a parameter: reads are functions that answer, writes
  are functions that say whether the write was accepted, and a controller's model returns the
  writes it sent in order.
\<close>

section \<open>NodeClaims and NodePools\<close>

record node_claim =
  clName :: string
  clLabels :: "(string \<times> string) list"
  clAnnotations :: "(string \<times> string) list"
  clCreationTimestamp :: int
  clDeletionTimestamp :: "int option"
  clNodeClassRef :: "string option"
  clRequirements :: "selector_requirement list"
  clRequests :: resource_list
  clProviderID :: string
  clNodeName :: string
  clImageID :: string
  clCapacity :: resource_list
  clAllocatable :: resource_list
  clDriftedCondition :: bool

definition zero_claim :: node_claim where
  "zero_claim =
     \<lparr>clName = [], clLabels = [], clAnnotations = [], clCreationTimestamp = zeroTime,
      clDeletionTimestamp = None, clNodeClassRef = None, clRequirements = [], clRequests = [],
      clProviderID = [], clNodeName = [], clImageID = [], clCapacity = [], clAllocatable = [],
      clDriftedCondition = False\<rparr>"

record node_pool =
  poolName :: string
  poolNodeClassRef :: "string option"

section \<open>Nodes\<close>

record taint =
  taintKey :: string
  taintValue :: string
  taintEffect :: string

record node_condition =
  nodeCondType :: string
  nodeCondStatus :: condition_status
  nodeCondReason :: string
  nodeCondTime :: int

record k8s_node =
  nodeName :: string
  nodeLabels :: "(string \<times> string) list"
  nodeCreation :: int
  nodeProviderID :: string
  nodeTaints :: "taint list"
  nodeConditions :: "node_condition list"
  nodeCapacity :: resource_list

section \<open>Writes and results\<close>

datatype kube_write =
    PatchNodeClaim node_claim
  | DeleteNodeClaim string
  | PatchNode k8s_node
  | DeleteNode string
  | PatchNodeClass ecs_nodeclass
  | PatchNodeClassStatus ecs_nodeclass

type_synonym kube_writer = "kube_write \<Rightarrow> gerror option"

record reconcile_result =
  Requeue :: bool
  RequeueAfter :: int

definition noRequeue :: reconcile_result where
  "noRequeue = \<lparr>Requeue = False, RequeueAfter = 0\<rparr>"

definition requeueAfter :: "int \<Rightarrow> reconcile_result" where
  "requeueAfter d = \<lparr>Requeue = False, RequeueAfter = d\<rparr>"

text \<open>\<^verbatim>\<open>result.Min\<close> of karpenter: the soonest of the results that ask to be run again.\<close>

definition result_min_step :: "reconcile_result \<Rightarrow> int \<times> reconcile_result \<Rightarrow> int \<times> reconcile_result" where
  "result_min_step r acc =
     (if \<not> Requeue r \<and> RequeueAfter r = 0 then acc
      else if RequeueAfter r < fst acc then (RequeueAfter r, \<lparr>Requeue = True, RequeueAfter = RequeueAfter r\<rparr>)
      else acc)"

definition result_Min :: "reconcile_result list \<Rightarrow> reconcile_result" where
  "result_Min rs = snd (fold result_min_step rs (2 ^ 63 - 1, noRequeue))"

section \<open>Controllers on node classes\<close>

text \<open>The answer of a controller that works on a node class: what it returns, the object as it
  left it and the writes it sent.\<close>

record class_answer =
  caResult :: reconcile_result
  caError :: "gerror option"
  caClass :: ecs_nodeclass
  caWrites :: "kube_write list"

definition AddFinalizer :: "string \<Rightarrow> ecs_nodeclass \<Rightarrow> ecs_nodeclass" where
  "AddFinalizer f nc = (if f \<in> set (ncFinalizers nc) then nc else nc\<lparr>ncFinalizers := ncFinalizers nc @ [f]\<rparr>)"

lemma AddFinalizer_fields [simp]:
  "ncSpec (AddFinalizer f nc) = ncSpec nc" "ncStatus (AddFinalizer f nc) = ncStatus nc"
  "f \<in> set (ncFinalizers (AddFinalizer f nc))"
  by (simp_all add: AddFinalizer_def)

definition RemoveFinalizer :: "string \<Rightarrow> ecs_nodeclass \<Rightarrow> ecs_nodeclass" where
  "RemoveFinalizer f nc = nc\<lparr>ncFinalizers := filter (\<lambda>g. g \<noteq> f) (ncFinalizers nc)\<rparr>"

text \<open>A list request to the API server: the error or the items.\<close>

type_synonym 'a kube_list = "gerror + 'a list"

definition class_answer_of ::
  "reconcile_result \<Rightarrow> gerror option \<Rightarrow> ecs_nodeclass \<Rightarrow> kube_write list \<Rightarrow> class_answer" where
  "class_answer_of r e nc ws = \<lparr>caResult = r, caError = e, caClass = nc, caWrites = ws\<rparr>"

end
