(* ===== verification/Go_Sort.thy ===== *)
theory Go_Sort
  imports Prelude "HOL-Library.Multiset"
begin

text \<open>
  Sorting: \<^verbatim>\<open>sort.Slice\<close> is a parameter of the definitions that call it.
  \<open>sort_contract\<close> is what its documentation promises, the locale \<open>slice_sorter\<close>
  derives what the clients use, and Go's insertion sort (the one used up to twelve elements) is
  shown to keep the contract. \<open>string_less\<close> is the order of Go strings.
\<close>

section \<open>The contract of sort.Slice\<close>

text \<open>The comparisons for which \<^verbatim>\<open>sort.Slice\<close> promises an order: strict weak
  orderings on the elements.\<close>

definition strict_weak_on :: "'a set \<Rightarrow> ('a \<Rightarrow> 'a \<Rightarrow> bool) \<Rightarrow> bool" where
  "strict_weak_on A lt =
     ((\<forall>x\<in>A. \<not> lt x x) \<and> (\<forall>x\<in>A. \<forall>y\<in>A. lt x y \<longrightarrow> \<not> lt y x)
      \<and> (\<forall>x\<in>A. \<forall>y\<in>A. \<forall>z\<in>A. \<not> lt x y \<longrightarrow> \<not> lt y z \<longrightarrow> \<not> lt x z))"

definition sort_contract :: "(('a \<Rightarrow> 'a \<Rightarrow> bool) \<Rightarrow> 'a list \<Rightarrow> 'a list) \<Rightarrow> bool" where
  "sort_contract srt =
     (\<forall>lt xs. mset (srt lt xs) = mset xs
        \<and> (strict_weak_on (set xs) lt \<longrightarrow> sorted_wrt (\<lambda>a b. \<not> lt b a) (srt lt xs)))"

text \<open>Go's \<^verbatim>\<open>insertionSort_func\<close>: each element moves left past the larger ones; the
  sorted part is kept reversed.\<close>

fun ins_left :: "('a \<Rightarrow> 'a \<Rightarrow> bool) \<Rightarrow> 'a \<Rightarrow> 'a list \<Rightarrow> 'a list" where
  "ins_left lt x [] = [x]"
| "ins_left lt x (y # ys) = (if lt x y then y # ins_left lt x ys else x # y # ys)"

definition insertionSort :: "('a \<Rightarrow> 'a \<Rightarrow> bool) \<Rightarrow> 'a list \<Rightarrow> 'a list" where
  "insertionSort lt xs = rev (fold (ins_left lt) xs [])"

lemma mset_ins_left [simp]: "mset (ins_left lt x ys) = add_mset x (mset ys)"
  by (induction ys) auto

lemma mset_fold_ins_left: "mset (fold (ins_left lt) xs acc) = mset xs + mset acc"
  by (induction xs arbitrary: acc) auto

lemma strict_weak_asym: "strict_weak_on A lt \<Longrightarrow> x \<in> A \<Longrightarrow> y \<in> A \<Longrightarrow> lt x y \<Longrightarrow> \<not> lt y x"
  unfolding strict_weak_on_def by fast

lemma strict_weak_trans:
  "strict_weak_on A lt \<Longrightarrow> x \<in> A \<Longrightarrow> y \<in> A \<Longrightarrow> z \<in> A \<Longrightarrow> \<not> lt x y \<Longrightarrow> \<not> lt y z \<Longrightarrow> \<not> lt x z"
  unfolding strict_weak_on_def by fast

lemma sorted_ins_left:
  assumes "strict_weak_on A lt" "x \<in> A" "set ys \<subseteq> A" "sorted_wrt (\<lambda>a b. \<not> lt a b) ys"
  shows "sorted_wrt (\<lambda>a b. \<not> lt a b) (ins_left lt x ys)"
  using assms(3,4)
proof (induction ys)
  case (Cons y ys)
  have set: "set (ins_left lt x ys) = insert x (set ys)"
    by (metis mset_ins_left set_mset_add_mset_insert set_mset_mset)
  show ?case
  proof (cases "lt x y")
    case True
    then have "\<not> lt y x" using strict_weak_asym[OF assms(1,2)] Cons.prems(1) by simp
    with True Cons set show ?thesis by simp
  next
    case False
    have "\<not> lt x z" if z: "z \<in> set ys" for z
    proof -
      have "y \<in> A" "z \<in> A" "\<not> lt y z" using Cons.prems z by auto
      with False strict_weak_trans[OF assms(1,2)] show ?thesis by blast
    qed
    with False Cons.prems show ?thesis by simp
  qed
qed simp

lemma sorted_fold_ins_left:
  assumes "strict_weak_on A lt" "set xs \<subseteq> A" "set acc \<subseteq> A" "sorted_wrt (\<lambda>a b. \<not> lt a b) acc"
  shows "sorted_wrt (\<lambda>a b. \<not> lt a b) (fold (ins_left lt) xs acc)"
  using assms(2-4)
proof (induction xs arbitrary: acc)
  case (Cons x xs)
  have "set (ins_left lt x acc) = insert x (set acc)"
    by (metis mset_ins_left set_mset_add_mset_insert set_mset_mset)
  with Cons sorted_ins_left[OF assms(1), of x acc] show ?case by simp
qed simp

lemma insertionSort_contract: "sort_contract insertionSort"
  unfolding sort_contract_def
proof (intro allI conjI impI)
  fix lt :: "'a \<Rightarrow> 'a \<Rightarrow> bool" and xs :: "'a list"
  show "mset (insertionSort lt xs) = mset xs"
    by (simp add: insertionSort_def mset_fold_ins_left)
  show "sorted_wrt (\<lambda>a b. \<not> lt b a) (insertionSort lt xs)" if "strict_weak_on (set xs) lt"
    using sorted_fold_ins_left[OF that, of xs "[]"]
    by (simp add: insertionSort_def sorted_wrt_rev)
qed

section \<open>What a sorted slice gives its clients\<close>

locale slice_sorter =
  fixes srt :: "('a \<Rightarrow> 'a \<Rightarrow> bool) \<Rightarrow> 'a list \<Rightarrow> 'a list"
  assumes contract: "sort_contract srt"
begin

lemma mset_srt: "mset (srt lt xs) = mset xs"
  using contract by (simp add: sort_contract_def)

lemma set_srt: "set (srt lt xs) = set xs"
  by (rule mset_eq_setD[OF mset_srt])

lemma length_srt: "length (srt lt xs) = length xs"
  by (rule mset_eq_length[OF mset_srt])

lemma srt_Nil_iff: "srt lt xs = [] \<longleftrightarrow> xs = []"
  using length_srt[of lt xs] by (metis length_0_conv)

lemma sorted_srt: "strict_weak_on (set xs) lt \<Longrightarrow> sorted_wrt (\<lambda>a b. \<not> lt b a) (srt lt xs)"
  using contract by (simp add: sort_contract_def)

lemma first_is_least:
  assumes "strict_weak_on (set xs) lt" "srt lt xs = y # ys" "x \<in> set xs"
  shows "\<not> lt x y"
proof -
  have "x = y \<or> x \<in> set ys" using set_srt[of lt xs] assms(2,3) by auto
  moreover have "sorted_wrt (\<lambda>a b. \<not> lt b a) (y # ys)" using sorted_srt[OF assms(1)] assms(2) by simp
  moreover have "\<not> lt x x" using assms(1,3) by (simp add: strict_weak_on_def)
  ultimately show ?thesis by auto
qed

end

interpretation ins_sorter: slice_sorter insertionSort
  by unfold_locales (rule insertionSort_contract)

section \<open>Strings\<close>

text \<open>Go compares strings byte by byte; a prefix comes first.\<close>

fun string_less :: "string \<Rightarrow> string \<Rightarrow> bool" where
  "string_less _ [] = False"
| "string_less [] (_ # _) = True"
| "string_less (a # as) (b # bs) =
     ((of_char a :: nat) < of_char b \<or> (a = b \<and> string_less as bs))"

lemma string_less_irrefl: "\<not> string_less s s"
  by (induction s) auto

lemma string_less_asym: "string_less s t \<Longrightarrow> \<not> string_less t s"
  by (induction s t rule: string_less.induct) auto

lemma string_less_linear: "string_less s t \<or> s = t \<or> string_less t s"
proof (induction s t rule: string_less.induct)
  case (3 a as b bs)
  then show ?case using less_linear[of "of_char a :: nat" "of_char b"] of_char_eq_iff[where ?'a = nat, of a b] by auto
next
  case (1 s)
  then show ?case by (cases s) auto
qed auto

lemma string_less_trans: "string_less s t \<Longrightarrow> string_less t u \<Longrightarrow> string_less s u"
proof (induction s t arbitrary: u rule: string_less.induct)
  case (2 b bs)
  then show ?case by (cases u) auto
next
  case (3 a as b bs)
  show ?case
  proof (cases u)
    case (Cons c cs)
    then show ?thesis using 3 by auto
  qed (use 3 in simp)
qed simp

lemma string_less_strict_weak: "strict_weak_on A string_less"
  unfolding strict_weak_on_def
  using string_less_irrefl string_less_asym string_less_linear string_less_trans by metis

end
