(* ===== verification/Nodeclass_Status.thy ===== *)
theory Nodeclass_Status
  imports VSwitch Security_Group Image_Family Version Karp_Objects Go_Sort
begin

text \<open>
  The node class status controller: \<^verbatim>\<open>src/pkg/controllers/nodeclass/status\<close>. Three
  sub-reconcilers ask the vSwitch, security group and image providers what the selectors of the
  node class match, write it into the status and set one condition each; the controller adds the
  termination finalizer, runs them in order and patches the status. The locale
  \<open>status_reconciler\<close> is the contract the three share.
\<close>

section \<open>The sub-reconcilers\<close>

type_synonym sub_result = "(reconcile_result \<times> gerror option \<times> ecs_nodeclass) outcome"

text \<open>\<^verbatim>\<open>vswitch.go\<close>: with two or more vSwitches the comparison dereferences every IP
  count.\<close>

definition vswitch_less :: "vpc_vswitch \<Rightarrow> vpc_vswitch \<Rightarrow> bool" where
  "vswitch_less i j =
     (let a = IntValue (AvailableIpAddressCount i); b = IntValue (AvailableIpAddressCount j) in
      if a \<noteq> b then b < a else string_less (StringValue (VSwitchId i)) (StringValue (VSwitchId j)))"

definition to_status_vswitch :: "vpc_vswitch \<Rightarrow> status_vswitch outcome" where
  "to_status_vswitch v =
     outcome_bind (deref (VSwitchId v)) (\<lambda>i. outcome_map (\<lambda>z. \<lparr>svID = i, svZoneID = z\<rparr>) (deref (ZoneId v)))"

type_synonym 'a sorter = "('a \<Rightarrow> 'a \<Rightarrow> bool) \<Rightarrow> 'a list \<Rightarrow> 'a list"

definition vswitch_status ::
  "vpc_vswitch sorter \<Rightarrow> int \<Rightarrow> vpc_vswitch list outcome \<Rightarrow> ecs_nodeclass \<Rightarrow> sub_result" where
  "vswitch_status srt now listed nc =
     (case listed of
        Panic \<Rightarrow> Panic
      | Err e \<Rightarrow> Ok (requeueAfter (30 * Second), Some (Wrap ''getting vSwitches, '' e), nc)
      | Ok vs \<Rightarrow>
          (if vs = [] then
             Ok (requeueAfter (15 * Second), None,
                 nc_SetFalse now ConditionTypeVSwitchesReady ''vSwitchesNotFound''
                   ''VSwitchSelector did not match any VSwitches''
                   (nc\<lparr>ncStatus := (ncStatus nc)\<lparr>stVSwitches := []\<rparr>\<rparr>))
           else if 1 < length vs \<and> list_ex (\<lambda>v. AvailableIpAddressCount v = None) vs then Panic
           else outcome_map (\<lambda>svs. (requeueAfter Minute, None,
                  nc_SetTrue now ConditionTypeVSwitchesReady
                    (nc\<lparr>ncStatus := (ncStatus nc)\<lparr>stVSwitches := svs\<rparr>\<rparr>)))
                  (outcome_mapM to_status_vswitch (srt vswitch_less vs))))"

text \<open>\<^verbatim>\<open>securitygroup.go\<close>: no group is fine when no selector is given.\<close>

definition group_less :: "ecs_security_group \<Rightarrow> ecs_security_group \<Rightarrow> bool" where
  "group_less i j = string_less (StringValue (SecurityGroupId i)) (StringValue (SecurityGroupId j))"

definition to_status_group :: "ecs_security_group \<Rightarrow> status_security_group outcome" where
  "to_status_group g =
     outcome_bind (deref (SecurityGroupId g)) (\<lambda>i.
       outcome_map (\<lambda>n. \<lparr>ssgID = i, ssgName = n\<rparr>) (deref (SecurityGroupName g)))"

definition group_status ::
  "ecs_security_group sorter \<Rightarrow> int \<Rightarrow> ecs_security_group list outcome \<Rightarrow> ecs_nodeclass \<Rightarrow> sub_result" where
  "group_status srt now listed nc =
     (case listed of
        Panic \<Rightarrow> Panic
      | Err e \<Rightarrow> Ok (requeueAfter (30 * Second), Some (Wrap ''getting security groups, '' e), nc)
      | Ok gs \<Rightarrow>
          (if gs = [] \<and> SecurityGroupSelectorTerms (ncSpec nc) \<noteq> [] then
             Ok (requeueAfter (15 * Second), None,
                 nc_SetFalse now ConditionTypeSecurityGroupsReady ''SecurityGroupsNotFound''
                   ''SecurityGroupSelector did not match any SecurityGroups''
                   (nc\<lparr>ncStatus := (ncStatus nc)\<lparr>stSecurityGroups := []\<rparr>\<rparr>))
           else outcome_map (\<lambda>sgs. (requeueAfter (5 * Minute), None,
                  nc_SetTrue now ConditionTypeSecurityGroupsReady
                    (nc\<lparr>ncStatus := (ncStatus nc)\<lparr>stSecurityGroups := sgs\<rparr>\<rparr>)))
                  (outcome_mapM to_status_group (srt group_less gs))))"

text \<open>\<^verbatim>\<open>NodeSelectorRequirement\<close> of karpenter: a requirement as the API writes it; the
  values of a set are listed in order. The status drops the minimum of values.\<close>

definition NodeSelectorRequirement :: "requirement \<Rightarrow> selector_requirement" where
  "NodeSelectorRequirement r =
     (let sel = (\<lambda>op vs. \<lparr>selKey = Key r, selOperator = op, selValues = vs, selMinValues = MinValues r\<rparr>);
          listed = insertionSort string_less (reqValues r)
      in case greaterThan_r r of
           Some g \<Rightarrow> sel OpGt [itoa g]
         | None \<Rightarrow>
             (case lessThan_r r of
                Some l \<Rightarrow> sel OpLt [itoa l]
              | None \<Rightarrow>
                  (if complement r then (if reqValues r \<noteq> [] then sel OpNotIn listed else sel OpExists [])
                   else if reqValues r \<noteq> [] then sel OpIn listed else sel OpDoesNotExist [])))"

definition NodeSelectorRequirements :: "requirements \<Rightarrow> selector_requirement list" where
  "NodeSelectorRequirements rs = map (\<lambda>(k, r). NodeSelectorRequirement r) rs"

text \<open>\<^verbatim>\<open>image.go\<close>.\<close>

definition selector_less :: "selector_requirement \<Rightarrow> selector_requirement \<Rightarrow> bool" where
  "selector_less i j =
     (if length (selKey i) \<noteq> length (selKey j) then length (selKey i) < length (selKey j)
      else string_less (selKey i) (selKey j))"

definition to_status_image :: "selector_requirement sorter \<Rightarrow> image \<Rightarrow> status_image" where
  "to_status_image srt im =
     \<lparr>siID = imImageID im, siName = imName im,
      siRequirements = srt selector_less
        (map (\<lambda>q. q\<lparr>selMinValues := None\<rparr>) (NodeSelectorRequirements (imRequirements im)))\<rparr>"

definition image_status ::
  "selector_requirement sorter \<Rightarrow> int \<Rightarrow> image list outcome \<Rightarrow> ecs_nodeclass \<Rightarrow> sub_result" where
  "image_status srt now listed nc =
     (case listed of
        Panic \<Rightarrow> Panic
      | Err e \<Rightarrow> Ok (requeueAfter (30 * Second), Some e, nc)
      | Ok ims \<Rightarrow>
          (if ims = [] then
             Ok (noRequeue, None,
                 nc_SetFalse now ConditionTypeImagesReady ''ImagesNotFound'' ''ImageSelector did not match any Images''
                   (nc\<lparr>ncStatus := (ncStatus nc)\<lparr>stImages := []\<rparr>\<rparr>))
           else Ok (requeueAfter (5 * Minute), None,
                 nc_SetTrue now ConditionTypeImagesReady
                   (nc\<lparr>ncStatus := (ncStatus nc)\<lparr>stImages := map (to_status_image srt) ims\<rparr>\<rparr>))))"

section \<open>The contract of a sub-reconciler\<close>

text \<open>
  A sub-reconciler with its condition type \<open>cond\<close> and the test \<open>found\<close> of what was
  listed: a failed listing leaves the node class alone and is reported; otherwise exactly its
  condition is set, to what the listing found, and nothing but the status changes.
\<close>

definition same_but_status :: "ecs_nodeclass \<Rightarrow> ecs_nodeclass \<Rightarrow> bool" where
  "same_but_status a b = (a\<lparr>ncStatus := ncStatus b\<rparr> = b)"

definition cond_update :: "int \<Rightarrow> string \<Rightarrow> bool \<Rightarrow> ecs_nodeclass \<Rightarrow> ecs_nodeclass \<Rightarrow> bool" where
  "cond_update now cond found nc nc' =
     (\<exists>reason msg nc1. same_but_status nc nc1 \<and> stConditions (ncStatus nc1) = stConditions (ncStatus nc)
        \<and> nc' = nc_cond_set now cond (if found then ConditionTrue else ConditionFalse) reason msg nc1)"

lemma cond_updateI:
  assumes "same_but_status nc nc1" "stConditions (ncStatus nc1) = stConditions (ncStatus nc)"
  shows "cond_update now cond True nc (nc_SetTrue now cond nc1)"
    and "cond_update now cond False nc (nc_SetFalse now cond reason msg nc1)"
  unfolding cond_update_def nc_setters_eq using assms by auto

lemma same_but_status_update [simp]: "same_but_status nc (nc\<lparr>ncStatus := st\<rparr>)"
  by (simp add: same_but_status_def)

locale status_reconciler =
  fixes step :: "int \<Rightarrow> 'a list outcome \<Rightarrow> ecs_nodeclass \<Rightarrow> sub_result"
    and cond :: string
    and found :: "nodeclass_spec \<Rightarrow> 'a list \<Rightarrow> bool"
  assumes dependent: "cond \<in> set readyDependents"
    and failed: "step now (Err e) nc = Ok (r, er, nc') \<Longrightarrow> nc' = nc \<and> er \<noteq> None"
    and no_error: "step now l nc \<noteq> Err e'"
    and listed: "step now (Ok xs) nc = Ok (r, er, nc') \<Longrightarrow>
      er = None \<and> cond_update now cond (found (ncSpec nc) xs) nc nc'"
    and panics: "step now Panic nc = Panic"
begin

lemma verdict:
  assumes "step now (Ok xs) nc = Ok (r, er, nc')" "nc_consistent nc"
  shows "er = None" "nc_consistent nc'" "nc_complete nc'" "same_but_status nc nc'"
    and "nc_cond cond nc' = (if found (ncSpec nc) xs then ConditionTrue else ConditionFalse)"
    and "u \<noteq> cond \<Longrightarrow> u \<in> set readyDependents \<Longrightarrow> nc_cond u nc' = nc_cond u nc"
proof -
  obtain reason msg nc1 where er: "er = None" and same: "same_but_status nc nc1"
    and conds: "stConditions (ncStatus nc1) = stConditions (ncStatus nc)"
    and nc': "nc' = nc_cond_set now cond (if found (ncSpec nc) xs then ConditionTrue else ConditionFalse) reason msg nc1"
    using listed[OF assms(1)] unfolding cond_update_def by auto
  have cons: "nc_consistent nc1" using assms(2) conds by simp
  note set = nc_cond_set_conds[OF cons dependent, where now = now and r = reason and m = msg]
  show "er = None" by (rule er)
  show "nc_consistent nc'" "nc_complete nc'" unfolding nc' by (rule set)+
  show "nc_cond cond nc' = (if found (ncSpec nc) xs then ConditionTrue else ConditionFalse)"
    unfolding nc' by (rule set)
  show "same_but_status nc nc'"
    using same unfolding same_but_status_def nc' nc_cond_set_def nc_set_conditions_def by (metis (no_types, lifting) ecs_nodeclass.surjective ecs_nodeclass.update_convs(7) ecs_nodeclass.select_convs(7))
  show "nc_cond u nc' = nc_cond u nc" if "u \<noteq> cond" "u \<in> set readyDependents"
    using set(4)[OF that] conds unfolding nc' by simp
qed

lemma any_listing:
  assumes "step now l nc = Ok (r, er, nc')" "nc_consistent nc"
  shows "nc_consistent nc'" "same_but_status nc nc'" "nc_complete nc \<Longrightarrow> nc_complete nc'"
    and "u \<noteq> cond \<Longrightarrow> u \<in> set readyDependents \<Longrightarrow> nc_cond u nc' = nc_cond u nc"
    and "er = None \<longleftrightarrow> (\<exists>xs. l = Ok xs)"
proof -
  have "nc_consistent nc' \<and> same_but_status nc nc' \<and> (nc_complete nc \<longrightarrow> nc_complete nc')
      \<and> (u \<noteq> cond \<longrightarrow> u \<in> set readyDependents \<longrightarrow> nc_cond u nc' = nc_cond u nc)
      \<and> (er = None \<longleftrightarrow> (\<exists>xs. l = Ok xs))"
  proof (cases l)
    case (Ok xs)
    with assms have "step now (Ok xs) nc = Ok (r, er, nc')" by simp
    from verdict[OF this assms(2)] Ok show ?thesis by simp
  next
    case (Err e)
    with assms failed[of now e nc r er nc'] show ?thesis by (simp add: same_but_status_def)
  next
    case Panic
    with assms panics show ?thesis by simp
  qed
  then show "nc_consistent nc'" "same_but_status nc nc'" "nc_complete nc \<Longrightarrow> nc_complete nc'"
    "u \<noteq> cond \<Longrightarrow> u \<in> set readyDependents \<Longrightarrow> nc_cond u nc' = nc_cond u nc"
    "er = None \<longleftrightarrow> (\<exists>xs. l = Ok xs)"
    by simp_all
qed

end

lemma outcome_map_Err_iff [simp]: "outcome_map f r = Err e \<longleftrightarrow> r = Err e"
  by (cases r) auto

lemma outcome_bind_Err_iff:
  "outcome_bind r f = Err e \<longleftrightarrow> r = Err e \<or> (\<exists>a. r = Ok a \<and> f a = Err e)"
  by (cases r) auto

lemma outcome_mapM_not_Err: "(\<And>x e. f x \<noteq> Err e) \<Longrightarrow> outcome_mapM f xs \<noteq> Err e"
  by (induction xs) (simp_all add: outcome_bind_Err_iff)

lemma deref_not_Err [simp]: "deref x \<noteq> Err e"
  by (cases x) simp_all

lemma to_status_not_Err [simp]: "to_status_vswitch v \<noteq> Err e" "to_status_group g \<noteq> Err e"
  by (simp_all add: to_status_vswitch_def to_status_group_def outcome_bind_Err_iff)

lemmas status_step_simps =
  readyDependents_def outcome_mapM_not_Err cond_updateI

interpretation vsw: status_reconciler "vswitch_status srt" ConditionTypeVSwitchesReady "\<lambda>_ vs. vs \<noteq> []" for srt
  by unfold_locales
    (auto simp: vswitch_status_def status_step_simps split: outcome.splits if_splits)

interpretation grp: status_reconciler "group_status srt" ConditionTypeSecurityGroupsReady
  "\<lambda>spec gs. gs \<noteq> [] \<or> SecurityGroupSelectorTerms spec = []" for srt
  by unfold_locales
    (auto simp: group_status_def status_step_simps split: outcome.splits if_splits)

interpretation img: status_reconciler "image_status srt" ConditionTypeImagesReady "\<lambda>_ ims. ims \<noteq> []" for srt
  by unfold_locales
    (auto simp: image_status_def status_step_simps split: outcome.splits if_splits)

section \<open>The controller\<close>

record status_env =
  seVSwitchHash :: "vswitch_selector_term list \<Rightarrow> string outcome"
  seVpc :: vpc_api
  seGroupHash :: "sg_request list \<Rightarrow> string outcome"
  seGroups :: sg_api
  seImages :: image_env
  seVersionHash :: "string \<Rightarrow> nat"
  seServerVersion :: "string outcome"
  seSortVSwitches :: "vpc_vswitch sorter"
  seSortGroups :: "ecs_security_group sorter"
  seSortSelectors :: "selector_requirement sorter"

record status_state =
  ssVSwitches :: vswitch_provider
  ssGroups :: "ecs_security_group list go_cache"
  ssVersion :: version_provider
  ssImages :: "image list go_cache"

definition VSwitch_Reconcile ::
  "status_env \<Rightarrow> int \<Rightarrow> ecs_nodeclass \<Rightarrow> status_state \<Rightarrow> sub_result \<times> status_state" where
  "VSwitch_Reconcile env now nc s =
     (let (listed, p) = vswitch_List (seVSwitchHash env) (seVpc env) now nc (ssVSwitches s)
      in (vswitch_status (seSortVSwitches env) now listed nc, s\<lparr>ssVSwitches := p\<rparr>))"

definition SecurityGroup_Reconcile ::
  "status_env \<Rightarrow> int \<Rightarrow> ecs_nodeclass \<Rightarrow> status_state \<Rightarrow> (sub_result \<times> status_state) option" where
  "SecurityGroup_Reconcile env now nc s =
     map_option (\<lambda>(listed, c). (group_status (seSortGroups env) now listed nc, s\<lparr>ssGroups := c\<rparr>))
       (sg_List (seGroupHash env) (seGroups env) now nc (ssGroups s))"

text \<open>The image provider asks the version provider first.\<close>

definition Image_Reconcile ::
  "status_env \<Rightarrow> int \<Rightarrow> ecs_nodeclass \<Rightarrow> status_state \<Rightarrow> sub_result \<times> status_state" where
  "Image_Reconcile env now nc s =
     (let (v, vp) = version_Get (seVersionHash env) (seServerVersion env) now (ssVersion s);
          (listed, c) = image_List (seImages env) now v nc (ssImages s)
      in (image_status (seSortSelectors env) now listed nc, s\<lparr>ssVersion := vp, ssImages := c\<rparr>))"

text \<open>The loop over the three reconcilers: every one runs, and errors are collected.\<close>

definition run_reconcilers ::
  "status_env \<Rightarrow> int \<Rightarrow> ecs_nodeclass \<Rightarrow> status_state \<Rightarrow>
   ((reconcile_result list \<times> gerror option \<times> ecs_nodeclass) outcome \<times> status_state) option" where
  "run_reconcilers env now nc s =
     (case VSwitch_Reconcile env now nc s of
        (Panic, s1) \<Rightarrow> Some (Panic, s1)
      | (Err e, s1) \<Rightarrow> Some (Err e, s1)
      | (Ok (r1, e1, nc1), s1) \<Rightarrow>
          (case SecurityGroup_Reconcile env now nc1 s1 of
             None \<Rightarrow> None
           | Some (Panic, s2) \<Rightarrow> Some (Panic, s2)
           | Some (Err e, s2) \<Rightarrow> Some (Err e, s2)
           | Some (Ok (r2, e2, nc2), s2) \<Rightarrow>
               (case Image_Reconcile env now nc2 s2 of
                  (Panic, s3) \<Rightarrow> Some (Panic, s3)
                | (Err e, s3) \<Rightarrow> Some (Err e, s3)
                | (Ok (r3, e3, nc3), s3) \<Rightarrow>
                    Some (Ok ([r1, r2, r3], multierr_Append (multierr_Append (multierr_Append None e1) e2) e3, nc3),
                          s3))))"

definition status_Reconcile ::
  "status_env \<Rightarrow> kube_writer \<Rightarrow> int \<Rightarrow> ecs_nodeclass \<Rightarrow> status_state \<Rightarrow>
   (class_answer outcome \<times> status_state) option" where
  "status_Reconcile env write now nc s =
     (let stored = AddFinalizer TerminationFinalizer nc;
          sent = (if TerminationFinalizer \<in> set (ncFinalizers nc) then [] else [PatchNodeClass stored]);
          answer = (\<lambda>r e c ws. Some (Ok \<lparr>caResult = r, caError = e, caClass = c, caWrites = ws\<rparr>, s))
      in case (if sent = [] then None else write (PatchNodeClass stored)) of
           Some e \<Rightarrow>
             (if api_IsConflict (Some e) then answer \<lparr>Requeue = True, RequeueAfter = 0\<rparr> None stored sent
              else answer noRequeue (Some e) stored sent)
         | None \<Rightarrow>
             (case run_reconcilers env now (nc_SetTrue now ConditionTypeInstanceRAMReady stored) s of
                None \<Rightarrow> None
              | Some (Panic, s') \<Rightarrow> Some (Panic, s')
              | Some (Err e, s') \<Rightarrow> Some (Err e, s')
              | Some (Ok (results, errs, nc'), s') \<Rightarrow>
                  (let answer = (\<lambda>r e ws. Some (Ok \<lparr>caResult = r, caError = e, caClass = nc', caWrites = ws\<rparr>, s'))
                   in if nc' = stored then answer (result_Min results) errs sent
                      else case write (PatchNodeClassStatus nc') of
                             None \<Rightarrow> answer (result_Min results) errs (sent @ [PatchNodeClassStatus nc'])
                           | Some e \<Rightarrow>
                               (if api_IsConflict (Some e)
                                then answer \<lparr>Requeue = True, RequeueAfter = 0\<rparr> None (sent @ [PatchNodeClassStatus nc'])
                                else answer (result_Min results) (multierr_Append errs (IgnoreNotFound (Some e)))
                                       (sent @ [PatchNodeClassStatus nc'])))))"

section \<open>Readiness\<close>

lemma list_spec_only:
  assumes "ncSpec nc' = ncSpec nc"
  shows "vswitch_List h va now nc' p = vswitch_List h va now nc p"
    and "sg_List g ga now nc' c = sg_List g ga now nc c"
    and "image_List env now v nc' ic = image_List env now v nc ic"
  by (simp_all add: vswitch_List_def sg_List_def image_List_def GetImages_def assms split: outcome.splits)

text \<open>The status of a condition after its sub-reconciler ran: what was found decides, and a
  failed listing leaves it.\<close>

definition after_listing :: "('a list \<Rightarrow> bool) \<Rightarrow> 'a list outcome \<Rightarrow> condition_status \<Rightarrow> condition_status" where
  "after_listing found l old =
     (case l of Ok xs \<Rightarrow> (if found xs then ConditionTrue else ConditionFalse) | _ \<Rightarrow> old)"

lemma same_but_status_fields:
  assumes "same_but_status nc nc'"
  shows "ncSpec nc' = ncSpec nc" "ncFinalizers nc' = ncFinalizers nc" "ncName nc' = ncName nc"
    "ncAnnotations nc' = ncAnnotations nc" "ncDeletionTimestamp nc' = ncDeletionTimestamp nc"
  using assms unfolding same_but_status_def
  by (metis ecs_nodeclass.ext_inject ecs_nodeclass.surjective ecs_nodeclass.update_convs(7))+

lemma same_but_status_trans: "same_but_status a b \<Longrightarrow> same_but_status b c \<Longrightarrow> same_but_status a c"
  unfolding same_but_status_def by (cases a; cases b; cases c) simp

context status_reconciler
begin

lemma after_step:
  assumes "step now l nc = Ok (r, er, nc')" "nc_consistent nc"
  shows "nc_cond cond nc' = after_listing (found (ncSpec nc)) l (nc_cond cond nc)"
proof (cases l)
  case (Ok xs)
  with assms have "step now (Ok xs) nc = Ok (r, er, nc')" by simp
  from verdict(5)[OF this assms(2)] Ok show ?thesis by (simp add: after_listing_def)
next
  case (Err e)
  with assms failed[of now e nc r er nc'] show ?thesis by (simp add: after_listing_def)
next
  case Panic
  with assms panics show ?thesis by simp
qed

end

lemma types_neq:
  "ConditionTypeVSwitchesReady \<noteq> ConditionTypeSecurityGroupsReady"
  "ConditionTypeVSwitchesReady \<noteq> ConditionTypeImagesReady"
  "ConditionTypeSecurityGroupsReady \<noteq> ConditionTypeImagesReady"
  "ConditionTypeInstanceRAMReady \<noteq> ConditionTypeVSwitchesReady"
  "ConditionTypeInstanceRAMReady \<noteq> ConditionTypeSecurityGroupsReady"
  "ConditionTypeInstanceRAMReady \<noteq> ConditionTypeImagesReady"
  by (simp_all add: condition_type_defs)

lemma dependents:
  "ConditionTypeVSwitchesReady \<in> set readyDependents" "ConditionTypeSecurityGroupsReady \<in> set readyDependents"
  "ConditionTypeImagesReady \<in> set readyDependents" "ConditionTypeInstanceRAMReady \<in> set readyDependents"
  by (simp_all add: readyDependents_def)

text \<open>The three listings depend on the specification only, so they can be named beforehand.\<close>

definition listings ::
  "status_env \<Rightarrow> int \<Rightarrow> ecs_nodeclass \<Rightarrow> status_state \<Rightarrow>
   vpc_vswitch list outcome \<Rightarrow> ecs_security_group list outcome \<Rightarrow> image list outcome \<Rightarrow> bool" where
  "listings env now nc s lv lg li =
     (fst (vswitch_List (seVSwitchHash env) (seVpc env) now nc (ssVSwitches s)) = lv
      \<and> (case sg_List (seGroupHash env) (seGroups env) now nc (ssGroups s) of None \<Rightarrow> False | Some (l, c) \<Rightarrow> l = lg)
      \<and> fst (image_List (seImages env) now
               (fst (version_Get (seVersionHash env) (seServerVersion env) now (ssVersion s))) nc (ssImages s)) = li)"

lemma listings_spec_only: "ncSpec nc' = ncSpec nc \<Longrightarrow> listings env now nc' s = listings env now nc s"
  by (simp add: listings_def list_spec_only[of nc' nc] fun_eq_iff)

lemma run_reconcilers_steps:
  assumes run: "run_reconcilers env now nc s = Some (Ok (rs, errs, nc'), s')"
    and l: "listings env now nc s lv lg li" and cons: "nc_consistent nc"
  obtains r1 e1 nc1 r2 e2 nc2 r3 e3 where
    "vswitch_status (seSortVSwitches env) now lv nc = Ok (r1, e1, nc1)"
    "group_status (seSortGroups env) now lg nc1 = Ok (r2, e2, nc2)"
    "image_status (seSortSelectors env) now li nc2 = Ok (r3, e3, nc')"
    "errs = multierr_Append (multierr_Append (multierr_Append None e1) e2) e3" "rs = [r1, r2, r3]"
proof -
  obtain r1 e1 nc1 s1 where v: "VSwitch_Reconcile env now nc s = (Ok (r1, e1, nc1), s1)"
    using run by (auto simp: run_reconcilers_def split: prod.splits outcome.splits option.splits)
  obtain r2 e2 nc2 s2 where g: "SecurityGroup_Reconcile env now nc1 s1 = Some (Ok (r2, e2, nc2), s2)"
    using run v by (auto simp: run_reconcilers_def split: prod.splits outcome.splits option.splits)
  obtain r3 e3 s3 where i: "Image_Reconcile env now nc2 s2 = (Ok (r3, e3, nc'), s3)"
    and errs: "errs = multierr_Append (multierr_Append (multierr_Append None e1) e2) e3" and rs: "rs = [r1, r2, r3]"
    using run v g by (auto simp: run_reconcilers_def split: prod.splits outcome.splits option.splits)
  have v1: "vswitch_status (seSortVSwitches env) now lv nc = Ok (r1, e1, nc1)" and s1: "ssGroups s1 = ssGroups s"
      "ssVersion s1 = ssVersion s" "ssImages s1 = ssImages s"
    using v l by (auto simp: VSwitch_Reconcile_def listings_def split: prod.splits)
  note A = vsw.any_listing[OF v1 cons]
  have spec1: "ncSpec nc1 = ncSpec nc" by (rule same_but_status_fields(1)[OF A(2)])
  have g1: "group_status (seSortGroups env) now lg nc1 = Ok (r2, e2, nc2)" and s2: "ssVersion s2 = ssVersion s"
      "ssImages s2 = ssImages s"
    using g s1 l unfolding SecurityGroup_Reconcile_def listings_def list_spec_only(2)[OF spec1] by auto
  have spec2: "ncSpec nc2 = ncSpec nc"
    using spec1 same_but_status_fields(1)[OF grp.any_listing(2)[OF g1 A(1)]] by simp
  have "image_status (seSortSelectors env) now li nc2 = Ok (r3, e3, nc')"
    using i l unfolding Image_Reconcile_def listings_def list_spec_only(3)[OF spec2] s2
    by (auto split: prod.splits)
  from that[OF v1 g1 this errs rs] show thesis .
qed

lemma run_reconcilers_Ok:
  assumes run: "run_reconcilers env now nc s = Some (Ok (rs, errs, nc'), s')"
    and l: "listings env now nc s lv lg li" and cons: "nc_consistent nc"
  shows "nc_consistent nc'" "same_but_status nc nc'" "nc_complete nc \<Longrightarrow> nc_complete nc'"
    and "nc_cond ConditionTypeVSwitchesReady nc' =
           after_listing (\<lambda>vs. vs \<noteq> []) lv (nc_cond ConditionTypeVSwitchesReady nc)"
    and "nc_cond ConditionTypeSecurityGroupsReady nc' =
           after_listing (\<lambda>gs. gs \<noteq> [] \<or> SecurityGroupSelectorTerms (ncSpec nc) = []) lg
             (nc_cond ConditionTypeSecurityGroupsReady nc)"
    and "nc_cond ConditionTypeImagesReady nc' =
           after_listing (\<lambda>ims. ims \<noteq> []) li (nc_cond ConditionTypeImagesReady nc)"
    and "nc_cond ConditionTypeInstanceRAMReady nc' = nc_cond ConditionTypeInstanceRAMReady nc"
    and "errs = None \<longleftrightarrow> (\<exists>vs. lv = Ok vs) \<and> (\<exists>gs. lg = Ok gs) \<and> (\<exists>ims. li = Ok ims)"
proof -
  obtain r1 e1 nc1 r2 e2 nc2 r3 e3
    where v1: "vswitch_status (seSortVSwitches env) now lv nc = Ok (r1, e1, nc1)"
      and g1: "group_status (seSortGroups env) now lg nc1 = Ok (r2, e2, nc2)"
      and i1: "image_status (seSortSelectors env) now li nc2 = Ok (r3, e3, nc')"
      and errs: "errs = multierr_Append (multierr_Append (multierr_Append None e1) e2) e3"
    using run_reconcilers_steps[OF run l cons] .
  note A = vsw.any_listing[OF v1 cons] and A' = vsw.after_step[OF v1 cons]
  note B = grp.any_listing[OF g1 A(1)] and B' = grp.after_step[OF g1 A(1)]
  note C = img.any_listing[OF i1 B(1)] and C' = img.after_step[OF i1 B(1)]
  show "nc_consistent nc'" by (rule C)
  show "same_but_status nc nc'" using A(2) B(2) C(2) same_but_status_trans by blast
  show "nc_complete nc \<Longrightarrow> nc_complete nc'" using A(3) B(3) C(3) by blast
  show "nc_cond ConditionTypeVSwitchesReady nc' =
      after_listing (\<lambda>vs. vs \<noteq> []) lv (nc_cond ConditionTypeVSwitchesReady nc)"
    using A' B(4)[OF types_neq(1) dependents(1)] C(4)[OF types_neq(2) dependents(1)] by simp
  show "nc_cond ConditionTypeSecurityGroupsReady nc' =
      after_listing (\<lambda>gs. gs \<noteq> [] \<or> SecurityGroupSelectorTerms (ncSpec nc) = []) lg
        (nc_cond ConditionTypeSecurityGroupsReady nc)"
    using B' C(4)[OF types_neq(3) dependents(2)] A(4)[OF types_neq(1)[symmetric] dependents(2)]
      same_but_status_fields(1)[OF A(2)] by simp
  show "nc_cond ConditionTypeImagesReady nc' =
      after_listing (\<lambda>ims. ims \<noteq> []) li (nc_cond ConditionTypeImagesReady nc)"
    using C' A(4)[OF types_neq(2)[symmetric] dependents(3)] B(4)[OF types_neq(3)[symmetric] dependents(3)] by simp
  show "nc_cond ConditionTypeInstanceRAMReady nc' = nc_cond ConditionTypeInstanceRAMReady nc"
    using A(4)[OF types_neq(4) dependents(4)] B(4)[OF types_neq(5) dependents(4)] C(4)[OF types_neq(6) dependents(4)]
    by simp
  have "errs = None \<longleftrightarrow> e1 = None \<and> e2 = None \<and> e3 = None"
    unfolding errs multierr_Append_def by auto
  with A(5) B(5) C(5)
  show "errs = None \<longleftrightarrow> (\<exists>vs. lv = Ok vs) \<and> (\<exists>gs. lg = Ok gs) \<and> (\<exists>ims. li = Ok ims)" by simp
qed

text \<open>A run whose writes are accepted is the finalizer followed by the reconcilers.\<close>

lemma status_Reconcile_accepted:
  assumes "\<forall>w. write w = None" "status_Reconcile env write now nc s = Some (Ok a, s')"
  obtains rs errs where
    "run_reconcilers env now (nc_SetTrue now ConditionTypeInstanceRAMReady (AddFinalizer TerminationFinalizer nc)) s
       = Some (Ok (rs, errs, caClass a), s')"
    "caError a = errs" "caResult a = result_Min rs"
  using assms by (auto simp: status_Reconcile_def Let_def split: option.splits outcome.splits prod.splits if_splits)

lemma nc_SetTrue_fields [simp]:
  "ncSpec (nc_SetTrue now t nc) = ncSpec nc" "ncFinalizers (nc_SetTrue now t nc) = ncFinalizers nc"
  by (simp_all add: nc_SetTrue_def nc_set_conditions_def)

text \<open>
  C6. The status controller: when all its writes are accepted, the node class it leaves carries
  the termination finalizer, has a consistent condition set, and is Ready exactly when the
  conditions of the vSwitches, the security groups and the images are all true. A listing that
  succeeds decides its condition (the vSwitches and the images listed must not be empty; security groups must
  be listed unless none are asked for); a listing that fails leaves the condition as it was, so a
  class can stay Ready on its last verdict, and is reported: an error is returned exactly when
  some listing failed.
\<close>

theorem class_ready_iff_discovered:
  assumes cons: "nc_consistent nc" and accepted: "\<forall>w. write w = None"
    and run: "status_Reconcile env write now nc s = Some (Ok a, s')"
    and l: "listings env now nc s lv lg li"
  shows "TerminationFinalizer \<in> set (ncFinalizers (caClass a)) \<and> nc_consistent (caClass a)
    \<and> (nc_ready (caClass a) = ConditionTrue \<longleftrightarrow>
         after_listing (\<lambda>vs. vs \<noteq> []) lv (nc_cond ConditionTypeVSwitchesReady nc) = ConditionTrue
         \<and> after_listing (\<lambda>gs. gs \<noteq> [] \<or> SecurityGroupSelectorTerms (ncSpec nc) = []) lg
             (nc_cond ConditionTypeSecurityGroupsReady nc) = ConditionTrue
         \<and> after_listing (\<lambda>ims. ims \<noteq> []) li (nc_cond ConditionTypeImagesReady nc) = ConditionTrue)
    \<and> (caError a = None \<longleftrightarrow> (\<exists>vs. lv = Ok vs) \<and> (\<exists>gs. lg = Ok gs) \<and> (\<exists>ims. li = Ok ims))"
proof -
  let ?stored = "AddFinalizer TerminationFinalizer nc"
  let ?start = "nc_SetTrue now ConditionTypeInstanceRAMReady ?stored"
  obtain rs errs where r: "run_reconcilers env now ?start s = Some (Ok (rs, errs, caClass a), s')"
    and e: "caError a = errs" using status_Reconcile_accepted[OF accepted run] by blast
  have cons': "nc_consistent ?stored" using cons by simp
  have ram_true: "nc_cond ConditionTypeInstanceRAMReady ?start = ConditionTrue"
    and ram_cons: "nc_consistent ?start" and ram_comp: "nc_complete ?start"
    unfolding nc_setters_eq by (rule nc_cond_set_conds[OF cons' dependents(4)])+
  have keep: "nc_cond u ?start = nc_cond u nc" if "u \<noteq> ConditionTypeInstanceRAMReady" "u \<in> set readyDependents" for u
    using nc_cond_set_conds(4)[OF cons' dependents(4) that] unfolding nc_setters_eq by simp
  note old = keep[OF types_neq(4)[symmetric] dependents(1)] keep[OF types_neq(5)[symmetric] dependents(2)]
    keep[OF types_neq(6)[symmetric] dependents(3)]
  have spec: "ncSpec ?start = ncSpec nc" by simp
  have l': "listings env now ?start s lv lg li" using l listings_spec_only[OF spec] by simp
  note R = run_reconcilers_Ok[OF r l' ram_cons]
  have "nc_ready (caClass a) = ConditionTrue \<longleftrightarrow>
      nc_cond ConditionTypeVSwitchesReady (caClass a) = ConditionTrue
      \<and> nc_cond ConditionTypeSecurityGroupsReady (caClass a) = ConditionTrue
      \<and> nc_cond ConditionTypeImagesReady (caClass a) = ConditionTrue
      \<and> nc_cond ConditionTypeInstanceRAMReady (caClass a) = ConditionTrue"
    using nc_ready_iff(1)[OF R(1) R(3)[OF ram_comp]] unfolding readyDependents_def by auto
  moreover have "TerminationFinalizer \<in> set (ncFinalizers (caClass a))"
    using same_but_status_fields(2)[OF R(2)] by simp
  ultimately show ?thesis using R(1,8) ram_true unfolding R(4-7) e old spec by simp
qed

definition sample_stored :: "'v \<Rightarrow> 'v go_cache" where
  "sample_stored x = cache_set_default 0 ''h'' x (cache_new 60)"

lemma sample_stored_get: "cache_get 1 ''h'' (sample_stored x) = Some x"
  by (simp add: sample_stored_def cache_get_set_default cache_new_def)

definition sample_status_env :: status_env where
  "sample_status_env =
     \<lparr>seVSwitchHash = (\<lambda>_. Ok ''h''), seVpc = (\<lambda>_. Ok None), seGroupHash = (\<lambda>_. Ok ''h''), seGroups = (\<lambda>_ _. Ok None),
      seImages = \<lparr>ieAck = (\<lambda>_. Ok []), ieEcs = (\<lambda>_. Ok []), termsHash = (\<lambda>_. Ok ''h''), reqsHash = (\<lambda>_. 0)\<rparr>,
      seVersionHash = (\<lambda>_. 0), seServerVersion = Ok ''1.30.1'',
      seSortVSwitches = insertionSort, seSortGroups = insertionSort, seSortSelectors = insertionSort\<rparr>"

definition sample_status_state :: status_state where
  "sample_status_state =
     \<lparr>ssVSwitches = \<lparr>vsCache = sample_stored [\<lparr>VSwitchId = Some ''vsw-1'', ZoneId = Some ''cn-a'',
          AvailableIpAddressCount = Some 9\<rparr>], availableIPAddressCache = cache_new 60, inflightIPs = []\<rparr>,
      ssGroups = sample_stored [\<lparr>SecurityGroupId = Some ''sg-1'', SecurityGroupName = Some ''nodes''\<rparr>],
      ssVersion = \<lparr>verCache = cache_set_default 0 kubernetesVersionCacheKey ''1.30.1'' (cache_new 60), verCm = cache_new 60\<rparr>,
      ssImages = sample_stored [\<lparr>imName = ''aliyun'', imImageID = ''m-1'', imRequirements = arch_requirements ''amd64''\<rparr>]\<rparr>"

definition sample_status_class :: ecs_nodeclass where
  "sample_status_class = zero_nodeclass\<lparr>ncSpec := (ncSpec zero_nodeclass)
     \<lparr>VSwitchSelectorTerms := [\<lparr>vstTags = [], vstID = ''vsw-1''\<rparr>]\<rparr>\<rparr>"

lemma sample_listings:
  "ncSpec nc = ncSpec sample_status_class \<Longrightarrow>
   listings sample_status_env 1 nc sample_status_state
     (Ok [\<lparr>VSwitchId = Some ''vsw-1'', ZoneId = Some ''cn-a'', AvailableIpAddressCount = Some 9\<rparr>])
     (Ok [\<lparr>SecurityGroupId = Some ''sg-1'', SecurityGroupName = Some ''nodes''\<rparr>])
     (Ok [\<lparr>imName = ''aliyun'', imImageID = ''m-1'', imRequirements = arch_requirements ''amd64''\<rparr>])"
  by (simp add: listings_def vswitch_List_def sg_List_def image_List_def GetImages_def getSecurityGroups_def
      version_Get_def sample_status_env_def sample_status_state_def sample_status_class_def zero_nodeclass_def
      sample_stored_get cache_get_set_default cache_new_def)

theorem class_ready_iff_discovered_witness:
  "\<exists>a s'. status_Reconcile sample_status_env (\<lambda>_. None) 1 sample_status_class sample_status_state = Some (Ok a, s')
     \<and> nc_ready (caClass a) = ConditionTrue \<and> TerminationFinalizer \<in> set (ncFinalizers (caClass a))
     \<and> caError a = None"
proof -
  have cons: "nc_consistent sample_status_class"
    by (simp add: sample_status_class_def zero_nodeclass_def ready_consistent_def conds_wf_def cond_get_def list_all_iff)
  have "\<exists>rs errs nc' s'. run_reconcilers sample_status_env 1 nc sample_status_state = Some (Ok (rs, errs, nc'), s')"
    if "ncSpec nc = ncSpec sample_status_class" for nc
    using that
    by (simp add: run_reconcilers_def VSwitch_Reconcile_def SecurityGroup_Reconcile_def Image_Reconcile_def
        vswitch_List_def sg_List_def image_List_def GetImages_def getSecurityGroups_def version_Get_def
        sample_status_env_def sample_status_state_def sample_status_class_def zero_nodeclass_def
        sample_stored_get cache_get_set_default cache_new_def vswitch_status_def group_status_def image_status_def
        insertionSort_def to_status_vswitch_def to_status_group_def nc_SetTrue_fields)
  then obtain rs errs nc' s' where "run_reconcilers sample_status_env 1
      (nc_SetTrue 1 ConditionTypeInstanceRAMReady (AddFinalizer TerminationFinalizer sample_status_class))
      sample_status_state = Some (Ok (rs, errs, nc'), s')"
    by fastforce
  then obtain a where run: "status_Reconcile sample_status_env (\<lambda>_. None) 1 sample_status_class sample_status_state
      = Some (Ok a, s')"
    by (fastforce simp: status_Reconcile_def Let_def)
  from class_ready_iff_discovered[OF cons _ run sample_listings[OF refl]]
  have "nc_ready (caClass a) = ConditionTrue \<and> TerminationFinalizer \<in> set (ncFinalizers (caClass a)) \<and> caError a = None"
    by (simp add: after_listing_def)
  with run show ?thesis by blast
qed

end
