(* ===== verification/Instance.thy ===== *)
theory Instance
  imports Karp_Objects Utils Go_Cache
begin

text \<open>
  Instances: \<^verbatim>\<open>src/pkg/providers/instance/types.go\<close>. An instance is built either from
  an entry of DescribeInstances or from the launch result of an auto provisioning group; both
  dereference pointers of the response, so both can panic.
\<close>

definition InstanceStatusPending :: string where "InstanceStatusPending = ''Pending''"
definition InstanceStatusRunning :: string where "InstanceStatusRunning = ''Running''"
definition InstanceStatusStarting :: string where "InstanceStatusStarting = ''Starting''"
definition InstanceStatusStopping :: string where "InstanceStatusStopping = ''Stopping''"
definition InstanceStatusStopped :: string where "InstanceStatusStopped = ''Stopped''"

lemmas instance_status_defs =
  InstanceStatusPending_def InstanceStatusRunning_def InstanceStatusStarting_def
  InstanceStatusStopping_def InstanceStatusStopped_def

record ecs_instance =
  CreationTime :: int
  inStatus :: string
  inID :: string
  inImageID :: string
  inType :: string
  inRegion :: string
  inZone :: string
  inCapacityType :: string
  inSecurityGroupIDs :: "string list"
  inVSwitchID :: string
  inTags :: "(string \<times> string) list"

section \<open>From DescribeInstances\<close>

text \<open>An entry of the response: \<open>eiVpcAttributes\<close> and \<open>eiTags\<close> are pointers to structs
  of pointers.\<close>

record describe_instance =
  eiCreationTime :: "string option"
  eiStatus :: "string option"
  eiInstanceId :: "string option"
  eiImageId :: "string option"
  eiInstanceType :: "string option"
  eiRegionId :: "string option"
  eiZoneId :: "string option"
  eiSpotStrategy :: "string option"
  eiSecurityGroupIds :: "string option list option"
  eiVpcAttributes :: "string option option"
  eiTags :: "(string option \<times> string option) list option"

definition toSecurityGroupIDs :: "string option list option \<Rightarrow> string list outcome" where
  "toSecurityGroupIDs sgs = (case sgs of None \<Rightarrow> Ok [] | Some ids \<Rightarrow> outcome_mapM deref ids)"

definition toVSwitchID :: "string option option \<Rightarrow> string outcome" where
  "toVSwitchID vpc = (case vpc of None \<Rightarrow> Ok [] | Some v \<Rightarrow> deref v)"

text \<open>A later tag with the same key overwrites an earlier one.\<close>

definition tag_pair :: "string option \<times> string option \<Rightarrow> (string \<times> string) outcome" where
  "tag_pair t = outcome_bind (deref (fst t)) (\<lambda>k. outcome_map (\<lambda>v. (k, v)) (deref (snd t)))"

definition toTags :: "(string option \<times> string option) list option \<Rightarrow> (string \<times> string) list outcome" where
  "toTags tags =
     (case tags of
        None \<Rightarrow> Ok []
      | Some ts \<Rightarrow> outcome_map (\<lambda>kvs. assign [] kvs) (outcome_mapM tag_pair ts))"

text \<open>A creation time that does not parse is logged and becomes the zero time.\<close>

definition NewInstance :: "describe_instance \<Rightarrow> ecs_instance outcome" where
  "NewInstance out =
     outcome_bind (deref (eiCreationTime out)) (\<lambda>ct.
     outcome_bind (deref (eiStatus out)) (\<lambda>status.
     outcome_bind (deref (eiInstanceId out)) (\<lambda>i.
     outcome_bind (deref (eiImageId out)) (\<lambda>image.
     outcome_bind (deref (eiInstanceType out)) (\<lambda>ty.
     outcome_bind (deref (eiRegionId out)) (\<lambda>region.
     outcome_bind (deref (eiZoneId out)) (\<lambda>zone.
     outcome_bind (deref (eiSpotStrategy out)) (\<lambda>strategy.
     outcome_bind (toSecurityGroupIDs (eiSecurityGroupIds out)) (\<lambda>sgs.
     outcome_bind (toVSwitchID (eiVpcAttributes out)) (\<lambda>vsw.
     outcome_map (\<lambda>tags.
       \<lparr>CreationTime = (case ParseISO8601 ct of None \<Rightarrow> zeroTime | Some t \<Rightarrow> t),
        inStatus = status, inID = i, inImageID = image, inType = ty, inRegion = region, inZone = zone,
        inCapacityType = GetCapacityTypes strategy, inSecurityGroupIDs = sgs, inVSwitchID = vsw,
        inTags = tags\<rparr>) (toTags (eiTags out))))))))))))"

section \<open>From a launch\<close>

text \<open>The request of CreateAutoProvisioningGroup, with the fields the provider sets.\<close>

record launch_config =
  lcInstanceType :: string
  lcVSwitchId :: string

record apg_request =
  apgRegionId :: string
  TotalTargetCapacity :: string
  SpotAllocationStrategy :: string
  PayAsYouGoAllocationStrategy :: string
  LaunchTemplateConfig :: "launch_config list"
  ExcessCapacityTerminationPolicy :: string
  AutoProvisioningGroupType :: string
  apgImageId :: string
  apgUserData :: string
  apgResourceGroupId :: string
  apgSecurityGroupIds :: "string list"
  apgSecurityGroupId :: "string option"
  SystemDiskSize :: "int option"
  SystemDiskPerformanceLevel :: "string option"
  apgInstanceTags :: "(string \<times> string) list"
  apgGroupTags :: "(string \<times> string) list"
  SystemDiskConfig :: "string list"
  SpotTargetCapacity :: string
  PayAsYouGoTargetCapacity :: string

record launch_result =
  lrErrorCode :: "string option"
  lrErrorMsg :: "string option"
  lrInstanceType :: "string option"
  lrZoneId :: "string option"
  lrSpotStrategy :: "string option"
  lrInstanceIds :: "string option list option"

text \<open>The instance carries the tags of the provisioning group; the vSwitch is left empty.\<close>

definition NewInstanceFromProvisioningGroup ::
  "int \<Rightarrow> launch_result \<Rightarrow> apg_request \<Rightarrow> string \<Rightarrow> ecs_instance outcome" where
  "NewInstanceFromProvisioningGroup now out req region =
     outcome_bind (if apgSecurityGroupIds req \<noteq> [] then Ok (apgSecurityGroupIds req)
                   else outcome_map (\<lambda>s. [s]) (deref (apgSecurityGroupId req))) (\<lambda>sgs.
     outcome_bind (case lrInstanceIds out of Some (i # _) \<Rightarrow> deref i | _ \<Rightarrow> Panic) (\<lambda>i.
     outcome_bind (deref (lrInstanceType out)) (\<lambda>ty.
     outcome_bind (deref (lrZoneId out)) (\<lambda>zone.
     outcome_map (\<lambda>strategy.
       \<lparr>CreationTime = now, inStatus = InstanceStatusPending, inID = i, inImageID = apgImageId req,
        inType = ty, inRegion = region, inZone = zone, inCapacityType = GetCapacityTypes strategy,
        inSecurityGroupIDs = sgs, inVSwitchID = [], inTags = assign [] (apgGroupTags req)\<rparr>)
       (deref (lrSpotStrategy out))))))"

section \<open>Errors\<close>

definition NewInstanceStateOperationNotSupportedError :: "string \<Rightarrow> gerror" where
  "NewInstanceStateOperationNotSupportedError i = InstanceStateOperationNotSupportedError i"

definition IsInstanceStateOperationNotSupportedError :: "gerror option \<Rightarrow> bool" where
  "IsInstanceStateOperationNotSupportedError err =
     (case err of None \<Rightarrow> False | Some e \<Rightarrow> errors_as as_StateNotSupported e \<noteq> None)"

end
