(* ===== verification/Pricing.thy ===== *)
theory Pricing
  imports Cloud_Types
begin

text \<open>
  The pricing provider: \<^verbatim>\<open>src/pkg/providers/pricing/pricing.go\<close>. The price server's
  client is a parameter: what \<^verbatim>\<open>Sync\<close> and \<^verbatim>\<open>ListInstancesDetails\<close> answer
  during a call. The embedded static price list is a parameter too. Each
  operation is a function of the answers to its own calls; how the steps of two updates that run
  in parallel interleave is modelled beside the controller that starts them (theory
  \<open>Refresh\<close>).
\<close>

record zonal =
  defaultPrice :: price
  zonePrices :: "(string \<times> price) list"

record pricing_provider =
  prRegion :: string
  priceLastUpdatedTimestamp :: int
  onDemandPrices :: "(string \<times> price) list"
  spotPrices :: "(string \<times> zonal) list"
  spotPricingUpdated :: bool

text \<open>The part of \<^verbatim>\<open>apis.InstanceTypePrice\<close> that is read.\<close>

record instance_type_price =
  OnDemandPricePerHour :: price
  SpotPricePerHour :: "(string \<times> price) list"

type_synonym region_prices = "(string \<times> instance_type_price) list"

definition defaultRegion :: string where "defaultRegion = ''cn-qingdao''"

definition newZonalPricing :: "price \<Rightarrow> zonal" where
  "newZonalPricing p = \<lparr>defaultPrice = p, zonePrices = []\<rparr>"

definition populateInitialSpotPricing :: "(string \<times> price) list \<Rightarrow> (string \<times> zonal) list" where
  "populateInitialSpotPricing pricing = map (\<lambda>(it, p). (it, newZonalPricing p)) pricing"

definition pricing_Reset ::
  "(string \<times> (string \<times> price) list) list \<Rightarrow> pricing_provider \<Rightarrow> pricing_provider" where
  "pricing_Reset initial p =
     (let static = (case map_of initial (prRegion p) of
            Some sp \<Rightarrow> sp
          | None \<Rightarrow> (case map_of initial defaultRegion of Some sp \<Rightarrow> sp | None \<Rightarrow> []))
      in p\<lparr>onDemandPrices := static, spotPrices := populateInitialSpotPricing static,
           spotPricingUpdated := False\<rparr>)"

text \<open>\<^verbatim>\<open>NewDefaultProvider\<close> once it has its query client; the error of creating that
  client ends the process in \<^verbatim>\<open>NewOperator\<close>.\<close>

definition NewPricingProvider ::
  "(string \<times> (string \<times> price) list) list \<Rightarrow> string \<Rightarrow> pricing_provider" where
  "NewPricingProvider initial region =
     pricing_Reset initial
       \<lparr>prRegion = region, priceLastUpdatedTimestamp = zeroTime, onDemandPrices = [], spotPrices = [],
        spotPricingUpdated = False\<rparr>"

text \<open>\<^verbatim>\<open>lo.Union\<close> of the two key lists.\<close>

definition pricing_InstanceTypes :: "pricing_provider \<Rightarrow> string list" where
  "pricing_InstanceTypes p = uniq (map fst (onDemandPrices p) @ map fst (spotPrices p))"

text \<open>The pair (price, ok) of the Go functions is an option.\<close>

definition OnDemandPrice :: "string \<Rightarrow> pricing_provider \<Rightarrow> price option" where
  "OnDemandPrice it p = map_of (onDemandPrices p) it"

definition SpotPrice :: "string \<Rightarrow> string \<Rightarrow> pricing_provider \<Rightarrow> price option" where
  "SpotPrice it zone p =
     (case map_of (spotPrices p) it of
        None \<Rightarrow> None
      | Some z \<Rightarrow> if \<not> spotPricingUpdated p then Some (defaultPrice z)
                 else map_of (zonePrices z) zone)"

text \<open>\<open>syncErr\<close> is what \<^verbatim>\<open>Sync()\<close> returns if it is called.\<close>

definition syncPricingData ::
  "int \<Rightarrow> gerror option \<Rightarrow> pricing_provider \<Rightarrow> gerror option \<times> pricing_provider" where
  "syncPricingData now syncErr p =
     (if priceLastUpdatedTimestamp p + 5 * Minute < now
      then (case syncErr of
              Some e \<Rightarrow> (Some e, p)
            | None \<Rightarrow> (None, p\<lparr>priceLastUpdatedTimestamp := now\<rparr>))
      else (None, p))"

definition no_price_error :: "pricing_provider \<Rightarrow> gerror" where
  "no_price_error p = ErrorString (''no price info available for region '' @ prRegion p)"

text \<open>\<open>details\<close> is what \<^verbatim>\<open>ListInstancesDetails(region)\<close> returns (None: nil).\<close>

definition UpdateOnDemandPricing ::
  "int \<Rightarrow> gerror option \<Rightarrow> region_prices option \<Rightarrow> pricing_provider \<Rightarrow>
   gerror option \<times> pricing_provider" where
  "UpdateOnDemandPricing now syncErr details p =
     (case syncPricingData now syncErr p of
        (Some e, p') \<Rightarrow> (Some e, p')
      | (None, p') \<Rightarrow>
          (case details of
             None \<Rightarrow> (Some (no_price_error p'), p')
           | Some [] \<Rightarrow> (Some (no_price_error p'), p')
           | Some prices \<Rightarrow>
               (None, p'\<lparr>onDemandPrices := map (\<lambda>(it, i). (it, OnDemandPricePerHour i)) prices\<rparr>)))"

definition update_zonal :: "instance_type_price \<Rightarrow> zonal \<Rightarrow> zonal" where
  "update_zonal i z =
     z\<lparr>zonePrices := fold (\<lambda>(zone, p). AList.update zone p) (SpotPricePerHour i) (zonePrices z)\<rparr>"

definition update_spot1 ::
  "string \<times> instance_type_price \<Rightarrow> (string \<times> zonal) list \<Rightarrow> (string \<times> zonal) list" where
  "update_spot1 entry sp =
     (let z = (case map_of sp (fst entry) of Some z \<Rightarrow> z | None \<Rightarrow> newZonalPricing 0)
      in AList.update (fst entry) (update_zonal (snd entry) z) sp)"

definition UpdateSpotPricing ::
  "int \<Rightarrow> gerror option \<Rightarrow> region_prices option \<Rightarrow> pricing_provider \<Rightarrow>
   gerror option \<times> pricing_provider" where
  "UpdateSpotPricing now syncErr details p =
     (case syncPricingData now syncErr p of
        (Some e, p') \<Rightarrow> (Some e, p')
      | (None, p') \<Rightarrow>
          (case details of
             None \<Rightarrow> (Some (no_price_error p'), p')
           | Some [] \<Rightarrow> (Some (no_price_error p'), p')
           | Some prices \<Rightarrow>
               (None, p'\<lparr>spotPrices := fold update_spot1 prices (spotPrices p'),
                        spotPricingUpdated := True\<rparr>)))"

section \<open>Facts\<close>

lemma syncPricingData_prices [simp]:
  "onDemandPrices (snd (syncPricingData now e p)) = onDemandPrices p"
  "spotPrices (snd (syncPricingData now e p)) = spotPrices p"
  "spotPricingUpdated (snd (syncPricingData now e p)) = spotPricingUpdated p"
  "prRegion (snd (syncPricingData now e p)) = prRegion p"
  by (auto simp: syncPricingData_def split: option.splits)

lemma map_of_fold_update:
  "distinct (map fst us) \<Longrightarrow>
   map_of (fold (\<lambda>(k, v). AList.update k v) us m) k =
     (case map_of us k of Some v \<Rightarrow> Some v | None \<Rightarrow> map_of m k)"
proof (induction us arbitrary: m)
  case Nil
  then show ?case by simp
next
  case (Cons u us)
  obtain a b where u: "u = (a, b)" by (cases u)
  have "map_of us a = None" if "a = k"
    using Cons.prems u by (simp add: map_of_eq_None_iff)
  with Cons u show ?case by (auto simp: update_conv' split: option.splits)
qed

lemma zonePrices_update_zonal:
  "distinct (map fst (SpotPricePerHour i)) \<Longrightarrow>
   map_of (zonePrices (update_zonal i z)) zone =
     (case map_of (SpotPricePerHour i) zone of Some p \<Rightarrow> Some p | None \<Rightarrow> map_of (zonePrices z) zone)"
  by (simp add: update_zonal_def map_of_fold_update)

lemma map_of_update_spot1:
  "map_of (update_spot1 (a, i) sp) it =
     (if it = a then Some (update_zonal i (case map_of sp a of Some z \<Rightarrow> z | None \<Rightarrow> newZonalPricing 0))
      else map_of sp it)"
  by (auto simp: update_spot1_def Let_def update_conv')

lemma map_of_fold_update_spot:
  "distinct (map fst prices) \<Longrightarrow>
   map_of (fold update_spot1 prices sp) it =
     (case map_of prices it of
        Some i \<Rightarrow> Some (update_zonal i (case map_of sp it of Some z \<Rightarrow> z | None \<Rightarrow> newZonalPricing 0))
      | None \<Rightarrow> map_of sp it)"
proof (induction prices arbitrary: sp)
  case Nil
  then show ?case by simp
next
  case (Cons e prices)
  obtain a i where e: "e = (a, i)" by (cases e)
  have "map_of prices a = None" if "a = it"
    using Cons.prems e by (simp add: map_of_eq_None_iff)
  with Cons e show ?case by (auto simp: map_of_update_spot1 split: option.splits)
qed

lemma UpdateSpotPricing_success:
  assumes "UpdateSpotPricing now syncErr details p = (None, p')"
  obtains prices where "details = Some prices" "prices \<noteq> []"
    "spotPrices p' = fold update_spot1 prices (spotPrices p)" "spotPricingUpdated p'"
    "onDemandPrices p' = onDemandPrices p"
proof -
  obtain e q where s: "syncPricingData now syncErr p = (e, q)" by fastforce
  have q: "spotPrices q = spotPrices p" "onDemandPrices q = onDemandPrices p"
    using syncPricingData_prices[of now syncErr p] s by simp_all
  from assms s q that show thesis
    by (auto simp: UpdateSpotPricing_def split: option.splits list.splits)
qed

section \<open>Properties\<close>

text \<open>
  A pricing update that fails (the sync fails or the server has no data for the region)
  leaves every price the provider answers with unchanged, for both kinds of update.
\<close>

theorem failed_update_keeps_prices:
  "(fst (UpdateOnDemandPricing now syncErr details p) \<noteq> None \<longrightarrow>
     OnDemandPrice it (snd (UpdateOnDemandPricing now syncErr details p)) = OnDemandPrice it p \<and>
     SpotPrice it zone (snd (UpdateOnDemandPricing now syncErr details p)) = SpotPrice it zone p)
   \<and> (fst (UpdateSpotPricing now syncErr details p) \<noteq> None \<longrightarrow>
     OnDemandPrice it (snd (UpdateSpotPricing now syncErr details p)) = OnDemandPrice it p \<and>
     SpotPrice it zone (snd (UpdateSpotPricing now syncErr details p)) = SpotPrice it zone p)"
proof -
  obtain e q where s: "syncPricingData now syncErr p = (e, q)" by fastforce
  have q: "onDemandPrices q = onDemandPrices p" "spotPrices q = spotPrices p"
    "spotPricingUpdated q = spotPricingUpdated p"
    using syncPricingData_prices[of now syncErr p] s by simp_all
  from s have "fst (UpdateOnDemandPricing now syncErr details p) \<noteq> None \<Longrightarrow>
      snd (UpdateOnDemandPricing now syncErr details p) = q"
    and "fst (UpdateSpotPricing now syncErr details p) \<noteq> None \<Longrightarrow>
      snd (UpdateSpotPricing now syncErr details p) = q"
    by (auto simp: UpdateOnDemandPricing_def UpdateSpotPricing_def split: option.splits list.splits)
  moreover have "OnDemandPrice it q = OnDemandPrice it p" "SpotPrice it zone q = SpotPrice it zone p"
    by (simp_all only: OnDemandPrice_def SpotPrice_def q)
  ultimately show ?thesis by simp
qed

theorem failed_update_keeps_prices_witness:
  "OnDemandPrice ''ecs.g7.large''
     (snd (UpdateSpotPricing 1 (Some (ErrorString ''timeout'')) None
       (NewPricingProvider [(''cn-beijing'', [(''ecs.g7.large'', 2)])] ''cn-beijing''))) = Some 2"
proof -
  let ?p = "NewPricingProvider [(''cn-beijing'', [(''ecs.g7.large'', 2)])] ''cn-beijing''"
  have "fst (UpdateSpotPricing 1 (Some (ErrorString ''timeout'')) None ?p) \<noteq> None"
    by (simp add: UpdateSpotPricing_def syncPricingData_def split: option.splits)
  moreover have "OnDemandPrice ''ecs.g7.large'' ?p = Some 2"
    by (simp add: OnDemandPrice_def NewPricingProvider_def pricing_Reset_def Let_def)
  ultimately show ?thesis
    using failed_update_keeps_prices[of 1 "Some (ErrorString ''timeout'')" None ?p "''ecs.g7.large''"]
    by simp
qed

text \<open>
  After a successful spot update the spot price of an instance type in a zone is the one
  of the update, or, when the update has none for that zone, the price learnt before; a type
  the provider has never seen prices for has none. In particular the start-up default (the
  on-demand price) is no longer used.
\<close>

theorem spot_price_after_update:
  assumes "UpdateSpotPricing now syncErr (Some prices) p = (None, p')"
    and "distinct (map fst prices)"
    and "\<forall>(it, i) \<in> set prices. distinct (map fst (SpotPricePerHour i))"
  shows "SpotPrice it zone p' =
    (case map_of prices it of
       Some i \<Rightarrow> (case map_of (SpotPricePerHour i) zone of
           Some pr \<Rightarrow> Some pr
         | None \<Rightarrow> Option.bind (map_of (spotPrices p) it) (\<lambda>z. map_of (zonePrices z) zone))
     | None \<Rightarrow> Option.bind (map_of (spotPrices p) it) (\<lambda>z. map_of (zonePrices z) zone))"
proof -
  have sp: "spotPrices p' = fold update_spot1 prices (spotPrices p)" and u: "spotPricingUpdated p'"
    using UpdateSpotPricing_success[OF assms(1)] by auto
  have look: "map_of (spotPrices p') it =
     (case map_of prices it of
        Some i \<Rightarrow> Some (update_zonal i
          (case map_of (spotPrices p) it of Some z \<Rightarrow> z | None \<Rightarrow> newZonalPricing 0))
      | None \<Rightarrow> map_of (spotPrices p) it)"
    unfolding sp by (rule map_of_fold_update_spot[OF assms(2)])
  show ?thesis
  proof (cases "map_of prices it")
    case None
    with look u show ?thesis
      by (auto simp: SpotPrice_def split: option.splits)
  next
    case (Some i)
    then have "distinct (map fst (SpotPricePerHour i))"
      using assms(3) map_of_SomeD by fastforce
    with Some look u show ?thesis
      by (auto simp: SpotPrice_def zonePrices_update_zonal newZonalPricing_def split: option.splits)
  qed
qed

theorem spot_price_after_update_witness:
  "SpotPrice ''ecs.g7.large'' ''b''
     (snd (UpdateSpotPricing 1 None
       (Some [(''ecs.g7.large'', \<lparr>OnDemandPricePerHour = 2, SpotPricePerHour = [(''b'', 1)]\<rparr>)])
       (NewPricingProvider [(''cn-beijing'', [(''ecs.g7.large'', 3)])] ''cn-beijing''))) = Some 1"
proof -
  let ?i = "\<lparr>OnDemandPricePerHour = 2, SpotPricePerHour = [(''b'', 1)]\<rparr>"
  let ?p = "NewPricingProvider [(''cn-beijing'', [(''ecs.g7.large'', 3)])] ''cn-beijing''"
  let ?u = "UpdateSpotPricing 1 None (Some [(''ecs.g7.large'', ?i)]) ?p"
  have "?u = (None, snd ?u)"
    by (simp add: UpdateSpotPricing_def syncPricingData_def)
  from spot_price_after_update[OF this, of "''ecs.g7.large''" "''b''"] show ?thesis by simp
qed

text \<open>
  Until the first spot update every zone's spot price is the static on-demand price of
  the provider's region, or of the default region when the price list has no such region.
\<close>

theorem initial_spot_is_on_demand:
  "SpotPrice it zone (NewPricingProvider initial region) =
     OnDemandPrice it (NewPricingProvider initial region)
   \<and> OnDemandPrice it (NewPricingProvider initial region) =
     (case map_of initial region of
        Some sp \<Rightarrow> map_of sp it
      | None \<Rightarrow> Option.bind (map_of initial defaultRegion) (\<lambda>sp. map_of sp it))"
  by (auto simp: NewPricingProvider_def pricing_Reset_def Let_def SpotPrice_def OnDemandPrice_def
      populateInitialSpotPricing_def map_of_mapSnd newZonalPricing_def split: option.splits)

end
