(* ===== verification/Unavailable.thy ===== *)
theory Unavailable
  imports Go_Cache Labels "HOL-Library.Word"
begin

text \<open>
  The cache of offerings that recently failed with insufficient capacity:
  \<^verbatim>\<open>src/pkg/cache/unavailableofferings.go\<close> and the time constants of
  \<^verbatim>\<open>src/pkg/cache/cache.go\<close>. \<^verbatim>\<open>SeqNum\<close> is the 64-bit change counter that
  the instance type provider puts into its cache key; \<open>seqnum_detects_changes\<close> below is the
  property that use rests on. The clients (instance provider, interruption controller,
  instance type provider) see the locale \<open>unavailability\<close>.
\<close>

definition DefaultTTL :: int where [go_simps]: "DefaultTTL = Minute"
definition KubernetesVersionTTL :: int where [go_simps]: "KubernetesVersionTTL = 15 * Minute"
definition UnavailableOfferingsTTL :: int where [go_simps]: "UnavailableOfferingsTTL = 3 * Minute"
definition AvailableIPAddressTTL :: int where [go_simps]: "AvailableIPAddressTTL = 5 * Minute"
definition InstanceTypeAvailableDiskTTL :: int where
  [go_simps]: "InstanceTypeAvailableDiskTTL = 30 * Minute"
definition ClusterAttachScriptTTL :: int where [go_simps]: "ClusterAttachScriptTTL = 6 * Hour"
definition InstanceTypesAndZonesTTL :: int where [go_simps]: "InstanceTypesAndZonesTTL = 5 * Minute"

text \<open>How often the janitor of a cache runs; its ticker fires at multiples of the interval
  after the cache was created.\<close>

definition DefaultCleanupInterval :: int where [go_simps]: "DefaultCleanupInterval = Minute"
definition UnavailableOfferingsCleanupInterval :: int where
  [go_simps]: "UnavailableOfferingsCleanupInterval = 10 * Second"

definition janitor_tick :: "int \<Rightarrow> int \<Rightarrow> nat \<Rightarrow> int" where
  "janitor_tick start interval n = start + int (Suc n) * interval"

lemma janitor_runs_soon:
  assumes "start \<le> t" "0 < interval"
  shows "\<exists>n. t < janitor_tick start interval n \<and> janitor_tick start interval n \<le> t + interval"
proof (intro exI conjI)
  let ?n = "nat ((t - start) div interval)"
  have "0 \<le> (t - start) div interval" using assms by (simp add: pos_imp_zdiv_nonneg_iff)
  then have tick: "janitor_tick start interval ?n = start + (t - start) div interval * interval + interval"
    by (simp add: janitor_tick_def algebra_simps)
  have "(t - start) div interval * interval = t - start - (t - start) mod interval" by (simp add: minus_mod_eq_div_mult)
  with tick assms(2) show "t < janitor_tick start interval ?n" "janitor_tick start interval ?n \<le> t + interval"
    using pos_mod_bound[of interval "t - start"] pos_mod_sign[of interval "t - start"] by simp_all
qed

record unavailable_offerings =
  uoCache :: "unit go_cache"
  SeqNum :: "64 word"

definition NewUnavailableOfferingsWithCache :: "unit go_cache \<Rightarrow> unavailable_offerings" where
  "NewUnavailableOfferingsWithCache c = \<lparr>uoCache = c, SeqNum = 0\<rparr>"

definition NewUnavailableOfferings :: unavailable_offerings where
  "NewUnavailableOfferings =
     NewUnavailableOfferingsWithCache (cache_new UnavailableOfferingsTTL)"

text \<open>An offering: instance type, zone, capacity type.\<close>

type_synonym offering_key = "string \<times> string \<times> string"

definition key :: "string \<Rightarrow> string \<Rightarrow> string \<Rightarrow> string" where
  "key instanceType zone capacityType = capacityType @ '':'' @ instanceType @ '':'' @ zone"

definition IsUnavailable ::
  "int \<Rightarrow> string \<Rightarrow> string \<Rightarrow> string \<Rightarrow> unavailable_offerings \<Rightarrow> bool" where
  "IsUnavailable now instanceType zone capacityType u =
     (cache_get now (key instanceType zone capacityType) (uoCache u) \<noteq> None)"

definition MarkUnavailableWithTTL ::
  "int \<Rightarrow> string \<Rightarrow> string \<Rightarrow> string \<Rightarrow> int \<Rightarrow> unavailable_offerings \<Rightarrow> unavailable_offerings" where
  "MarkUnavailableWithTTL now instanceType zone capacityType ttl u =
     u\<lparr>uoCache := cache_set now (key instanceType zone capacityType) () ttl (uoCache u),
       SeqNum := SeqNum u + 1\<rparr>"

definition MarkUnavailable ::
  "int \<Rightarrow> string \<Rightarrow> string \<Rightarrow> string \<Rightarrow> unavailable_offerings \<Rightarrow> unavailable_offerings" where
  "MarkUnavailable now instanceType zone capacityType u =
     MarkUnavailableWithTTL now instanceType zone capacityType UnavailableOfferingsTTL u"

definition Flush :: "unavailable_offerings \<Rightarrow> unavailable_offerings" where
  "Flush u = u\<lparr>uoCache := cache_flush (uoCache u), SeqNum := SeqNum u + 1\<rparr>"

text \<open>One run of the cache's janitor: \<^verbatim>\<open>OnEvicted\<close> adds one per evicted key.\<close>

definition uo_evict :: "int \<Rightarrow> unavailable_offerings \<Rightarrow> unavailable_offerings" where
  "uo_evict now u =
     (let (evicted, c) = cache_delete_expired now (uoCache u)
      in u\<lparr>uoCache := c, SeqNum := SeqNum u + of_nat (length evicted)\<rparr>)"

section \<open>Keys\<close>

definition separator_free :: "offering_key \<Rightarrow> bool" where
  "separator_free = (\<lambda>(it, zone, ct). CHR '':'' \<notin> set it \<and> CHR '':'' \<notin> set ct)"

lemma key_inj:
  assumes "separator_free (it, z, ct)" and "separator_free (it', z', ct')"
    and "key it z ct = key it' z' ct'"
  shows "it = it' \<and> z = z' \<and> ct = ct'"
proof -
  have "ct @ CHR '':'' # (it @ CHR '':'' # z) = ct' @ CHR '':'' # (it' @ CHR '':'' # z')"
    using assms(3) by (simp add: key_def)
  then have "ct = ct' \<and> it @ CHR '':'' # z = it' @ CHR '':'' # z'"
    using assms(1,2) by (intro append_sep_inj) (auto simp: separator_free_def)
  then show ?thesis
    using append_sep_inj[of it "CHR '':''" z it' z'] assms(1,2) by (auto simp: separator_free_def)
qed

section \<open>The interface\<close>

locale unavailability =
  fixes unavailable :: "int \<Rightarrow> 'o \<Rightarrow> 'u \<Rightarrow> bool"
    and mark :: "int \<Rightarrow> 'o \<Rightarrow> 'u \<Rightarrow> 'u"
    and window :: int
    and valid :: "'o \<Rightarrow> bool"
  assumes window_pos: "0 < window"
    and mark_same: "0 \<le> now \<Longrightarrow> unavailable t k (mark now k u) \<longleftrightarrow> t \<le> now + window"
    and mark_other: "valid k \<Longrightarrow> valid k' \<Longrightarrow> k \<noteq> k' \<Longrightarrow>
      unavailable t k' (mark now k u) \<longleftrightarrow> unavailable t k' u"
begin

text \<open>Marking a batch: within the window exactly the batch and what was marked before is
  unavailable.\<close>

lemma mark_all:
  assumes "0 \<le> now" and "t \<le> now + window" and "valid k" and "\<forall>x \<in> set ks. valid x"
  shows "unavailable t k (fold (mark now) ks u) \<longleftrightarrow> k \<in> set ks \<or> unavailable t k u"
  using assms(4)
proof (induction ks arbitrary: u)
  case Nil
  then show ?case by simp
next
  case (Cons x ks)
  then have "unavailable t k (mark now x u) \<longleftrightarrow> k = x \<or> unavailable t k u"
    using assms mark_same[of now t x u] mark_other[of x k t now u] by auto
  with Cons show ?case by auto
qed

text \<open>After the window the offering is offered again, unless it was marked anew.\<close>

lemma mark_expires: "0 \<le> now \<Longrightarrow> now + window < t \<Longrightarrow> \<not> unavailable t k (mark now k u)"
  by (simp add: mark_same)

end

definition uo_unavailable :: "int \<Rightarrow> offering_key \<Rightarrow> unavailable_offerings \<Rightarrow> bool" where
  "uo_unavailable now k u = IsUnavailable now (fst k) (fst (snd k)) (snd (snd k)) u"

definition uo_mark :: "int \<Rightarrow> offering_key \<Rightarrow> unavailable_offerings \<Rightarrow> unavailable_offerings" where
  "uo_mark now k u = MarkUnavailable now (fst k) (fst (snd k)) (snd (snd k)) u"

interpretation uo: unavailability uo_unavailable uo_mark UnavailableOfferingsTTL separator_free
proof
  show "0 < UnavailableOfferingsTTL" by (simp add: go_simps)
  fix now t :: int and k k' :: offering_key and u :: unavailable_offerings
  show "0 \<le> now \<Longrightarrow> uo_unavailable t k (uo_mark now k u) \<longleftrightarrow> t \<le> now + UnavailableOfferingsTTL"
    by (simp add: uo_unavailable_def uo_mark_def IsUnavailable_def MarkUnavailable_def
        MarkUnavailableWithTTL_def cache_get_set UnavailableOfferingsTTL_def Minute_def Second_def)
  assume v: "separator_free k" "separator_free k'" and "k \<noteq> k'"
  have "key (fst k') (fst (snd k')) (snd (snd k')) \<noteq> key (fst k) (fst (snd k)) (snd (snd k))"
    using key_inj[of "fst k'" "fst (snd k')" "snd (snd k')" "fst k" "fst (snd k)" "snd (snd k)"]
      v \<open>k \<noteq> k'\<close> by (auto simp: prod_eq_iff)
  then show "uo_unavailable t k' (uo_mark now k u) \<longleftrightarrow> uo_unavailable t k' u"
    by (simp add: uo_unavailable_def uo_mark_def IsUnavailable_def MarkUnavailable_def
        MarkUnavailableWithTTL_def)
qed

section \<open>Runs and the sequence number\<close>

text \<open>What can happen to the cache: a launch or an interruption marks an offering, the
  janitor runs, the cache is flushed.\<close>

datatype uo_event =
    EMark int string string string int
  | EJanitor int
  | EFlush

fun uo_step :: "uo_event \<Rightarrow> unavailable_offerings \<Rightarrow> unavailable_offerings" where
  "uo_step (EMark now it z ct ttl) u = MarkUnavailableWithTTL now it z ct ttl u"
| "uo_step (EJanitor now) u = uo_evict now u"
| "uo_step EFlush u = Flush u"

fun uo_increments :: "uo_event \<Rightarrow> unavailable_offerings \<Rightarrow> nat" where
  "uo_increments (EMark now it z ct ttl) u = 1"
| "uo_increments (EJanitor now) u = length (fst (cache_delete_expired now (uoCache u)))"
| "uo_increments EFlush u = 1"

fun uo_run :: "uo_event list \<Rightarrow> unavailable_offerings \<Rightarrow> unavailable_offerings" where
  "uo_run [] u = u"
| "uo_run (e # es) u = uo_run es (uo_step e u)"

fun uo_total :: "uo_event list \<Rightarrow> unavailable_offerings \<Rightarrow> nat" where
  "uo_total [] u = 0"
| "uo_total (e # es) u = uo_increments e u + uo_total es (uo_step e u)"

lemma uo_step_seq: "SeqNum (uo_step e u) = SeqNum u + of_nat (uo_increments e u)"
  by (cases e) (auto simp: MarkUnavailableWithTTL_def uo_evict_def Flush_def cache_delete_expired_def)

lemma uo_step_silent:
  assumes "uo_increments e u = 0"
  shows "uoCache (uo_step e u) = uoCache u"
proof (cases e)
  case (EJanitor now)
  with assms have "filter (\<lambda>(k, it). item_expired now it) (cache_items (uoCache u)) = []"
    by (simp add: cache_delete_expired_def)
  then have "filter (\<lambda>(k, it). \<not> item_expired now it) (cache_items (uoCache u)) = cache_items (uoCache u)"
    by (auto simp: filter_empty_conv filter_id_conv)
  with EJanitor show ?thesis by (simp add: uo_evict_def cache_delete_expired_def)
qed (use assms in auto)

lemma uo_run_seq: "SeqNum (uo_run es u) = SeqNum u + of_nat (uo_total es u)"
  by (induction es arbitrary: u) (simp_all add: uo_step_seq)

lemma uo_run_silent: "uo_total es u = 0 \<Longrightarrow> uoCache (uo_run es u) = uoCache u"
proof (induction es arbitrary: u)
  case (Cons e es)
  have "uo_increments e u = 0" and "uo_total es (uo_step e u) = 0"
    using Cons.prems by simp_all
  then show ?case using Cons.IH uo_step_silent by simp
qed simp

lemma uo_evict_wf [inv_intros]: "cache_wf (uoCache u) \<Longrightarrow> cache_wf (uoCache (uo_evict now u))"
  using cache_wf_delete_expired[of "uoCache u" now]
  by (simp add: uo_evict_def case_prod_unfold Let_def)

lemma uo_step_wf [inv_intros]: "cache_wf (uoCache u) \<Longrightarrow> cache_wf (uoCache (uo_step e u))"
  by (cases e) (auto simp: MarkUnavailableWithTTL_def Flush_def intro: inv_intros)

lemma uo_run_wf: "cache_wf (uoCache u) \<Longrightarrow> cache_wf (uoCache (uo_run es u))"
  by (induction es arbitrary: u) (auto intro: inv_intros)

lemma NewUnavailableOfferings_wf: "cache_wf (uoCache NewUnavailableOfferings)"
  by (simp add: NewUnavailableOfferings_def NewUnavailableOfferingsWithCache_def)

lemma uo_run_no_wrap:
  assumes "uo_total es u < 2 ^ 64" and "SeqNum (uo_run es u) = SeqNum u"
  shows "uo_total es u = 0"
proof -
  have "(of_nat (uo_total es u) :: 64 word) = 0"
    using assms(2) by (simp add: uo_run_seq)
  then have "unat (of_nat (uo_total es u) :: 64 word) = 0" by simp
  then have "uo_total es u mod 2 ^ 64 = 0" by (simp add: unat_of_nat)
  with assms(1) show ?thesis by simp
qed

section \<open>Properties\<close>

text \<open>
  C14. The change counter is a sound cache key: if a run of marks, janitor runs and flushes
  (fewer than \<open>2 ^ 64\<close> counter increments) ends with the sequence number it started with,
  the stored offerings are the ones it started with.
\<close>

theorem seqnum_detects_changes:
  assumes "uo_total es u < 2 ^ 64" and "SeqNum (uo_run es u) = SeqNum u"
  shows "uoCache (uo_run es u) = uoCache u"
  using uo_run_no_wrap[OF assms] by (rule uo_run_silent)

theorem seqnum_detects_changes_witness:
  "uo_total [EJanitor 5] NewUnavailableOfferings < 2 ^ 64 \<and>
   SeqNum (uo_run [EJanitor 5] NewUnavailableOfferings) = SeqNum NewUnavailableOfferings \<and>
   uoCache (uo_run [EJanitor 5] NewUnavailableOfferings) = uoCache NewUnavailableOfferings"
proof -
  have t: "uo_total [EJanitor 5] NewUnavailableOfferings < 2 ^ 64"
    by (simp add: NewUnavailableOfferings_def NewUnavailableOfferingsWithCache_def cache_new_def
        cache_delete_expired_def)
  have s: "SeqNum (uo_run [EJanitor 5] NewUnavailableOfferings) = SeqNum NewUnavailableOfferings"
    by (simp add: NewUnavailableOfferings_def NewUnavailableOfferingsWithCache_def cache_new_def
        cache_delete_expired_def uo_evict_def)
  show ?thesis using t s seqnum_detects_changes[OF t s] by simp
qed

section \<open>Refinement\<close>

text \<open>What the cache promises: a map from offerings to the instant their mark expires. A mark
  sets the instant, a flush forgets all marks, and the janitor is invisible.\<close>

fun expiry_step :: "uo_event \<Rightarrow> (offering_key \<rightharpoonup> int) \<Rightarrow> (offering_key \<rightharpoonup> int)" where
  "expiry_step (EMark now it z ct ttl) m = m((it, z, ct) \<mapsto> now + ttl)"
| "expiry_step (EJanitor now) m = m"
| "expiry_step EFlush m = Map.empty"

definition withheld_at :: "int \<Rightarrow> offering_key \<Rightarrow> (offering_key \<rightharpoonup> int) \<Rightarrow> bool" where
  "withheld_at t k m = (case m k of None \<Rightarrow> False | Some e \<Rightarrow> t \<le> e)"

text \<open>Events up to the time of a query: names without the key separator, positive times to live,
  no janitor run after the query.\<close>

fun event_ok :: "int \<Rightarrow> uo_event \<Rightarrow> bool" where
  "event_ok t (EMark now it z ct ttl) \<longleftrightarrow> 0 \<le> now \<and> 0 < ttl \<and> separator_free (it, z, ct)"
| "event_ok t (EJanitor now) \<longleftrightarrow> now \<le> t"
| "event_ok t EFlush \<longleftrightarrow> True"

lemma uo_step_refines:
  assumes "cache_wf (uoCache u)" "event_ok t e" "separator_free k"
    and "uo_unavailable t k u \<longleftrightarrow> withheld_at t k m"
  shows "uo_unavailable t k (uo_step e u) \<longleftrightarrow> withheld_at t k (expiry_step e m)"
proof (cases e)
  case (EMark now it z ct ttl)
  have "key (fst k) (fst (snd k)) (snd (snd k)) = key it z ct \<longleftrightarrow> k = (it, z, ct)"
    using key_inj[of "fst k" "fst (snd k)" "snd (snd k)" it z ct] assms(2,3) EMark by (cases k) auto
  with assms EMark show ?thesis
    by (auto simp: uo_unavailable_def IsUnavailable_def MarkUnavailableWithTTL_def cache_get_set withheld_at_def)
next
  case (EJanitor now)
  then have "cache_get t s (uoCache (uo_evict now u)) = cache_get t s (uoCache u)" for s
    using cache_get_delete_expired[OF assms(1), of now t s] assms(2)
    by (simp add: uo_evict_def case_prod_unfold Let_def)
  with assms(4) EJanitor show ?thesis by (simp add: uo_unavailable_def IsUnavailable_def)
qed (simp add: uo_unavailable_def IsUnavailable_def Flush_def withheld_at_def)

lemma uo_run_refines:
  assumes "cache_wf (uoCache u)" "\<forall>e \<in> set es. event_ok t e" "separator_free k"
    and "uo_unavailable t k u \<longleftrightarrow> withheld_at t k m"
  shows "uo_unavailable t k (uo_run es u) \<longleftrightarrow> withheld_at t k (fold expiry_step es m)"
  using assms(1,2,4)
proof (induction es arbitrary: u m)
  case (Cons e es)
  have "uo_unavailable t k (uo_step e u) \<longleftrightarrow> withheld_at t k (expiry_step e m)"
    by (rule uo_step_refines[OF Cons.prems(1) _ assms(3) Cons.prems(3)]) (use Cons.prems(2) in simp)
  with Cons.IH[OF uo_step_wf[OF Cons.prems(1)]] Cons.prems(2) show ?case by simp
qed simp

text \<open>
  C8. The cache refines a map of expiry instants: after any run of marks, janitor runs and flushes
  from the empty cache, an offering (of names without the key separator) is unavailable at an
  instant if and only if the last mark of that very offering since the last flush has not expired
  by then. In particular a mark concerns no other offering, renews the offering's own mark, and
  the janitor never changes an answer.
\<close>

theorem unavailable_refines_expiries:
  assumes "\<forall>e \<in> set es. event_ok t e" "separator_free (it, z, ct)"
  shows "IsUnavailable t it z ct (uo_run es NewUnavailableOfferings) \<longleftrightarrow>
    withheld_at t (it, z, ct) (fold expiry_step es Map.empty)"
proof -
  have "uo_unavailable t (it, z, ct) NewUnavailableOfferings \<longleftrightarrow> withheld_at t (it, z, ct) Map.empty"
    by (simp add: uo_unavailable_def IsUnavailable_def NewUnavailableOfferings_def
        NewUnavailableOfferingsWithCache_def withheld_at_def)
  from uo_run_refines[OF NewUnavailableOfferings_wf assms this] show ?thesis by (simp add: uo_unavailable_def)
qed

theorem unavailable_refines_expiries_witness:
  "IsUnavailable 200 ''ecs.g7.large'' ''cn-beijing-a'' ''spot''
     (uo_run [EMark 10 ''ecs.g7.large'' ''cn-beijing-a'' ''spot'' 50, EJanitor 70,
        EMark 100 ''ecs.g7.large'' ''cn-beijing-a'' ''spot'' 120] NewUnavailableOfferings) \<and>
   \<not> IsUnavailable 200 ''ecs.g7.large'' ''cn-beijing-b'' ''spot''
     (uo_run [EMark 100 ''ecs.g7.large'' ''cn-beijing-a'' ''spot'' 120] NewUnavailableOfferings)"
proof -
  have "separator_free (''ecs.g7.large'', ''cn-beijing-a'', ''spot'')"
    and "separator_free (''ecs.g7.large'', ''cn-beijing-b'', ''spot'')"
    by (simp_all add: separator_free_def)
  then show ?thesis
    using unavailable_refines_expiries[of "[EMark 10 ''ecs.g7.large'' ''cn-beijing-a'' ''spot'' 50, EJanitor 70,
          EMark 100 ''ecs.g7.large'' ''cn-beijing-a'' ''spot'' 120]" 200 "''ecs.g7.large''" "''cn-beijing-a''" "''spot''"]
      unavailable_refines_expiries[of "[EMark 100 ''ecs.g7.large'' ''cn-beijing-a'' ''spot'' 120]" 200
          "''ecs.g7.large''" "''cn-beijing-b''" "''spot''"]
    by (simp add: withheld_at_def)
qed

end
