(* ===== verification/Instance_Type_Provider.thy ===== *)
theory Instance_Type_Provider
  imports Instance_Types VSwitch Pricing Unavailable
begin

text \<open>
  The instance type provider: \<^verbatim>\<open>src/pkg/providers/instancetype/instancetype.go\<close>.
  It keeps what ECS offers (types, and per type the zones with on-demand and with spot
  stock), combines it with prices, the offerings marked unavailable and the node class'
  zones into karpenter's instance types, and caches the result under a key built from change
  counters. The ECS and ACK APIs and \<^verbatim>\<open>hashstructure.Hash\<close> are parameters.
\<close>

section \<open>State\<close>

record instance_type_provider =
  itpRegion :: string
  instanceTypesInfo :: "ecs_type_info list"
  instanceTypesOfferings :: "(string \<times> string list) list"
  spotInstanceTypesOfferings :: "(string \<times> string list) list"
  instanceTypesCache :: "instance_type list go_cache"
  itpCm :: "nat go_cache"
  instanceTypesSeqNum :: "64 word"
  instanceTypesOfferingsSeqNum :: "64 word"

definition NewInstanceTypeProvider :: "string \<Rightarrow> instance_type list go_cache \<Rightarrow> instance_type_provider" where
  "NewInstanceTypeProvider region c =
     \<lparr>itpRegion = region, instanceTypesInfo = [], instanceTypesOfferings = [],
      spotInstanceTypesOfferings = [], instanceTypesCache = c, itpCm = NewChangeMonitor,
      instanceTypesSeqNum = 0, instanceTypesOfferingsSeqNum = 0\<rparr>"

definition validateState :: "ecs_nodeclass \<Rightarrow> instance_type_provider \<Rightarrow> gerror option" where
  "validateState nc p =
     (if instanceTypesInfo p = [] then Some (ErrorString ''no instance types found'')
      else if instanceTypesOfferings p = [] then Some (ErrorString ''no instance types offerings found'')
      else if spotInstanceTypesOfferings p = []
        then Some (ErrorString ''no spot instance types offerings found'')
      else if stVSwitches (ncStatus nc) = [] then Some (ErrorString ''no vswitches found'')
      else None)"

definition itp_Reset :: "instance_type_provider \<Rightarrow> instance_type_provider" where
  "itp_Reset p = p\<lparr>instanceTypesInfo := [], instanceTypesOfferings := [],
     instanceTypesCache := cache_flush (instanceTypesCache p)\<rparr>"

section \<open>Offerings\<close>

definition createOffering :: "string \<Rightarrow> string \<Rightarrow> price \<Rightarrow> bool \<Rightarrow> offering" where
  "createOffering zone capacityType pr available =
     \<lparr>ofRequirements = NewRequirements
        [NewRequirement CapacityTypeLabelKey OpIn [capacityType],
         NewRequirement LabelTopologyZone OpIn [zone],
         NewRequirement LabelTopologyZoneID OpIn [zone]],
      Price = pr, ofAvailable = available\<rparr>"

definition zone_offerings ::
  "int \<Rightarrow> pricing_provider \<Rightarrow> unavailable_offerings \<Rightarrow> string \<Rightarrow> zone_data \<Rightarrow> offering list" where
  "zone_offerings now pr uo instanceType zone =
     (case OnDemandPrice instanceType pr of
        Some price \<Rightarrow> [createOffering (zdID zone) CapacityTypeOnDemand price
          (\<not> IsUnavailable now instanceType (zdID zone) CapacityTypeOnDemand uo \<and> zdAvailable zone)]
      | None \<Rightarrow> [])
     @ (case SpotPrice instanceType (zdID zone) pr of
        Some price \<Rightarrow> [createOffering (zdID zone) CapacityTypeSpot price
          (\<not> IsUnavailable now instanceType (zdID zone) CapacityTypeSpot uo \<and> SpotAvailable zone)]
      | None \<Rightarrow> [])"

definition createOfferings ::
  "int \<Rightarrow> pricing_provider \<Rightarrow> unavailable_offerings \<Rightarrow> string \<Rightarrow> zone_data list \<Rightarrow> offering list" where
  "createOfferings now pr uo instanceType zones = concat (map (zone_offerings now pr uo instanceType) zones)"

section \<open>List\<close>

definition zones_of :: "(string \<times> string list) list \<Rightarrow> string \<Rightarrow> string list" where
  "zones_of offers it = (case map_of offers it of None \<Rightarrow> [] | Some zs \<Rightarrow> zs)"

definition allZones :: "instance_type_provider \<Rightarrow> string list" where
  "allZones p = remdups (concat (map snd (instanceTypesOfferings p)))"

definition zone_data_of :: "instance_type_provider \<Rightarrow> string list \<Rightarrow> string \<Rightarrow> string \<Rightarrow> zone_data" where
  "zone_data_of p vZones it z =
     \<lparr>zdID = z,
      zdAvailable = (z \<in> set (zones_of (instanceTypesOfferings p) it) \<and> z \<in> set vZones),
      SpotAvailable = (z \<in> set (zones_of (spotInstanceTypesOfferings p) it) \<and> z \<in> set vZones)\<rparr>"

text \<open>\<^verbatim>\<open>%016x\<close> of a 64-bit hash.\<close>

definition hex_digit :: "nat \<Rightarrow> char" where
  "hex_digit d = char_of (if d < 10 then 48 + d else 87 + d)"

definition hex16 :: "nat \<Rightarrow> string" where
  "hex16 n = map (\<lambda>i. hex_digit (n div 16 ^ (15 - i) mod 16)) [0..<16]"

definition list_cache_key :: "64 word \<Rightarrow> 64 word \<Rightarrow> 64 word \<Rightarrow> nat \<Rightarrow> nat \<Rightarrow> string" where
  "list_cache_key itSeq ofSeq uoSeq zonesH kcH =
     nat_digits (unat itSeq) @ ''-'' @ nat_digits (unat ofSeq) @ ''-'' @ nat_digits (unat uoSeq)
     @ ''-'' @ hex16 zonesH @ ''-'' @ hex16 kcH"

text \<open>The environment of a call: the hashes, the random source behind \<^verbatim>\<open>Any\<close>, the
  option \<^verbatim>\<open>VMMemoryOverheadPercent\<close>, the providers it reads and the cluster's CNI.\<close>

record list_env =
  zonesHash :: "string list \<Rightarrow> nat"
  kcHash :: "kubelet_configuration \<Rightarrow> nat"
  leRnd :: "int \<Rightarrow> int"
  VMMemoryOverheadPercent :: rat
  lePricing :: pricing_provider
  leUnavailable :: unavailable_offerings
  ClusterCNI :: "string outcome"

definition type_of_info ::
  "list_env \<Rightarrow> int \<Rightarrow> kubelet_configuration \<Rightarrow> ecs_nodeclass \<Rightarrow> string list \<Rightarrow> string \<Rightarrow>
   instance_type_provider \<Rightarrow> ecs_type_info \<Rightarrow> instance_type option outcome" where
  "type_of_info env now kc nc vZones cni p info =
     outcome_bind (deref (InstanceTypeId info)) (\<lambda>name.
       NewInstanceType (leRnd env) (VMMemoryOverheadPercent env) info kc (itpRegion p)
         (SystemDisk (ncSpec nc))
         (createOfferings now (lePricing env) (leUnavailable env) name
           (map (zone_data_of p vZones name) (allZones p))) cni)"

definition vswitch_zones :: "ecs_nodeclass \<Rightarrow> string list" where
  "vswitch_zones nc = remdups (map svZoneID (stVSwitches (ncStatus nc)))"

definition list_key :: "list_env \<Rightarrow> kubelet_configuration \<Rightarrow> ecs_nodeclass \<Rightarrow> instance_type_provider \<Rightarrow> string" where
  "list_key env kc nc p =
     list_cache_key (instanceTypesSeqNum p) (instanceTypesOfferingsSeqNum p) (SeqNum (leUnavailable env))
       (zonesHash env (vswitch_zones nc)) (kcHash env kc)"

definition compact :: "'a option list \<Rightarrow> 'a list" where
  "compact xs = map the (filter (\<lambda>x. x \<noteq> None) xs)"

definition itp_List ::
  "list_env \<Rightarrow> int \<Rightarrow> kubelet_configuration option \<Rightarrow> ecs_nodeclass \<Rightarrow> instance_type_provider \<Rightarrow>
   instance_type list outcome \<times> instance_type_provider" where
  "itp_List env now kc nc p =
     (let kc' = (case kc of None \<Rightarrow> empty_kubelet | Some k \<Rightarrow> k) in
      case validateState nc p of
        Some e \<Rightarrow> (Err e, p)
      | None \<Rightarrow>
          (case cache_get now (list_key env kc' nc p) (instanceTypesCache p) of
             Some its \<Rightarrow> (Ok its, p)
           | None \<Rightarrow>
               (let p1 = p\<lparr>itpCm := snd (HasChanged now ''zones'' (zonesHash env (allZones p)) (itpCm p))\<rparr> in
                case ClusterCNI env of
                  Err e \<Rightarrow> (Err (Wrap ''failed to get cluster CNI: '' e), p1)
                | Panic \<Rightarrow> (Panic, p1)
                | Ok cni \<Rightarrow>
                    (case outcome_mapM (type_of_info env now kc' nc (vswitch_zones nc) cni p)
                            (instanceTypesInfo p) of
                       Ok its \<Rightarrow> (Ok (compact its), p1\<lparr>instanceTypesCache :=
                         cache_set_default now (list_key env kc' nc p) (compact its) (instanceTypesCache p)\<rparr>)
                     | Err e \<Rightarrow> (Err e, p1)
                     | Panic \<Rightarrow> (Panic, p1)))))"

section \<open>Refreshing the instance types\<close>

type_synonym types_page = "ecs_type_info token_page"

definition getAllInstanceTypes ::
  "(string option \<Rightarrow> types_page option outcome) \<Rightarrow> ecs_type_info list outcome option" where
  "getAllInstanceTypes api = token_loop api None []"

definition terway_ok :: "ecs_type_info \<Rightarrow> bool" where
  "terway_ok info =
     (TerwayMinENIRequirements
      \<le> int32 (int32 (IntValue (EniQuantity info) - 1) * IntValue (EniPrivateIpAddressQuantity info)))"

definition UpdateInstanceTypes ::
  "(string option \<Rightarrow> types_page option outcome) \<Rightarrow> string outcome \<Rightarrow> (ecs_type_info list \<Rightarrow> nat) \<Rightarrow> int \<Rightarrow>
   instance_type_provider \<Rightarrow> (unit outcome \<times> instance_type_provider) option" where
  "UpdateInstanceTypes api clusterCNI hash now p =
     (case getAllInstanceTypes api of
        None \<Rightarrow> None
      | Some (Err e) \<Rightarrow> Some (Err e, p)
      | Some Panic \<Rightarrow> Some (Panic, p)
      | Some (Ok infos) \<Rightarrow>
          (case clusterCNI of
             Err e \<Rightarrow> Some (Err (Wrap ''failed to get cluster CNI: '' e), p)
           | Panic \<Rightarrow> Some (Panic, p)
           | Ok cni \<Rightarrow>
               (let infos' = (if cni = ClusterCNITypeTerway then filter terway_ok infos else infos);
                    (changed, cm) = HasChanged now ''instance-types'' (hash infos') (itpCm p)
                in Some (Ok (), p\<lparr>itpCm := cm,
                     instanceTypesSeqNum := instanceTypesSeqNum p + (if changed then 1 else 0),
                     instanceTypesInfo := infos'\<rparr>))))"

section \<open>Refreshing the offerings\<close>

record supported_resource =
  srValue :: "string option"
  srStatusCategory :: "string option"

record available_zone =
  azZoneId :: "string option"
  azStatusCategory :: "string option"
  azAvailableResources :: "supported_resource list option list option"

record available_body =
  abAvailableZones :: "available_zone list option"
  abRequestId :: "string option"

definition in_stock :: "string option \<Rightarrow> bool" where
  "in_stock st = (StringValue st = ''WithStock'' \<or> StringValue st = ''ClosedWithStock'')"

text \<open>One supported resource: a nil value or a nil zone id panics.\<close>

definition process_resource ::
  "string option \<Rightarrow> supported_resource \<Rightarrow> (string \<times> string list) list \<Rightarrow> (string \<times> string list) list outcome" where
  "process_resource zone sr offers =
     (if \<not> in_stock (srStatusCategory sr) then Ok offers
      else outcome_bind (deref (srValue sr)) (\<lambda>v.
        outcome_map (\<lambda>z. AList.update v (List.insert z (zones_of offers v)) offers) (deref zone)))"

definition processAvailableResources ::
  "available_zone \<Rightarrow> (string \<times> string list) list \<Rightarrow> (string \<times> string list) list outcome" where
  "processAvailableResources az offers =
     outcome_fold (process_resource (azZoneId az))
       (concat (map (\<lambda>ar. case ar of None \<Rightarrow> [] | Some srs \<Rightarrow> srs)
         (case azAvailableResources az of None \<Rightarrow> [] | Some ars \<Rightarrow> ars))) offers"

definition processAvailableResourcesResponse ::
  "available_body option \<Rightarrow> (string \<times> string list) list outcome" where
  "processAvailableResourcesResponse resp =
     (let msg = ErrorString ''DescribeAvailableResourceWithOptions failed to return any instance types'' in
      case resp of
        None \<Rightarrow> Err msg
      | Some b \<Rightarrow>
          (case abAvailableZones b of
             Some (z # zs) \<Rightarrow>
               outcome_fold processAvailableResources
                 (filter (\<lambda>az. in_stock (azStatusCategory az)) (z # zs)) []
           | _ \<Rightarrow> Err (WithRequestID (StringValue (abRequestId b)) msg)))"

text \<open>The two requests in turn; \<open>None\<close> and \<open>Some ''SpotAsPriceGo''\<close> are the spot
  strategies. When the second fails the on-demand offerings are already replaced.\<close>

definition UpdateInstanceTypeOfferings ::
  "(string option \<Rightarrow> available_body option outcome) \<Rightarrow> ((string \<times> string list) list \<Rightarrow> nat) \<Rightarrow> int \<Rightarrow>
   instance_type_provider \<Rightarrow> unit outcome \<times> instance_type_provider" where
  "UpdateInstanceTypeOfferings api hash now p =
     (case outcome_bind (api None) processAvailableResourcesResponse of
        Err e \<Rightarrow> (Err e, p)
      | Panic \<Rightarrow> (Panic, p)
      | Ok offers \<Rightarrow>
          (let (changed, cm) = HasChanged now ''instance-type-offering'' (hash offers) (itpCm p);
               p1 = p\<lparr>itpCm := cm,
                 instanceTypesOfferingsSeqNum := instanceTypesOfferingsSeqNum p + (if changed then 1 else 0),
                 instanceTypesOfferings := offers\<rparr>
           in case outcome_bind (api (Some ''SpotAsPriceGo'')) processAvailableResourcesResponse of
                Err e \<Rightarrow> (Err e, p1)
              | Panic \<Rightarrow> (Panic, p1)
              | Ok spot \<Rightarrow> (Ok (), p1\<lparr>spotInstanceTypesOfferings := spot\<rparr>)))"

section \<open>Lemmas\<close>

subsection \<open>Offerings\<close>

lemma createOffering_reqs:
  "ofRequirements (createOffering z ct pr av) =
     [(CapacityTypeLabelKey, NewRequirement CapacityTypeLabelKey OpIn [ct]),
      (LabelTopologyZone, NewRequirement LabelTopologyZone OpIn [z]),
      (LabelTopologyZoneID, NewRequirement LabelTopologyZoneID OpIn [z])]"
  by (simp add: createOffering_def NewRequirements_distinct Key_NewRequirement)

lemma launch_reqs_list:
  "launch_reqs ct z =
     [(CapacityTypeLabelKey, NewRequirement CapacityTypeLabelKey OpIn [ct]),
      (LabelTopologyZone, NewRequirement LabelTopologyZone OpIn [z])]"
  by (simp add: launch_reqs_def NewRequirements_distinct Key_NewRequirement)

lemma In_bounds [simp]:
  "greaterThan_r (NewRequirement k OpIn vs) = None" "lessThan_r (NewRequirement k OpIn vs) = None"
  by (simp_all add: NewRequirement_def NewRequirementWithFlexibility_def)

lemma offering_compat:
  "IsCompatible (launch_reqs ct z) (ofRequirements (createOffering z' ct' pr av)) \<longleftrightarrow> ct' = ct \<and> z' = z"
  by (auto simp: Compatible_def Intersects_def createOffering_reqs launch_reqs_list reqs_has_def
      reqs_get_def key_intersects_In1)

lemma createOffering_available [simp]: "ofAvailable (createOffering z ct pr av) = av"
  "Price (createOffering z ct pr av) = pr"
  by (simp_all add: createOffering_def)

lemma HasCompatible_iff_ex:
  "HasCompatible reqs (AvailableOfferings ofs) \<longleftrightarrow>
     (\<exists>off\<in>set ofs. ofAvailable off \<and> IsCompatible reqs (ofRequirements off))"
  by (auto simp: HasCompatible_def AvailableOfferings_def list_ex_iff)

lemma zone_offerings_launchable:
  "(\<exists>off\<in>set (zone_offerings now pr uo it zone). ofAvailable off
      \<and> IsCompatible (launch_reqs ct z) (ofRequirements off)) \<longleftrightarrow>
   zdID zone = z \<and> \<not> IsUnavailable now it z ct uo
     \<and> (ct = CapacityTypeOnDemand \<and> zdAvailable zone \<and> OnDemandPrice it pr \<noteq> None
      \<or> ct = CapacityTypeSpot \<and> SpotAvailable zone \<and> SpotPrice it z pr \<noteq> None)"
  by (cases "OnDemandPrice it pr"; cases "SpotPrice it (zdID zone) pr")
     (auto simp: zone_offerings_def offering_compat)

lemma createOfferings_launchable:
  "HasCompatible (launch_reqs ct z) (AvailableOfferings (createOfferings now pr uo it zones)) \<longleftrightarrow>
     (\<exists>zone\<in>set zones. zdID zone = z \<and> \<not> IsUnavailable now it z ct uo
        \<and> (ct = CapacityTypeOnDemand \<and> zdAvailable zone \<and> OnDemandPrice it pr \<noteq> None
         \<or> ct = CapacityTypeSpot \<and> SpotAvailable zone \<and> SpotPrice it z pr \<noteq> None))"
  unfolding HasCompatible_iff_ex createOfferings_def set_concat set_map UN_simps bex_UN
  unfolding zone_offerings_launchable by blast

subsection \<open>The cache key\<close>

lemma nat_digits_no_dash: "CHR ''-'' \<notin> set (nat_digits n)"
  using nat_digits_chars[of "CHR ''-''" n] by (auto simp: char_digit_def)

lemma list_cache_key_inj:
  assumes "list_cache_key a b c h k = list_cache_key a' b' c' h' k'"
  shows "a = a' \<and> b = b' \<and> c = c'"
proof -
  have digits: "x = y" if "nat_digits (unat x) = nat_digits (unat y)" for x y :: "64 word"
    using nat_digits_inj[OF that] by (simp add: word_unat_eq_iff)
  have "nat_digits (unat a) @ CHR ''-'' # nat_digits (unat b) @ CHR ''-'' # nat_digits (unat c)
        @ CHR ''-'' # hex16 h @ CHR ''-'' # hex16 k =
      nat_digits (unat a') @ CHR ''-'' # nat_digits (unat b') @ CHR ''-'' # nat_digits (unat c')
        @ CHR ''-'' # hex16 h' @ CHR ''-'' # hex16 k'"
    using assms by (simp add: list_cache_key_def)
  from append_sep_inj[OF this nat_digits_no_dash nat_digits_no_dash]
  have 1: "nat_digits (unat a) = nat_digits (unat a')"
    "nat_digits (unat b) @ CHR ''-'' # nat_digits (unat c) @ CHR ''-'' # hex16 h @ CHR ''-'' # hex16 k =
     nat_digits (unat b') @ CHR ''-'' # nat_digits (unat c') @ CHR ''-'' # hex16 h' @ CHR ''-'' # hex16 k'"
    by simp_all
  from append_sep_inj[OF 1(2) nat_digits_no_dash nat_digits_no_dash]
  have 2: "nat_digits (unat b) = nat_digits (unat b')"
    "nat_digits (unat c) @ CHR ''-'' # hex16 h @ CHR ''-'' # hex16 k =
     nat_digits (unat c') @ CHR ''-'' # hex16 h' @ CHR ''-'' # hex16 k'" by simp_all
  from append_sep_inj[OF 2(2) nat_digits_no_dash nat_digits_no_dash]
  have 3: "nat_digits (unat c) = nat_digits (unat c')" by simp
  show ?thesis using digits 1(1) 2(1) 3 by blast
qed

subsection \<open>List\<close>

lemma itp_List_hit:
  assumes "validateState nc p = None"
    and "cache_get now (list_key env (case kc of None \<Rightarrow> empty_kubelet | Some k \<Rightarrow> k) nc p)
          (instanceTypesCache p) = Some its"
  shows "itp_List env now kc nc p = (Ok its, p)"
  using assms by (simp add: itp_List_def Let_def)

lemma itp_List_miss:
  assumes "cache_get now (list_key env (case kc of None \<Rightarrow> empty_kubelet | Some k \<Rightarrow> k) nc p)
          (instanceTypesCache p) = None"
    and "itp_List env now kc nc p = (Ok its, p')"
  obtains cni ts where "validateState nc p = None" "ClusterCNI env = Ok cni"
    "outcome_mapM (type_of_info env now (case kc of None \<Rightarrow> empty_kubelet | Some k \<Rightarrow> k) nc
       (vswitch_zones nc) cni p) (instanceTypesInfo p) = Ok ts"
    "its = compact ts"
    "instanceTypesCache p' = cache_set_default now
       (list_key env (case kc of None \<Rightarrow> empty_kubelet | Some k \<Rightarrow> k) nc p) its (instanceTypesCache p)"
    "instanceTypesInfo p' = instanceTypesInfo p" "instanceTypesOfferings p' = instanceTypesOfferings p"
    "spotInstanceTypesOfferings p' = spotInstanceTypesOfferings p"
    "instanceTypesSeqNum p' = instanceTypesSeqNum p"
    "instanceTypesOfferingsSeqNum p' = instanceTypesOfferingsSeqNum p"
  using assms unfolding itp_List_def Let_def
  by (auto split: option.splits outcome.splits)

lemma set_compact: "x \<in> set (compact xs) \<longleftrightarrow> Some x \<in> set xs"
  by (force simp: compact_def image_iff)

lemma list_all2_mem: "list_all2 P xs ys \<Longrightarrow> y \<in> set ys \<Longrightarrow> \<exists>x\<in>set xs. P x y"
  by (induction rule: list_all2_induct) auto

lemma NewInstanceType_Some:
  assumes "NewInstanceType rnd pct info kc region disk ofs cni = Ok (Some it)"
  shows "Offerings it = ofs \<and> ofs \<noteq> [] \<and> InstanceTypeId info = Some (itName it)
    \<and> itRequirements it = computeRequirements rnd info ofs region"
  using assms never_windows
  by (cases "InstanceTypeId info"; cases "computeCapacity pct info (MaxPods kc) (PodsPerCore kc) disk cni")
     (auto simp: NewInstanceType_def Let_def split: if_splits)

subsection \<open>Refreshing\<close>

lemma zones_of_update:
  "zones_of (AList.update v zs offers) it = (if it = v then zs else zones_of offers it)"
  by (simp add: zones_of_def update_conv')

lemma process_resource_zones:
  assumes "process_resource zone sr offers = Ok offers'"
  shows "z \<in> set (zones_of offers' it) \<longleftrightarrow>
    z \<in> set (zones_of offers it) \<or> in_stock (srStatusCategory sr) \<and> srValue sr = Some it \<and> zone = Some z"
  using assms
  by (cases "srValue sr"; cases zone) (auto simp: process_resource_def zones_of_update split: if_splits)

lemma process_resources_zones:
  assumes "outcome_fold (process_resource zone) srs offers = Ok offers'"
  shows "z \<in> set (zones_of offers' it) \<longleftrightarrow> z \<in> set (zones_of offers it)
    \<or> zone = Some z \<and> (\<exists>sr\<in>set srs. in_stock (srStatusCategory sr) \<and> srValue sr = Some it)"
  using assms
proof (induction srs arbitrary: offers)
  case (Cons sr srs)
  then obtain o1 where "process_resource zone sr offers = Ok o1"
    "outcome_fold (process_resource zone) srs o1 = Ok offers'" by auto
  with Cons.IH process_resource_zones show ?case by auto
qed simp

text \<open>The instance types a zone entry lists in stock.\<close>

definition zone_offers :: "available_zone \<Rightarrow> string \<Rightarrow> bool" where
  "zone_offers az it = (\<exists>ars. azAvailableResources az = Some ars \<and> (\<exists>srs. Some srs \<in> set ars
      \<and> (\<exists>sr\<in>set srs. in_stock (srStatusCategory sr) \<and> srValue sr = Some it)))"

lemma processAvailableResources_zones:
  assumes "processAvailableResources az offers = Ok offers'"
  shows "z \<in> set (zones_of offers' it) \<longleftrightarrow> z \<in> set (zones_of offers it)
    \<or> azZoneId az = Some z \<and> zone_offers az it"
proof -
  let ?srs = "concat (map (\<lambda>ar. case ar of None \<Rightarrow> [] | Some srs \<Rightarrow> srs)
         (case azAvailableResources az of None \<Rightarrow> [] | Some ars \<Rightarrow> ars))"
  have "(\<exists>sr\<in>set ?srs. in_stock (srStatusCategory sr) \<and> srValue sr = Some it) \<longleftrightarrow> zone_offers az it"
    by (cases "azAvailableResources az") (force simp: zone_offers_def split: option.splits)+
  with process_resources_zones[of "azZoneId az" ?srs offers offers'] assms show ?thesis
    by (simp add: processAvailableResources_def)
qed

lemma process_zones:
  assumes "outcome_fold processAvailableResources azs offers = Ok offers'"
  shows "z \<in> set (zones_of offers' it) \<longleftrightarrow> z \<in> set (zones_of offers it)
    \<or> (\<exists>az\<in>set azs. azZoneId az = Some z \<and> zone_offers az it)"
  using assms
proof (induction azs arbitrary: offers)
  case (Cons az azs)
  then obtain o1 where "processAvailableResources az offers = Ok o1"
    "outcome_fold processAvailableResources azs o1 = Ok offers'" by auto
  with Cons.IH processAvailableResources_zones show ?case by auto
qed simp

lemma zones_of_Nil [simp]: "zones_of [] it = []"
  by (simp add: zones_of_def)

lemma response_zones:
  assumes "processAvailableResourcesResponse resp = Ok offers"
  obtains b azs where "resp = Some b" "abAvailableZones b = Some azs"
    "\<And>z it. z \<in> set (zones_of offers it) \<longleftrightarrow>
       (\<exists>az\<in>set azs. in_stock (azStatusCategory az) \<and> azZoneId az = Some z \<and> zone_offers az it)"
proof -
  from assms obtain b az azs where b: "resp = Some b" "abAvailableZones b = Some (az # azs)"
    and f: "outcome_fold processAvailableResources
        (filter (\<lambda>az. in_stock (azStatusCategory az)) (az # azs)) [] = Ok offers"
    by (auto simp: processAvailableResourcesResponse_def Let_def split: option.splits list.splits)
  from process_zones[OF f] show thesis by (intro that[OF b]) auto
qed

lemma fresh_type_origin:
  assumes "outcome_mapM (type_of_info env now kc nc vZones cni p) infos = Ok ts" "Some it \<in> set ts"
  shows "Offerings it = createOfferings now (lePricing env) (leUnavailable env) (itName it)
     (map (zone_data_of p vZones (itName it)) (allZones p))"
proof -
  from assms obtain info where "type_of_info env now kc nc vZones cni p info = Ok (Some it)"
    by (auto simp: outcome_mapM_Ok dest: list_all2_mem)
  then show ?thesis
    by (cases "InstanceTypeId info") (auto simp: type_of_info_def dest: NewInstanceType_Some)
qed

text \<open>What a computed answer offers.\<close>

lemma in_allZones_iff: "z \<in> set (allZones p) \<longleftrightarrow> (\<exists>t zs. (t, zs) \<in> set (instanceTypesOfferings p) \<and> z \<in> set zs)"
  by (simp add: allZones_def) (metis prod.collapse snd_conv)

lemma zones_of_in_allZones: "z \<in> set (zones_of (instanceTypesOfferings p) t) \<Longrightarrow> z \<in> set (allZones p)"
  unfolding in_allZones_iff zones_of_def by (cases "map_of (instanceTypesOfferings p) t") (simp, metis map_of_SomeD option.simps(5))

lemma fresh_launchable_iff:
  assumes "cache_get now (list_key env (case kc of None \<Rightarrow> empty_kubelet | Some k \<Rightarrow> k) nc p)
      (instanceTypesCache p) = None"
    and "itp_List env now kc nc p = (Ok its, p')" and "it \<in> set its" and "name = itName it"
  shows "HasCompatible (launch_reqs ct z) (AvailableOfferings (Offerings it)) \<longleftrightarrow>
    z \<in> svZoneID ` set (stVSwitches (ncStatus nc)) \<and> \<not> IsUnavailable now name z ct (leUnavailable env)
    \<and> (ct = CapacityTypeOnDemand \<and> z \<in> set (zones_of (instanceTypesOfferings p) name)
         \<and> OnDemandPrice name (lePricing env) \<noteq> None
     \<or> ct = CapacityTypeSpot \<and> z \<in> set (zones_of (spotInstanceTypesOfferings p) name)
         \<and> (\<exists>t zs. (t, zs) \<in> set (instanceTypesOfferings p) \<and> z \<in> set zs)
         \<and> SpotPrice name z (lePricing env) \<noteq> None)"
proof -
  from itp_List_miss[OF assms(1,2)] obtain cni ts where
    ts: "outcome_mapM (type_of_info env now (case kc of None \<Rightarrow> empty_kubelet | Some k \<Rightarrow> k) nc
       (vswitch_zones nc) cni p) (instanceTypesInfo p) = Ok ts" and its: "its = compact ts" by blast
  have "Offerings it = createOfferings now (lePricing env) (leUnavailable env) name
     (map (zone_data_of p (vswitch_zones nc) name) (allZones p))"
    using fresh_type_origin[OF ts] assms(3,4) by (simp add: its set_compact)
  then show ?thesis
    unfolding in_allZones_iff[symmetric] using zones_of_in_allZones
    by (auto simp: createOfferings_launchable zone_data_of_def vswitch_zones_def)
qed

section \<open>Properties\<close>

text \<open>
  C16. An instance type the provider computes can be launched with a capacity type in a zone
  exactly when the zone is one of the node class' vSwitches', ECS reports stock for that
  capacity type there, a price is known, and the offering is not marked unavailable; for spot, in
  addition, some instance type has on-demand stock in the zone, because the zones that are
  considered at all come from the on-demand offerings.
\<close>

theorem launchable_iff_in_stock:
  assumes "cache_get now (list_key env (case kc of None \<Rightarrow> empty_kubelet | Some k \<Rightarrow> k) nc p)
      (instanceTypesCache p) = None"
    and "itp_List env now kc nc p = (Ok its, p')" and "it \<in> set its" and "name = itName it"
  shows "HasCompatible (launch_reqs ct z) (AvailableOfferings (Offerings it)) \<longleftrightarrow>
    z \<in> svZoneID ` set (stVSwitches (ncStatus nc)) \<and> \<not> IsUnavailable now name z ct (leUnavailable env)
    \<and> (ct = CapacityTypeOnDemand \<and> z \<in> set (zones_of (instanceTypesOfferings p) name)
         \<and> OnDemandPrice name (lePricing env) \<noteq> None
     \<or> ct = CapacityTypeSpot \<and> z \<in> set (zones_of (spotInstanceTypesOfferings p) name)
         \<and> (\<exists>t zs. (t, zs) \<in> set (instanceTypesOfferings p) \<and> z \<in> set zs)
         \<and> SpotPrice name z (lePricing env) \<noteq> None)"
  using assms by (rule fresh_launchable_iff)

text \<open>
  A zone that has spot stock only is never offered, although the comment above \<open>allZones\<close>
  says that it has the zones across all offerings.
\<close>

lemma spot_only_zone_not_offered:
  assumes "cache_get now (list_key env (case kc of None \<Rightarrow> empty_kubelet | Some k \<Rightarrow> k) nc p)
      (instanceTypesCache p) = None"
    and "itp_List env now kc nc p = (Ok its, p')" "it \<in> set its"
    and "\<And>t zs. (t, zs) \<in> set (instanceTypesOfferings p) \<Longrightarrow> z \<notin> set zs"
  shows "\<not> HasCompatible (launch_reqs ct z) (AvailableOfferings (Offerings it))"
  using fresh_launchable_iff[OF assms(1-3) refl, of ct z] assms(4) zones_of_in_allZones[of z p "itName it"]
  by (auto simp: in_allZones_iff)

text \<open>
  The offerings of an instance type are mutually exclusive: no two of them have the same
  capacity type and zone. (The zones are collected as a set.)
\<close>

theorem offerings_mutually_exclusive:
  assumes "distinct (map zdID zones)"
  shows "distinct (map (\<lambda>off. (req_any rnd (reqs_get (ofRequirements off) CapacityTypeLabelKey),
        req_any rnd (reqs_get (ofRequirements off) LabelTopologyZone)))
      (createOfferings now pr uo it zones))"
proof -
  define offering_id where "offering_id off =
    (req_any rnd (reqs_get (ofRequirements off) CapacityTypeLabelKey),
     req_any rnd (reqs_get (ofRequirements off) LabelTopologyZone))" for off :: offering
  have co: "offering_id (createOffering z ct p av) = (ct, z)" for z ct p av
    by (simp add: offering_id_def createOffering_reqs reqs_get_def)
  have one: "distinct (map offering_id (zone_offerings now pr uo it zone))" for zone
    by (auto simp: zone_offerings_def co split: option.splits)
  have zone: "snd (offering_id off) = zdID zone" if "off \<in> set (zone_offerings now pr uo it zone)" for off zone
    using that by (auto simp: zone_offerings_def co split: option.splits)
  from assms have "distinct (map offering_id (createOfferings now pr uo it zones))"
  proof (induction zones)
    case (Cons zd zones)
    have "offering_id a \<noteq> offering_id b" if "a \<in> set (zone_offerings now pr uo it zd)"
      "b \<in> set (createOfferings now pr uo it zones)" for a b
    proof -
      from that(2) obtain zd' where "zd' \<in> set zones" "b \<in> set (zone_offerings now pr uo it zd')"
        by (auto simp: createOfferings_def)
      with zone[OF that(1)] zone[of b zd'] Cons.prems show ?thesis by (metis distinct.simps(2) imageI list.simps(9) set_map)
    qed
    then have "offering_id ` set (zone_offerings now pr uo it zd)
        \<inter> offering_id ` set (createOfferings now pr uo it zones) = {}" by blast
    moreover have "createOfferings now pr uo it (zd # zones) =
        zone_offerings now pr uo it zd @ createOfferings now pr uo it zones"
      by (simp add: createOfferings_def)
    ultimately show ?case using Cons one[of zd] by simp
  qed (simp add: createOfferings_def)
  then show ?thesis by (simp add: offering_id_def[abs_def])
qed

text \<open>
  The cached answer is keyed by the change counters: a call never reads an entry written
  under a different state of the offerings, the instance types or the unavailable offerings.
\<close>

theorem list_never_reads_other_epoch:
  assumes "itp_List env now kc nc p = (Ok its, p')"
    and "instanceTypesSeqNum q \<noteq> instanceTypesSeqNum p
      \<or> instanceTypesOfferingsSeqNum q \<noteq> instanceTypesOfferingsSeqNum p
      \<or> SeqNum (leUnavailable env') \<noteq> SeqNum (leUnavailable env)"
  shows "cache_get t (list_key env' kc' nc' q) (instanceTypesCache p') =
    cache_get t (list_key env' kc' nc' q) (instanceTypesCache p)"
proof (cases "cache_get now (list_key env (case kc of None \<Rightarrow> empty_kubelet | Some k \<Rightarrow> k) nc p) (instanceTypesCache p)")
  case None
  let ?k = "list_key env (case kc of None \<Rightarrow> empty_kubelet | Some k \<Rightarrow> k) nc p"
  have "instanceTypesCache p' = cache_set_default now ?k its (instanceTypesCache p)"
    using itp_List_miss[OF None assms(1)] by blast
  moreover have "list_key env' kc' nc' q \<noteq> ?k"
    using assms(2) by (auto simp: list_key_def dest: list_cache_key_inj)
  ultimately show ?thesis by (simp add: cache_set_default_def)
next
  case (Some x)
  then have "p' = p" using assms(1) by (auto simp: itp_List_def Let_def split: option.splits)
  then show ?thesis by simp
qed

text \<open>
  The key covers neither the node class' system disk nor the spot offerings, prices and
  CNI: as long as counters, zones and kubelet configuration agree, a node class with another
  system disk is answered with the types computed for the first one.
\<close>

theorem list_shares_types_across_disks:
  assumes "itp_List env now kc nc p = (Ok its, p')"
    and "cache_get now (list_key env (case kc of None \<Rightarrow> empty_kubelet | Some k \<Rightarrow> k) nc p) (instanceTypesCache p) = None"
    and "0 \<le> now" and "0 < defaultExpiration (instanceTypesCache p)"
    and "t \<le> now + defaultExpiration (instanceTypesCache p)"
    and "nc' = nc\<lparr>ncSpec := (ncSpec nc)\<lparr>SystemDisk := d\<rparr>\<rparr>"
    and "env' = env\<lparr>lePricing := pr', ClusterCNI := cni'\<rparr>"
  shows "itp_List env' t kc nc' (p'\<lparr>spotInstanceTypesOfferings := (z # zs)\<rparr>) =
    (Ok its, p'\<lparr>spotInstanceTypesOfferings := (z # zs)\<rparr>)"
proof (rule itp_List_hit)
  let ?kc = "case kc of None \<Rightarrow> empty_kubelet | Some k \<Rightarrow> k"
  from itp_List_miss[OF assms(2,1)] have st: "validateState nc p = None"
    and c: "instanceTypesCache p' = cache_set_default now (list_key env ?kc nc p) its (instanceTypesCache p)"
    and same: "instanceTypesInfo p' = instanceTypesInfo p" "instanceTypesOfferings p' = instanceTypesOfferings p"
      "instanceTypesSeqNum p' = instanceTypesSeqNum p"
      "instanceTypesOfferingsSeqNum p' = instanceTypesOfferingsSeqNum p" by blast+
  show "validateState nc' (p'\<lparr>spotInstanceTypesOfferings := (z # zs)\<rparr>) = None"
    using st same by (auto simp: validateState_def assms(6) split: if_splits)
  have "list_key env' ?kc nc' (p'\<lparr>spotInstanceTypesOfferings := (z # zs)\<rparr>) = list_key env ?kc nc p"
    using same by (simp add: list_key_def assms(6,7) vswitch_zones_def)
  then show "cache_get t (list_key env' ?kc nc' (p'\<lparr>spotInstanceTypesOfferings := (z # zs)\<rparr>))
      (instanceTypesCache (p'\<lparr>spotInstanceTypesOfferings := (z # zs)\<rparr>)) = Some its"
    using assms(3-5) c by (simp add: cache_get_set_default)
qed

text \<open>
  C32. After a successful refresh of the offerings, an instance type is offered on demand
  (respectively as spot) in exactly the zones that are in stock and list it as in stock in the
  answer to the request without (respectively with) the spot strategy.
\<close>

theorem refreshed_offerings_match_response:
  assumes "UpdateInstanceTypeOfferings api hash now p = (Ok (), p')"
  shows "\<exists>b od b' spot. api None = Ok (Some b) \<and> abAvailableZones b = Some od
    \<and> api (Some ''SpotAsPriceGo'') = Ok (Some b') \<and> abAvailableZones b' = Some spot
    \<and> (\<forall>it z. z \<in> set (zones_of (instanceTypesOfferings p') it) \<longleftrightarrow>
         (\<exists>az\<in>set od. in_stock (azStatusCategory az) \<and> azZoneId az = Some z \<and> zone_offers az it))
    \<and> (\<forall>it z. z \<in> set (zones_of (spotInstanceTypesOfferings p') it) \<longleftrightarrow>
         (\<exists>az\<in>set spot. in_stock (azStatusCategory az) \<and> azZoneId az = Some z \<and> zone_offers az it))"
proof -
  from assms obtain r r' where r: "api None = Ok r" "processAvailableResourcesResponse r = Ok (instanceTypesOfferings p')"
    and r': "api (Some ''SpotAsPriceGo'') = Ok r'"
      "processAvailableResourcesResponse r' = Ok (spotInstanceTypesOfferings p')"
    by (auto simp: UpdateInstanceTypeOfferings_def Let_def split: outcome.splits prod.splits)
  from response_zones[OF r(2)] obtain b od where "r = Some b" "abAvailableZones b = Some od"
    "\<And>z it. z \<in> set (zones_of (instanceTypesOfferings p') it) \<longleftrightarrow>
       (\<exists>az\<in>set od. in_stock (azStatusCategory az) \<and> azZoneId az = Some z \<and> zone_offers az it)" by metis
  moreover from response_zones[OF r'(2)] obtain b' spot where "r' = Some b'" "abAvailableZones b' = Some spot"
    "\<And>z it. z \<in> set (zones_of (spotInstanceTypesOfferings p') it) \<longleftrightarrow>
       (\<exists>az\<in>set spot. in_stock (azStatusCategory az) \<and> azZoneId az = Some z \<and> zone_offers az it)" by metis
  ultimately show ?thesis using r(1) r'(1) by blast
qed

text \<open>
  When ECS serves the instance types in pages linked by tokens, the refresh returns, the
  provider then holds every type of every page (with Terway: those with room for at least
  eleven ENI pods), and the change counter moves exactly when the hash of the list differs
  from the last one remembered.
\<close>

theorem refreshed_types_are_all_pages:
  assumes "serves_pages api None pgs"
    and "infos = (if cni = ClusterCNITypeTerway then filter terway_ok (concat (map pgItems pgs))
                  else concat (map pgItems pgs))"
  shows "\<exists>p'. UpdateInstanceTypes api (Ok cni) hash now p = Some (Ok (), p')
    \<and> instanceTypesInfo p' = infos
    \<and> (instanceTypesSeqNum p' \<noteq> instanceTypesSeqNum p \<longleftrightarrow>
         cache_get now ''instance-types'' (itpCm p) \<noteq> Some (hash infos))
    \<and> (0 \<le> now \<and> 0 < defaultExpiration (itpCm p) \<longrightarrow>
         cache_get now ''instance-types'' (itpCm p') = Some (hash infos))"
proof -
  have "getAllInstanceTypes api = Some (Ok (concat (map pgItems pgs)))"
    using token_loop_pages[OF assms(1), of "[]"] by (simp add: getAllInstanceTypes_def)
  then show ?thesis
    using assms(2) by (simp add: UpdateInstanceTypes_def HasChanged_def Let_def cache_get_set_default)
qed

section \<open>Witnesses\<close>

text \<open>A provider that knows one type, in stock in zone \<open>b\<close>, and a node class with one
  vSwitch there.\<close>

definition sample_itp :: instance_type_provider where
  "sample_itp = (NewInstanceTypeProvider ''cn-beijing'' (cache_new 60))
     \<lparr>instanceTypesInfo := [sample_info], instanceTypesOfferings := [(''ecs.g7.large'', [''b''])],
      spotInstanceTypesOfferings := [(''ecs.g7.large'', [''b''])]\<rparr>"

definition sample_env :: list_env where
  "sample_env =
     \<lparr>zonesHash = (\<lambda>_. 0), kcHash = (\<lambda>_. 0), leRnd = id, VMMemoryOverheadPercent = 0,
      lePricing = NewPricingProvider [(''cn-beijing'', [(''ecs.g7.large'', 2)])] ''cn-beijing'',
      leUnavailable = NewUnavailableOfferings, ClusterCNI = Ok ''Flannel''\<rparr>"

definition sample_nc :: ecs_nodeclass where
  "sample_nc = zero_nodeclass\<lparr>ncStatus := (ncStatus zero_nodeclass)\<lparr>stVSwitches :=
     [\<lparr>svID = ''vsw-1'', svZoneID = ''b''\<rparr>]\<rparr>\<rparr>"

lemma sample_validate: "validateState sample_nc sample_itp = None"
  by (simp add: validateState_def sample_nc_def sample_itp_def)

lemma sample_cache: "cache_get now k (instanceTypesCache sample_itp) = None"
  "defaultExpiration (instanceTypesCache sample_itp) = 60"
  by (simp_all add: sample_itp_def NewInstanceTypeProvider_def) (simp add: cache_new_def)

lemma sample_offerings:
  "createOfferings 1 (lePricing sample_env) (leUnavailable sample_env) ''ecs.g7.large''
     (map (zone_data_of sample_itp (vswitch_zones sample_nc) ''ecs.g7.large'') (allZones sample_itp)) \<noteq> []"
  by code_simp

lemma sample_list:
  "\<exists>it p'. itp_List sample_env 1 None sample_nc sample_itp = (Ok [it], p') \<and> itName it = ''ecs.g7.large''"
proof -
  let ?ofs = "createOfferings 1 (lePricing sample_env) (leUnavailable sample_env) ''ecs.g7.large''
     (map (zone_data_of sample_itp (vswitch_zones sample_nc) ''ecs.g7.large'') (allZones sample_itp))"
  obtain it where it: "NewInstanceType (leRnd sample_env) (VMMemoryOverheadPercent sample_env) sample_info
      empty_kubelet (itpRegion sample_itp) (SystemDisk (ncSpec sample_nc)) ?ofs ''Flannel'' = Ok (Some it)"
    using sample_offerings never_windows
    by (auto simp: NewInstanceType_def Let_def sample_info_def computeCapacity_def cpu_def ephemeralStorage_def
        nvidiaGPUs_def amdGPUs_def gpus_of_def DefaultSystemDisk_def sample_nc_def zero_nodeclass_def)
  have "type_of_info sample_env 1 empty_kubelet sample_nc (vswitch_zones sample_nc) ''Flannel'' sample_itp sample_info
      = Ok (Some it)"
    using it by (simp add: type_of_info_def sample_info_def)
  then have "fst (itp_List sample_env 1 None sample_nc sample_itp) = Ok [it]"
    by (simp add: itp_List_def Let_def sample_validate sample_cache)
       (simp add: sample_env_def sample_itp_def compact_def)
  moreover have "itName it = ''ecs.g7.large''"
    using NewInstanceType_Some[OF it] by (simp add: sample_info_def)
  ultimately show ?thesis by (metis prod.collapse)
qed

theorem launchable_iff_in_stock_witness:
  "\<exists>it p'. itp_List sample_env 1 None sample_nc sample_itp = (Ok [it], p')
     \<and> HasCompatible (launch_reqs CapacityTypeSpot ''b'') (AvailableOfferings (Offerings it))
     \<and> \<not> HasCompatible (launch_reqs CapacityTypeSpot ''c'') (AvailableOfferings (Offerings it))"
proof -
  obtain it p' where l: "itp_List sample_env 1 None sample_nc sample_itp = (Ok [it], p')"
    and n: "itName it = ''ecs.g7.large''" using sample_list by blast
  have f: "\<not> IsUnavailable 1 ''ecs.g7.large'' ''b'' CapacityTypeSpot (leUnavailable sample_env)"
    "SpotPrice ''ecs.g7.large'' ''b'' (lePricing sample_env) \<noteq> None"
    "\<exists>t zs. (t, zs) \<in> set (instanceTypesOfferings sample_itp) \<and> ''b'' \<in> set zs"
    "''b'' \<in> set (zones_of (spotInstanceTypesOfferings sample_itp) ''ecs.g7.large'')"
    unfolding in_allZones_iff[symmetric] by code_simp+
  have "HasCompatible (launch_reqs CapacityTypeSpot z) (AvailableOfferings (Offerings it)) \<longleftrightarrow> z = ''b''" for z
    using launchable_iff_in_stock[OF sample_cache(1) l _ refl, of it CapacityTypeSpot z] n f
    by (auto simp: sample_nc_def)
  with l show ?thesis by simp
qed

theorem offerings_mutually_exclusive_witness:
  "distinct (map (\<lambda>off. (req_any id (reqs_get (ofRequirements off) CapacityTypeLabelKey),
        req_any id (reqs_get (ofRequirements off) LabelTopologyZone)))
      (createOfferings 1 (lePricing sample_env) NewUnavailableOfferings ''ecs.g7.large''
        [\<lparr>zdID = ''a'', zdAvailable = True, SpotAvailable = False\<rparr>,
         \<lparr>zdID = ''b'', zdAvailable = True, SpotAvailable = True\<rparr>]))"
  by (rule offerings_mutually_exclusive) simp

theorem list_never_reads_other_epoch_witness:
  "\<exists>its p'. itp_List sample_env 1 None sample_nc sample_itp = (Ok its, p')
     \<and> cache_get 2 (list_key (sample_env\<lparr>leUnavailable := Flush NewUnavailableOfferings\<rparr>) empty_kubelet
          sample_nc sample_itp) (instanceTypesCache p') = None"
proof -
  obtain it p' where l: "itp_List sample_env 1 None sample_nc sample_itp = (Ok [it], p')"
    using sample_list by blast
  have "SeqNum (leUnavailable (sample_env\<lparr>leUnavailable := Flush NewUnavailableOfferings\<rparr>))
      \<noteq> SeqNum (leUnavailable sample_env)"
    by (simp add: sample_env_def Flush_def)
  with list_never_reads_other_epoch[OF l, of sample_itp "sample_env\<lparr>leUnavailable := Flush NewUnavailableOfferings\<rparr>"]
    sample_cache l show ?thesis by fastforce
qed

theorem list_shares_types_across_disks_witness:
  "\<exists>its p'. itp_List sample_env 1 None sample_nc sample_itp = (Ok its, p')
     \<and> fst (itp_List sample_env 2 None
          (sample_nc\<lparr>ncSpec := (ncSpec sample_nc)\<lparr>SystemDisk :=
             Some \<lparr>Categories = None, diskSize = Some 500, PerformanceLevel = None\<rparr>\<rparr>\<rparr>)
          (p'\<lparr>spotInstanceTypesOfferings := [(''ecs.g7.large'', [])]\<rparr>)) = Ok its"
proof -
  obtain it p' where l: "itp_List sample_env 1 None sample_nc sample_itp = (Ok [it], p')"
    using sample_list by blast
  have "sample_env = sample_env\<lparr>lePricing := lePricing sample_env, ClusterCNI := ClusterCNI sample_env\<rparr>"
    by simp
  from list_shares_types_across_disks[OF l sample_cache(1) _ _ _ refl this, of 2
      "Some \<lparr>Categories = None, diskSize = Some 500, PerformanceLevel = None\<rparr>" "(''ecs.g7.large'', [])" "[]"]
  show ?thesis using l sample_cache(2) by auto
qed

definition sample_available :: "string option \<Rightarrow> available_body option outcome" where
  "sample_available strategy = Ok (Some \<lparr>abAvailableZones = Some
     [\<lparr>azZoneId = Some ''b'', azStatusCategory = Some ''WithStock'', azAvailableResources = Some
        [Some [\<lparr>srValue = Some ''ecs.g7.large'', srStatusCategory = Some ''WithStock''\<rparr>]]\<rparr>],
     abRequestId = None\<rparr>)"

theorem refreshed_offerings_match_response_witness:
  "''b'' \<in> set (zones_of (instanceTypesOfferings (snd (UpdateInstanceTypeOfferings sample_available
     (\<lambda>_. 7) 1 sample_itp))) ''ecs.g7.large'')"
proof -
  let ?r = "UpdateInstanceTypeOfferings sample_available (\<lambda>_. 7) 1 sample_itp"
  have "fst ?r = Ok ()"
    by (simp add: UpdateInstanceTypeOfferings_def sample_available_def processAvailableResourcesResponse_def
        processAvailableResources_def process_resource_def in_stock_def Let_def HasChanged_def)
  then have "?r = (Ok (), snd ?r)" by (metis prod.collapse)
  from refreshed_offerings_match_response[OF this] show ?thesis
    by (fastforce simp: sample_available_def in_stock_def zone_offers_def)
qed

theorem refreshed_types_are_all_pages_witness:
  "\<exists>p'. UpdateInstanceTypes (\<lambda>t. if t = None
        then Ok (Some \<lparr>pgItems = [sample_info], pgNextToken = Some ''2''\<rparr>)
        else Ok (Some \<lparr>pgItems = [sample_info], pgNextToken = Some []\<rparr>))
      (Ok ''terway-eniip'') (\<lambda>_. 7) 1 sample_itp = Some (Ok (), p')
    \<and> instanceTypesInfo p' = [sample_info, sample_info]"
  using refreshed_types_are_all_pages[of "\<lambda>t. if t = None
        then Ok (Some \<lparr>pgItems = [sample_info], pgNextToken = Some ''2''\<rparr>)
        else Ok (Some \<lparr>pgItems = [sample_info], pgNextToken = Some []\<rparr>)"
      "[\<lparr>pgItems = [sample_info], pgNextToken = Some ''2''\<rparr>,
        \<lparr>pgItems = [sample_info], pgNextToken = Some []\<rparr>]" _ "''terway-eniip''" "\<lambda>_. 7" 1 sample_itp]
  by (auto simp: ClusterCNITypeTerway_def terway_ok_def TerwayMinENIRequirements_def sample_info_def)

end
