(* ===== verification/Ack.thy ===== *)
theory Ack
  imports Apis Go_Cache Go_Regexp Go_Sort "HOL-Library.Sublist"
begin

text \<open>
  The ACK provider: \<^verbatim>\<open>src/pkg/providers/ack/ack.go\<close>. It reads the cluster's network
  plug-in, chooses the container runtime of a node pool, and turns the cluster's attach script
  into the user data of a node. The ACK API, the syntax analysis of JSON text and
  \<^verbatim>\<open>sort.Slice\<close> are parameters; \<open>sort_contract\<close> says what is documented of
  the last, and Go's insertion sort (the one used up to twelve elements) is shown to keep it.
\<close>

section \<open>Base64\<close>

text \<open>\<^verbatim>\<open>base64.StdEncoding\<close>: three bytes give four characters, with padding.\<close>

definition b64_char :: "nat \<Rightarrow> char" where
  "b64_char n =
     char_of (if n < 26 then 65 + n else if n < 52 then 71 + n else if n < 62 then n - 4
              else if n = 62 then 43 else 47)"

fun EncodeToString :: "string \<Rightarrow> string" where
  "EncodeToString (a # b # c # s) =
     (let x = of_char a :: nat; y = of_char b :: nat; z = of_char c :: nat in
      b64_char (x div 4) # b64_char (x mod 4 * 16 + y div 16) # b64_char (y mod 16 * 4 + z div 64)
      # b64_char (z mod 64) # EncodeToString s)"
| "EncodeToString [a, b] =
     (let x = of_char a :: nat; y = of_char b :: nat in
      [b64_char (x div 4), b64_char (x mod 4 * 16 + y div 16), b64_char (y mod 16 * 4), CHR ''=''])"
| "EncodeToString [a] =
     (let x = of_char a :: nat in [b64_char (x div 4), b64_char (x mod 4 * 16), CHR ''='', CHR ''=''])"
| "EncodeToString [] = []"

text \<open>What the node does with it: the decoder of the standard alphabet.\<close>

definition b64_val :: "char \<Rightarrow> nat" where
  "b64_val c = (let n = of_char c :: nat in
     if 97 \<le> n then n - 71 else if 65 \<le> n then n - 65 else if 48 \<le> n then n + 4
     else if n = 43 then 62 else 63)"

fun b64_decode :: "string \<Rightarrow> string" where
  "b64_decode (a # b # c # d # s) =
     (let x = b64_val a; y = b64_val b; z = b64_val c; w = b64_val d in
      if c = CHR ''='' then [char_of (x * 4 + y div 16)]
      else if d = CHR ''='' then [char_of (x * 4 + y div 16), char_of (y mod 16 * 16 + z div 4)]
      else char_of (x * 4 + y div 16) # char_of (y mod 16 * 16 + z div 4)
        # char_of (z mod 4 * 64 + w) # b64_decode s)"
| "b64_decode _ = []"

section \<open>JSON\<close>

text \<open>JSON values; which text denotes which value is a parameter of the operations below.
  Decoding into a struct: keys match a field name regardless of case, later members overwrite
  earlier ones, null is skipped, and a value of another kind is an error.\<close>

datatype json = JNull | JBool bool | JNumber string | JString string | JArray "json list"
  | JObject "(string \<times> json) list"

definition field_is :: "string \<Rightarrow> string \<Rightarrow> bool" where
  "field_is name k = (ToLower k = ToLower name)"

definition type_error :: gerror where
  "type_error = ErrorString ''json: cannot unmarshal into Go value''"

fun decode_network :: "json \<Rightarrow> string \<Rightarrow> string \<times> bool" where
  "decode_network (JObject ms) s =
     fold (\<lambda>(k, v) (acc, ok). if field_is ''Network'' k
            then (case v of JString t \<Rightarrow> (t, ok) | JNull \<Rightarrow> (acc, ok) | _ \<Rightarrow> (acc, False))
            else (acc, ok)) ms (s, True)"
| "decode_network JNull s = (s, True)"
| "decode_network _ s = (s, False)"

fun decode_metadata :: "json \<Rightarrow> string outcome" where
  "decode_metadata (JObject ms) =
     (let (s, ok) = fold (\<lambda>(k, v) (acc, ok). if field_is ''Capabilities'' k
            then (let (acc', ok') = decode_network v acc in (acc', ok \<and> ok')) else (acc, ok)) ms ([], True)
      in if ok then Ok s else Err type_error)"
| "decode_metadata JNull = Ok []"
| "decode_metadata _ = Err type_error"

section \<open>State\<close>

record ack_provider =
  ackClusterID :: string
  clusterCNI :: string
  ackCache :: "string go_cache"

definition NewAckProvider :: "string \<Rightarrow> string go_cache \<Rightarrow> ack_provider" where
  "NewAckProvider clusterID c = \<lparr>ackClusterID = clusterID, clusterCNI = [], ackCache = c\<rparr>"

text \<open>\<open>describe\<close> is the metadata string of the cluster detail (\<open>None\<close> when a part of
  the response is missing), \<open>parse\<close> the JSON syntax.\<close>

definition GetClusterCNI ::
  "(string \<Rightarrow> json outcome) \<Rightarrow> string option outcome \<Rightarrow> ack_provider \<Rightarrow> string outcome \<times> ack_provider" where
  "GetClusterCNI parse describe p =
     (if clusterCNI p \<noteq> [] then (Ok (clusterCNI p), p)
      else case describe of
        Err e \<Rightarrow> (Err (Wrap ''failed to describe cluster: '' e), p)
      | Panic \<Rightarrow> (Panic, p)
      | Ok None \<Rightarrow> (Err (ErrorString ''empty cluster response''), p)
      | Ok (Some md) \<Rightarrow>
          (case outcome_wrap ''failed to unmarshal cluster metadata: ''
                  (outcome_bind (parse md) decode_metadata) of
             Ok n \<Rightarrow> (Ok n, p\<lparr>clusterCNI := n\<rparr>)
           | Err e \<Rightarrow> (Err e, p)
           | Panic \<Rightarrow> (Panic, p)))"

section \<open>The runtime of a node pool\<close>

text \<open>A node pool: \<open>NodepoolInfo\<close> with its \<open>IsDefault\<close>, \<open>Status\<close> with its
  \<open>HealthyNodes\<close>, \<open>KubernetesConfig\<close> with its runtime and version.\<close>

record ack_nodepool =
  NodepoolInfo :: "bool option option"
  npStatus :: "int option option"
  KubernetesConfig :: "(string option \<times> string option) option"

text \<open>The comparison handed to \<^verbatim>\<open>sort.Slice\<close>.\<close>

definition pool_less :: "ack_nodepool \<Rightarrow> ack_nodepool \<Rightarrow> bool" where
  "pool_less i j =
     (case (NodepoolInfo i, NodepoolInfo j) of
        (Some di, Some dj) \<Rightarrow>
          (let by_health = (case (npStatus i, npStatus j) of
                 (Some (Some hi), Some (Some hj)) \<Rightarrow> hj < hi
               | _ \<Rightarrow> False)
           in case (di, dj) of
                (Some a, Some b) \<Rightarrow> if a \<and> \<not> b then True else if \<not> a \<and> b then False else by_health
              | _ \<Rightarrow> by_health)
      | _ \<Rightarrow> False)"

type_synonym slice_sort = "(ack_nodepool \<Rightarrow> ack_nodepool \<Rightarrow> bool) \<Rightarrow> ack_nodepool list \<Rightarrow> ack_nodepool list"

text \<open>A nil entry of the list is dereferenced by the comparison, or as the chosen pool.\<close>

definition getClusterAttachRuntimeConfiguration ::
  "slice_sort \<Rightarrow> ack_nodepool option list option outcome \<Rightarrow> (string \<times> string) outcome" where
  "getClusterAttachRuntimeConfiguration sort_slice describe =
     outcome_bind describe (\<lambda>r. case r of
        None \<Rightarrow> Err (ErrorString ''empty describe cluster nodepools response'')
      | Some entries \<Rightarrow>
          (if entries = [] then Err (ErrorString ''no nodepool found'')
           else outcome_bind (outcome_mapM deref entries) (\<lambda>nodepools.
              case sort_slice pool_less nodepools of
                [] \<Rightarrow> Panic
              | target # _ \<Rightarrow>
                  (case KubernetesConfig target of
                     Some (Some runtime, Some version) \<Rightarrow> Ok (runtime, version)
                   | _ \<Rightarrow> Err (ErrorString ''target describe cluster nodepool is empty'')))))"

lemma outcome_mapM_deref_Some [simp]: "outcome_mapM deref (map Some xs) = Ok xs"
  by (induction xs) (simp_all add: deref_def)

section \<open>The register script\<close>

definition defaultNodeLabel :: string where "defaultNodeLabel = ''k8s.aliyun.com=true''"

text \<open>\<^verbatim>\<open>json.Marshal(cfg)\<close> cannot fail for this struct.\<close>

definition dquote :: char where "dquote = char_of (34::nat)"

definition quoted :: "string \<Rightarrow> string" where "quoted s = dquote # s @ [dquote]"

definition convertNodeClassKubeletConfigToACKNodeConfig :: "kubelet_configuration \<Rightarrow> string" where
  "convertNodeClassKubeletConfigToACKNodeConfig kc =
     EncodeToString (''{'' @ quoted ''kubelet_config'' @ '':{''
       @ (case MaxPods kc of None \<Rightarrow> [] | Some n \<Rightarrow> quoted ''maxPods'' @ '':'' @ itoa n) @ ''}}'')"

definition non_space :: "char \<Rightarrow> bool" where "non_space c = (\<not> space_char c)"

definition labelsRegex :: re where
  "labelsRegex = Seq (lit ''--labels'') (Seq (PlusC space_char) (PlusC non_space))"

definition runtimeRegex :: re where
  "runtimeRegex =
     Seq (PlusC space_char) (Seq (lit ''--runtime'') (Seq (PlusC space_char) (Seq (PlusC non_space)
       (Seq (PlusC space_char) (Seq (lit ''--runtime-version'') (Seq (PlusC space_char) (PlusC non_space)))))))"

definition unregisteredTaint :: string where
  "unregisteredTaint = UnregisteredTaintKey @ '':NoExecute''"

definition crlf :: string where "crlf = [char_of (13::nat), char_of (10::nat)]"

definition newline :: string where "newline = [char_of (10::nat)]"

definition bashHeader :: string where "bashHeader = ''#!/bin/bash'' @ newline @ newline"

definition labels_formatted :: "string \<Rightarrow> (string \<times> string) list \<Rightarrow> string" where
  "labels_formatted clusterID labels =
     foldl (\<lambda>acc (k, v). acc @ '','' @ k @ ''='' @ v)
       (defaultNodeLabel @ '',ack.aliyun.com='' @ clusterID) labels"

text \<open>The command before the runtime is set, and after. Neither the labels nor the cluster
  id contain \<^verbatim>\<open>$\<close>, so the replacement text stands for itself.\<close>

definition node_command :: "string \<Rightarrow> string \<Rightarrow> (string \<times> string) list \<Rightarrow> kubelet_configuration \<Rightarrow> string" where
  "node_command clusterID respStr labels kc =
     replace_all_re labelsRegex (''--labels '' @ labels_formatted clusterID labels)
       (ReplaceAll respStr crlf [])
     @ '' --node-config '' @ convertNodeClassKubeletConfigToACKNodeConfig kc
     @ '' --taints '' @ unregisteredTaint"

definition with_runtime :: "(string \<times> string) outcome \<Rightarrow> string \<Rightarrow> string outcome" where
  "with_runtime rt cmd =
     (case rt of
        Panic \<Rightarrow> Panic
      | Err e \<Rightarrow> Ok cmd
      | Ok (runtime, version) \<Rightarrow>
          Ok (replace_all_re runtimeRegex [] cmd @ '' --runtime '' @ runtime
              @ '' --runtime-version '' @ version))"

definition resolveUserData ::
  "(string \<times> string) outcome \<Rightarrow> string \<Rightarrow> string \<Rightarrow> (string \<times> string) list \<Rightarrow> kubelet_configuration \<Rightarrow>
   string outcome" where
  "resolveUserData rt clusterID respStr labels kc =
     outcome_map (\<lambda>cmd. EncodeToString (bashHeader @ cmd))
       (with_runtime rt (node_command clusterID respStr labels kc))"

text \<open>\<open>attach\<close> is the response of \<^verbatim>\<open>DescribeClusterAttachScripts\<close> (the body is
  read without a check), \<open>pools\<close> that of \<^verbatim>\<open>DescribeClusterNodePools\<close>.\<close>

record ack_env =
  attachScript :: "string option option outcome"
  clusterNodePools :: "ack_nodepool option list option outcome"
  sortSlice :: slice_sort

definition GetNodeRegisterScript ::
  "ack_env \<Rightarrow> int \<Rightarrow> (string \<times> string) list \<Rightarrow> kubelet_configuration \<Rightarrow> ack_provider \<Rightarrow>
   string outcome \<times> ack_provider" where
  "GetNodeRegisterScript env now labels kc p =
     (let rt = getClusterAttachRuntimeConfiguration (sortSlice env) (clusterNodePools env);
          resolve = (\<lambda>s. resolveUserData rt (ackClusterID p) s labels kc)
      in case cache_get now (ackClusterID p) (ackCache p) of
           Some s \<Rightarrow> (resolve s, p)
         | None \<Rightarrow>
             (case attachScript env of
                Err e \<Rightarrow> (Err e, p)
              | Panic \<Rightarrow> (Panic, p)
              | Ok None \<Rightarrow> (Panic, p)
              | Ok (Some body) \<Rightarrow>
                  (let s = StringValue body in
                   if s = [] then (Err (ErrorString ''empty node registration script''), p)
                   else (resolve s, p\<lparr>ackCache := cache_set_default now (ackClusterID p) s (ackCache p)\<rparr>))))"

section \<open>Lemmas\<close>

subsection \<open>Base64\<close>

lemma of_char_b64_char:
  "n < 64 \<Longrightarrow> (of_char (b64_char n) :: nat) =
     (if n < 26 then 65 + n else if n < 52 then 71 + n else if n < 62 then n - 4
      else if n = 62 then 43 else 47)"
  by (simp add: b64_char_def)

lemma b64_val_char: "n < 64 \<Longrightarrow> b64_val (b64_char n) = n \<and> b64_char n \<noteq> CHR ''=''"
proof -
  assume n: "n < 64"
  have "(of_char (b64_char n) :: nat) \<noteq> of_char (CHR ''='')"
    using n by (auto simp: of_char_b64_char)
  then have "b64_char n \<noteq> CHR ''=''" by metis
  with n show ?thesis by (auto simp: b64_val_def of_char_b64_char Let_def)
qed

lemma of_char_bound [simp]: "(of_char c :: nat) < 256"
  using of_char_mod_256[of c, where ?'a = nat] by (metis mod_less_divisor zero_less_numeral)

lemma b64_pieces:
  fixes x y z :: nat
  assumes "x < 256" "y < 256" "z < 256"
  shows "x div 4 < 64" "x mod 4 * 16 + y div 16 < 64" "y mod 16 * 4 + z div 64 < 64" "z mod 64 < 64"
    "x mod 4 * 16 < 64" "y mod 16 * 4 < 64"
    "x div 4 * 4 + (x mod 4 * 16 + y div 16) div 16 = x"
    "x div 4 * 4 + (x mod 4 * 16) div 16 = x"
    "(x mod 4 * 16 + y div 16) mod 16 * 16 + (y mod 16 * 4 + z div 64) div 4 = y"
    "(x mod 4 * 16 + y div 16) mod 16 * 16 + (y mod 16 * 4) div 4 = y"
    "(y mod 16 * 4 + z div 64) mod 4 * 64 + z mod 64 = z"
proof -
  have y: "y div 16 < 16" and z: "z div 64 < 4" using assms by simp_all
  have m: "x mod 4 < 4" "y mod 16 < 16" by simp_all
  show "x div 4 < 64" "z mod 64 < 64" using assms by simp_all
  show "x mod 4 * 16 + y div 16 < 64" "y mod 16 * 4 + z div 64 < 64" "x mod 4 * 16 < 64" "y mod 16 * 4 < 64"
    using y z m by linarith+
  have "(x mod 4 * 16 + y div 16) div 16 = x mod 4" using y by simp
  then show "x div 4 * 4 + (x mod 4 * 16 + y div 16) div 16 = x" by simp
  show "x div 4 * 4 + (x mod 4 * 16) div 16 = x" by simp
  have a: "(x mod 4 * 16 + y div 16) mod 16 = y div 16" using y by simp
  have b: "(y mod 16 * 4 + z div 64) div 4 = y mod 16" "(y mod 16 * 4 + z div 64) mod 4 = z div 64"
    using z by simp_all
  show "(x mod 4 * 16 + y div 16) mod 16 * 16 + (y mod 16 * 4 + z div 64) div 4 = y"
    unfolding a b by simp
  show "(x mod 4 * 16 + y div 16) mod 16 * 16 + (y mod 16 * 4) div 4 = y" unfolding a by simp
  show "(y mod 16 * 4 + z div 64) mod 4 * 64 + z mod 64 = z" unfolding b by simp
qed

lemma b64_roundtrip: "b64_decode (EncodeToString s) = s"
proof (induction s rule: EncodeToString.induct)
  case (1 a b c s)
  then show ?case
    using b64_pieces[of "of_char a" "of_char b" "of_char c"] by (simp add: Let_def b64_val_char)
next
  case (2 a b)
  then show ?case
    using b64_pieces[of "of_char a" "of_char b" 0] by (simp add: Let_def b64_val_char)
next
  case (3 a)
  then show ?case
    using b64_pieces[of "of_char a" 0 0] by (simp add: Let_def b64_val_char)
qed simp

subsection \<open>The order of node pools\<close>

definition pool_complete :: "ack_nodepool \<Rightarrow> bool" where
  "pool_complete p = (case (NodepoolInfo p, npStatus p) of (Some (Some _), Some (Some _)) \<Rightarrow> True | _ \<Rightarrow> False)"

definition is_default :: "ack_nodepool \<Rightarrow> bool" where
  "is_default p = (NodepoolInfo p = Some (Some True))"

definition healthy :: "ack_nodepool \<Rightarrow> int" where
  "healthy p = (case npStatus p of Some (Some h) \<Rightarrow> h | _ \<Rightarrow> 0)"

lemma pool_less_complete:
  "pool_complete i \<Longrightarrow> pool_complete j \<Longrightarrow>
   pool_less i j \<longleftrightarrow> (is_default i \<and> \<not> is_default j) \<or> (is_default i = is_default j \<and> healthy j < healthy i)"
  by (auto simp: pool_complete_def pool_less_def is_default_def healthy_def Let_def split: option.splits)

lemma pool_less_strict_weak:
  assumes "\<forall>p\<in>A. pool_complete p"
  shows "strict_weak_on A pool_less"
proof -
  have eq: "pool_less i j \<longleftrightarrow> (is_default i \<and> \<not> is_default j) \<or> (is_default i = is_default j \<and> healthy j < healthy i)"
    if "i \<in> A" "j \<in> A" for i j
    using pool_less_complete assms that by blast
  show ?thesis
    unfolding strict_weak_on_def by (intro conjI ballI impI; simp add: eq; linarith)
qed

subsection \<open>The taint survives the editing of the script\<close>

lemma in_matches_Seq:
  assumes "(t, cs, r) \<in> set (matches (Seq a b) s)"
  obtains t1 c1 r1 t2 c2 where "(t1, c1, r1) \<in> set (matches a s)" "(t2, c2, r) \<in> set (matches b r1)" "t = t1 @ t2"
  using assms by (fastforce simp: seq_matches_def)

lemma in_matches_PlusC:
  "(t, cs, r) \<in> set (matches (PlusC p) s) \<Longrightarrow> t \<noteq> [] \<and> (\<forall>c\<in>set t. p c)"
  by (auto dest: spans_split)

lemma in_matches_lit: "(t, cs, r) \<in> set (matches (lit w) s) \<Longrightarrow> t = w"
proof (induction w arbitrary: t cs r s)
  case (Cons c w)
  then obtain t1 c1 r1 t2 c2 where "(t1, c1, r1) \<in> set (matches (Cls (\<lambda>x. x = c)) s)"
    "(t2, c2, r) \<in> set (matches (lit w) r1)" "t = t1 @ t2"
    by (auto elim: in_matches_Seq simp del: matches.simps)
  with Cons.IH show ?case by (auto split: list.splits if_splits)
qed simp

lemma runtimeRegex_match:
  assumes "(t, cs, r) \<in> set (matches runtimeRegex s)"
  obtains A w y where "t = A @ ''--runtime-version'' @ w @ y" "w \<noteq> []" "\<forall>c\<in>set w. space_char c"
    "y \<noteq> []" "\<forall>c\<in>set y. \<not> space_char c"
proof -
  have tail: "\<exists>t' cs' s'. (t', cs', r) \<in> set (matches b s') \<and> suffix t' t"
    if "(t, cs, r) \<in> set (matches (Seq a b) s)" for a b t cs s
    using that by (elim in_matches_Seq) (auto simp: suffix_def)
  have tail2: "\<exists>t' cs' s'. (t', cs', r) \<in> set (matches b s') \<and> suffix t' t"
    if "\<exists>t' cs' s'. (t', cs', r) \<in> set (matches (Seq a b) s') \<and> suffix t' t" for a b t
    using that tail by (meson suffix_order.trans)
  have "\<exists>t' cs' s'. (t', cs', r) \<in> set (matches (Seq (lit ''--runtime-version'')
      (Seq (PlusC space_char) (PlusC non_space))) s') \<and> suffix t' t"
    by (rule tail2[OF tail2[OF tail2[OF tail2[OF tail[OF assms[unfolded runtimeRegex_def]]]]]])
  then obtain t' cs' s' where m: "(t', cs', r) \<in> set (matches (Seq (lit ''--runtime-version'')
      (Seq (PlusC space_char) (PlusC non_space))) s')" and s: "suffix t' t" by blast
  from m obtain l c1 r1 t2 c2 where 1: "(l, c1, r1) \<in> set (matches (lit ''--runtime-version'') s')"
    "(t2, c2, r) \<in> set (matches (Seq (PlusC space_char) (PlusC non_space)) r1)" "t' = l @ t2"
    by (rule in_matches_Seq)
  from 1(2) obtain w c3 r3 y c4 where 2: "(w, c3, r3) \<in> set (matches (PlusC space_char) r1)"
    "(y, c4, r) \<in> set (matches (PlusC non_space) r3)" "t2 = w @ y"
    by (rule in_matches_Seq)
  from s obtain A where "t = A @ t'" by (auto simp: suffix_def)
  moreover have "l = ''--runtime-version''" using 1(1) by (rule in_matches_lit)
  ultimately show thesis
    using that[of A w y] in_matches_PlusC[OF 2(1)] in_matches_PlusC[OF 2(2)] 1(3) 2(3)
    by (simp add: non_space_def)
qed

lemma non_space_append_space:
  assumes "w @ y = z @ z'" "z' \<noteq> []" "space_char (hd z')" "\<forall>c\<in>set w. space_char c" "\<forall>c\<in>set y. \<not> space_char c"
  shows "\<forall>c\<in>set z. space_char c"
proof -
  from assms(1) obtain us where "w = z @ us \<and> us @ y = z' \<or> w @ us = z \<and> y = us @ z'"
    by (auto simp: append_eq_append_conv2)
  then show ?thesis
  proof
    assume "w = z @ us \<and> us @ y = z'"
    with assms(4) show ?thesis by auto
  next
    assume *: "w @ us = z \<and> y = us @ z'"
    then have "hd z' \<in> set y" using assms(2) by simp
    with assms(3,5) show ?thesis by blast
  qed
qed

text \<open>A text that no match of the expression reaches into is kept.\<close>

lemma replace_all_keeps_suffix:
  assumes reach: "\<And>u t cs r. suffix u pre \<Longrightarrow> (t, cs, r) \<in> set (matches e (u @ T)) \<Longrightarrow> u \<noteq> [] \<Longrightarrow> length t \<le> length u"
    and "suffix u pre"
  shows "\<exists>w. replace_all_re e repl (u @ T) = w @ replace_all_re e repl T"
  using assms(2)
proof (induction "length u" arbitrary: u rule: less_induct)
  case less
  show ?case
  proof (cases u)
    case Nil
    then show ?thesis by simp
  next
    case (Cons c u')
    have skip: ?thesis if "replace_all_re e repl (u @ T) = c # replace_all_re e repl (u' @ T)"
      using less.hyps[of u'] less.prems Cons that by (auto simp: suffix_ConsD)
    show ?thesis
    proof (cases "matches e (u @ T)")
      case Nil
      then show ?thesis using Cons by (intro skip) (simp add: replace_all_re.simps)
    next
      case (Cons m ms)
      obtain t cs r where m: "m = (t, cs, r)" by (cases m)
      show ?thesis
      proof (cases t)
        case Nil
        then show ?thesis using Cons m \<open>u = c # u'\<close> by (intro skip) (simp add: replace_all_re.simps)
      next
        case (Cons d t')
        have "(t, cs, r) \<in> set (matches e (u @ T))" using \<open>matches e (u @ T) = m # ms\<close> m by simp
        then have split: "u @ T = t @ r" and len: "length t \<le> length u"
          using matches_split reach less.prems \<open>u = c # u'\<close> by blast+
        then obtain v where v: "u = t @ v" "r = v @ T"
          by (auto simp: append_eq_append_conv2)
        then have "suffix v pre" "length v < length u"
          using less.prems Cons by (auto simp: suffix_def)
        from less.hyps[OF this(2,1)] obtain w where "replace_all_re e repl r = w @ replace_all_re e repl T"
          using v(2) by blast
        moreover have "replace_all_re e repl (u @ T) = repl @ replace_all_re e repl r"
          using \<open>matches e (u @ T) = m # ms\<close> m Cons by (subst replace_all_re.simps) simp
        ultimately show ?thesis by simp
      qed
    qed
  qed
qed

lemma replace_all_no_match:
  assumes "\<And>v. suffix v s \<Longrightarrow> matches e v = []"
  shows "replace_all_re e repl s = s"
  using assms
proof (induction s)
  case Nil
  then show ?case by (simp add: replace_all_re.simps)
next
  case (Cons c s)
  then have "matches e (c # s) = []" "replace_all_re e repl s = s" by (simp_all add: suffix_ConsI)
  then show ?case by (simp add: replace_all_re.simps)
qed

lemma EncodeToString_chars: "set (EncodeToString s) \<subseteq> insert (CHR ''='') (b64_char ` {..<64})"
proof (induction s rule: EncodeToString.induct)
  case (1 a b c s)
  then show ?case
    using b64_pieces[of "of_char a" "of_char b" "of_char c"] by (simp add: Let_def)
next
  case (2 a b)
  then show ?case using b64_pieces[of "of_char a" "of_char b" 0] by (simp add: Let_def)
next
  case (3 a)
  then show ?case using b64_pieces[of "of_char a" 0 0] by (simp add: Let_def)
qed simp

lemma length_EncodeToString: "length s \<le> length (EncodeToString s)"
  by (induction s rule: EncodeToString.induct) (simp_all add: Let_def le_SucI)

lemma b64_no_space_dash:
  assumes "c \<in> set (EncodeToString s)"
  shows "\<not> space_char c \<and> c \<noteq> CHR ''-''"
proof -
  have "c \<in> insert (CHR ''='') (b64_char ` {..<64})" using EncodeToString_chars assms by (rule subsetD)
  then have "c = CHR ''='' \<or> (\<exists>n<64. c = b64_char n)" by auto
  then show ?thesis
  proof (elim disjE)
    assume "\<exists>n<64. c = b64_char n"
    then obtain n where n: "n < 64" "c = b64_char n" by blast
    then have "(of_char c :: nat) \<notin> {9, 10, 12, 13, 32, 45}" by (auto simp: of_char_b64_char)
    then have "\<not> space_char c" "(of_char c :: nat) \<noteq> of_char (CHR ''-'')" by (auto simp: space_char_def)
    then show ?thesis by metis
  qed (simp add: space_char_def)
qed

lemma node_config_shape:
  fixes kc :: kubelet_configuration
  defines "X \<equiv> convertNodeClassKubeletConfigToACKNodeConfig kc"
  shows "\<forall>c\<in>set X. \<not> space_char c \<and> c \<noteq> CHR ''-''" "8 \<le> length X"
proof -
  show "\<forall>c\<in>set X. \<not> space_char c \<and> c \<noteq> CHR ''-''"
    unfolding X_def convertNodeClassKubeletConfigToACKNodeConfig_def using b64_no_space_dash by blast
  show "8 \<le> length X"
    unfolding X_def convertNodeClassKubeletConfigToACKNodeConfig_def
    by (rule order_trans[OF _ length_EncodeToString]) (simp add: quoted_def)
qed

definition taintFlag :: string where
  "taintFlag = '' --taints '' @ unregisteredTaint"

lemma taintFlag_chars: "CHR ''v'' \<notin> set taintFlag" "taintFlag \<noteq> []" "space_char (hd taintFlag)"
  by (simp_all add: taintFlag_def unregisteredTaint_def UnregisteredTaintKey_def coreGroup_def space_char_def)

lemma append_longer:
  assumes "z @ T = x @ r" "length z < length x"
  shows "\<exists>z'. x = z @ z' \<and> T = z' @ r"
proof -
  from iffD1[OF append_eq_append_conv2 assms(1)]
  obtain us where "z = x @ us \<and> us @ T = r \<or> z @ us = x \<and> T = us @ r" by blast
  with assms(2) show ?thesis by auto
qed

text \<open>A word without blanks and with a letter that the flag lacks ends before the flag.\<close>

lemma keyword_before_flag:
  assumes eq: "u @ taintFlag = (A @ L) @ rest" and L: "\<And>c. c \<in> set L \<Longrightarrow> \<not> space_char c" "CHR ''v'' \<in> set L"
  shows "\<exists>z. u = A @ L @ z"
proof (rule ccontr)
  assume no: "\<nexists>z. u = A @ L @ z"
  from iffD1[OF append_eq_append_conv2 eq] obtain us where us: "u @ us = A @ L" "taintFlag = us @ rest"
    using no by fastforce
  have "us \<noteq> []" using us(1) no by auto
  with us(2) have "hd taintFlag = hd us" by (metis hd_append2)
  with taintFlag_chars(3) have sp: "space_char (hd us)" by simp
  from us(1) obtain vs where "u = A @ vs \<and> vs @ us = L \<or> u @ vs = A \<and> us = vs @ L"
    by (auto simp: append_eq_append_conv2)
  then show False
  proof
    assume "u = A @ vs \<and> vs @ us = L"
    then have "hd us \<in> set L" using \<open>us \<noteq> []\<close> by (metis Un_iff hd_in_set set_append)
    with L(1) sp show False by blast
  next
    assume "u @ vs = A \<and> us = vs @ L"
    then have "CHR ''v'' \<in> set taintFlag" using arg_cong[OF us(2), of set] L(2) by simp
    with taintFlag_chars(1) show False by blast
  qed
qed

lemma runtime_match_stops:
  assumes X: "\<forall>c\<in>set X. \<not> space_char c \<and> c \<noteq> CHR ''-''" "8 \<le> length X"
    and u: "suffix u (Q @ X)" "u \<noteq> []"
    and m: "(t, cs, r) \<in> set (matches runtimeRegex (u @ taintFlag))"
  shows "length t \<le> length u"
proof (rule ccontr)
  assume "\<not> length t \<le> length u"
  then have long: "length u < length t" by simp
  define L where "L = ''--runtime-version''"
  from m obtain A w y where t: "t = A @ L @ w @ y" and w: "\<forall>c\<in>set w. space_char c"
    and y: "\<forall>c\<in>set y. \<not> space_char c" unfolding L_def by (rule runtimeRegex_match)
  have eq: "u @ taintFlag = (A @ L) @ w @ y @ r" using matches_split[OF m] t by simp
  have L: "\<not> space_char c" if "c \<in> set L" for c using that by (auto simp: L_def space_char_def)
  have "CHR ''v'' \<in> set L" by (simp add: L_def)
  with keyword_before_flag[OF eq L] obtain z where z: "u = A @ L @ z" by blast
  with eq have "z @ taintFlag = (w @ y) @ r" by simp
  moreover have "length z < length (w @ y)" using long t z by simp
  ultimately obtain z' where z': "w @ y = z @ z'" "taintFlag = z' @ r"
    using append_longer[of z taintFlag "w @ y" r] by blast
  have "z' \<noteq> []" using z'(1) \<open>length z < length (w @ y)\<close> by auto
  moreover from this z'(2) have "hd taintFlag = hd z'" by (metis hd_append2)
  then have "space_char (hd z')" using taintFlag_chars(3) by simp
  ultimately have zs: "\<forall>c\<in>set z. space_char c" using non_space_append_space[OF z'(1) _ _ w y] by blast
  have "X \<noteq> []" using X(2) by auto
  then have lastu: "last u \<in> set X"
    using u by (metis append_is_Nil_conv last_append last_in_set suffix_def)
  have "z = []"
    using zs X(1) lastu z by (metis append_is_Nil_conv last_append last_in_set)
  then have s1: "suffix ''-version'' (Q @ X)"
    using z u(1) suffix_order.trans[of "''-version''" u] by (auto simp: L_def suffix_def)
  have "suffix X (Q @ X)" by (simp add: suffix_def)
  with s1 X(2) have "suffix ''-version'' X"
    using suffix_length_suffix by fastforce
  then have "CHR ''-'' \<in> set X" by (auto simp: suffix_def)
  with X(1) show False by blast
qed

lemma runtime_edit_keeps_taint:
  assumes "\<forall>c\<in>set X. \<not> space_char c \<and> c \<noteq> CHR ''-''" "8 \<le> length X"
  shows "\<exists>w. replace_all_re runtimeRegex [] (Q @ X @ taintFlag) = w @ taintFlag"
proof -
  have none: "matches runtimeRegex v = []" if "suffix v taintFlag" for v
  proof (rule ccontr)
    assume "matches runtimeRegex v \<noteq> []"
    then obtain t cs r where m: "(t, cs, r) \<in> set (matches runtimeRegex v)"
      by (cases "matches runtimeRegex v") auto
    from m obtain A w y where "t = A @ ''--runtime-version'' @ w @ y" by (rule runtimeRegex_match)
    moreover have "set t \<subseteq> set taintFlag"
      using matches_split[OF m] set_mono_suffix[OF that] by simp
    ultimately show False using taintFlag_chars(1) by auto
  qed
  have "\<exists>w. replace_all_re runtimeRegex [] ((Q @ X) @ taintFlag) = w @ replace_all_re runtimeRegex [] taintFlag"
    by (rule replace_all_keeps_suffix[of "Q @ X"]) (use runtime_match_stops[OF assms] in blast, simp)
  with replace_all_no_match[OF none] show ?thesis by simp
qed

fun the_script :: "string outcome \<Rightarrow> string" where
  "the_script (Ok s) = s"
| "the_script _ = []"

section \<open>Properties\<close>

text \<open>
  C33. The container runtime is the one of the default node pool; without one, or among
  several, it is the one of a pool with the most healthy nodes. Pools are assumed to be there and to carry both
  fields; \<^verbatim>\<open>sort.Slice\<close> may be any sort that keeps its documented contract.
\<close>

theorem runtime_of_best_pool:
  assumes "sort_contract srt" "pools \<noteq> []" "\<forall>p\<in>set pools. pool_complete p"
  shows "\<exists>p\<in>set pools.
      (\<forall>q\<in>set pools. (is_default q \<longrightarrow> is_default p) \<and> (is_default q = is_default p \<longrightarrow> healthy q \<le> healthy p))
      \<and> (\<forall>r v. KubernetesConfig p = Some (Some r, Some v) \<longrightarrow>
            getClusterAttachRuntimeConfiguration srt (Ok (Some (map Some pools))) = Ok (r, v))"
proof -
  have ms: "mset (srt pool_less pools) = mset pools"
    and sorted: "sorted_wrt (\<lambda>a b. \<not> pool_less b a) (srt pool_less pools)"
    using assms(1)[unfolded sort_contract_def] pool_less_strict_weak[OF assms(3)] by blast+
  have set: "set (srt pool_less pools) = set pools" by (rule mset_eq_setD[OF ms])
  with assms(2) obtain p ps where ps: "srt pool_less pools = p # ps" by (cases "srt pool_less pools") auto
  have p: "p \<in> set pools" using set ps by auto
  have best: "(is_default q \<longrightarrow> is_default p) \<and> (is_default q = is_default p \<longrightarrow> healthy q \<le> healthy p)"
    if q: "q \<in> set pools" for q
  proof -
    have "q = p \<or> \<not> pool_less q p" using sorted ps q set by auto
    then show ?thesis using pool_less_complete[of q p] assms(3) p q by auto
  qed
  moreover have "getClusterAttachRuntimeConfiguration srt (Ok (Some (map Some pools))) = Ok (r, v)"
    if "KubernetesConfig p = Some (Some r, Some v)" for r v
    using ps assms(2) that by (simp add: getClusterAttachRuntimeConfiguration_def)
  ultimately show ?thesis using p by blast
qed

text \<open>
  C34. Whatever the attach script and the labels are, the user data of a node decodes to a
  bash script that registers the node with the unregistered taint, and that ends with the
  runtime of the chosen pool when there is one. Editing the script's old runtime out never
  damages the taint.
\<close>

theorem register_script_taints_node:
  assumes "GetNodeRegisterScript env now labels kc p = (Ok s, p')"
  shows "\<exists>cmd. b64_decode s = bashHeader @ cmd \<and> Contains cmd ('' --taints '' @ unregisteredTaint)
    \<and> (\<forall>r v. getClusterAttachRuntimeConfiguration (sortSlice env) (clusterNodePools env) = Ok (r, v) \<longrightarrow>
         HasSuffix cmd ('' --runtime '' @ r @ '' --runtime-version '' @ v))"
proof -
  let ?rt = "getClusterAttachRuntimeConfiguration (sortSlice env) (clusterNodePools env)"
  obtain resp where "resolveUserData ?rt (ackClusterID p) resp labels kc = Ok s"
    using assms by (auto simp: GetNodeRegisterScript_def Let_def split: option.splits outcome.splits if_splits)
  then obtain cmd where cmd: "with_runtime ?rt (node_command (ackClusterID p) resp labels kc) = Ok cmd"
    and s: "s = EncodeToString (bashHeader @ cmd)"
    by (auto simp: resolveUserData_def)
  obtain Q where base: "node_command (ackClusterID p) resp labels kc
      = Q @ convertNodeClassKubeletConfigToACKNodeConfig kc @ taintFlag"
    using that[of "_ @ '' --node-config ''"] unfolding node_command_def taintFlag_def by simp
  obtain w where w: "replace_all_re runtimeRegex [] (node_command (ackClusterID p) resp labels kc) = w @ taintFlag"
    using runtime_edit_keeps_taint[OF node_config_shape] unfolding base by blast
  have "\<exists>u v. cmd = u @ taintFlag @ v"
  proof (cases ?rt)
    case (Ok rv)
    then show ?thesis using cmd w by (cases rv) (auto simp: with_runtime_def)
  next
    case (Err e)
    then have "cmd = (Q @ convertNodeClassKubeletConfigToACKNodeConfig kc) @ taintFlag @ []"
      using cmd base by (simp add: with_runtime_def)
    then show ?thesis by blast
  next
    case Panic
    then show ?thesis using cmd by (simp add: with_runtime_def)
  qed
  then have "Contains cmd taintFlag" by (simp add: Contains_iff)
  moreover have "HasSuffix cmd ('' --runtime '' @ r @ '' --runtime-version '' @ v)" if "?rt = Ok (r, v)" for r v
  proof -
    define e where "e = '' --runtime '' @ r @ '' --runtime-version '' @ v"
    have "cmd = (w @ taintFlag) @ e" using cmd that w by (simp add: with_runtime_def e_def)
    then show ?thesis unfolding e_def[symmetric] by (simp add: HasSuffix_def)
  qed
  ultimately show ?thesis using s by (auto simp: b64_roundtrip taintFlag_def)
qed

definition sample_pools :: "ack_nodepool list" where
  "sample_pools =
     [\<lparr>NodepoolInfo = Some (Some False), npStatus = Some (Some 9), KubernetesConfig = Some (Some ''docker'', Some ''19'')\<rparr>,
      \<lparr>NodepoolInfo = Some (Some True), npStatus = Some (Some 1), KubernetesConfig = Some (Some ''containerd'', Some ''1.6'')\<rparr>]"

theorem runtime_of_best_pool_witness:
  "getClusterAttachRuntimeConfiguration insertionSort (Ok (Some (map Some sample_pools))) = Ok (''containerd'', ''1.6'')"
  using runtime_of_best_pool[OF insertionSort_contract, of sample_pools]
  by (auto simp: sample_pools_def pool_complete_def is_default_def)

theorem register_script_taints_node_witness:
  "\<exists>cmd. b64_decode (the_script (fst (GetNodeRegisterScript
      \<lparr>attachScript = Ok (Some (Some ''attach --labels a=b'')), clusterNodePools = Ok (Some (map Some sample_pools)),
       sortSlice = insertionSort\<rparr> 1 [(''k'', ''v'')] empty_kubelet (NewAckProvider ''c1'' (cache_new 60)))))
      = bashHeader @ cmd \<and> Contains cmd ('' --taints '' @ unregisteredTaint)
      \<and> HasSuffix cmd '' --runtime containerd --runtime-version 1.6''"
proof -
  let ?env = "\<lparr>attachScript = Ok (Some (Some ''attach --labels a=b'')), clusterNodePools = Ok (Some (map Some sample_pools)),
       sortSlice = insertionSort\<rparr>"
  let ?p = "NewAckProvider ''c1'' (cache_new 60)"
  have rt: "getClusterAttachRuntimeConfiguration (sortSlice ?env) (clusterNodePools ?env) = Ok (''containerd'', ''1.6'')"
    by (simp add: getClusterAttachRuntimeConfiguration_def sample_pools_def insertionSort_def pool_less_def)
  then obtain s where "fst (GetNodeRegisterScript ?env 1 [(''k'', ''v'')] empty_kubelet ?p) = Ok s"
    by (simp add: GetNodeRegisterScript_def NewAckProvider_def resolveUserData_def with_runtime_def Let_def)
  then have "GetNodeRegisterScript ?env 1 [(''k'', ''v'')] empty_kubelet ?p
      = (Ok s, snd (GetNodeRegisterScript ?env 1 [(''k'', ''v'')] empty_kubelet ?p))" by (metis prod.collapse)
  from register_script_taints_node[OF this] rt \<open>fst _ = Ok s\<close> show ?thesis by auto
qed

end
