(* ===== verification/Instance_Provider.thy ===== *)
theory Instance_Provider
  imports Instance Instance_Type_Provider Image_Family Ack
begin

text \<open>
  The instance provider: \<^verbatim>\<open>src/pkg/providers/instance/instance.go\<close>. \<open>Create\<close>
  filters and orders the instance types, chooses the capacity type and the vSwitches, asks ECS
  for an auto provisioning group of one instance and marks what had no stock as unavailable;
  \<open>Get\<close>, \<open>List\<close>, \<open>Delete\<close> and \<open>CreateTags\<close> work on a cache that is at
  most fifteen seconds old. The ECS API and the random source are parameters; listing the
  instances is a loop over pages, so operations that list return \<open>None\<close> when the pages never
  end.
\<close>

definition instanceTypeFlexibilityThreshold :: nat where "instanceTypeFlexibilityThreshold = 5"
definition maxInstanceTypes :: nat where "maxInstanceTypes = 20"
definition instanceCacheExpiration :: int where "instanceCacheExpiration = 15 * Second"

section \<open>Which instance types to launch\<close>

definition claim_reqs :: "node_claim \<Rightarrow> requirements" where
  "claim_reqs cl = NewNodeSelectorRequirementsWithMinValues (clRequirements cl)"

definition is_exotic :: "instance_type \<Rightarrow> bool" where
  "is_exotic it =
     (list_ex (\<lambda>sz. Contains sz ''metal'') (reqValues (reqs_get (itRequirements it) LabelInstanceSize))
      \<or> quantity (itCapacity it) ResourceAMDGPU \<noteq> 0 \<or> quantity (itCapacity it) ResourceNVIDIAGPU \<noteq> 0)"

definition filterExoticInstanceTypes :: "instance_type list \<Rightarrow> instance_type list" where
  "filterExoticInstanceTypes its =
     (let generic = filter (\<lambda>it. \<not> is_exotic it) its in if generic \<noteq> [] then generic else its)"

definition offering_capacity_type :: "(int \<Rightarrow> int) \<Rightarrow> offering \<Rightarrow> string" where
  "offering_capacity_type rnd off = req_any rnd (reqs_get (ofRequirements off) CapacityTypeLabelKey)"

definition isMixedCapacityLaunch :: "(int \<Rightarrow> int) \<Rightarrow> node_claim \<Rightarrow> instance_type list \<Rightarrow> bool" where
  "isMixedCapacityLaunch rnd cl its =
     (let reqs = claim_reqs cl; ct = reqs_get reqs CapacityTypeLabelKey;
          cands = CompatibleOfferings reqs (concat (map (\<lambda>it. AvailableOfferings (Offerings it)) its))
      in req_has ct CapacityTypeSpot \<and> req_has ct CapacityTypeOnDemand
         \<and> list_ex (\<lambda>off. offering_capacity_type rnd off = CapacityTypeSpot) cands
         \<and> list_ex (\<lambda>off. offering_capacity_type rnd off \<noteq> CapacityTypeSpot) cands)"

text \<open>The price of the cheapest available on-demand offering; \<open>MaxFloat64\<close> without one.\<close>

definition cheapest_on_demand :: "(int \<Rightarrow> int) \<Rightarrow> instance_type list \<Rightarrow> price" where
  "cheapest_on_demand rnd its =
     fold (\<lambda>off m. if offering_capacity_type rnd off = CapacityTypeOnDemand \<and> Price off < m then Price off else m)
       (concat (map (\<lambda>it. AvailableOfferings (Offerings it)) its)) MaxFloat64"

definition filterUnwantedSpot :: "(int \<Rightarrow> int) \<Rightarrow> instance_type list \<Rightarrow> instance_type list" where
  "filterUnwantedSpot rnd its =
     filter (\<lambda>it. AvailableOfferings (Offerings it) \<noteq> []
       \<and> Price (Cheapest (AvailableOfferings (Offerings it))) \<le> cheapest_on_demand rnd its) its"

definition filterInstanceTypes :: "(int \<Rightarrow> int) \<Rightarrow> node_claim \<Rightarrow> instance_type list \<Rightarrow> instance_type list" where
  "filterInstanceTypes rnd cl its =
     (let its' = filterExoticInstanceTypes its in
      if isMixedCapacityLaunch rnd cl its' then filterUnwantedSpot rnd its' else its')"

section \<open>Capacity type, images, vSwitches\<close>

definition getCapacityType :: "node_claim \<Rightarrow> instance_type list \<Rightarrow> string" where
  "getCapacityType cl its =
     (let reqs = claim_reqs cl in
      if req_has (reqs_get reqs CapacityTypeLabelKey) CapacityTypeSpot
         \<and> (let reqs' = AList.update CapacityTypeLabelKey
                 (NewRequirement CapacityTypeLabelKey OpIn [CapacityTypeSpot]) reqs
            in list_ex (\<lambda>it. HasCompatible reqs' (AvailableOfferings (Offerings it))) its)
      then CapacityTypeSpot else CapacityTypeOnDemand)"

definition checkODFallback :: "node_claim \<Rightarrow> instance_type list \<Rightarrow> gerror option" where
  "checkODFallback cl its =
     (if getCapacityType cl its \<noteq> CapacityTypeOnDemand
         \<or> \<not> req_has (reqs_get (claim_reqs cl) CapacityTypeLabelKey) CapacityTypeSpot then None
      else if length its < instanceTypeFlexibilityThreshold
      then Some (ErrorString ''at least 5 instance types are recommended when flexible to spot but requesting on-demand'')
      else None)"

definition mapToInstanceTypes :: "instance_type list \<Rightarrow> status_image list \<Rightarrow> (string \<times> string) list" where
  "mapToInstanceTypes its images =
     fold (\<lambda>it m.
       case find (\<lambda>img. IsCompatible (itRequirements it) (NewNodeSelectorRequirements (siRequirements img))) images of
         Some img \<Rightarrow> AList.update (itName it) (siID img) m
       | None \<Rightarrow> m) its []"

definition resolveKubeletConfiguration :: "ecs_nodeclass \<Rightarrow> kubelet_configuration" where
  "resolveKubeletConfiguration nc =
     (case KubeletConfiguration (ncSpec nc) of None \<Rightarrow> empty_kubelet | Some k \<Rightarrow> k)"

text \<open>One pass over the offerings: the vSwitch and price of the cheapest so far.\<close>

definition cheapest_step ::
  "(int \<Rightarrow> int) \<Rightarrow> (string \<times> vswitch) list \<Rightarrow> requirements \<Rightarrow> offering \<Rightarrow> string \<times> price \<Rightarrow> string \<times> price" where
  "cheapest_step rnd zonal reqs off acc =
     (if \<not> IsCompatible reqs (ofRequirements off) then acc
      else case map_of zonal (req_any rnd (reqs_get (ofRequirements off) LabelTopologyZone)) of
        None \<Rightarrow> acc
      | Some vsw \<Rightarrow> if Price off < snd acc then (vwID vsw, Price off) else acc)"

text \<open>\<open>draw\<close> is the random number of this call; \<^verbatim>\<open>rand.Int\<close> returns it below the
  number of zones.\<close>

definition getVSwitchID ::
  "(int \<Rightarrow> int) \<Rightarrow> nat \<Rightarrow> instance_type \<Rightarrow> (string \<times> vswitch) list \<Rightarrow> requirements \<Rightarrow> string \<Rightarrow> string \<Rightarrow> string" where
  "getVSwitchID rnd draw it zonal reqs capacityType policy =
     (if (capacityType = CapacityTypeOnDemand \<or> policy = VSwitchSelectionPolicyBalanced) \<and> zonal \<noteq> []
      then vwID (snd (zonal ! (draw mod length zonal)))
      else fst (fold (cheapest_step rnd zonal reqs) (Offerings it) ([], MaxFloat64)))"

definition getTags :: "string \<Rightarrow> ecs_nodeclass \<Rightarrow> node_claim \<Rightarrow> (string \<times> string) list" where
  "getTags clusterID nc cl =
     assign (specTags (ncSpec nc))
       [(''kubernetes.io/cluster/'' @ clusterID, ''owned''),
        (NodePoolLabelKey, map_get (clLabels cl) NodePoolLabelKey),
        (ECSClusterIDTagKey, clusterID),
        (LabelNodeClass, ncName nc)]"

section \<open>The request\<close>

text \<open>What a launch depends on besides its arguments, and what it changes.\<close>

record apg_body =
  abLaunchResults :: "launch_result option list option"
  abApgRequestId :: "string option"

record apg_response =
  apgStatusCode :: "int option"
  apgBody :: "apg_body option"

record launch_env =
  lvClusterID :: string
  lvLimiter :: "gerror option"
  lvAny :: "int \<Rightarrow> int"
  lvDraw :: "nat \<Rightarrow> nat"
  lvDiskOrder :: "instance_type list \<Rightarrow> instance_type list"
  lvDiskApi :: "string \<Rightarrow> disk_body option outcome"
  lvAck :: ack_env
  lvCreateGroup :: "apg_request \<Rightarrow> apg_response option outcome"

record launch_state =
  lsUnavailable :: unavailable_offerings
  lsVSwitches :: vswitch_provider
  lsDisks :: "string list go_cache"
  lsAck :: ack_provider

text \<open>One launch template per instance type that has a vSwitch, at most twenty; the counter
  numbers the calls, so that each draws its own random number.\<close>

fun launch_configs ::
  "launch_env \<Rightarrow> (string \<times> vswitch) list \<Rightarrow> requirements \<Rightarrow> string \<Rightarrow> string \<Rightarrow> nat \<Rightarrow> launch_config list \<Rightarrow>
   instance_type list \<Rightarrow> launch_config list" where
  "launch_configs env zonal reqs ct policy n acc [] = acc"
| "launch_configs env zonal reqs ct policy n acc (it # its) =
     (if maxInstanceTypes - 1 < length acc then acc
      else let v = getVSwitchID (lvAny env) (lvDraw env n) it zonal reqs ct policy
           in launch_configs env zonal reqs ct policy (Suc n)
                (if v = [] then acc else acc @ [\<lparr>lcInstanceType = itName it, lcVSwitchId = v\<rparr>]) its)"

definition group_request ::
  "string \<Rightarrow> ecs_nodeclass \<Rightarrow> launch_config list \<Rightarrow> string \<Rightarrow> string \<Rightarrow> string \<Rightarrow> (string \<times> string) list \<Rightarrow> apg_request" where
  "group_request region nc configs imageID userData capacityType tags =
     (let disk = (case SystemDisk (ncSpec nc) of None \<Rightarrow> DefaultSystemDisk | Some d \<Rightarrow> d);
          spot = (capacityType = CapacityTypeSpot)
      in \<lparr>apgRegionId = region, TotalTargetCapacity = ''1'', SpotAllocationStrategy = ''lowest-price'',
          PayAsYouGoAllocationStrategy = ''lowest-price'', LaunchTemplateConfig = configs,
          ExcessCapacityTerminationPolicy = ''termination'', AutoProvisioningGroupType = ''instant'',
          apgImageId = imageID, apgUserData = userData, apgResourceGroupId = ResourceGroupID (ncSpec nc),
          apgSecurityGroupIds = map ssgID (stSecurityGroups (ncStatus nc)), apgSecurityGroupId = None,
          SystemDiskSize = diskSize disk, SystemDiskPerformanceLevel = PerformanceLevel disk,
          apgInstanceTags = tags, apgGroupTags = [(Group @ ''/autoprovisiongroup'', ''true'')],
          SystemDiskConfig = (case Categories disk of None \<Rightarrow> [] | Some cs \<Rightarrow> cs),
          SpotTargetCapacity = (if spot then ''1'' else ''0''),
          PayAsYouGoTargetCapacity = (if spot then ''0'' else ''1'')\<rparr>)"

definition getProvisioningGroup ::
  "launch_env \<Rightarrow> int \<Rightarrow> string \<Rightarrow> ecs_nodeclass \<Rightarrow> node_claim \<Rightarrow> instance_type list \<Rightarrow> (string \<times> vswitch) list \<Rightarrow>
   string \<Rightarrow> (string \<times> string) list \<Rightarrow> launch_state \<Rightarrow> apg_request outcome \<times> launch_state" where
  "getProvisioningGroup env now region nc cl its zonal capacityType tags st =
     (case FilterInstanceTypesBySystemDisk (lvDiskOrder env) (lvDiskApi env) now nc its (lsDisks st) of
        Err e \<Rightarrow> (Err e, st)
      | Panic \<Rightarrow> (Panic, st)
      | Ok (kept, disks) \<Rightarrow>
          (let st1 = st\<lparr>lsDisks := disks\<rparr>;
               images = mapToInstanceTypes kept (stImages (ncStatus nc));
               reqs = AList.update CapacityTypeLabelKey
                 (NewRequirement CapacityTypeLabelKey OpIn [capacityType]) (claim_reqs cl);
               configs = launch_configs env zonal reqs capacityType (VSwitchSelectionPolicy (ncSpec nc)) 0 [] kept
           in if kept = [] then (Err (ErrorString ''no instance types match the system disk requirements''), st1)
              else if configs = []
              then (Err (ErrorString ''no capacity offerings are currently available given the constraints''), st1)
              else
                (let (script, ack) = GetNodeRegisterScript (lvAck env) now
                       (assign (clLabels cl) [(CapacityTypeLabelKey, capacityType)])
                       (resolveKubeletConfiguration nc) (lsAck st1);
                     st2 = st1\<lparr>lsAck := ack\<rparr>
                 in case script of
                      Err e \<Rightarrow> (Err e, st2)
                    | Panic \<Rightarrow> (Panic, st2)
                    | Ok userData \<Rightarrow>
                        (case map_of images (itName (hd kept)) of
                           None \<Rightarrow> (Err (ErrorString ''matching image not found''), st2)
                         | Some imageID \<Rightarrow>
                             (Ok (group_request region nc configs imageID userData capacityType tags), st2)))))"

section \<open>The response\<close>

definition ErrCodeNoInstanceStock :: string where "ErrCodeNoInstanceStock = ''NoInstanceStock''"
definition ErrCodeOperationDeniedNoStock :: string where
  "ErrCodeOperationDeniedNoStock = ''OperationDenied.NoStock''"

definition no_stock :: "launch_result \<Rightarrow> bool" where
  "no_stock lr = (StringValue (lrErrorCode lr) \<in> {ErrCodeNoInstanceStock, ErrCodeOperationDeniedNoStock})"

definition response_results :: "apg_response option \<Rightarrow> launch_result option list option" where
  "response_results resp = Option.bind resp (\<lambda>r. Option.bind (apgBody r) abLaunchResults)"

definition mark_result :: "int \<Rightarrow> string \<Rightarrow> launch_result option \<Rightarrow> unavailable_offerings \<Rightarrow> unavailable_offerings" where
  "mark_result now capacityType lr u =
     (case lr of
        None \<Rightarrow> u
      | Some r \<Rightarrow>
          (if no_stock r \<and> StringValue (lrInstanceType r) \<noteq> [] \<and> StringValue (lrZoneId r) \<noteq> []
           then MarkUnavailable now (StringValue (lrInstanceType r)) (StringValue (lrZoneId r)) capacityType u
           else u))"

definition updateUnavailableOfferingsCache ::
  "int \<Rightarrow> apg_response option \<Rightarrow> string \<Rightarrow> unavailable_offerings \<Rightarrow> unavailable_offerings" where
  "updateUnavailableOfferingsCache now resp capacityType u =
     (case response_results resp of None \<Rightarrow> u | Some lrs \<Rightarrow> fold (mark_result now capacityType) lrs u)"

definition launch_failed :: "apg_response \<Rightarrow> launch_result \<Rightarrow> gerror" where
  "launch_failed r lr =
     WithRequestID (StringValue (Option.bind (apgBody r) abApgRequestId))
       (ErrorString (''failed to launch instance: errorCode='' @ StringValue (lrErrorCode lr)
          @ '', errorMessage='' @ StringValue (lrErrorMsg lr)))"

text \<open>The result is the launch result the caller goes on with; the first one is read without
  a nil check.\<close>

definition createAutoProvisioningGroupResponseHandler :: "apg_response option \<Rightarrow> launch_result outcome" where
  "createAutoProvisioningGroupResponseHandler resp =
     (case (resp, response_results resp) of
        (Some r, Some lrs) \<Rightarrow>
          (if IntValue (apgStatusCode r) \<noteq> 200
           then Err (ErrorString ''unexpected status code when creating auto provision group'')
           else case lrs of
                [] \<Rightarrow> Err (ErrorString ''no launch results found in response'')
              | None # _ \<Rightarrow> Panic
              | Some lr # _ \<Rightarrow>
                  (if no_stock lr then Err (InsufficientCapacityError (launch_failed r lr))
                   else case lrInstanceIds lr of
                        Some (_ # _) \<Rightarrow> Ok lr
                      | _ \<Rightarrow> Err (launch_failed r lr)))
      | _ \<Rightarrow> Err (ErrorString ''invalid response when creating auto provision group''))"

section \<open>Create\<close>

definition launchInstance ::
  "launch_env \<Rightarrow> int \<Rightarrow> string \<Rightarrow> ecs_nodeclass \<Rightarrow> node_claim \<Rightarrow> instance_type list \<Rightarrow> (string \<times> string) list \<Rightarrow>
   launch_state \<Rightarrow> (launch_result \<times> apg_request) outcome \<times> launch_state" where
  "launchInstance env now region nc cl its tags st =
     (let capacityType = getCapacityType cl its;
          (zonal, vs) = ZonalVSwitchesForLaunch now nc its capacityType (lsVSwitches st);
          st1 = st\<lparr>lsVSwitches := vs\<rparr>
      in case zonal of
           Err e \<Rightarrow> (Err (Wrap ''getting vSwitches, '' e), st1)
         | Panic \<Rightarrow> (Panic, st1)
         | Ok zs \<Rightarrow>
             (let (req, st2) = getProvisioningGroup env now region nc cl its zs capacityType tags st1
              in case req of
                   Err e \<Rightarrow> (Err (Wrap ''getting provisioning group, '' e), st2)
                 | Panic \<Rightarrow> (Panic, st2)
                 | Ok request \<Rightarrow>
                     (case lvCreateGroup env request of
                        Err e \<Rightarrow> (Err (Wrap ''creating auto provisioning group, '' e), st2)
                      | Panic \<Rightarrow> (Panic, st2)
                      | Ok resp \<Rightarrow>
                          (outcome_map (\<lambda>lr. (lr, request)) (createAutoProvisioningGroupResponseHandler resp),
                           st2\<lparr>lsUnavailable :=
                             updateUnavailableOfferingsCache now resp capacityType (lsUnavailable st2)\<rparr>))))"

definition instance_Create ::
  "launch_env \<Rightarrow> int \<Rightarrow> string \<Rightarrow> ecs_nodeclass \<Rightarrow> node_claim \<Rightarrow> instance_type list \<Rightarrow> launch_state \<Rightarrow>
   ecs_instance outcome \<times> launch_state" where
  "instance_Create env now region nc cl its st =
     (case lvLimiter env of
        Some e \<Rightarrow> (Err (Wrap ''rate limit exceeded: '' e), st)
      | None \<Rightarrow>
          (let reqs = claim_reqs cl;
               its' = (if HasMinValues reqs then its else filterInstanceTypes (lvAny env) cl its)
           in case Truncate reqs maxInstanceTypes its' of
                Err e \<Rightarrow> (Err (Wrap ''truncating instance types, '' e), st)
              | Panic \<Rightarrow> (Panic, st)
              | Ok chosen \<Rightarrow>
                  (let (r, st') = launchInstance env now region nc cl chosen (getTags (lvClusterID env) nc cl) st
                   in (outcome_bind r (\<lambda>(lr, req). NewInstanceFromProvisioningGroup now lr req region), st'))))"

section \<open>The instance cache\<close>

record instance_provider =
  ipRegion :: string
  lastUpdateTime :: int
  instanceCache :: "ecs_instance go_cache"

definition NewInstanceProvider :: "string \<Rightarrow> instance_provider" where
  "NewInstanceProvider region =
     \<lparr>ipRegion = region, lastUpdateTime = zeroTime, instanceCache = cache_new instanceCacheExpiration\<rparr>"

definition syncAllInstances :: "int \<Rightarrow> ecs_instance list \<Rightarrow> instance_provider \<Rightarrow> instance_provider" where
  "syncAllInstances now ins p =
     p\<lparr>instanceCache := fold (\<lambda>i c. cache_set now (inID i) i 0 c) ins (instanceCache p)\<rparr>"

type_synonym instances_api = "string option \<Rightarrow> describe_instance option token_page option outcome"

text \<open>The request of a listing: the tag that marks the instances of the cluster as owned, one
  hundred instances per page, and the token of the page.\<close>

record instances_request =
  irTag :: "(string \<times> string) list"
  irRegionId :: string
  irMaxResults :: int
  irNextToken :: "string option"

type_synonym ecs_instances = "instances_request \<Rightarrow> describe_instance option token_page option outcome"

definition cluster_instances :: "ecs_instances \<Rightarrow> string \<Rightarrow> string \<Rightarrow> instances_api" where
  "cluster_instances ecs clusterID region token =
     ecs \<lparr>irTag = [(''kubernetes.io/cluster/'' @ clusterID, ''owned'')], irRegionId = region, irMaxResults = 100,
       irNextToken = token\<rparr>"

text \<open>The entries of a page are pointers; they are converted as the page arrives.\<close>

definition instances_page :: "instances_api \<Rightarrow> string option \<Rightarrow> ecs_instance token_page option outcome" where
  "instances_page api token =
     outcome_bind (api token) (\<lambda>r. case r of
        None \<Rightarrow> Ok None
      | Some pg \<Rightarrow> outcome_map (\<lambda>ins. Some \<lparr>pgItems = ins, pgNextToken = pgNextToken pg\<rparr>)
                     (outcome_mapM (\<lambda>out. outcome_bind (deref out) NewInstance) (pgItems pg)))"

definition list_instances :: "instances_api \<Rightarrow> ecs_instance list outcome option" where
  "list_instances api = token_loop (instances_page api) None []"

definition instance_List ::
  "instances_api \<Rightarrow> int \<Rightarrow> instance_provider \<Rightarrow> (ecs_instance list outcome \<times> instance_provider) option" where
  "instance_List api now p =
     (if now - lastUpdateTime p < instanceCacheExpiration
      then Some (Ok (map snd (cache_list now (instanceCache p))), p)
      else case list_instances api of
        None \<Rightarrow> None
      | Some (Err e) \<Rightarrow> Some (Err e, p)
      | Some Panic \<Rightarrow> Some (Panic, p)
      | Some (Ok ins) \<Rightarrow> Some (Ok ins, (syncAllInstances now ins p)\<lparr>lastUpdateTime := now\<rparr>))"

definition instance_Get ::
  "instances_api \<Rightarrow> int \<Rightarrow> string \<Rightarrow> instance_provider \<Rightarrow> (ecs_instance outcome \<times> instance_provider) option" where
  "instance_Get api now i p =
     (case cache_get now i (instanceCache p) of
        Some ins \<Rightarrow> Some (Ok ins, p)
      | None \<Rightarrow>
          (case instance_List api now p of
             None \<Rightarrow> None
           | Some (Err e, p') \<Rightarrow> Some (Err e, p')
           | Some (Panic, p') \<Rightarrow> Some (Panic, p')
           | Some (Ok ins, p') \<Rightarrow>
               (let p'' = syncAllInstances now ins p' in
                case cache_get now i (instanceCache p'') of
                  Some x \<Rightarrow> Some (Ok x, p'')
                | None \<Rightarrow> Some (Err (NodeClaimNotFoundError (ErrorString ''instance not found'')), p''))))"

text \<open>\<open>del\<close> is the answer of DeleteInstance.\<close>

definition instance_Delete ::
  "instances_api \<Rightarrow> (string \<Rightarrow> gerror option) \<Rightarrow> int \<Rightarrow> string \<Rightarrow> instance_provider \<Rightarrow>
   (unit outcome \<times> instance_provider) option" where
  "instance_Delete api del now i p =
     (case instance_Get api now i p of
        None \<Rightarrow> None
      | Some (Err e, p1) \<Rightarrow> Some (Err (Wrap ''deleting instance, '' e), p1)
      | Some (Panic, p1) \<Rightarrow> Some (Panic, p1)
      | Some (Ok ins, p1) \<Rightarrow>
          (if inStatus ins = InstanceStatusStarting \<or> inStatus ins = InstanceStatusPending
           then Some (Err (NewInstanceStateOperationNotSupportedError i), p1)
           else case del i of
             None \<Rightarrow> Some (Ok (), p1\<lparr>instanceCache := cache_delete i (instanceCache p1)\<rparr>)
           | Some err \<Rightarrow>
               (case IsNotFound (Some err) of
                  Err e \<Rightarrow> Some (Err e, p1)
                | Panic \<Rightarrow> Some (Panic, p1)
                | Ok True \<Rightarrow> Some (Err (NodeClaimNotFoundError (ErrorString ''instance already terminated'')), p1)
                | Ok False \<Rightarrow>
                    (case instance_Get api now i p1 of
                       None \<Rightarrow> None
                     | Some (Panic, p2) \<Rightarrow> Some (Panic, p2)
                     | Some (Ok _, p2) \<Rightarrow> Some (Err (Wrap (''terminating instance id: '' @ i @ '', '') err), p2)
                     | Some (Err e, p2) \<Rightarrow>
                         (if IsNodeClaimNotFoundError (Some e) then Some (Err e, p2)
                          else Some (Err (Wrap (''terminating instance id: '' @ i @ '', '')
                                 (the (multierr_Append (Some err) (Some e)))), p2))))))"

text \<open>\<open>add\<close> is the answer of AddTags.\<close>

definition instance_CreateTags ::
  "instances_api \<Rightarrow> (string \<Rightarrow> (string \<times> string) list \<Rightarrow> gerror option) \<Rightarrow> int \<Rightarrow> string \<Rightarrow>
   (string \<times> string) list \<Rightarrow> instance_provider \<Rightarrow> (unit outcome \<times> instance_provider) option" where
  "instance_CreateTags api add now i tags p =
     (case add i tags of
        Some err \<Rightarrow>
          (case IsNotFound (Some err) of
             Ok True \<Rightarrow> Some (Err (NodeClaimNotFoundError (Wrap ''tagging instance, '' err)), p)
           | Ok False \<Rightarrow> Some (Err (Wrap ''tagging instance, '' err), p)
           | Err e \<Rightarrow> Some (Err e, p)
           | Panic \<Rightarrow> Some (Panic, p))
      | None \<Rightarrow>
          (case instance_List api now p of
             None \<Rightarrow> None
           | Some (Err e, p') \<Rightarrow> Some (Err e, p')
           | Some (Panic, p') \<Rightarrow> Some (Panic, p')
           | Some (Ok ins, p') \<Rightarrow> Some (Ok (), syncAllInstances now ins p')))"

end
