(* ===== verification/Instance_Launch.thy ===== *)
theory Instance_Launch
  imports Instance_Provider
begin

text \<open>
  What a launch guarantees: the filters keep the cheapest choices, the request has between one
  and twenty launch templates on vSwitches of the node class, and a response without stock is
  reported as insufficient capacity and marks exactly the offerings it names.
\<close>

section \<open>Lemmas\<close>

subsection \<open>Filters\<close>

lemma cheapest_fold:
  fixes P :: "offering \<Rightarrow> bool"
  defines "f \<equiv> \<lambda>off m. if P off \<and> Price off < m then Price off else (m::price)"
  shows "fold f ofs m \<le> m \<and> (\<forall>off\<in>set ofs. P off \<longrightarrow> fold f ofs m \<le> Price off)
    \<and> (fold f ofs m = m \<or> (\<exists>off\<in>set ofs. P off \<and> fold f ofs m = Price off))"
proof (induction ofs arbitrary: m)
  case (Cons x ofs)
  have le: "f x m \<le> m" "P x \<longrightarrow> f x m \<le> Price x" "f x m = m \<or> P x \<and> f x m = Price x"
    by (auto simp: f_def)
  from Cons.IH[of "f x m"] le show ?case by (auto intro: order_trans)
qed simp

lemma cheapest_on_demand_bound:
  assumes "it \<in> set its" "off \<in> set (Offerings it)" "ofAvailable off"
    "offering_capacity_type rnd off = CapacityTypeOnDemand"
  shows "cheapest_on_demand rnd its \<le> Price off"
proof -
  have "off \<in> set (concat (map (\<lambda>it. AvailableOfferings (Offerings it)) its))" using assms by auto
  with assms(4) cheapest_fold[where P = "\<lambda>off. offering_capacity_type rnd off = CapacityTypeOnDemand"]
  show ?thesis unfolding cheapest_on_demand_def by blast
qed

lemma cheapest_on_demand_attained:
  assumes "cheapest_on_demand rnd its < MaxFloat64"
  obtains it off where "it \<in> set its" "off \<in> set (Offerings it)" "ofAvailable off"
    "offering_capacity_type rnd off = CapacityTypeOnDemand" "Price off = cheapest_on_demand rnd its"
proof -
  let ?ofs = "concat (map (\<lambda>it. AvailableOfferings (Offerings it)) its)"
  have "cheapest_on_demand rnd its = MaxFloat64 \<or> (\<exists>off\<in>set ?ofs.
      offering_capacity_type rnd off = CapacityTypeOnDemand \<and> cheapest_on_demand rnd its = Price off)"
    using cheapest_fold[where P = "\<lambda>off. offering_capacity_type rnd off = CapacityTypeOnDemand" and m = MaxFloat64
      and ofs = ?ofs]
    unfolding cheapest_on_demand_def by blast
  with assms show thesis using that by (auto split: if_splits)
qed

subsection \<open>vSwitches\<close>

lemma cheapest_step_le: "snd (cheapest_step rnd zonal reqs off acc) \<le> snd acc"
  by (auto simp: cheapest_step_def split: option.splits)

lemma cheapest_step_fold:
  fixes zonal :: "(string \<times> vswitch) list" and rnd :: "int \<Rightarrow> int" and reqs :: requirements
  defines "zone_of \<equiv> \<lambda>off. map_of zonal (req_any rnd (reqs_get (ofRequirements off) LabelTopologyZone))"
  defines "r \<equiv> \<lambda>ofs acc. fold (cheapest_step rnd zonal reqs) ofs acc"
  shows "snd (r ofs acc) \<le> snd acc
    \<and> (\<forall>off\<in>set ofs. IsCompatible reqs (ofRequirements off) \<and> zone_of off \<noteq> None \<longrightarrow> snd (r ofs acc) \<le> Price off)
    \<and> (r ofs acc = acc \<or> (\<exists>off\<in>set ofs. \<exists>v. IsCompatible reqs (ofRequirements off) \<and> zone_of off = Some v
          \<and> Price off < snd acc \<and> r ofs acc = (vwID v, Price off)))"
  unfolding r_def
proof (induction ofs arbitrary: acc)
  case (Cons x ofs)
  let ?a = "cheapest_step rnd zonal reqs x acc"
  have le: "snd ?a \<le> snd acc" by (rule cheapest_step_le)
  have x: "IsCompatible reqs (ofRequirements x) \<and> zone_of x \<noteq> None \<longrightarrow> snd ?a \<le> Price x"
    by (auto simp: cheapest_step_def zone_of_def)
  have eq: "?a = acc \<or> (\<exists>v. IsCompatible reqs (ofRequirements x) \<and> zone_of x = Some v
      \<and> Price x < snd acc \<and> ?a = (vwID v, Price x))"
    by (auto simp: cheapest_step_def zone_of_def split: option.splits)
  note IH = Cons.IH[of ?a]
  have "snd (fold (cheapest_step rnd zonal reqs) (x # ofs) acc) \<le> snd acc" using IH le by simp
  moreover have "\<forall>off\<in>set (x # ofs). IsCompatible reqs (ofRequirements off) \<and> zone_of off \<noteq> None
      \<longrightarrow> snd (fold (cheapest_step rnd zonal reqs) (x # ofs) acc) \<le> Price off"
    using IH x by (auto intro: order_trans)
  moreover have "fold (cheapest_step rnd zonal reqs) (x # ofs) acc = acc \<or> (\<exists>off\<in>set (x # ofs). \<exists>v.
      IsCompatible reqs (ofRequirements off) \<and> zone_of off = Some v \<and> Price off < snd acc
      \<and> fold (cheapest_step rnd zonal reqs) (x # ofs) acc = (vwID v, Price off))"
  proof (cases "fold (cheapest_step rnd zonal reqs) ofs ?a = ?a")
    case True
    with eq show ?thesis by auto
  next
    case False
    with IH le show ?thesis by fastforce
  qed
  ultimately show ?case by blast
qed simp

lemma getVSwitchID_zonal:
  assumes "getVSwitchID rnd draw it zonal reqs ct policy = v" "v \<noteq> []"
  shows "\<exists>z w. (z, w) \<in> set zonal \<and> v = vwID w"
proof (cases "(ct = CapacityTypeOnDemand \<or> policy = VSwitchSelectionPolicyBalanced) \<and> zonal \<noteq> []")
  case True
  then have "zonal ! (draw mod length zonal) \<in> set zonal" by simp
  moreover have "v = vwID (snd (zonal ! (draw mod length zonal)))"
    using True assms(1) by (simp add: getVSwitchID_def)
  ultimately show ?thesis by (metis prod.collapse)
next
  case False
  then have "v = fst (fold (cheapest_step rnd zonal reqs) (Offerings it) ([], MaxFloat64))"
    using assms(1) by (auto simp: getVSwitchID_def)
  with assms(2) cheapest_step_fold[of rnd zonal reqs "Offerings it" "([], MaxFloat64)"] show ?thesis
    by (auto dest!: map_of_SomeD) blast
qed

lemma launch_configs_bounds:
  assumes "length acc \<le> maxInstanceTypes"
    and "\<forall>c\<in>set acc. P (lcInstanceType c) \<and> (\<exists>z w. (z, w) \<in> set zonal \<and> lcVSwitchId c = vwID w)"
    and "\<forall>it\<in>set its. P (itName it)"
  shows "length (launch_configs env zonal reqs ct policy n acc its) \<le> maxInstanceTypes
    \<and> (\<forall>c\<in>set (launch_configs env zonal reqs ct policy n acc its).
         P (lcInstanceType c) \<and> (\<exists>z w. (z, w) \<in> set zonal \<and> lcVSwitchId c = vwID w))"
  using assms
proof (induction its arbitrary: n acc)
  case (Cons it its)
  show ?case
  proof (cases "maxInstanceTypes - 1 < length acc")
    case True
    then show ?thesis using Cons.prems by simp
  next
    case False
    let ?v = "getVSwitchID (lvAny env) (lvDraw env n) it zonal reqs ct policy"
    let ?acc = "if ?v = [] then acc else acc @ [\<lparr>lcInstanceType = itName it, lcVSwitchId = ?v\<rparr>]"
    have "length ?acc \<le> maxInstanceTypes" using False by (simp add: maxInstanceTypes_def)
    moreover have "\<forall>c\<in>set ?acc. P (lcInstanceType c) \<and> (\<exists>z w. (z, w) \<in> set zonal \<and> lcVSwitchId c = vwID w)"
      using Cons.prems getVSwitchID_zonal[OF refl, of "lvAny env" "lvDraw env n" it zonal reqs ct policy] by auto
    ultimately have "length (launch_configs env zonal reqs ct policy (Suc n) ?acc its) \<le> maxInstanceTypes
      \<and> (\<forall>c\<in>set (launch_configs env zonal reqs ct policy (Suc n) ?acc its).
           P (lcInstanceType c) \<and> (\<exists>z w. (z, w) \<in> set zonal \<and> lcVSwitchId c = vwID w))"
      using Cons.prems(3) by (intro Cons.IH) simp_all
    with False show ?thesis by (simp add: Let_def)
  qed
qed simp

subsection \<open>The response\<close>

text \<open>The offerings a response names as out of stock.\<close>

definition out_of_stock :: "string \<Rightarrow> apg_response option \<Rightarrow> offering_key list" where
  "out_of_stock capacityType resp =
     map (\<lambda>r. (StringValue (lrInstanceType r), StringValue (lrZoneId r), capacityType))
       (filter (\<lambda>r. no_stock r \<and> StringValue (lrInstanceType r) \<noteq> [] \<and> StringValue (lrZoneId r) \<noteq> [])
         (compact (case response_results resp of None \<Rightarrow> [] | Some lrs \<Rightarrow> lrs)))"

lemma mark_result_fold:
  "fold (mark_result now ct) lrs u =
   fold (uo_mark now) (map (\<lambda>r. (StringValue (lrInstanceType r), StringValue (lrZoneId r), ct))
     (filter (\<lambda>r. no_stock r \<and> StringValue (lrInstanceType r) \<noteq> [] \<and> StringValue (lrZoneId r) \<noteq> [])
       (compact lrs))) u"
proof (induction lrs arbitrary: u)
  case (Cons lr lrs)
  then show ?case by (cases lr) (simp_all add: mark_result_def uo_mark_def compact_def)
qed (simp add: compact_def)

lemma updateUnavailable_marks:
  "updateUnavailableOfferingsCache now resp ct u = fold (uo_mark now) (out_of_stock ct resp) u"
  by (cases "response_results resp")
     (simp_all add: updateUnavailableOfferingsCache_def out_of_stock_def mark_result_fold compact_def)

lemma handler_no_stock:
  assumes "response_results (Some r) = Some (Some lr # lrs)" "IntValue (apgStatusCode r) = 200" "no_stock lr"
  shows "createAutoProvisioningGroupResponseHandler (Some r) = Err (InsufficientCapacityError (launch_failed r lr))"
  using assms by (simp add: createAutoProvisioningGroupResponseHandler_def)

lemma getProvisioningGroup_unavailable [simp]:
  "lsUnavailable (snd (getProvisioningGroup env now region nc cl its zonal ct tags st)) = lsUnavailable st"
  by (auto simp: getProvisioningGroup_def Let_def case_prod_unfold split: outcome.splits option.splits)

lemma getProvisioningGroup_Ok:
  assumes "getProvisioningGroup env now region nc cl its zonal ct tags st = (Ok req, st')"
  obtains kept disks imageID userData where
    "FilterInstanceTypesBySystemDisk (lvDiskOrder env) (lvDiskApi env) now nc its (lsDisks st) = Ok (kept, disks)"
    "launch_configs env zonal (AList.update CapacityTypeLabelKey (NewRequirement CapacityTypeLabelKey OpIn [ct])
        (claim_reqs cl)) ct (VSwitchSelectionPolicy (ncSpec nc)) 0 [] kept \<noteq> []"
    "req = group_request region nc (launch_configs env zonal (AList.update CapacityTypeLabelKey
        (NewRequirement CapacityTypeLabelKey OpIn [ct]) (claim_reqs cl)) ct (VSwitchSelectionPolicy (ncSpec nc)) 0 [] kept)
        imageID userData ct tags"
    "map_of (mapToInstanceTypes kept (stImages (ncStatus nc))) (itName (hd kept)) = Some imageID"
  using assms
  by (auto simp: getProvisioningGroup_def Let_def case_prod_unfold split: outcome.splits option.splits if_splits)

lemma kept_subset:
  assumes "FilterInstanceTypesBySystemDisk order api now nc its c = Ok (kept, c')" "\<And>xs. set (order xs) = set xs"
  shows "set kept \<subseteq> set its"
proof -
  have fold: "outcome_fold (filter_worker api now wanted) xs (acc, c) = Ok (kept, c') \<Longrightarrow>
      set kept \<subseteq> set acc \<union> set xs" for wanted xs acc c
  proof (induction xs arbitrary: acc c)
    case (Cons x xs)
    then obtain acc' c'' where "filter_worker api now wanted x (acc, c) = Ok (acc', c'')"
      "outcome_fold (filter_worker api now wanted) xs (acc', c'') = Ok (kept, c')" by auto
    moreover from this(1) have "set acc' \<subseteq> insert x (set acc)"
      by (auto simp: filter_worker_def Let_def split: option.splits outcome.splits if_splits)
    ultimately show ?case using Cons.IH[of acc' c''] by auto
  qed simp
  show ?thesis
  proof (cases "Option.bind (SystemDisk (ncSpec nc)) Categories")
    case None
    then show ?thesis using assms(1) by (simp add: FilterInstanceTypesBySystemDisk_def)
  next
    case (Some wanted)
    then show ?thesis
      using assms fold[of wanted "order its" "[]" c] by (simp add: FilterInstanceTypesBySystemDisk_def)
  qed
qed

lemma mapToInstanceTypes_Some:
  assumes "map_of (mapToInstanceTypes its imgs) n = Some i"
  shows "\<exists>it\<in>set its. \<exists>img\<in>set imgs. i = siID img
    \<and> IsCompatible (itRequirements it) (NewNodeSelectorRequirements (siRequirements img))"
proof -
  let ?step = "\<lambda>it m. case find (\<lambda>img. IsCompatible (itRequirements it)
      (NewNodeSelectorRequirements (siRequirements img))) imgs of
        Some img \<Rightarrow> AList.update (itName it) (siID img) m | None \<Rightarrow> m"
  have "map_of (fold ?step its m) n = Some i \<Longrightarrow> map_of m n = Some i \<or> (\<exists>it\<in>set its. \<exists>img\<in>set imgs. i = siID img
    \<and> IsCompatible (itRequirements it) (NewNodeSelectorRequirements (siRequirements img)))" for m
  proof (induction its arbitrary: m)
    case (Cons it its)
    from Cons.prems have "map_of (fold ?step its (?step it m)) n = Some i" by simp
    from Cons.IH[OF this] show ?case
      by (auto simp: update_conv' split: option.splits if_splits dest!: find_Some_iff_mem)
  qed simp
  from this[of "[]"] assms show ?thesis by (simp add: mapToInstanceTypes_def)
qed

lemma getCapacityType_cases: "getCapacityType cl its \<in> {CapacityTypeSpot, CapacityTypeOnDemand}"
  by (simp add: getCapacityType_def Let_def)

lemma getCapacityType_iff:
  "getCapacityType cl its =
    (if req_has (reqs_get (claim_reqs cl) CapacityTypeLabelKey) CapacityTypeSpot
        \<and> (\<exists>it\<in>set its. \<exists>off\<in>set (Offerings it). ofAvailable off
             \<and> IsCompatible (AList.update CapacityTypeLabelKey (NewRequirement CapacityTypeLabelKey OpIn [CapacityTypeSpot])
                 (claim_reqs cl)) (ofRequirements off))
     then CapacityTypeSpot else CapacityTypeOnDemand)"
  by (simp add: getCapacityType_def Let_def list_ex_iff HasCompatible_iff_ex)

text \<open>Nothing before the request depends on how ECS would answer it.\<close>

lemma launch_configs_ignore_answer [simp]:
  "launch_configs (env\<lparr>lvCreateGroup := f\<rparr>) zonal reqs ct policy n acc its = launch_configs env zonal reqs ct policy n acc its"
  by (induction its arbitrary: n acc) (simp_all add: Let_def)

lemma getProvisioningGroup_ignores_answer [simp]:
  "getProvisioningGroup (env\<lparr>lvCreateGroup := f\<rparr>) now region nc cl its zonal ct tags st =
   getProvisioningGroup env now region nc cl its zonal ct tags st"
  unfolding getProvisioningGroup_def launch_configs_ignore_answer by (cases env) (simp only: launch_env.simps)

lemma instance_Create_launches:
  assumes "lvLimiter env = None" "Truncate (claim_reqs cl) maxInstanceTypes
      (if HasMinValues (claim_reqs cl) then its else filterInstanceTypes (lvAny env) cl its) = Ok xs"
    and "launchInstance env now region nc cl xs (getTags (lvClusterID env) nc cl) st = l"
  shows "instance_Create env now region nc cl its st =
    (outcome_bind (fst l) (\<lambda>(lr, req). NewInstanceFromProvisioningGroup now lr req region), snd l)"
  using assms by (simp add: instance_Create_def Let_def case_prod_unfold)

lemma launchInstance_no_stock:
  fixes now region nc cl xs tags st
  assumes "lvCreateGroup env = (\<lambda>_. Ok (Some r))" "IntValue (apgStatusCode r) = 200"
    and "response_results (Some r) = Some (Some lr # lrs)" "no_stock lr"
  defines "l \<equiv> launchInstance env now region nc cl xs tags st"
  shows "(\<forall>x. fst l \<noteq> Ok x)
    \<and> ((\<forall>f. launchInstance (env\<lparr>lvCreateGroup := f\<rparr>) now region nc cl xs tags st = l)
        \<and> lsUnavailable (snd l) = lsUnavailable st
      \<or> fst l = Err (InsufficientCapacityError (launch_failed r lr))
        \<and> lsUnavailable (snd l) = fold (uo_mark now) (out_of_stock (getCapacityType cl xs) (Some r)) (lsUnavailable st))"
  using getProvisioningGroup_unavailable[of env now region nc cl xs _ "getCapacityType cl xs" tags]
  by (auto simp: l_def launchInstance_def Let_def case_prod_unfold assms(1) handler_no_stock[OF assms(3,2,4)]
      updateUnavailable_marks split: outcome.splits)

section \<open>Properties\<close>

text \<open>Before the launch, the limiter or the minimal values of the claim may refuse a creation; the
  ECS API plays no role then.\<close>

lemma instance_Create_refused:
  assumes "instance_Create env now region nc cl its st = (res, st')"
    and "\<not> (lvLimiter env = None \<and> (\<exists>xs. Truncate (claim_reqs cl) maxInstanceTypes
      (if HasMinValues (claim_reqs cl) then its else filterInstanceTypes (lvAny env) cl its) = Ok xs))"
  shows "instance_Create (env\<lparr>lvCreateGroup := f\<rparr>) now region nc cl its st = (res, st') \<and> st' = st \<and> (\<forall>i. res \<noteq> Ok i)"
  using assms
  by (cases "lvLimiter env"; cases "Truncate (claim_reqs cl) maxInstanceTypes
      (if HasMinValues (claim_reqs cl) then its else filterInstanceTypes (lvAny env) cl its)")
    (auto simp: instance_Create_def Let_def)

lemma instance_Create_launches_any:
  assumes "lvLimiter env = None" "Truncate (claim_reqs cl) maxInstanceTypes
      (if HasMinValues (claim_reqs cl) then its else filterInstanceTypes (lvAny env) cl its) = Ok xs"
  shows "instance_Create (env\<lparr>lvCreateGroup := f\<rparr>) now region nc cl its st =
    (let l = launchInstance (env\<lparr>lvCreateGroup := f\<rparr>) now region nc cl xs (getTags (lvClusterID env) nc cl) st
     in (outcome_bind (fst l) (\<lambda>(lr, req). NewInstanceFromProvisioningGroup now lr req region), snd l))"
proof -
  have "lvLimiter (env\<lparr>lvCreateGroup := f\<rparr>) = None" "Truncate (claim_reqs cl) maxInstanceTypes (if HasMinValues (claim_reqs cl)
      then its else filterInstanceTypes (lvAny (env\<lparr>lvCreateGroup := f\<rparr>)) cl its) = Ok xs"
    using assms by (simp_all split: if_splits)
  from instance_Create_launches[OF this refl] show ?thesis by (simp add: Let_def)
qed

text \<open>
  C7. A launch whose response has no stock never succeeds. Either an earlier step failed, and the
  outcome does not depend on what ECS would answer and nothing is marked, or the launch ends with
  an insufficient capacity error, and from then on, until the time to live has passed, exactly the
  offerings the response names as out of stock are unavailable besides those that were before:
  their capacity type is the one the launch asked for, spot if the claim allows it and one of the
  types to launch has an available spot offering that fits, and on demand otherwise.
\<close>

theorem no_stock_launch_is_insufficient_capacity:
  assumes "lvCreateGroup env = (\<lambda>_. Ok (Some r))" "IntValue (apgStatusCode r) = 200"
    and "response_results (Some r) = Some (Some lr # lrs)" "no_stock lr"
    and "instance_Create env now region nc cl its st = (res, st')" "0 \<le> now"
    and "\<forall>k\<in>set (out_of_stock CapacityTypeSpot (Some r)). separator_free k"
  shows "(\<forall>i. res \<noteq> Ok i)
    \<and> ((\<forall>f. instance_Create (env\<lparr>lvCreateGroup := f\<rparr>) now region nc cl its st = (res, st'))
         \<and> lsUnavailable st' = lsUnavailable st
       \<or> (\<exists>e. res = Err e \<and> IsInsufficientCapacityError (Some e))
         \<and> (\<exists>xs ct. Truncate (claim_reqs cl) maxInstanceTypes
                (if HasMinValues (claim_reqs cl) then its else filterInstanceTypes (lvAny env) cl its) = Ok xs
            \<and> ct = (if req_has (reqs_get (claim_reqs cl) CapacityTypeLabelKey) CapacityTypeSpot
                  \<and> (\<exists>it\<in>set xs. \<exists>off\<in>set (Offerings it). ofAvailable off
                       \<and> IsCompatible (AList.update CapacityTypeLabelKey
                            (NewRequirement CapacityTypeLabelKey OpIn [CapacityTypeSpot]) (claim_reqs cl)) (ofRequirements off))
                then CapacityTypeSpot else CapacityTypeOnDemand)
            \<and> (\<forall>k t. separator_free k \<longrightarrow> t \<le> now + UnavailableOfferingsTTL \<longrightarrow>
                 (uo_unavailable t k (lsUnavailable st') \<longleftrightarrow>
                  k \<in> set (out_of_stock ct (Some r)) \<or> uo_unavailable t k (lsUnavailable st)))))"
proof -
  have free: "\<forall>k\<in>set (out_of_stock ct (Some r)). separator_free k"
    if "ct \<in> {CapacityTypeSpot, CapacityTypeOnDemand}" for ct
    using assms(7) that by (auto simp: out_of_stock_def separator_free_def label_defs)
  have marks: "\<forall>k t. separator_free k \<longrightarrow> t \<le> now + UnavailableOfferingsTTL \<longrightarrow>
      (uo_unavailable t k (fold (uo_mark now) (out_of_stock (getCapacityType cl xs) (Some r)) (lsUnavailable st)) \<longleftrightarrow>
       k \<in> set (out_of_stock (getCapacityType cl xs) (Some r)) \<or> uo_unavailable t k (lsUnavailable st))" for xs
    using uo.mark_all[OF assms(6) _ _ free[OF getCapacityType_cases[of cl xs]]] by blast
  show ?thesis
  proof (cases "lvLimiter env = None \<and> (\<exists>xs. Truncate (claim_reqs cl) maxInstanceTypes
      (if HasMinValues (claim_reqs cl) then its else filterInstanceTypes (lvAny env) cl its) = Ok xs)")
    case False
    from instance_Create_refused[OF assms(5) this] show ?thesis by blast
  next
    case True
    then obtain xs where xs: "lvLimiter env = None" "Truncate (claim_reqs cl) maxInstanceTypes
      (if HasMinValues (claim_reqs cl) then its else filterInstanceTypes (lvAny env) cl its) = Ok xs" by blast
    let ?l = "launchInstance env now region nc cl xs (getTags (lvClusterID env) nc cl) st"
    have r: "res = outcome_bind (fst ?l) (\<lambda>(lr, req). NewInstanceFromProvisioningGroup now lr req region)" "st' = snd ?l"
      using instance_Create_launches[OF xs refl] assms(5) by simp_all
    from launchInstance_no_stock[OF assms(1-4), where xs = xs and tags = "getTags (lvClusterID env) nc cl" and st = st
        and now = now and region = region and nc = nc and cl = cl]
    show ?thesis
    proof (elim conjE disjE)
      assume early: "\<forall>x. fst ?l \<noteq> Ok x" "lsUnavailable (snd ?l) = lsUnavailable st"
        "\<forall>f. launchInstance (env\<lparr>lvCreateGroup := f\<rparr>) now region nc cl xs (getTags (lvClusterID env) nc cl) st = ?l"
      have "instance_Create (env\<lparr>lvCreateGroup := f\<rparr>) now region nc cl its st = (res, st')" for f
        using instance_Create_launches_any[OF xs] early(3) r by (simp add: Let_def)
      moreover have "res \<noteq> Ok i" for i using early(1) r(1) by (cases "fst ?l") auto
      ultimately show ?thesis using early(2) r(2) by blast
    next
      assume "fst ?l = Err (InsufficientCapacityError (launch_failed r lr))"
        "lsUnavailable (snd ?l) = fold (uo_mark now) (out_of_stock (getCapacityType cl xs) (Some r)) (lsUnavailable st)"
      then have "res = Err (InsufficientCapacityError (launch_failed r lr))"
        "lsUnavailable st' = fold (uo_mark now) (out_of_stock (getCapacityType cl xs) (Some r)) (lsUnavailable st)"
        using r by simp_all
      with marks[of xs] xs(2) getCapacityType_iff[of cl xs] show ?thesis
        by (intro conjI disjI2 exI[of _ xs] exI[of _ "getCapacityType cl xs"])
          (simp_all add: IsInsufficientCapacityError_def)
    qed
  qed
qed

text \<open>
  C25. When spot and on-demand are both possible, dropping dear spot types keeps every type
  whose cheapest available offering costs no more than the cheapest on-demand offering, and
  nothing else; as long as there is an on-demand offering the result is not empty and still
  contains it.
\<close>

theorem spot_filter_keeps_cheapest:
  assumes "it \<in> set its" "off \<in> set (Offerings it)" "ofAvailable off" "Price off < MaxFloat64"
    and "offering_capacity_type rnd off = CapacityTypeOnDemand"
  shows "(\<exists>kept\<in>set (filterUnwantedSpot rnd its). \<exists>best\<in>set (Offerings kept). ofAvailable best
        \<and> offering_capacity_type rnd best = CapacityTypeOnDemand \<and> Price best \<le> Price off)
    \<and> (\<forall>x\<in>set its. x \<in> set (filterUnwantedSpot rnd its) \<longleftrightarrow>
         (\<exists>q\<in>set (Offerings x). ofAvailable q \<and> (\<forall>y\<in>set its. \<forall>d\<in>set (Offerings y).
            ofAvailable d \<and> offering_capacity_type rnd d = CapacityTypeOnDemand \<longrightarrow> Price q \<le> Price d)))"
proof -
  let ?c = "cheapest_on_demand rnd its"
  have c: "?c \<le> Price off" by (rule cheapest_on_demand_bound[OF assms(1-3,5)])
  then have "?c < MaxFloat64" using assms(4) by simp
  then obtain it' off' where best: "it' \<in> set its" "off' \<in> set (Offerings it')" "ofAvailable off'"
    "offering_capacity_type rnd off' = CapacityTypeOnDemand" "Price off' = ?c"
    by (rule cheapest_on_demand_attained)
  have kept: "x \<in> set (filterUnwantedSpot rnd its) \<longleftrightarrow> (\<exists>q\<in>set (Offerings x). ofAvailable q \<and> Price q \<le> ?c)"
    if "x \<in> set its" for x
  proof
    assume "x \<in> set (filterUnwantedSpot rnd its)"
    then have "AvailableOfferings (Offerings x) \<noteq> []" "Price (Cheapest (AvailableOfferings (Offerings x))) \<le> ?c"
      by (auto simp: filterUnwantedSpot_def)
    with Cheapest_mem[of "AvailableOfferings (Offerings x)"]
    show "\<exists>q\<in>set (Offerings x). ofAvailable q \<and> Price q \<le> ?c" by auto
  next
    assume "\<exists>q\<in>set (Offerings x). ofAvailable q \<and> Price q \<le> ?c"
    then obtain q where q: "q \<in> set (AvailableOfferings (Offerings x))" "Price q \<le> ?c" by auto
    have "AvailableOfferings (Offerings x) \<noteq> []" using q(1) by (metis empty_iff empty_set)
    with Cheapest_le[OF q(1)] q(2) that show "x \<in> set (filterUnwantedSpot rnd its)"
      by (simp add: filterUnwantedSpot_def)
  qed
  have below: "Price q \<le> ?c \<longleftrightarrow> (\<forall>y\<in>set its. \<forall>d\<in>set (Offerings y).
      ofAvailable d \<and> offering_capacity_type rnd d = CapacityTypeOnDemand \<longrightarrow> Price q \<le> Price d)" for q
  proof
    assume q: "Price q \<le> ?c"
    show "\<forall>y\<in>set its. \<forall>d\<in>set (Offerings y).
      ofAvailable d \<and> offering_capacity_type rnd d = CapacityTypeOnDemand \<longrightarrow> Price q \<le> Price d"
      using order_trans[OF q cheapest_on_demand_bound] by blast
  next
    assume "\<forall>y\<in>set its. \<forall>d\<in>set (Offerings y).
      ofAvailable d \<and> offering_capacity_type rnd d = CapacityTypeOnDemand \<longrightarrow> Price q \<le> Price d"
    with best(1-4) have "Price q \<le> Price off'" by blast
    with best(5) show "Price q \<le> ?c" by simp
  qed
  have "it' \<in> set (filterUnwantedSpot rnd its)" using kept[OF best(1)] best(2,3,5) by auto
  with best c have "\<exists>kept\<in>set (filterUnwantedSpot rnd its). \<exists>best\<in>set (Offerings kept). ofAvailable best
        \<and> offering_capacity_type rnd best = CapacityTypeOnDemand \<and> Price best \<le> Price off" by metis
  then show ?thesis using kept unfolding below[symmetric] by blast
qed

text \<open>A compatible offering in a zone that has the vSwitch.\<close>

definition offered_on ::
  "(int \<Rightarrow> int) \<Rightarrow> (string \<times> vswitch) list \<Rightarrow> requirements \<Rightarrow> offering \<Rightarrow> vswitch \<Rightarrow> bool" where
  "offered_on rnd zonal reqs off v \<longleftrightarrow> IsCompatible reqs (ofRequirements off) \<and> Price off < MaxFloat64
     \<and> map_of zonal (req_any rnd (reqs_get (ofRequirements off) LabelTopologyZone)) = Some v"

text \<open>
  C24. The vSwitch an instance type is launched on. On demand, and under the balanced policy, it is
  the vSwitch of a random zone: the possible results are exactly the vSwitches of the zones. For
  spot under any other policy it is the vSwitch of the zone where the type's cheapest compatible
  offering is, among the zones that have a vSwitch, whatever the random number; without such an
  offering, or without any vSwitch, the type gets none and is left out of the request.
\<close>

theorem vswitch_of_launch:
  "if capacityType = CapacityTypeOnDemand \<or> policy = VSwitchSelectionPolicyBalanced
   then range (\<lambda>draw. getVSwitchID rnd draw it zonal reqs capacityType policy) =
      (if zonal = [] then {[]} else vwID ` snd ` set zonal)
   else if \<exists>off\<in>set (Offerings it). \<exists>v. offered_on rnd zonal reqs off v
   then \<exists>off\<in>set (Offerings it). \<exists>v. offered_on rnd zonal reqs off v
      \<and> (\<forall>draw. getVSwitchID rnd draw it zonal reqs capacityType policy = vwID v)
      \<and> (\<forall>q\<in>set (Offerings it). \<forall>w. offered_on rnd zonal reqs q w \<longrightarrow> Price off \<le> Price q)
   else \<forall>draw. getVSwitchID rnd draw it zonal reqs capacityType policy = []"
proof (cases "capacityType = CapacityTypeOnDemand \<or> policy = VSwitchSelectionPolicyBalanced")
  case True
  show ?thesis
  proof (cases "zonal = []")
    case True
    have "fst (fold (cheapest_step rnd [] reqs) ofs acc) = fst acc" for ofs acc
      by (induction ofs arbitrary: acc) (simp_all add: cheapest_step_def)
    then show ?thesis using True \<open>capacityType = CapacityTypeOnDemand \<or> policy = VSwitchSelectionPolicyBalanced\<close>
      by (simp add: getVSwitchID_def)
  next
    case False
    have "range (\<lambda>draw. zonal ! (draw mod length zonal)) = set zonal"
    proof (intro subset_antisym subsetI)
      fix x assume "x \<in> set zonal"
      then obtain i where "i < length zonal" "x = zonal ! i" by (auto simp: in_set_conv_nth)
      then show "x \<in> range (\<lambda>draw. zonal ! (draw mod length zonal))" by (auto intro!: image_eqI[of _ _ i])
    qed (use False in auto)
    then have "vwID ` snd ` range (\<lambda>draw. zonal ! (draw mod length zonal)) = vwID ` snd ` set zonal" by simp
    with True False show ?thesis by (simp add: getVSwitchID_def image_image)
  qed
next
  case spot: False
  let ?r = "fold (cheapest_step rnd zonal reqs) (Offerings it) ([], MaxFloat64)"
  have get: "getVSwitchID rnd draw it zonal reqs capacityType policy = fst ?r" for draw
    using spot by (simp add: getVSwitchID_def)
  note f = cheapest_step_fold[of rnd zonal reqs "Offerings it" "([], MaxFloat64)"]
  have low: "snd ?r \<le> Price q" if "q \<in> set (Offerings it)" "offered_on rnd zonal reqs q w" for q w
    using f that by (auto simp: offered_on_def)
  have origin: "?r = ([], MaxFloat64) \<or> (\<exists>off\<in>set (Offerings it). \<exists>v. IsCompatible reqs (ofRequirements off)
      \<and> map_of zonal (req_any rnd (reqs_get (ofRequirements off) LabelTopologyZone)) = Some v
      \<and> Price off < MaxFloat64 \<and> ?r = (vwID v, Price off))"
    using f by simp
  show ?thesis
  proof (cases "\<exists>off\<in>set (Offerings it). \<exists>v. offered_on rnd zonal reqs off v")
    case True
    then have "snd ?r < MaxFloat64" using low by (force simp: offered_on_def)
    with origin obtain off v where "off \<in> set (Offerings it)" "offered_on rnd zonal reqs off v" "?r = (vwID v, Price off)"
      by (auto simp: offered_on_def)
    with low get True spot show ?thesis by (auto intro!: bexI[of _ off] exI[of _ v])
  next
    case False
    have "?r = ([], MaxFloat64)" using origin False by (auto simp: offered_on_def)
    with False get spot show ?thesis by simp
  qed
qed

text \<open>
  C22. Every request sent for a launch asks for one instance, of the chosen capacity type only,
  names between one and twenty launch templates, each with an instance type of the claim and a
  vSwitch chosen for one of the node class' zones, carries all security groups of the node
  class, and an image of the node class that fits one of the instance types.
\<close>

theorem launch_request_bounds:
  assumes "getProvisioningGroup env now region nc cl its zonal ct tags st = (Ok req, st')"
    and "\<And>xs. set (lvDiskOrder env xs) = set xs" "ct \<in> {CapacityTypeSpot, CapacityTypeOnDemand}"
  shows "1 \<le> length (LaunchTemplateConfig req) \<and> length (LaunchTemplateConfig req) \<le> 20
    \<and> (\<forall>c\<in>set (LaunchTemplateConfig req). lcInstanceType c \<in> itName ` set its
         \<and> (\<exists>z w. (z, w) \<in> set zonal \<and> lcVSwitchId c = vwID w))
    \<and> TotalTargetCapacity req = ''1''
    \<and> (SpotTargetCapacity req, PayAsYouGoTargetCapacity req) =
        (if ct = CapacityTypeSpot then (''1'', ''0'') else (''0'', ''1''))
    \<and> apgSecurityGroupIds req = map ssgID (stSecurityGroups (ncStatus nc))
    \<and> (\<exists>it\<in>set its. \<exists>img\<in>set (stImages (ncStatus nc)). apgImageId req = siID img
         \<and> IsCompatible (itRequirements it) (NewNodeSelectorRequirements (siRequirements img)))"
proof -
  from assms(1) obtain kept disks imageID userData where
    k: "FilterInstanceTypesBySystemDisk (lvDiskOrder env) (lvDiskApi env) now nc its (lsDisks st) = Ok (kept, disks)"
    and ne: "launch_configs env zonal (AList.update CapacityTypeLabelKey (NewRequirement CapacityTypeLabelKey OpIn [ct])
        (claim_reqs cl)) ct (VSwitchSelectionPolicy (ncSpec nc)) 0 [] kept \<noteq> []"
    and req: "req = group_request region nc (launch_configs env zonal (AList.update CapacityTypeLabelKey
        (NewRequirement CapacityTypeLabelKey OpIn [ct]) (claim_reqs cl)) ct (VSwitchSelectionPolicy (ncSpec nc)) 0 [] kept)
        imageID userData ct tags"
    and img: "map_of (mapToInstanceTypes kept (stImages (ncStatus nc))) (itName (hd kept)) = Some imageID"
    by (rule getProvisioningGroup_Ok)
  have sub: "set kept \<subseteq> set its" by (rule kept_subset[OF k assms(2)])
  let ?cs = "LaunchTemplateConfig req"
  have cs: "length ?cs \<le> maxInstanceTypes \<and> (\<forall>c\<in>set ?cs. lcInstanceType c \<in> itName ` set its
      \<and> (\<exists>z w. (z, w) \<in> set zonal \<and> lcVSwitchId c = vwID w))"
    unfolding req group_request_def Let_def apg_request.simps
    by (rule launch_configs_bounds) (use sub in auto)
  have "?cs \<noteq> []" using ne req by (simp add: group_request_def Let_def)
  then have len: "1 \<le> length ?cs" by (cases ?cs) auto
  from mapToInstanceTypes_Some[OF img] sub
  have "\<exists>it\<in>set its. \<exists>img\<in>set (stImages (ncStatus nc)). imageID = siID img
      \<and> IsCompatible (itRequirements it) (NewNodeSelectorRequirements (siRequirements img))" by blast
  with cs len req show ?thesis by (simp add: group_request_def Let_def maxInstanceTypes_def)
qed

section \<open>Deviations\<close>

text \<open>An on-demand launch takes a vSwitch whatever the offerings of the type and the requirements
  of the claim (its zones among them) are.\<close>

lemma on_demand_vswitch_ignores_zones:
  assumes "zonal \<noteq> []"
  shows "getVSwitchID rnd draw it zonal reqs CapacityTypeOnDemand policy
    = getVSwitchID rnd' draw it' zonal reqs' CapacityTypeOnDemand policy'"
  using assms by (simp add: getVSwitchID_def)

text \<open>The instance of a launch has neither the node pool tag its request asked for nor its vSwitch.\<close>

lemma launched_instance_lacks_pool:
  assumes "NewInstanceFromProvisioningGroup now lr (group_request region nc configs imageID userData ct tags) region = Ok i"
  shows "map_of (inTags i) NodePoolLabelKey = None \<and> inVSwitchID i = []"
proof -
  have "inTags i = assign [] [(Group @ ''/autoprovisiongroup'', ''true'')]" "inVSwitchID i = []"
    using assms by (auto simp: NewInstanceFromProvisioningGroup_def group_request_def Let_def split: if_splits)
  then show ?thesis by (simp add: label_defs Group_def assign_def)
qed

section \<open>Witnesses\<close>

definition sample_launch_type :: instance_type where
  "sample_launch_type = \<lparr>itName = ''t1'', itRequirements = [],
     Offerings = [createOffering ''z1'' CapacityTypeSpot 1 True, createOffering ''z1'' CapacityTypeOnDemand 2 True],
     itCapacity = [], Overhead = \<lparr>KubeReserved = [], SystemReserved = [], EvictionThreshold = []\<rparr>\<rparr>"

definition sample_response :: apg_response where
  "sample_response = \<lparr>apgStatusCode = Some 200, apgBody = Some \<lparr>abLaunchResults =
     Some [Some \<lparr>lrErrorCode = Some ''NoInstanceStock'', lrErrorMsg = None, lrInstanceType = Some ''t1'',
        lrZoneId = Some ''z1'', lrSpotStrategy = None, lrInstanceIds = None\<rparr>], abApgRequestId = Some ''r''\<rparr>\<rparr>"

definition sample_launch_env :: launch_env where
  "sample_launch_env = \<lparr>lvClusterID = ''c'', lvLimiter = None, lvAny = (\<lambda>_. 0), lvDraw = (\<lambda>_. 0),
     lvDiskOrder = (\<lambda>xs. xs), lvDiskApi = (\<lambda>_. Ok None),
     lvAck = \<lparr>attachScript = Ok (Some (Some ''attach'')), clusterNodePools = Ok None, sortSlice = insertionSort\<rparr>,
     lvCreateGroup = (\<lambda>_. Ok (Some sample_response))\<rparr>"

definition sample_launch_state :: launch_state where
  "sample_launch_state = \<lparr>lsUnavailable = NewUnavailableOfferings,
     lsVSwitches = NewVSwitchProvider (cache_new 60) (cache_new 60), lsDisks = cache_new 60,
     lsAck = NewAckProvider ''c'' (cache_new 60)\<rparr>"

definition sample_launch_class :: ecs_nodeclass where
  "sample_launch_class = zero_nodeclass\<lparr>ncStatus := \<lparr>stVSwitches = [\<lparr>svID = ''v1'', svZoneID = ''z1''\<rparr>],
     stSecurityGroups = [\<lparr>ssgID = ''sg'', ssgName = ''sg''\<rparr>],
     stImages = [\<lparr>siID = ''img'', siName = ''img'', siRequirements = []\<rparr>], stConditions = []\<rparr>\<rparr>"

lemma sample_capacity_type [simp]:
  "offering_capacity_type rnd (createOffering z ct pr av) = ct"
  by (simp add: offering_capacity_type_def createOffering_reqs reqs_get_def)

lemma sample_script:
  "\<exists>s p. GetNodeRegisterScript (lvAck sample_launch_env) now labels kc (lsAck sample_launch_state) = (Ok s, p)"
  by (simp add: GetNodeRegisterScript_def sample_launch_env_def sample_launch_state_def NewAckProvider_def
      resolveUserData_def with_runtime_def getClusterAttachRuntimeConfiguration_def Let_def)

theorem no_stock_launch_is_insufficient_capacity_witness:
  "\<forall>i. fst (instance_Create sample_launch_env 1 ''region'' sample_launch_class zero_claim [sample_launch_type]
      sample_launch_state) \<noteq> Ok i"
proof -
  have "response_results (Some sample_response) = Some (Some \<lparr>lrErrorCode = Some ''NoInstanceStock'',
      lrErrorMsg = None, lrInstanceType = Some ''t1'', lrZoneId = Some ''z1'', lrSpotStrategy = None,
      lrInstanceIds = None\<rparr> # [])"
    by (simp add: response_results_def sample_response_def)
  moreover have "\<forall>k\<in>set (out_of_stock CapacityTypeSpot (Some sample_response)). separator_free k"
    by (simp add: out_of_stock_def response_results_def sample_response_def compact_def no_stock_def
        ErrCodeNoInstanceStock_def separator_free_def label_defs)
  moreover have "lvCreateGroup sample_launch_env = (\<lambda>_. Ok (Some sample_response))"
    "IntValue (apgStatusCode sample_response) = 200"
    by (simp_all add: sample_launch_env_def sample_response_def)
  ultimately show ?thesis
    using no_stock_launch_is_insufficient_capacity[where env = sample_launch_env and r = sample_response and now = 1
        and region = "''region''" and nc = sample_launch_class and cl = zero_claim and its = "[sample_launch_type]"
        and st = sample_launch_state, OF _ _ _ _ surjective_pairing]
    by (simp add: no_stock_def ErrCodeNoInstanceStock_def)
qed

theorem spot_filter_keeps_cheapest_witness:
  "sample_launch_type \<in> set (filterUnwantedSpot (\<lambda>_. 0) [sample_launch_type])"
  using spot_filter_keeps_cheapest[of sample_launch_type "[sample_launch_type]"
      "createOffering ''z1'' CapacityTypeOnDemand 2 True" "\<lambda>_. 0"]
  by (simp add: sample_launch_type_def MaxFloat64_def)

theorem vswitch_of_launch_witness:
  "getVSwitchID (\<lambda>_. 0) 0 sample_launch_type [(''z1'', \<lparr>vwID = ''v1'', vwZoneID = ''z1'', AvailableIPAddressCount = 5\<rparr>)]
     [] CapacityTypeSpot [] = ''v1''"
  using vswitch_of_launch[of CapacityTypeSpot "[]" "\<lambda>_. 0" sample_launch_type
      "[(''z1'', \<lparr>vwID = ''v1'', vwZoneID = ''z1'', AvailableIPAddressCount = 5\<rparr>)]" "[]"]
  by (auto simp: offered_on_def sample_launch_type_def MaxFloat64_def createOffering_reqs reqs_get_def Compatible_def Intersects_def
      reqs_has_def VSwitchSelectionPolicyBalanced_def split: if_splits)

definition sample_zonal_vswitches :: "(string \<times> vswitch) list" where
  "sample_zonal_vswitches = [(''z1'', \<lparr>vwID = ''v1'', vwZoneID = ''z1'', AvailableIPAddressCount = 5\<rparr>)]"

lemma sample_request:
  assumes "ncStatus nc = ncStatus sample_launch_class" "SystemDisk (ncSpec nc) = None"
  obtains req st' where "getProvisioningGroup sample_launch_env 1 ''region'' nc zero_claim [sample_launch_type]
      sample_zonal_vswitches CapacityTypeOnDemand tags sample_launch_state = (Ok req, st')"
proof -
  let ?g = "getProvisioningGroup sample_launch_env 1 ''region'' nc zero_claim [sample_launch_type]
      sample_zonal_vswitches CapacityTypeOnDemand tags sample_launch_state"
  obtain s p where s: "GetNodeRegisterScript (lvAck sample_launch_env) 1
      (assign (clLabels zero_claim) [(CapacityTypeLabelKey, CapacityTypeOnDemand)])
      (resolveKubeletConfiguration nc) (lsAck sample_launch_state) = (Ok s, p)"
    using sample_script by blast
  have f: "FilterInstanceTypesBySystemDisk (lvDiskOrder sample_launch_env) (lvDiskApi sample_launch_env) 1
      nc [sample_launch_type] (lsDisks sample_launch_state) = Ok ([sample_launch_type], lsDisks sample_launch_state)"
    using assms(2) by (simp add: FilterInstanceTypesBySystemDisk_def)
  have m: "map_of (mapToInstanceTypes [sample_launch_type] (stImages (ncStatus nc))) (itName sample_launch_type) = Some ''img''"
    by (simp add: assms(1) mapToInstanceTypes_def sample_launch_class_def sample_launch_type_def Compatible_def
        Intersects_def NewNodeSelectorRequirements_def NewRequirements_def reqs_add_def)
  have "\<exists>req. fst ?g = Ok req"
    using s by (simp add: getProvisioningGroup_def f m Let_def getVSwitchID_def sample_zonal_vswitches_def)
  then show thesis using that by (metis prod.collapse)
qed

theorem launch_request_bounds_witness:
  "\<exists>req st'. getProvisioningGroup sample_launch_env 1 ''region'' sample_launch_class zero_claim [sample_launch_type]
        sample_zonal_vswitches CapacityTypeOnDemand [] sample_launch_state = (Ok req, st')
     \<and> length (LaunchTemplateConfig req) \<le> 20 \<and> SpotTargetCapacity req = ''0'' \<and> PayAsYouGoTargetCapacity req = ''1''"
proof -
  have "SystemDisk (ncSpec sample_launch_class) = None" by (simp add: sample_launch_class_def zero_nodeclass_def)
  from sample_request[OF refl this, of "[]"] obtain req st' where
    req: "getProvisioningGroup sample_launch_env 1 ''region'' sample_launch_class zero_claim [sample_launch_type]
      sample_zonal_vswitches CapacityTypeOnDemand [] sample_launch_state = (Ok req, st')" .
  have "set (lvDiskOrder sample_launch_env xs) = set xs" for xs by (simp add: sample_launch_env_def)
  from launch_request_bounds[OF req this] have "length (LaunchTemplateConfig req) \<le> 20"
    "SpotTargetCapacity req = ''0''" "PayAsYouGoTargetCapacity req = ''1''" by simp_all
  with req show ?thesis by blast
qed

end
