(* ===== verification/Instance_Cache.thy ===== *)
theory Instance_Cache
  imports Instance_Provider
begin

text \<open>
  What the instance cache guarantees: its invariant, the answers after a listing, the outcomes
  of a deletion, and how long an instance that is gone can still be reported.
\<close>

section \<open>Invariant\<close>

text \<open>The cache lives fifteen seconds, has each key once, and stores an instance under its id.\<close>

definition ip_wf :: "instance_provider \<Rightarrow> bool" where
  "ip_wf p =
     (defaultExpiration (instanceCache p) = instanceCacheExpiration \<and> cache_wf (instanceCache p)
      \<and> list_all (\<lambda>(k, it). inID (Object it) = k) (cache_items (instanceCache p)))"

lemma instanceCacheExpiration_pos: "0 < instanceCacheExpiration"
  by (simp add: instanceCacheExpiration_def Second_def)

lemma ip_wf_new [inv_intros]: "ip_wf (NewInstanceProvider region)"
  by (simp add: ip_wf_def NewInstanceProvider_def cache_new_def instanceCacheExpiration_def Second_def cache_wf_def)

lemma cache_set_keyed:
  "list_all (\<lambda>(k, it). inID (Object it) = k) (cache_items c) \<Longrightarrow>
   list_all (\<lambda>(k, it). inID (Object it) = k) (cache_items (cache_set now (inID i) i d c))"
proof -
  assume *: "list_all (\<lambda>(k, it). inID (Object it) = k) (cache_items c)"
  obtain e where e: "cache_items (cache_set now (inID i) i d c) =
      AList.update (inID i) \<lparr>Object = i, Expiration = e\<rparr> (cache_items c)"
    by (simp add: cache_set_def Let_def)
  show ?thesis
    unfolding e list_all_iff using * set_update_pairs[of "inID i" "\<lparr>Object = i, Expiration = e\<rparr>" "cache_items c"]
    by (fastforce simp: list_all_iff)
qed

lemma ip_wf_sync [inv_intros]: "ip_wf p \<Longrightarrow> ip_wf (syncAllInstances now ins p)"
proof (induction ins arbitrary: p)
  case (Cons i ins)
  let ?p = "p\<lparr>instanceCache := cache_set now (inID i) i 0 (instanceCache p)\<rparr>"
  have "ip_wf ?p" using Cons.prems by (simp add: ip_wf_def cache_set_keyed)
  from Cons.IH[OF this] show ?case by (simp add: syncAllInstances_def)
qed (simp add: syncAllInstances_def)

lemma ip_wf_time [simp]: "ip_wf (p\<lparr>lastUpdateTime := t\<rparr>) = ip_wf p"
  by (simp add: ip_wf_def)

lemma ip_wf_List [inv_intros]:
  "ip_wf p \<Longrightarrow> instance_List api now p = Some (r, p') \<Longrightarrow> ip_wf p'"
  by (auto simp: instance_List_def ip_wf_sync split: if_splits option.splits outcome.splits)

lemma ip_wf_Get [inv_intros]:
  "ip_wf p \<Longrightarrow> instance_Get api now i p = Some (r, p') \<Longrightarrow> ip_wf p'"
  by (auto simp: instance_Get_def Let_def intro: ip_wf_sync ip_wf_List split: option.splits outcome.splits prod.splits)

lemma ip_wf_delete [inv_intros]: "ip_wf p \<Longrightarrow> ip_wf (p\<lparr>instanceCache := cache_delete i (instanceCache p)\<rparr>)"
  by (auto simp: ip_wf_def cache_delete_def list_all_iff distinct_delete cache_wf_def AList.delete_eq distinct_map_fst_filter)

lemma ip_wf_Delete [inv_intros]:
  assumes "ip_wf p" "instance_Delete api del now i p = Some (r, p')"
  shows "ip_wf p'"
  using assms
  by (auto simp: instance_Delete_def intro: ip_wf_Get ip_wf_delete
      split: option.splits outcome.splits prod.splits if_splits bool.splits)

section \<open>Reading the cache\<close>

lemma sync_is_put_all:
  "instanceCache (syncAllInstances now ins p) =
   fold (\<lambda>i. cache_set_default now (inID i) i) ins (instanceCache p)"
  by (simp add: syncAllInstances_def cache_set_default_def[abs_def])

lemma lastUpdateTime_sync [simp]: "lastUpdateTime (syncAllInstances now ins p) = lastUpdateTime p"
  by (simp add: syncAllInstances_def)

lemma sync_get:
  assumes "ip_wf p" "0 \<le> now" "distinct (map inID ins)"
  shows "i \<in> set ins \<Longrightarrow> cache_get t (inID i) (instanceCache (syncAllInstances now ins p)) =
      (if t \<le> now + instanceCacheExpiration then Some i else None)"
    and "k \<notin> inID ` set ins \<Longrightarrow>
      cache_get t k (instanceCache (syncAllInstances now ins p)) = cache_get t k (instanceCache p)"
  using go_store.get_put_all_mem[of now "instanceCache p" inID ins i t]
    go_store.get_put_all_other[of k inID ins t now "instanceCache p"] assms instanceCacheExpiration_pos
  by (simp_all add: sync_is_put_all ip_wf_def)

text \<open>The values of the cache are its unexpired instances, each once.\<close>

lemma cached_instances:
  assumes "ip_wf p"
  shows "distinct (map inID (map snd (cache_list now (instanceCache p))))"
    and "x \<in> set (map snd (cache_list now (instanceCache p))) \<longleftrightarrow>
      cache_get now (inID x) (instanceCache p) = Some x"
proof -
  have keyed: "inID v = k" if "(k, v) \<in> set (cache_list now (instanceCache p))" for k v
    using assms that by (auto simp: ip_wf_def list_all_iff cache_list_def)
  have wf: "cache_wf (instanceCache p)" using assms by (simp add: ip_wf_def)
  have "map inID (map snd (cache_list now (instanceCache p))) = map fst (cache_list now (instanceCache p))"
    using keyed by auto
  moreover have "distinct (map fst (cache_list now (instanceCache p)))"
    using wf by (simp add: cache_wf_def cache_list_def comp_def case_prod_unfold distinct_map_fst_filter)
  ultimately show "distinct (map inID (map snd (cache_list now (instanceCache p))))" by metis
  show "x \<in> set (map snd (cache_list now (instanceCache p))) \<longleftrightarrow> cache_get now (inID x) (instanceCache p) = Some x"
    using keyed set_cache_list[OF wf, of _ x now] by force
qed

section \<open>Properties\<close>

text \<open>
  C26. When the last listing is older than fifteen seconds and the API serves the instances in
  finitely many pages, listing returns all of them, and for the next fifteen seconds each is
  found by its id without asking the API.
\<close>

theorem listed_instances_are_served:
  assumes "ip_wf p" "0 \<le> now" "instanceCacheExpiration \<le> now - lastUpdateTime p"
    and "serves_pages (instances_page api) None pgs" "ins = concat (map pgItems pgs)" "distinct (map inID ins)"
  shows "\<exists>p'. instance_List api now p = Some (Ok ins, p')
    \<and> (\<forall>i\<in>set ins. \<forall>t. t \<le> now + instanceCacheExpiration \<longrightarrow>
         (\<forall>api'. instance_Get api' t (inID i) p' = Some (Ok i, p')))"
proof -
  have l: "list_instances api = Some (Ok ins)"
    using token_loop_pages[OF assms(4), of "[]"] assms(5) by (simp add: list_instances_def)
  let ?p = "(syncAllInstances now ins p)\<lparr>lastUpdateTime := now\<rparr>"
  have "instance_Get api' t (inID i) ?p = Some (Ok i, ?p)"
    if "i \<in> set ins" "t \<le> now + instanceCacheExpiration" for i t api'
    using sync_get(1)[OF assms(1,2,6) that(1), of t] that(2) by (simp add: instance_Get_def)
  moreover have "instance_List api now p = Some (Ok ins, ?p)"
    using assms(3) l by (simp add: instance_List_def)
  ultimately show ?thesis by blast
qed

text \<open>
  C27. A look-up that misses within fifteen seconds of the last listing does not ask the API: it
  answers not found, and it renews every cached instance for another fifteen seconds. So an
  instance that no longer exists is reported as existing for as long as such look-ups go on,
  whatever the API would answer.
\<close>

theorem missed_lookup_renews_cached_instances:
  assumes "ip_wf p" "0 \<le> now" "now - lastUpdateTime p < instanceCacheExpiration"
    and "cache_get now (inID x) (instanceCache p) = Some x" "cache_get now k (instanceCache p) = None"
  shows "\<exists>e p'. instance_Get api now k p = Some (Err e, p') \<and> IsNodeClaimNotFoundError (Some e)
    \<and> lastUpdateTime p' = lastUpdateTime p
    \<and> (\<forall>api' t. t \<le> now + instanceCacheExpiration \<longrightarrow> instance_Get api' t (inID x) p' = Some (Ok x, p'))"
proof -
  let ?ins = "map snd (cache_list now (instanceCache p))"
  let ?p = "syncAllInstances now ?ins p"
  have d: "distinct (map inID ?ins)" by (rule cached_instances(1)[OF assms(1)])
  have "x \<in> set ?ins" using cached_instances(2)[OF assms(1), of x now] assms(4) by simp
  note renewed = sync_get(1)[OF assms(1,2) d this]
  have "k \<notin> inID ` set ?ins" using cached_instances(2)[OF assms(1), of _ now] assms(5) by force
  from sync_get(2)[OF assms(1,2) d this, of now] assms(5)
  have "cache_get now k (instanceCache ?p) = None" by simp
  then have "instance_Get api now k p = Some (Err (NodeClaimNotFoundError (ErrorString ''instance not found'')), ?p)"
    using assms(3,5) by (simp add: instance_Get_def instance_List_def Let_def)
  moreover have "instance_Get api' t (inID x) ?p = Some (Ok x, ?p)" if "t \<le> now + instanceCacheExpiration" for api' t
    using renewed[of t] that by (simp add: instance_Get_def)
  ultimately show ?thesis by (simp add: IsNodeClaimNotFoundError_def)
qed

text \<open>
  C28. Deleting a cached instance: while it is starting nothing is asked of ECS and the caller is
  told so; otherwise it is forgotten exactly when ECS accepts the deletion, and an instance that
  ECS does not know is reported as a missing node claim.
\<close>

theorem delete_instance_outcomes:
  assumes "cache_get now i (instanceCache p) = Some ins"
    and "starting \<longleftrightarrow> inStatus ins \<in> {InstanceStatusStarting, InstanceStatusPending}"
  shows "(starting \<longrightarrow> (\<exists>e. instance_Delete api del now i p = Some (Err e, p)
            \<and> IsInstanceStateOperationNotSupportedError (Some e)))
    \<and> (\<not> starting \<and> del i = None \<longrightarrow> (\<exists>p'. instance_Delete api del now i p = Some (Ok (), p')
            \<and> (\<forall>t k. cache_get t k (instanceCache p') = (if k = i then None else cache_get t k (instanceCache p)))))
    \<and> (\<not> starting \<and> del i = Some err \<and> IsNotFound (Some err) = Ok True \<longrightarrow>
          (\<exists>e. instance_Delete api del now i p = Some (Err e, p) \<and> IsNodeClaimNotFoundError (Some e)))
    \<and> (\<not> starting \<and> del i = Some err \<and> IsNotFound (Some err) = Ok False \<longrightarrow>
          (\<exists>m. instance_Delete api del now i p = Some (Err (Wrap m err), p)))"
proof -
  have g: "instance_Get api now i p = Some (Ok ins, p)" using assms(1) by (simp add: instance_Get_def)
  show ?thesis
    by (auto simp: instance_Delete_def g assms(2) NewInstanceStateOperationNotSupportedError_def
        IsInstanceStateOperationNotSupportedError_def IsNodeClaimNotFoundError_def cache_get_delete)
qed

section \<open>Witnesses\<close>

definition sample_entry :: describe_instance where
  "sample_entry = \<lparr>eiCreationTime = Some ''2024-10-01T08:00Z'', eiStatus = Some ''Running'', eiInstanceId = Some ''i-1'',
     eiImageId = Some ''img'', eiInstanceType = Some ''ecs.g7.large'', eiRegionId = Some ''cn-x'', eiZoneId = Some ''cn-x-a'',
     eiSpotStrategy = Some ''NoSpot'', eiSecurityGroupIds = Some [Some ''sg-1''], eiVpcAttributes = Some (Some ''vsw-1''),
     eiTags = Some [(Some ''k'', Some ''v'')]\<rparr>"

definition sample_instance :: ecs_instance where
  "sample_instance = \<lparr>CreationTime = zeroTime, inStatus = ''Running'', inID = ''i-1'', inImageID = ''img'',
     inType = ''ecs.g7.large'', inRegion = ''cn-x'', inZone = ''cn-x-a'', inCapacityType = ''on-demand'',
     inSecurityGroupIDs = [''sg-1''], inVSwitchID = ''vsw-1'', inTags = [(''k'', ''v'')]\<rparr>"

text \<open>A provider that listed the instance at time 100.\<close>

definition sample_cached :: instance_provider where
  "sample_cached = (syncAllInstances 100 [sample_instance] (NewInstanceProvider ''cn-x''))\<lparr>lastUpdateTime := 100\<rparr>"

lemma sample_cached_wf: "ip_wf sample_cached"
  unfolding sample_cached_def by (simp add: ip_wf_sync ip_wf_new)

lemma sample_cached_get:
  "cache_get 101 k (instanceCache sample_cached) = (if k = ''i-1'' then Some sample_instance else None)"
  using sync_get(1)[OF ip_wf_new, of 100 "[sample_instance]" sample_instance 101 "''cn-x''"]
    sync_get(2)[OF ip_wf_new, of 100 "[sample_instance]" k 101 "''cn-x''"]
  by (auto simp: sample_cached_def sample_instance_def NewInstanceProvider_def instanceCacheExpiration_def Second_def)

theorem listed_instances_are_served_witness:
  "\<exists>i p'. instance_List (\<lambda>_. Ok (Some \<lparr>pgItems = [Some sample_entry], pgNextToken = None\<rparr>)) 1
        (NewInstanceProvider ''cn-x'') = Some (Ok [i], p') \<and> inID i = ''i-1''"
proof -
  let ?api = "\<lambda>_. Ok (Some \<lparr>pgItems = [Some sample_entry], pgNextToken = None\<rparr>)"
  obtain i where i: "NewInstance sample_entry = Ok i" "inID i = ''i-1''"
    by (simp add: NewInstance_def sample_entry_def toSecurityGroupIDs_def toVSwitchID_def toTags_def tag_pair_def)
  then have "serves_pages (instances_page ?api) None [\<lparr>pgItems = [i], pgNextToken = None\<rparr>]"
    by (simp add: instances_page_def)
  from listed_instances_are_served[OF ip_wf_new _ _ this refl, of 1 "''cn-x''"] i show ?thesis
    by (auto simp: NewInstanceProvider_def instanceCacheExpiration_def zeroTime_def Second_def)
qed

theorem missed_lookup_renews_cached_instances_witness:
  "\<exists>p'. (\<exists>e. instance_Get (\<lambda>_. Ok None) 101 ''i-2'' sample_cached = Some (Err e, p'))
     \<and> instance_Get (\<lambda>_. Ok None) (101 + instanceCacheExpiration) ''i-1'' p' = Some (Ok sample_instance, p')"
proof -
  have "101 - lastUpdateTime sample_cached < instanceCacheExpiration"
    by (simp add: sample_cached_def instanceCacheExpiration_def Second_def)
  moreover have "cache_get 101 (inID sample_instance) (instanceCache sample_cached) = Some sample_instance"
    "cache_get 101 ''i-2'' (instanceCache sample_cached) = None"
    by (simp_all add: sample_cached_get sample_instance_def)
  ultimately show ?thesis
    using missed_lookup_renews_cached_instances[OF sample_cached_wf, of 101 sample_instance "''i-2''" "\<lambda>_. Ok None"]
    by (auto simp: sample_instance_def)
qed

theorem delete_instance_outcomes_witness:
  "\<exists>p'. instance_Delete (\<lambda>_. Ok None) (\<lambda>_. None) 101 ''i-1'' sample_cached = Some (Ok (), p')
     \<and> cache_get 101 ''i-1'' (instanceCache p') = None"
  using delete_instance_outcomes[OF _ refl, of 101 "''i-1''" sample_cached sample_instance "\<lambda>_. Ok None" "\<lambda>_. None"]
  by (auto simp: sample_cached_get) (simp_all add: sample_instance_def instance_status_defs)

end
