(* ===== verification/Cloud_Provider.thy ===== *)
theory Cloud_Provider
  imports Instance_Launch Instance_Cache
begin

text \<open>
  The cloud provider karpenter calls: \<^verbatim>\<open>src/pkg/cloudprovider/cloudprovider.go\<close> and
  \<^verbatim>\<open>drift.go\<close>. It resolves node classes and node pools through the Kubernetes API (a
  parameter), asks the instance type provider for types and the instance provider for
  instances, and translates instances into node claims. What it publishes for users is in \<open>Events\<close>.
\<close>

section \<open>State and environment\<close>

record cloud_state =
  csTypes :: instance_type_provider
  csPricing :: pricing_provider
  csLaunch :: launch_state
  csInstances :: instance_provider

record cloud_env =
  ceNodeClass :: "string \<Rightarrow> ecs_nodeclass outcome"
  ceNodePool :: "string \<Rightarrow> node_pool outcome"
  ceSpecHash :: "hashed_fields \<Rightarrow> string"
  ceZonesHash :: "string list \<Rightarrow> nat"
  ceKcHash :: "kubelet_configuration \<Rightarrow> nat"
  ceOverhead :: rat
  ceJson :: "string \<Rightarrow> json outcome"
  ceCluster :: "string option outcome"
  ceLaunch :: launch_env
  ceInstances :: ecs_instances
  ceDelete :: "string \<Rightarrow> gerror option"

text \<open>The instances of the cluster, in the provider's region.\<close>

abbreviation ceOwned :: "cloud_env \<Rightarrow> cloud_state \<Rightarrow> instances_api" where
  "ceOwned env s \<equiv> cluster_instances (ceInstances env) (lvClusterID (ceLaunch env)) (ipRegion (csInstances s))"

text \<open>The instance type provider's environment: prices, unavailable offerings and the
  cluster's network come from the shared providers.\<close>

definition types_env :: "cloud_env \<Rightarrow> cloud_state \<Rightarrow> list_env" where
  "types_env env s =
     \<lparr>zonesHash = ceZonesHash env, kcHash = ceKcHash env, leRnd = lvAny (ceLaunch env),
      VMMemoryOverheadPercent = ceOverhead env, lePricing = csPricing s,
      leUnavailable = lsUnavailable (csLaunch s),
      ClusterCNI = fst (GetClusterCNI (ceJson env) (ceCluster env) (lsAck (csLaunch s)))\<rparr>"

text \<open>\<^verbatim>\<open>instanceTypeProvider.List\<close>; the cluster's network is looked up, and remembered,
  only when the answer is not cached.\<close>

definition list_types ::
  "cloud_env \<Rightarrow> int \<Rightarrow> ecs_nodeclass \<Rightarrow> cloud_state \<Rightarrow> instance_type list outcome \<times> cloud_state" where
  "list_types env now nc s =
     (let kc = KubeletConfiguration (ncSpec nc); le = types_env env s;
          (r, p) = itp_List le now kc nc (csTypes s);
          asked = (validateState nc (csTypes s) = None
            \<and> cache_get now (list_key le (case kc of None \<Rightarrow> empty_kubelet | Some k \<Rightarrow> k) nc (csTypes s))
                (instanceTypesCache (csTypes s)) = None);
          ack = (if asked then snd (GetClusterCNI (ceJson env) (ceCluster env) (lsAck (csLaunch s)))
                 else lsAck (csLaunch s))
      in (r, s\<lparr>csTypes := p, csLaunch := (csLaunch s)\<lparr>lsAck := ack\<rparr>\<rparr>))"

section \<open>Resolving node classes and node pools\<close>

definition newTerminatingNodeClassError :: "string \<Rightarrow> gerror" where
  "newTerminatingNodeClassError name =
     StatusError NotFound (''ecsnodeclasses.'' @ Group @ '' '' @ [CHR 0x22] @ name @ [CHR 0x22] @ '' is terminating, treating as not found'')"

definition resolve_class :: "cloud_env \<Rightarrow> string option \<Rightarrow> ecs_nodeclass outcome" where
  "resolve_class env ref =
     outcome_bind (deref ref) (\<lambda>name. outcome_bind (ceNodeClass env name) (\<lambda>nc.
       if ncDeletionTimestamp nc \<noteq> None then Err (newTerminatingNodeClassError (ncName nc)) else Ok nc))"

definition resolveNodeClassFromNodeClaim :: "cloud_env \<Rightarrow> node_claim \<Rightarrow> ecs_nodeclass outcome" where
  "resolveNodeClassFromNodeClaim env cl = resolve_class env (clNodeClassRef cl)"

definition resolveNodeClassFromNodePool :: "cloud_env \<Rightarrow> node_pool \<Rightarrow> ecs_nodeclass outcome" where
  "resolveNodeClassFromNodePool env np = resolve_class env (poolNodeClassRef np)"

definition resolveNodePoolFromInstance :: "cloud_env \<Rightarrow> ecs_instance \<Rightarrow> node_pool outcome" where
  "resolveNodePoolFromInstance env ins =
     (case map_of (inTags ins) NodePoolLabelKey of
        Some name \<Rightarrow> ceNodePool env name
      | None \<Rightarrow> Err (StatusError NotFound (''nodepools.karpenter.sh '' @ [CHR 0x22, CHR 0x22] @ '' not found'')))"

definition resolveNodeClassFromInstance :: "cloud_env \<Rightarrow> ecs_instance \<Rightarrow> ecs_nodeclass outcome" where
  "resolveNodeClassFromInstance env ins =
     outcome_bind (outcome_wrap ''resolving nodepool, '' (resolveNodePoolFromInstance env ins))
       (resolveNodeClassFromNodePool env)"

section \<open>Instance types\<close>

definition GetInstanceTypes ::
  "cloud_env \<Rightarrow> int \<Rightarrow> node_pool \<Rightarrow> cloud_state \<Rightarrow> instance_type list outcome \<times> cloud_state" where
  "GetInstanceTypes env now np s =
     (case resolveNodeClassFromNodePool env np of
        Err e \<Rightarrow> (Err e, s)
      | Panic \<Rightarrow> (Panic, s)
      | Ok nc \<Rightarrow> list_types env now nc s)"

text \<open>A node pool or node class that is not found leaves the type unknown.\<close>

definition resolveInstanceTypeFromInstance ::
  "cloud_env \<Rightarrow> int \<Rightarrow> ecs_instance \<Rightarrow> cloud_state \<Rightarrow> instance_type option outcome \<times> cloud_state" where
  "resolveInstanceTypeFromInstance env now ins s =
     (let ignore = (\<lambda>e. case IgnoreNotFound (Some e) of None \<Rightarrow> Ok None | Some e' \<Rightarrow> Err e') in
      case resolveNodePoolFromInstance env ins of
        Err e \<Rightarrow> (ignore (Wrap ''resolving nodepool, '' e), s)
      | Panic \<Rightarrow> (Panic, s)
      | Ok np \<Rightarrow>
          (case GetInstanceTypes env now np s of
             (Err e, s') \<Rightarrow> (ignore (Wrap ''resolving nodeclass, '' e), s')
           | (Panic, s') \<Rightarrow> (Panic, s')
           | (Ok its, s') \<Rightarrow> (Ok (find (\<lambda>it. itName it = inType ins) its), s')))"

definition type_fits :: "node_claim \<Rightarrow> instance_type \<Rightarrow> bool" where
  "type_fits cl it =
     (IsCompatible (claim_reqs cl) (itRequirements it)
      \<and> AvailableOfferings (CompatibleOfferings (claim_reqs cl) (Offerings it)) \<noteq> []
      \<and> Fits (clRequests cl) (Allocatable it))"

definition resolveInstanceTypes ::
  "cloud_env \<Rightarrow> int \<Rightarrow> node_claim \<Rightarrow> ecs_nodeclass \<Rightarrow> cloud_state \<Rightarrow> instance_type list outcome \<times> cloud_state" where
  "resolveInstanceTypes env now cl nc s =
     (case list_types env now nc s of
        (r, s') \<Rightarrow> (outcome_map (filter (type_fits cl)) (outcome_wrap ''getting instance types, '' r), s'))"

section \<open>Node claims from instances\<close>

definition nonzero :: "resource_list \<Rightarrow> resource_list" where
  "nonzero rl = filter (\<lambda>(n, q). q \<noteq> 0) rl"

definition claim_labels :: "ecs_instance \<Rightarrow> instance_type option \<Rightarrow> (string \<times> string) list" where
  "claim_labels i it =
     (let base = AList.update CapacityTypeLabelKey (inCapacityType i)
            (AList.update LabelTopologyZone (inZone i) (GetAllSingleValuedRequirementLabels it))
      in case map_of (inTags i) NodePoolLabelKey of
           None \<Rightarrow> base
         | Some v \<Rightarrow> AList.update NodePoolLabelKey v base)"

definition instanceToNodeClaim :: "int \<Rightarrow> ecs_instance \<Rightarrow> instance_type option \<Rightarrow> node_claim" where
  "instanceToNodeClaim now i it =
     zero_claim\<lparr>clLabels := claim_labels i it, clAnnotations := [], clCreationTimestamp := CreationTime i,
       clDeletionTimestamp := (if inStatus i = InstanceStatusStopping \<or> inStatus i = InstanceStatusStopped
                               then Some now else None),
       clProviderID := inRegion i @ ''.'' @ inID i, clImageID := inImageID i,
       clCapacity := (case it of None \<Rightarrow> [] | Some t \<Rightarrow> nonzero (itCapacity t)),
       clAllocatable := (case it of None \<Rightarrow> [] | Some t \<Rightarrow> nonzero (Allocatable t))\<rparr>"

section \<open>Create, List, Get, Delete\<close>

definition cp_Create :: "cloud_env \<Rightarrow> int \<Rightarrow> node_claim \<Rightarrow> cloud_state \<Rightarrow> node_claim outcome \<times> cloud_state" where
  "cp_Create env now cl s =
     (case resolveNodeClassFromNodeClaim env cl of
        Panic \<Rightarrow> (Panic, s)
      | Err e \<Rightarrow> (Err (InsufficientCapacityError (Wrap ''resolving node class, '' e)), s)
      | Ok nc \<Rightarrow>
          (let conds = StatusConditions now (stConditions (ncStatus nc));
               msg = (case cond_get ConditionReady conds of None \<Rightarrow> [] | Some c \<Rightarrow> ctMessage c)
           in case cond_status ConditionReady conds of
                ConditionFalse \<Rightarrow> (Err (NodeClassNotReadyError (ErrorString msg)), s)
              | ConditionUnknown \<Rightarrow>
                  (Err (ErrorString (''resolving NodeClass readiness, NodeClass is in Ready=Unknown, '' @ msg)), s)
              | ConditionTrue \<Rightarrow>
                  (case resolveInstanceTypes env now cl nc s of
                     (Panic, s1) \<Rightarrow> (Panic, s1)
                   | (Err e, s1) \<Rightarrow> (Err (Wrap ''resolving instance types, '' e), s1)
                   | (Ok its, s1) \<Rightarrow>
                       (if its = [] then (Err (InsufficientCapacityError
                            (ErrorString ''all requested instance types were unavailable during launch'')), s1)
                        else case instance_Create (ceLaunch env) now (ipRegion (csInstances s1)) nc cl its (csLaunch s1) of
                          (r, ls) \<Rightarrow>
                            (outcome_map (\<lambda>i.
                               (instanceToNodeClaim now i (find (\<lambda>t. itName t = inType i) its))
                                 \<lparr>clAnnotations := assign []
                                    [(AnnotationECSNodeClassHash, Hash (ceSpecHash env) nc),
                                     (AnnotationECSNodeClassHashVersion, ECSNodeClassHashVersion)]\<rparr>)
                               (outcome_wrap ''creating instance, '' r), s1\<lparr>csLaunch := ls\<rparr>)))))"

text \<open>One instance of the list: its type, then its node class, which only has to be
  resolvable or missing.\<close>

definition claim_of_instance ::
  "cloud_env \<Rightarrow> int \<Rightarrow> ecs_instance \<Rightarrow> cloud_state \<Rightarrow> node_claim outcome \<times> cloud_state" where
  "claim_of_instance env now ins s =
     (case resolveInstanceTypeFromInstance env now ins s of
        (Panic, s') \<Rightarrow> (Panic, s')
      | (Err e, s') \<Rightarrow> (Err (Wrap ''resolving instance type, '' e), s')
      | (Ok it, s') \<Rightarrow>
          (case resolveNodeClassFromInstance env ins of
             Panic \<Rightarrow> (Panic, s')
           | Ok _ \<Rightarrow> (Ok (instanceToNodeClaim now ins it), s')
           | Err e \<Rightarrow>
               (case IgnoreNotFound (Some e) of
                  None \<Rightarrow> (Ok (instanceToNodeClaim now ins it), s')
                | Some e' \<Rightarrow> (Err (Wrap ''resolving nodeclass, '' e), s'))))"

fun claims_of_instances ::
  "cloud_env \<Rightarrow> int \<Rightarrow> ecs_instance list \<Rightarrow> cloud_state \<Rightarrow> node_claim list outcome \<times> cloud_state" where
  "claims_of_instances env now [] s = (Ok [], s)"
| "claims_of_instances env now (i # is) s =
     (case claim_of_instance env now i s of
        (Panic, s') \<Rightarrow> (Panic, s')
      | (Err e, s') \<Rightarrow> (Err e, s')
      | (Ok cl, s') \<Rightarrow>
          (case claims_of_instances env now is s' of
             (r, s'') \<Rightarrow> (outcome_map (\<lambda>cls. cl # cls) r, s'')))"

definition cp_List :: "cloud_env \<Rightarrow> int \<Rightarrow> cloud_state \<Rightarrow> (node_claim list outcome \<times> cloud_state) option" where
  "cp_List env now s =
     (case instance_List (ceOwned env s) now (csInstances s) of
        None \<Rightarrow> None
      | Some (Panic, p) \<Rightarrow> Some (Panic, s\<lparr>csInstances := p\<rparr>)
      | Some (Err e, p) \<Rightarrow> Some (Err (Wrap ''listing instances, '' e), s\<lparr>csInstances := p\<rparr>)
      | Some (Ok is, p) \<Rightarrow> Some (claims_of_instances env now is (s\<lparr>csInstances := p\<rparr>)))"

definition cp_Get :: "cloud_env \<Rightarrow> int \<Rightarrow> string \<Rightarrow> cloud_state \<Rightarrow> (node_claim outcome \<times> cloud_state) option" where
  "cp_Get env now providerID s =
     (case ParseInstanceID providerID of
        Err e \<Rightarrow> Some (Err (Wrap ''getting instance ID, '' e), s)
      | Panic \<Rightarrow> Some (Panic, s)
      | Ok i \<Rightarrow>
          (case instance_Get (ceOwned env s) now i (csInstances s) of
             None \<Rightarrow> None
           | Some (Err e, p) \<Rightarrow> Some (Err (Wrap ''getting instance, '' e), s\<lparr>csInstances := p\<rparr>)
           | Some (Panic, p) \<Rightarrow> Some (Panic, s\<lparr>csInstances := p\<rparr>)
           | Some (Ok ins, p) \<Rightarrow> Some (claim_of_instance env now ins (s\<lparr>csInstances := p\<rparr>))))"

definition cp_Delete :: "cloud_env \<Rightarrow> int \<Rightarrow> node_claim \<Rightarrow> cloud_state \<Rightarrow> (unit outcome \<times> cloud_state) option" where
  "cp_Delete env now cl s =
     (case ParseInstanceID (clProviderID cl) of
        Err e \<Rightarrow> Some (Err (Wrap ''getting instance ID, '' e), s)
      | Panic \<Rightarrow> Some (Panic, s)
      | Ok i \<Rightarrow> map_option (\<lambda>(r, p). (r, s\<lparr>csInstances := p\<rparr>))
                  (instance_Delete (ceOwned env s) (ceDelete env) now i (csInstances s)))"

section \<open>Drift\<close>

definition VSwitchDrift :: string where "VSwitchDrift = ''VSwitchDrift''"
definition SecurityGroupDrift :: string where "SecurityGroupDrift = ''SecurityGroupDrift''"
definition NodeClassDrift :: string where "NodeClassDrift = ''NodeClassDrift''"

definition areStaticFieldsDrifted :: "node_claim \<Rightarrow> ecs_nodeclass \<Rightarrow> string" where
  "areStaticFieldsDrifted cl nc =
     (case (map_of (ncAnnotations nc) AnnotationECSNodeClassHash, map_of (clAnnotations cl) AnnotationECSNodeClassHash,
            map_of (ncAnnotations nc) AnnotationECSNodeClassHashVersion,
            map_of (clAnnotations cl) AnnotationECSNodeClassHashVersion) of
        (Some classHash, Some claimHash, Some classVersion, Some claimVersion) \<Rightarrow>
          (if classVersion \<noteq> claimVersion then [] else if classHash \<noteq> claimHash then NodeClassDrift else [])
      | _ \<Rightarrow> [])"

definition areSecurityGroupsDrifted :: "ecs_instance \<Rightarrow> ecs_nodeclass \<Rightarrow> string outcome" where
  "areSecurityGroupsDrifted ins nc =
     (let ids = map ssgID (stSecurityGroups (ncStatus nc)) in
      if ids = [] then Err (ErrorString ''no security groups are present in the status'')
      else Ok (if set ids = set (inSecurityGroupIDs ins) then [] else SecurityGroupDrift))"

definition isVSwitchDrifted :: "ecs_instance \<Rightarrow> ecs_nodeclass \<Rightarrow> string outcome" where
  "isVSwitchDrifted ins nc =
     (let vs = stVSwitches (ncStatus nc) in
      if vs = [] then Err (ErrorString ''no vswitches are discovered'')
      else Ok (if list_ex (\<lambda>v. svID v = inVSwitchID ins) vs then [] else VSwitchDrift))"

definition getInstance ::
  "cloud_env \<Rightarrow> int \<Rightarrow> string \<Rightarrow> cloud_state \<Rightarrow> (ecs_instance outcome \<times> cloud_state) option" where
  "getInstance env now providerID s =
     (case ParseInstanceID providerID of
        Err e \<Rightarrow> Some (Err e, s)
      | Panic \<Rightarrow> Some (Panic, s)
      | Ok i \<Rightarrow> map_option (\<lambda>(r, p). (outcome_wrap ''getting instance, '' r, s\<lparr>csInstances := p\<rparr>))
                  (instance_Get (ceOwned env s) now i (csInstances s)))"

definition isNodeClassDrifted ::
  "cloud_env \<Rightarrow> int \<Rightarrow> node_claim \<Rightarrow> ecs_nodeclass \<Rightarrow> cloud_state \<Rightarrow> (string outcome \<times> cloud_state) option" where
  "isNodeClassDrifted env now cl nc s =
     (if areStaticFieldsDrifted cl nc \<noteq> [] then Some (Ok (areStaticFieldsDrifted cl nc), s)
      else map_option (\<lambda>(r, s').
        (outcome_bind r (\<lambda>ins.
         outcome_bind (outcome_wrap ''calculating securitygroup drift, '' (areSecurityGroupsDrifted ins nc)) (\<lambda>sg.
         outcome_map (\<lambda>vsw. if sg \<noteq> [] then sg else vsw)
           (outcome_wrap ''calculating vSwitch drift, '' (isVSwitchDrifted ins nc)))), s'))
        (getInstance env now (clProviderID cl) s))"

definition IsDrifted :: "cloud_env \<Rightarrow> int \<Rightarrow> node_claim \<Rightarrow> cloud_state \<Rightarrow> (string outcome \<times> cloud_state) option" where
  "IsDrifted env now cl s =
     (let ignore = (\<lambda>e. case IgnoreNotFound (Some e) of None \<Rightarrow> Ok [] | Some e' \<Rightarrow> Err e') in
      case map_of (clLabels cl) NodePoolLabelKey of
        None \<Rightarrow> Some (Ok [], s)
      | Some name \<Rightarrow>
          (case ceNodePool env name of
             Err e \<Rightarrow> Some (ignore e, s)
           | Panic \<Rightarrow> Some (Panic, s)
           | Ok np \<Rightarrow>
               (if poolNodeClassRef np = None then Some (Ok [], s)
                else case resolveNodeClassFromNodePool env np of
                  Err e \<Rightarrow> Some (ignore (Wrap ''resolving node class, '' e), s)
                | Panic \<Rightarrow> Some (Panic, s)
                | Ok nc \<Rightarrow> isNodeClassDrifted env now cl nc s)))"

section \<open>Properties\<close>

lemma error_classes_wrap [simp]:
  "IsInsufficientCapacityError (Some (Wrap m e)) = IsInsufficientCapacityError (Some e)"
  "IsInsufficientCapacityError (Some (InsufficientCapacityError e))"
  "\<not> IsInsufficientCapacityError (Some (ErrorString m))" "\<not> IsInsufficientCapacityError (Some (NodeClassNotReadyError e))"
  "IsNodeClassNotReadyError (Some (NodeClassNotReadyError e))" "\<not> IsNodeClassNotReadyError (Some (ErrorString m))"
  "IsNodeClassNotReadyError (Some (Wrap m e)) = IsNodeClassNotReadyError (Some e)"
  "\<not> IsNodeClassNotReadyError (Some (InsufficientCapacityError (ErrorString m)))"
  by (simp_all add: IsInsufficientCapacityError_def IsNodeClassNotReadyError_def)

abbreviation class_ready_at :: "int \<Rightarrow> ecs_nodeclass \<Rightarrow> condition_status" where
  "class_ready_at now nc \<equiv> cond_status ConditionReady (StatusConditions now (stConditions (ncStatus nc)))"

text \<open>
  C3. How every failure of a creation is classified. A node class that cannot be resolved (missing,
  terminating, or any other error of the API server) and instance types none of which fits the
  claim give an insufficient capacity error, so karpenter gives the claim up and reschedules its
  pods; a node class that is not ready gives the not-ready error; while readiness is unknown the
  error is neither, so the claim is kept. An error of listing the types or of the launch keeps its
  own class: it is reported as insufficient capacity, or as a class that is not ready, exactly if
  it is one. Before the launch nothing but the instance type cache and the remembered network
  changes, and a creation succeeds exactly when its launch does.
\<close>

theorem create_failures_classified:
  assumes run: "cp_Create env now cl s = (r, s')"
  shows "case resolveNodeClassFromNodeClaim env cl of
      Panic \<Rightarrow> s' = s \<and> r = Panic
    | Err e \<Rightarrow> s' = s \<and> (\<exists>e'. r = Err e' \<and> IsInsufficientCapacityError (Some e'))
    | Ok nc \<Rightarrow>
       (case class_ready_at now nc of
          ConditionFalse \<Rightarrow>
            s' = s \<and> (\<exists>e'. r = Err e' \<and> IsNodeClassNotReadyError (Some e') \<and> \<not> IsInsufficientCapacityError (Some e'))
        | ConditionUnknown \<Rightarrow>
            s' = s \<and> (\<exists>e'. r = Err e' \<and> \<not> IsNodeClassNotReadyError (Some e') \<and> \<not> IsInsufficientCapacityError (Some e'))
        | ConditionTrue \<Rightarrow>
           (case list_types env now nc s of
              (Panic, s1) \<Rightarrow> s' = s1 \<and> r = Panic
            | (Err e, s1) \<Rightarrow>
                s' = s1 \<and> (\<exists>e'. r = Err e' \<and> IsInsufficientCapacityError (Some e') = IsInsufficientCapacityError (Some e)
                   \<and> IsNodeClassNotReadyError (Some e') = IsNodeClassNotReadyError (Some e))
            | (Ok its, s1) \<Rightarrow>
                if \<not> (\<exists>it \<in> set its. type_fits cl it)
                then s' = s1 \<and> (\<exists>e'. r = Err e' \<and> IsInsufficientCapacityError (Some e')
                       \<and> \<not> IsNodeClassNotReadyError (Some e'))
                else (case instance_Create (ceLaunch env) now (ipRegion (csInstances s1)) nc cl
                        (filter (type_fits cl) its) (csLaunch s1) of
                   (Panic, ls) \<Rightarrow> s' = s1\<lparr>csLaunch := ls\<rparr> \<and> r = Panic
                 | (Err e, ls) \<Rightarrow> s' = s1\<lparr>csLaunch := ls\<rparr>
                     \<and> (\<exists>e'. r = Err e' \<and> IsInsufficientCapacityError (Some e') = IsInsufficientCapacityError (Some e)
                          \<and> IsNodeClassNotReadyError (Some e') = IsNodeClassNotReadyError (Some e))
                 | (Ok i, ls) \<Rightarrow> s' = s1\<lparr>csLaunch := ls\<rparr> \<and> (\<exists>c. r = Ok c))))"
proof (cases "resolveNodeClassFromNodeClaim env cl")
  case (Ok nc)
  show ?thesis
  proof (cases "class_ready_at now nc")
    case ConditionTrue
    obtain x s1 where types: "list_types env now nc s = (x, s1)" by fastforce
    show ?thesis
    proof (cases x)
      case (Ok its)
      then have res: "resolveInstanceTypes env now cl nc s = (Ok (filter (type_fits cl) its), s1)"
        by (simp add: resolveInstanceTypes_def types)
      have none: "filter (type_fits cl) its = [] \<longleftrightarrow> \<not> (\<exists>it \<in> set its. type_fits cl it)"
        by (simp add: filter_empty_conv)
      obtain y ls where ins: "instance_Create (ceLaunch env) now (ipRegion (csInstances s1)) nc cl
          (filter (type_fits cl) its) (csLaunch s1) = (y, ls)" by fastforce
      show ?thesis
        using run \<open>resolveNodeClassFromNodeClaim env cl = Ok nc\<close> ConditionTrue types Ok res none ins
        by (cases y) (auto simp: cp_Create_def Let_def split: if_splits)
    qed (use run \<open>resolveNodeClassFromNodeClaim env cl = Ok nc\<close> ConditionTrue types in
      \<open>auto simp: cp_Create_def Let_def resolveInstanceTypes_def\<close>)
  qed (use run Ok in \<open>auto simp: cp_Create_def Let_def\<close>)
qed (use run in \<open>auto simp: cp_Create_def\<close>)

lemma cp_Create_Ok:
  assumes "cp_Create env now cl s = (Ok c, s')"
  obtains nc its s1 i ls where
    "resolveNodeClassFromNodeClaim env cl = Ok nc" "class_ready_at now nc = ConditionTrue"
    "list_types env now nc s = (Ok its, s1)" "filter (type_fits cl) its \<noteq> []"
    "instance_Create (ceLaunch env) now (ipRegion (csInstances s1)) nc cl (filter (type_fits cl) its) (csLaunch s1)
       = (Ok i, ls)"
    "s' = s1\<lparr>csLaunch := ls\<rparr>"
    "c = (instanceToNodeClaim now i (find (\<lambda>t. itName t = inType i) (filter (type_fits cl) its)))
           \<lparr>clAnnotations := assign [] [(AnnotationECSNodeClassHash, Hash (ceSpecHash env) nc),
              (AnnotationECSNodeClassHashVersion, ECSNodeClassHashVersion)]\<rparr>"
  using assms
  by (auto simp: cp_Create_def Let_def resolveInstanceTypes_def
      split: outcome.splits condition_status.splits prod.splits if_splits)

lemma cp_Create_annotations:
  assumes run: "cp_Create env now cl s = (Ok c, s')" and nc: "resolveNodeClassFromNodeClaim env cl = Ok nc"
  shows "map_of (clAnnotations c) AnnotationECSNodeClassHash = Some (Hash (ceSpecHash env) nc)"
    and "map_of (clAnnotations c) AnnotationECSNodeClassHashVersion = Some ECSNodeClassHashVersion"
proof -
  have "AnnotationECSNodeClassHash \<noteq> AnnotationECSNodeClassHashVersion" by (simp add: label_defs)
  moreover have "clAnnotations c = assign [] [(AnnotationECSNodeClassHash, Hash (ceSpecHash env) nc),
      (AnnotationECSNodeClassHashVersion, ECSNodeClassHashVersion)]"
    by (rule cp_Create_Ok[OF run]) (simp add: nc)
  ultimately show "map_of (clAnnotations c) AnnotationECSNodeClassHash = Some (Hash (ceSpecHash env) nc)"
    and "map_of (clAnnotations c) AnnotationECSNodeClassHashVersion = Some ECSNodeClassHashVersion"
    by (simp_all add: map_of_assign)
qed

lemma claim_labels_fixed:
  "map_of (claim_labels i it) CapacityTypeLabelKey = Some (inCapacityType i)"
  "map_of (claim_labels i it) LabelTopologyZone = Some (inZone i)"
proof -
  have "CapacityTypeLabelKey \<noteq> NodePoolLabelKey" "LabelTopologyZone \<noteq> NodePoolLabelKey"
    by (simp_all add: label_defs)
  then show "map_of (claim_labels i it) CapacityTypeLabelKey = Some (inCapacityType i)"
    "map_of (claim_labels i it) LabelTopologyZone = Some (inZone i)"
    by (auto simp: claim_labels_def Let_def update_conv' split: option.splits)
qed

lemma created_instance_pending:
  assumes "instance_Create env now region nc cl its st = (Ok i, st')"
  shows "inStatus i = InstanceStatusPending" "inRegion i = region" "CreationTime i = now"
  using assms
  by (auto simp: instance_Create_def Let_def NewInstanceFromProvisioningGroup_def
      split: option.splits outcome.splits prod.splits)

text \<open>The resources of the claim of an instance whose type is looked up among the fitting ones.\<close>

lemma claim_resources:
  assumes c_def: "c = (instanceToNodeClaim now i (find (\<lambda>t. itName t = inType i) (filter P its)))\<lparr>clAnnotations := a\<rparr>"
  shows "(\<exists>ty \<in> set its. P ty \<and> itName ty = inType i
           \<and> set (clCapacity c) = {(n, q). (n, q) \<in> set (itCapacity ty) \<and> q \<noteq> 0}
           \<and> set (clAllocatable c) = {(n, q). (n, q) \<in> set (Allocatable ty) \<and> q \<noteq> 0})
       \<or> (\<forall>ty \<in> set its. P ty \<longrightarrow> itName ty \<noteq> inType i) \<and> clCapacity c = [] \<and> clAllocatable c = []"
proof (cases "find (\<lambda>t. itName t = inType i) (filter P its)")
  case None
  then have "\<forall>ty \<in> set its. P ty \<longrightarrow> itName ty \<noteq> inType i" by (auto simp: find_None_iff)
  with None show ?thesis by (simp add: c_def instanceToNodeClaim_def)
next
  case (Some ty)
  from find_Some_iff_mem[OF this] have "ty \<in> set its \<and> P ty \<and> itName ty = inType i" by simp
  moreover have "set (nonzero rl) = {(n, q). (n, q) \<in> set rl \<and> q \<noteq> 0}" for rl by (auto simp: nonzero_def)
  ultimately show ?thesis using Some by (auto simp: c_def instanceToNodeClaim_def)
qed

text \<open>
  C11. The node claim a successful creation returns stands for the instance that was launched: the
  class was ready, some instance type fitted the claim, the provider ID leads back to the
  instance, zone and capacity type are labelled, the hash annotations are those of the class it
  was created from, the claim is as old as the launch and not being deleted. Its capacity and
  allocatable resources are the resources of the fitting instance type that was launched, all of
  them but the zero ones, and none if ECS launched a type that was not asked for.
\<close>

theorem created_claim_reflects_instance:
  assumes "cp_Create env now cl s = (Ok c, s')"
  shows "\<exists>nc its s1 i ls. resolveNodeClassFromNodeClaim env cl = Ok nc \<and> class_ready_at now nc = ConditionTrue
    \<and> list_types env now nc s = (Ok its, s1) \<and> (\<exists>it \<in> set its. type_fits cl it)
    \<and> instance_Create (ceLaunch env) now (ipRegion (csInstances s1)) nc cl (filter (type_fits cl) its) (csLaunch s1)
        = (Ok i, ls)
    \<and> s' = s1\<lparr>csLaunch := ls\<rparr>
    \<and> (list_all any_char (ipRegion (csInstances s1)) \<and> list_all any_char (inID i) \<and> CHR ''.'' \<notin> set (inID i)
         \<longrightarrow> ParseInstanceID (clProviderID c) = Ok (inID i))
    \<and> map_of (clLabels c) LabelTopologyZone = Some (inZone i)
    \<and> map_of (clLabels c) CapacityTypeLabelKey = Some (inCapacityType i)
    \<and> map_of (clAnnotations c) AnnotationECSNodeClassHash = Some (Hash (ceSpecHash env) nc)
    \<and> map_of (clAnnotations c) AnnotationECSNodeClassHashVersion = Some ECSNodeClassHashVersion
    \<and> clCreationTimestamp c = now \<and> clDeletionTimestamp c = None
    \<and> clImageID c = inImageID i
    \<and> ((\<exists>ty \<in> set its. type_fits cl ty \<and> itName ty = inType i
           \<and> set (clCapacity c) = {(n, q). (n, q) \<in> set (itCapacity ty) \<and> q \<noteq> 0}
           \<and> set (clAllocatable c) = {(n, q). (n, q) \<in> set (Allocatable ty) \<and> q \<noteq> 0})
       \<or> (\<forall>ty \<in> set its. type_fits cl ty \<longrightarrow> itName ty \<noteq> inType i) \<and> clCapacity c = [] \<and> clAllocatable c = [])"
proof -
  obtain nc its s1 i ls where
    nc: "resolveNodeClassFromNodeClaim env cl = Ok nc" "class_ready_at now nc = ConditionTrue"
    and its: "list_types env now nc s = (Ok its, s1)" "filter (type_fits cl) its \<noteq> []"
    and ins: "instance_Create (ceLaunch env) now (ipRegion (csInstances s1)) nc cl (filter (type_fits cl) its)
        (csLaunch s1) = (Ok i, ls)"
    and s': "s' = s1\<lparr>csLaunch := ls\<rparr>"
    and c: "c = (instanceToNodeClaim now i (find (\<lambda>t. itName t = inType i) (filter (type_fits cl) its)))
           \<lparr>clAnnotations := assign [] [(AnnotationECSNodeClassHash, Hash (ceSpecHash env) nc),
              (AnnotationECSNodeClassHashVersion, ECSNodeClassHashVersion)]\<rparr>"
    by (rule cp_Create_Ok[OF assms])
  note p = created_instance_pending[OF ins]
  note anno = cp_Create_annotations[OF assms nc(1)]
  have labels: "map_of (clLabels c) LabelTopologyZone = Some (inZone i)"
    "map_of (clLabels c) CapacityTypeLabelKey = Some (inCapacityType i)"
    by (simp_all add: c instanceToNodeClaim_def claim_labels_fixed)
  have times: "clCreationTimestamp c = now" "clDeletionTimestamp c = None"
    by (simp_all add: c instanceToNodeClaim_def p instance_status_defs)
  have image: "clImageID c = inImageID i" by (simp add: c instanceToNodeClaim_def)
  have res: "(\<exists>ty \<in> set its. type_fits cl ty \<and> itName ty = inType i
           \<and> set (clCapacity c) = {(n, q). (n, q) \<in> set (itCapacity ty) \<and> q \<noteq> 0}
           \<and> set (clAllocatable c) = {(n, q). (n, q) \<in> set (Allocatable ty) \<and> q \<noteq> 0})
       \<or> (\<forall>ty \<in> set its. type_fits cl ty \<longrightarrow> itName ty \<noteq> inType i) \<and> clCapacity c = [] \<and> clAllocatable c = []"
    by (rule claim_resources[OF c])
  have "clProviderID c = ipRegion (csInstances s1) @ ''.'' @ inID i"
    by (simp add: c instanceToNodeClaim_def p)
  then have parse: "list_all any_char (ipRegion (csInstances s1)) \<and> list_all any_char (inID i) \<and> CHR ''.'' \<notin> set (inID i)
      \<longrightarrow> ParseInstanceID (clProviderID c) = Ok (inID i)"
    using ParseInstanceID_joined by metis
  have fit: "\<exists>it \<in> set its. type_fits cl it" using its(2) by (auto simp: filter_empty_conv)
  show ?thesis
    by (intro exI conjI; rule nc its(1) fit ins s' parse labels anno times image res)
qed

section \<open>Witnesses\<close>

definition sample_ready_class :: ecs_nodeclass where
  "sample_ready_class = sample_launch_class\<lparr>ncName := ''default'',
     ncStatus := (ncStatus sample_launch_class)\<lparr>stConditions :=
       map (\<lambda>t. \<lparr>ctType = t, ctStatus = ConditionTrue, ctReason = t, ctMessage = [], ctTime = 0\<rparr>)
         (readyDependents @ [ConditionReady])\<rparr>\<rparr>"

definition sample_od_type :: instance_type where
  "sample_od_type = sample_launch_type\<lparr>Offerings := [createOffering ''z1'' CapacityTypeOnDemand 2 True]\<rparr>"

definition sample_success :: apg_response where
  "sample_success = \<lparr>apgStatusCode = Some 200, apgBody = Some \<lparr>abLaunchResults =
     Some [Some \<lparr>lrErrorCode = None, lrErrorMsg = None, lrInstanceType = Some ''t1'',
        lrZoneId = Some ''z1'', lrSpotStrategy = Some ''NoSpot'', lrInstanceIds = Some [Some ''i-9'']\<rparr>],
     abApgRequestId = Some ''r''\<rparr>\<rparr>"

definition sample_cloud_env :: cloud_env where
  "sample_cloud_env =
     \<lparr>ceNodeClass = (\<lambda>n. if n = ''default'' then Ok sample_ready_class else Err (StatusError NotFound n)),
      ceNodePool = (\<lambda>n. Err (StatusError NotFound n)), ceSpecHash = (\<lambda>_. ''42''), ceZonesHash = (\<lambda>_. 0),
      ceKcHash = (\<lambda>_. 0), ceOverhead = 0, ceJson = (\<lambda>_. Err (ErrorString [])), ceCluster = Err (ErrorString []),
      ceLaunch = sample_launch_env\<lparr>lvCreateGroup := (\<lambda>_. Ok (Some sample_success))\<rparr>,
      ceInstances = (\<lambda>_. Ok None), ceDelete = (\<lambda>_. None)\<rparr>"

text \<open>The instance types of the ready class are cached.\<close>

definition sample_cloud_state :: cloud_state where
  "sample_cloud_state =
     \<lparr>csTypes = sample_itp\<lparr>instanceTypesCache :=
        cache_set_default 1 (list_cache_key 0 0 0 0 0) [sample_od_type] (cache_new 60)\<rparr>,
      csPricing = lePricing sample_env, csLaunch = sample_launch_state, csInstances = sample_cached\<rparr>"

lemma sample_list_types:
  "list_types sample_cloud_env 1 sample_ready_class sample_cloud_state = (Ok [sample_od_type], sample_cloud_state)"
proof -
  let ?le = "types_env sample_cloud_env sample_cloud_state"
  let ?kc = "KubeletConfiguration (ncSpec sample_ready_class)"
  have key: "list_key ?le (case ?kc of None \<Rightarrow> empty_kubelet | Some k \<Rightarrow> k) sample_ready_class
      (csTypes sample_cloud_state) = list_cache_key 0 0 0 0 0"
    by (simp add: list_key_def types_env_def sample_cloud_env_def sample_cloud_state_def sample_itp_def
        NewInstanceTypeProvider_def sample_launch_state_def NewUnavailableOfferings_def
        NewUnavailableOfferingsWithCache_def)
  have hit: "cache_get 1 (list_cache_key 0 0 0 0 0) (instanceTypesCache (csTypes sample_cloud_state))
      = Some [sample_od_type]"
    by (simp add: sample_cloud_state_def cache_get_set_default cache_new_def)
  have "validateState sample_ready_class (csTypes sample_cloud_state) = None"
    by (simp add: validateState_def sample_ready_class_def sample_launch_class_def sample_cloud_state_def sample_itp_def)
  with key hit show ?thesis by (simp add: list_types_def itp_List_def Let_def)
qed

lemma sample_ready: "class_ready_at 1 sample_ready_class = ConditionTrue"
  by (simp add: sample_ready_class_def StatusConditions_def readyDependents_def condition_type_defs cond_get_def
      cond_status_def)

definition sample_claim :: node_claim where
  "sample_claim = zero_claim\<lparr>clNodeClassRef := Some ''default''\<rparr>"

lemma sample_fits: "type_fits sample_claim sample_od_type"
  by (simp add: type_fits_def sample_od_type_def sample_launch_type_def sample_claim_def zero_claim_def claim_reqs_def
      NewNodeSelectorRequirementsWithMinValues_def NewRequirements_def reqs_add_def Compatible_def Intersects_def
      CompatibleOfferings_def AvailableOfferings_def createOffering_reqs reqs_has_def Fits_def Allocatable_def res_subtract_def)

lemma sample_od_capacity: "getCapacityType sample_claim [sample_od_type] = CapacityTypeOnDemand"
  by (simp add: getCapacityType_def Let_def claim_reqs_def sample_claim_def zero_claim_def NewNodeSelectorRequirementsWithMinValues_def
      NewRequirements_def reqs_add_def HasCompatible_def AvailableOfferings_def sample_od_type_def createOffering_reqs
      Compatible_def Intersects_def reqs_has_def reqs_get_def key_intersects_In1)

lemma sample_filter:
  "filterInstanceTypes rnd sample_claim [sample_od_type] = [sample_od_type]"
  "Truncate (claim_reqs sample_claim) maxInstanceTypes [sample_od_type] = Ok [sample_od_type]"
  "\<not> HasMinValues (claim_reqs sample_claim)"
proof -
  have "offering_capacity_type rnd (createOffering z ct pr av) = ct" for z ct pr av
    by (simp add: offering_capacity_type_def createOffering_reqs reqs_get_def)
  then have "\<not> isMixedCapacityLaunch rnd sample_claim [sample_od_type]"
    by (simp add: isMixedCapacityLaunch_def Let_def sample_od_type_def CompatibleOfferings_def AvailableOfferings_def list_ex_iff)
  then show "filterInstanceTypes rnd sample_claim [sample_od_type] = [sample_od_type]"
    by (simp add: filterInstanceTypes_def Let_def filterExoticInstanceTypes_def)
  show nm: "\<not> HasMinValues (claim_reqs sample_claim)"
    by (simp add: claim_reqs_def sample_claim_def zero_claim_def NewNodeSelectorRequirementsWithMinValues_def NewRequirements_def
        reqs_add_def HasMinValues_def)
  show "Truncate (claim_reqs sample_claim) maxInstanceTypes [sample_od_type] = Ok [sample_od_type]"
    using Truncate_no_min_values[OF nm] by (simp add: OrderByPrice_def maxInstanceTypes_def)
qed

lemma sample_group:
  assumes ack: "lsAck st = lsAck sample_launch_state"
  shows "\<exists>req st2. getProvisioningGroup (ceLaunch sample_cloud_env) 1 region sample_ready_class sample_claim [sample_od_type]
      (zonal_select 1 (stVSwitches (ncStatus sample_ready_class)) (lsVSwitches sample_launch_state)) CapacityTypeOnDemand
      tags st = (Ok req, st2) \<and> apgSecurityGroupIds req = [''sg'']"
proof -
  let ?env = "ceLaunch sample_cloud_env"
  have zone: "zonal_select 1 (stVSwitches (ncStatus sample_ready_class)) (lsVSwitches sample_launch_state)
      = [(''z1'', \<lparr>vwID = ''v1'', vwZoneID = ''z1'', AvailableIPAddressCount = 0\<rparr>)]"
    by (simp add: zonal_select_def sample_ready_class_def sample_launch_class_def zonal_step_def availableIPs_def
        sample_launch_state_def NewVSwitchProvider_def)
  have f: "FilterInstanceTypesBySystemDisk (lvDiskOrder ?env) (lvDiskApi ?env) 1
      sample_ready_class [sample_od_type] (lsDisks st) = Ok ([sample_od_type], lsDisks st)"
    by (simp add: FilterInstanceTypesBySystemDisk_def sample_ready_class_def sample_launch_class_def zero_nodeclass_def
        sample_cloud_env_def sample_launch_env_def)
  have m: "map_of (mapToInstanceTypes [sample_od_type] (stImages (ncStatus sample_ready_class)))
      (itName sample_od_type) = Some ''img''"
    by (simp add: mapToInstanceTypes_def sample_ready_class_def sample_launch_class_def sample_od_type_def
        sample_launch_type_def Compatible_def Intersects_def NewNodeSelectorRequirements_def NewRequirements_def reqs_add_def)
  have sgs: "stSecurityGroups (ncStatus sample_ready_class) = [\<lparr>ssgID = ''sg'', ssgName = ''sg''\<rparr>]"
    by (simp add: sample_ready_class_def sample_launch_class_def)
  obtain x p where "GetNodeRegisterScript (lvAck ?env) 1
      (assign (clLabels sample_claim) [(CapacityTypeLabelKey, CapacityTypeOnDemand)])
      (resolveKubeletConfiguration sample_ready_class) (lsAck st) = (Ok x, p)"
    using sample_script[of 1] by (simp add: sample_cloud_env_def ack) blast
  then show ?thesis
    unfolding zone by (simp add: getProvisioningGroup_def f m sgs Let_def getVSwitchID_def group_request_def)
qed

lemma sample_created:
  "\<exists>i ls. instance_Create (ceLaunch sample_cloud_env) 1 region sample_ready_class sample_claim [sample_od_type]
     sample_launch_state = (Ok i, ls) \<and> inID i = ''i-9''"
proof -
  let ?env = "ceLaunch sample_cloud_env"
  let ?tags = "getTags (lvClusterID ?env) sample_ready_class sample_claim"
  let ?vs = "zonal_select 1 (stVSwitches (ncStatus sample_ready_class)) (lsVSwitches sample_launch_state)"
  define st where "st = sample_launch_state\<lparr>lsVSwitches := snd (ZonalVSwitchesForLaunch 1 sample_ready_class
      [sample_od_type] CapacityTypeOnDemand (lsVSwitches sample_launch_state))\<rparr>"
  have z: "ZonalVSwitchesForLaunch 1 sample_ready_class [sample_od_type] CapacityTypeOnDemand
      (lsVSwitches sample_launch_state) = (Ok ?vs, lsVSwitches st)"
    by (simp add: st_def ZonalVSwitchesForLaunch_def sample_ready_class_def sample_launch_class_def Let_def)
  have st: "sample_launch_state\<lparr>lsVSwitches := lsVSwitches st\<rparr> = st" by (simp add: st_def)
  have "lsAck st = lsAck sample_launch_state" by (simp add: st_def)
  from sample_group[OF this] obtain req st2
    where req: "getProvisioningGroup ?env 1 region sample_ready_class sample_claim [sample_od_type] ?vs
      CapacityTypeOnDemand ?tags st = (Ok req, st2)" "apgSecurityGroupIds req = [''sg'']" by blast
  have resp: "lvCreateGroup ?env req = Ok (Some sample_success)" "lvLimiter ?env = None"
    by (simp_all add: sample_cloud_env_def sample_launch_env_def)
  have launched: "fst (launchInstance ?env 1 region sample_ready_class sample_claim [sample_od_type] ?tags sample_launch_state)
      = outcome_map (\<lambda>lr. (lr, req)) (createAutoProvisioningGroupResponseHandler (Some sample_success))"
    by (simp add: launchInstance_def Let_def sample_od_capacity z st req(1) resp)
  have "\<exists>lr. createAutoProvisioningGroupResponseHandler (Some sample_success) = Ok lr
      \<and> (\<exists>i. NewInstanceFromProvisioningGroup 1 lr req region = Ok i \<and> inID i = ''i-9'')"
    by (simp add: createAutoProvisioningGroupResponseHandler_def sample_success_def response_results_def no_stock_def
        ErrCodeNoInstanceStock_def ErrCodeOperationDeniedNoStock_def NewInstanceFromProvisioningGroup_def req(2))
  with launched show ?thesis
    by (auto simp: instance_Create_def resp sample_filter Let_def case_prod_unfold)
qed

lemma sample_resolve: "resolveNodeClassFromNodeClaim sample_cloud_env sample_claim = Ok sample_ready_class"
  by (simp add: resolveNodeClassFromNodeClaim_def resolve_class_def sample_cloud_env_def sample_ready_class_def
      sample_launch_class_def zero_nodeclass_def sample_claim_def)

lemma sample_cp_Create: "\<exists>c s'. cp_Create sample_cloud_env 1 sample_claim sample_cloud_state = (Ok c, s')"
proof -
  obtain i ls where "instance_Create (ceLaunch sample_cloud_env) 1 (ipRegion (csInstances sample_cloud_state))
      sample_ready_class sample_claim [sample_od_type] sample_launch_state = (Ok i, ls)"
    using sample_created by blast
  then show ?thesis
    using sample_resolve sample_ready sample_list_types sample_fits
    by (auto simp: cp_Create_def resolveInstanceTypes_def Let_def sample_cloud_state_def)
qed

theorem create_failures_classified_witness:
  "\<exists>e. fst (cp_Create sample_cloud_env 1 (zero_claim\<lparr>clNodeClassRef := Some ''gone''\<rparr>) sample_cloud_state) = Err e
     \<and> IsInsufficientCapacityError (Some e)"
  using create_failures_classified[OF surjective_pairing, where env = sample_cloud_env and now = 1
      and cl = "zero_claim\<lparr>clNodeClassRef := Some ''gone''\<rparr>" and s = sample_cloud_state]
  by (auto simp: resolveNodeClassFromNodeClaim_def resolve_class_def sample_cloud_env_def)

theorem created_claim_reflects_instance_witness:
  "\<exists>c s'. cp_Create sample_cloud_env 1 sample_claim sample_cloud_state = (Ok c, s')
     \<and> map_of (clAnnotations c) AnnotationECSNodeClassHash = Some ''42'' \<and> clDeletionTimestamp c = None"
proof -
  obtain c s' where run: "cp_Create sample_cloud_env 1 sample_claim sample_cloud_state = (Ok c, s')"
    using sample_cp_Create by blast
  from created_claim_reflects_instance[OF this] sample_resolve
  have "map_of (clAnnotations c) AnnotationECSNodeClassHash = Some ''42''" "clDeletionTimestamp c = None"
    by (auto simp: Hash_def sample_cloud_env_def)
  with run show ?thesis by blast
qed

end
