(* ===== verification/Nodeclass_Lifecycle.thy ===== *)
theory Nodeclass_Lifecycle
  imports Cloud_Provider
begin

text \<open>
  The hash and termination controllers of node classes:
  \<^verbatim>\<open>src/pkg/controllers/nodeclass/hash/controller.go\<close> and
  \<^verbatim>\<open>src/pkg/controllers/nodeclass/termination/controller.go\<close>. \<open>listed\<close> is the API
  server's answer to listing the node claims of the class; an accepted write leaves the object as
  it was sent.
\<close>

section \<open>The hash controller\<close>

text \<open>One claim of an older hash version: it gets the new version, and the new hash unless it is
  already drifted.\<close>

definition rehash_claim :: "(hashed_fields \<Rightarrow> string) \<Rightarrow> ecs_nodeclass \<Rightarrow> node_claim \<Rightarrow> node_claim" where
  "rehash_claim hash nc cl =
     (let versioned = assign (clAnnotations cl) [(AnnotationECSNodeClassHashVersion, ECSNodeClassHashVersion)]
      in cl\<lparr>clAnnotations :=
           (if clDriftedCondition cl then versioned
            else assign versioned [(AnnotationECSNodeClassHash, Hash hash nc)])\<rparr>)"

fun rehash_claims ::
  "(hashed_fields \<Rightarrow> string) \<Rightarrow> kube_writer \<Rightarrow> ecs_nodeclass \<Rightarrow> node_claim list \<Rightarrow>
   gerror option list \<times> kube_write list" where
  "rehash_claims hash write nc [] = ([], [])"
| "rehash_claims hash write nc (cl # cls) =
     (let (errs, ws) = rehash_claims hash write nc cls; cl' = rehash_claim hash nc cl in
      if map_get (clAnnotations cl) AnnotationECSNodeClassHashVersion \<noteq> ECSNodeClassHashVersion \<and> cl' \<noteq> cl
      then (IgnoreNotFound (write (PatchNodeClaim cl')) # errs, PatchNodeClaim cl' # ws)
      else (None # errs, ws))"

definition updateNodeClaimHash ::
  "(hashed_fields \<Rightarrow> string) \<Rightarrow> node_claim kube_list \<Rightarrow> kube_writer \<Rightarrow> ecs_nodeclass \<Rightarrow>
   gerror option \<times> kube_write list" where
  "updateNodeClaimHash hash listed write nc =
     (case listed of
        Inl e \<Rightarrow> (Some e, [])
      | Inr cls \<Rightarrow> (let (errs, ws) = rehash_claims hash write nc cls in (multierr_Combine errs, ws)))"

definition hash_Reconcile ::
  "(hashed_fields \<Rightarrow> string) \<Rightarrow> node_claim kube_list \<Rightarrow> kube_writer \<Rightarrow> ecs_nodeclass \<Rightarrow> class_answer" where
  "hash_Reconcile hash listed write nc =
     (let (err, ws) =
            (if map_get (ncAnnotations nc) AnnotationECSNodeClassHashVersion \<noteq> ECSNodeClassHashVersion
             then updateNodeClaimHash hash listed write nc else (None, []));
          nc' = nc\<lparr>ncAnnotations := assign (ncAnnotations nc)
                  [(AnnotationECSNodeClassHash, Hash hash nc),
                   (AnnotationECSNodeClassHashVersion, ECSNodeClassHashVersion)]\<rparr>
      in if err \<noteq> None then class_answer_of noRequeue err nc ws
         else if nc' = nc then class_answer_of noRequeue None nc ws
         else class_answer_of noRequeue (write (PatchNodeClass nc')) nc' (ws @ [PatchNodeClass nc']))"

section \<open>The termination controller\<close>

definition class_finalize :: "node_claim kube_list \<Rightarrow> kube_writer \<Rightarrow> ecs_nodeclass \<Rightarrow> class_answer" where
  "class_finalize listed write nc =
     (if TerminationFinalizer \<notin> set (ncFinalizers nc) then class_answer_of noRequeue None nc []
      else case listed of
        Inl e \<Rightarrow> class_answer_of noRequeue (Some (Wrap ''listing nodeclaims that are using nodeclass, '' e)) nc []
      | Inr cls \<Rightarrow>
          (if cls \<noteq> [] then class_answer_of (requeueAfter (10 * Minute)) None nc []
           else
             (let nc' = RemoveFinalizer TerminationFinalizer nc in
              if nc' = nc then class_answer_of noRequeue None nc' []
              else case write (PatchNodeClass nc') of
                None \<Rightarrow> class_answer_of noRequeue None nc' [PatchNodeClass nc']
              | Some e \<Rightarrow>
                  (if api_IsConflict (Some e)
                   then class_answer_of \<lparr>Requeue = True, RequeueAfter = 0\<rparr> None nc' [PatchNodeClass nc']
                   else class_answer_of noRequeue
                          (IgnoreNotFound (Some (Wrap ''removing termination finalizer, '' e))) nc'
                          [PatchNodeClass nc']))))"

definition termination_Reconcile :: "node_claim kube_list \<Rightarrow> kube_writer \<Rightarrow> ecs_nodeclass \<Rightarrow> class_answer" where
  "termination_Reconcile listed write nc =
     (if ncDeletionTimestamp nc \<noteq> None then class_finalize listed write nc
      else class_answer_of noRequeue None nc [])"

text \<open>The watch on node claims: only deletions reach the controller, for the class they name.\<close>

datatype watch_event = CreateEvent node_claim | UpdateEvent node_claim | DeleteEvent node_claim

fun termination_enqueue :: "watch_event \<Rightarrow> string list" where
  "termination_enqueue (DeleteEvent cl) = (case clNodeClassRef cl of None \<Rightarrow> [] | Some n \<Rightarrow> [n])"
| "termination_enqueue _ = []"

section \<open>Lemmas\<close>

lemma hash_keys_neq [simp]:
  "AnnotationECSNodeClassHash \<noteq> AnnotationECSNodeClassHashVersion"
  "AnnotationECSNodeClassHashVersion \<noteq> AnnotationECSNodeClassHash"
  by (simp_all add: label_defs)

lemma rehash_claim_annotations:
  "map_of (clAnnotations (rehash_claim hash nc cl)) AnnotationECSNodeClassHashVersion = Some ECSNodeClassHashVersion"
  "map_of (clAnnotations (rehash_claim hash nc cl)) AnnotationECSNodeClassHash =
     (if clDriftedCondition cl then map_of (clAnnotations cl) AnnotationECSNodeClassHash else Some (Hash hash nc))"
  "k \<notin> {AnnotationECSNodeClassHash, AnnotationECSNodeClassHashVersion} \<Longrightarrow>
     map_of (clAnnotations (rehash_claim hash nc cl)) k = map_of (clAnnotations cl) k"
  by (simp_all add: rehash_claim_def Let_def map_of_assign)

lemma rehash_claim_changes:
  "map_get (clAnnotations cl) AnnotationECSNodeClassHashVersion \<noteq> ECSNodeClassHashVersion \<Longrightarrow>
   rehash_claim hash nc cl \<noteq> cl"
  using rehash_claim_annotations(1)[of hash nc cl] by (auto simp: map_get_def split: option.splits)

abbreviation outdated :: "node_claim \<Rightarrow> bool" where
  "outdated cl \<equiv> map_get (clAnnotations cl) AnnotationECSNodeClassHashVersion \<noteq> ECSNodeClassHashVersion"

lemma rehash_claims_eq:
  "rehash_claims hash write nc cls =
     (map (\<lambda>cl. if outdated cl then IgnoreNotFound (write (PatchNodeClaim (rehash_claim hash nc cl))) else None) cls,
      map (\<lambda>cl. PatchNodeClaim (rehash_claim hash nc cl)) (filter outdated cls))"
  by (induction cls) (auto simp: Let_def rehash_claim_changes)

section \<open>Properties\<close>

text \<open>
  C13. A change of the hash version never drifts a node: when the hash controller finds a node
  class of another hash version, it sends one patch to each node claim of the class that has
  another version, before it patches the class. A claim that was not drifted is then not
  statically drifted from the patched class, and a claim that was drifted keeps its hash. The
  class is patched only when no patch of a claim failed other than with NotFound, so a failure is
  retried.
\<close>

theorem hash_upgrade_never_drifts:
  assumes old: "map_get (ncAnnotations nc) AnnotationECSNodeClassHashVersion \<noteq> ECSNodeClassHashVersion"
    and a_def: "a = hash_Reconcile hash (Inr cls) write nc"
  shows "(if \<exists>cl \<in> set cls. outdated cl \<and> IgnoreNotFound (write (PatchNodeClaim (rehash_claim hash nc cl))) \<noteq> None
          then caError a \<noteq> None \<and> caClass a = nc
            \<and> caWrites a = map (\<lambda>cl. PatchNodeClaim (rehash_claim hash nc cl)) (filter outdated cls)
          else caError a = write (PatchNodeClass (caClass a))
            \<and> caWrites a = map (\<lambda>cl. PatchNodeClaim (rehash_claim hash nc cl)) (filter outdated cls)
                @ [PatchNodeClass (caClass a)]
            \<and> map_of (ncAnnotations (caClass a)) AnnotationECSNodeClassHash = Some (Hash hash nc)
            \<and> map_of (ncAnnotations (caClass a)) AnnotationECSNodeClassHashVersion = Some ECSNodeClassHashVersion
            \<and> (\<forall>cl \<in> set cls. outdated cl \<longrightarrow>
                 (if clDriftedCondition cl
                  then map_of (clAnnotations (rehash_claim hash nc cl)) AnnotationECSNodeClassHash
                       = map_of (clAnnotations cl) AnnotationECSNodeClassHash
                  else areStaticFieldsDrifted (rehash_claim hash nc cl) (caClass a) = [])))"
proof -
  let ?nc' = "nc\<lparr>ncAnnotations := assign (ncAnnotations nc)
      [(AnnotationECSNodeClassHash, Hash hash nc), (AnnotationECSNodeClassHashVersion, ECSNodeClassHashVersion)]\<rparr>"
  let ?errs = "map (\<lambda>cl. if outdated cl then IgnoreNotFound (write (PatchNodeClaim (rehash_claim hash nc cl)))
      else None) cls"
  have anno: "map_of (ncAnnotations ?nc') AnnotationECSNodeClassHash = Some (Hash hash nc)"
    "map_of (ncAnnotations ?nc') AnnotationECSNodeClassHashVersion = Some ECSNodeClassHashVersion"
    by (simp_all add: map_of_assign)
  have "?nc' \<noteq> nc"
  proof
    assume "?nc' = nc"
    then have "ncAnnotations ?nc' = ncAnnotations nc" by simp
    with anno(2) old show False by (simp add: map_get_def)
  qed
  then have a: "a = (if multierr_Combine ?errs \<noteq> None
      then class_answer_of noRequeue (multierr_Combine ?errs) nc
             (map (\<lambda>cl. PatchNodeClaim (rehash_claim hash nc cl)) (filter outdated cls))
      else class_answer_of noRequeue (write (PatchNodeClass ?nc')) ?nc'
             (map (\<lambda>cl. PatchNodeClaim (rehash_claim hash nc cl)) (filter outdated cls) @ [PatchNodeClass ?nc']))"
    unfolding a_def hash_Reconcile_def updateNodeClaimHash_def rehash_claims_eq Let_def using old by (simp del: multierr_Combine_None_iff)
  have "(\<forall>e \<in> set ?errs. e = None) \<longleftrightarrow>
      (\<forall>cl \<in> set cls. outdated cl \<longrightarrow> IgnoreNotFound (write (PatchNodeClaim (rehash_claim hash nc cl))) = None)"
    by (simp only: set_map ball_simps if_split_eq1) blast
  then have "multierr_Combine ?errs = None \<longleftrightarrow>
      (\<forall>cl \<in> set cls. outdated cl \<longrightarrow> IgnoreNotFound (write (PatchNodeClaim (rehash_claim hash nc cl))) = None)"
    by (simp only: multierr_Combine_None_iff)
  then have fails: "multierr_Combine ?errs \<noteq> None \<longleftrightarrow>
      (\<exists>cl \<in> set cls. outdated cl \<and> IgnoreNotFound (write (PatchNodeClaim (rehash_claim hash nc cl))) \<noteq> None)"
    by (simp only: ball_simps bex_simps not_imp simp_thms Ball_def Bex_def not_all) 
  have drift: "areStaticFieldsDrifted (rehash_claim hash nc cl) ?nc' = []" if "\<not> clDriftedCondition cl" for cl
    using that unfolding areStaticFieldsDrifted_def anno rehash_claim_annotations by simp
  show ?thesis
    using drift anno unfolding a fails[symmetric]
    by (cases "multierr_Combine ?errs")
      (simp_all add: class_answer_of_def rehash_claim_annotations del: multierr_Combine_None_iff)
qed

definition sample_hash :: "hashed_fields \<Rightarrow> string" where "sample_hash f = ''42''"

definition sample_claims :: "node_claim list" where
  "sample_claims =
     [zero_claim\<lparr>clName := ''a'', clAnnotations := [(AnnotationECSNodeClassHash, ''7''),
        (AnnotationECSNodeClassHashVersion, ''v2'')]\<rparr>,
      zero_claim\<lparr>clName := ''b'', clAnnotations := [(AnnotationECSNodeClassHash, ''7''),
        (AnnotationECSNodeClassHashVersion, ''v2'')], clDriftedCondition := True\<rparr>]"

theorem hash_upgrade_never_drifts_witness:
  "let a = hash_Reconcile sample_hash (Inr sample_claims) (\<lambda>_. None) zero_nodeclass in
   caError a = None \<and> length (caWrites a) = 3
   \<and> areStaticFieldsDrifted (rehash_claim sample_hash zero_nodeclass (hd sample_claims)) (caClass a) = []"
proof -
  have "map_get (ncAnnotations zero_nodeclass) AnnotationECSNodeClassHashVersion \<noteq> ECSNodeClassHashVersion"
    by (simp add: zero_nodeclass_def map_get_def ECSNodeClassHashVersion_def)
  moreover have "filter outdated sample_claims = sample_claims"
    by (simp add: sample_claims_def map_get_def ECSNodeClassHashVersion_def)
  ultimately show ?thesis
    using hash_upgrade_never_drifts[OF _ refl, of zero_nodeclass sample_claims "\<lambda>_. None" sample_hash]
    by (auto simp: Let_def sample_claims_def map_get_def ECSNodeClassHashVersion_def IgnoreNotFound_def api_IsNotFound_def
        zero_claim_def)
qed

text \<open>
  C12. The termination finalizer comes off a node class only when the class is being deleted and
  the API server lists no node claim that uses it; while there is one, nothing is written and the
  class is looked at again after ten minutes. A conflicting write is retried, a class that is
  already gone is not an error.
\<close>

theorem finalizer_waits_for_claims:
  assumes "TerminationFinalizer \<in> set (ncFinalizers nc)"
    and a: "a = termination_Reconcile listed write nc"
  shows "(caWrites a = [PatchNodeClass (RemoveFinalizer TerminationFinalizer nc)] \<longleftrightarrow>
           ncDeletionTimestamp nc \<noteq> None \<and> listed = Inr [])
    \<and> (caWrites a = [] \<or> caWrites a = [PatchNodeClass (RemoveFinalizer TerminationFinalizer nc)])
    \<and> (ncDeletionTimestamp nc \<noteq> None \<longrightarrow>
        (\<forall>cls. listed = Inr cls \<longrightarrow> cls \<noteq> [] \<longrightarrow>
           caClass a = nc \<and> caError a = None \<and> caResult a = requeueAfter (10 * Minute))
        \<and> (listed = Inr [] \<longrightarrow>
             TerminationFinalizer \<notin> set (ncFinalizers (caClass a))
             \<and> (api_IsConflict (write (PatchNodeClass (caClass a))) \<longrightarrow> caError a = None \<and> Requeue (caResult a))
             \<and> (api_IsNotFound (write (PatchNodeClass (caClass a))) \<longrightarrow> caError a = None)))"
proof -
  have ne: "RemoveFinalizer TerminationFinalizer nc \<noteq> nc"
  proof
    assume "RemoveFinalizer TerminationFinalizer nc = nc"
    then have "ncFinalizers (RemoveFinalizer TerminationFinalizer nc) = ncFinalizers nc" by simp
    then have "TerminationFinalizer \<in> set (filter (\<lambda>g. g \<noteq> TerminationFinalizer) (ncFinalizers nc))"
      using assms(1) by (simp add: RemoveFinalizer_def)
    then show False by simp
  qed
  have nf: "api_IsNotFound (Some (Wrap m e)) = api_IsNotFound (Some e)" for m e
    by (simp add: api_IsNotFound_def)
  show ?thesis
  proof (cases "ncDeletionTimestamp nc")
    case None
    then show ?thesis by (simp add: a termination_Reconcile_def class_answer_of_def)
  next
    case (Some t)
    then show ?thesis
      using assms(1) ne nf
      by (auto simp: a termination_Reconcile_def class_finalize_def class_answer_of_def Let_def RemoveFinalizer_def
          IgnoreNotFound_def noRequeue_def api_IsConflict_def split: sum.splits option.splits)
  qed
qed

theorem finalizer_waits_for_claims_witness:
  "caWrites (termination_Reconcile (Inr sample_claims) (\<lambda>_. None)
     (zero_nodeclass\<lparr>ncFinalizers := [TerminationFinalizer], ncDeletionTimestamp := Some 1\<rparr>)) = []
   \<and> caWrites (termination_Reconcile (Inr []) (\<lambda>_. None)
     (zero_nodeclass\<lparr>ncFinalizers := [TerminationFinalizer], ncDeletionTimestamp := Some 1\<rparr>)) \<noteq> []"
proof -
  let ?nc = "zero_nodeclass\<lparr>ncFinalizers := [TerminationFinalizer], ncDeletionTimestamp := Some 1\<rparr>"
  have f: "TerminationFinalizer \<in> set (ncFinalizers ?nc)" by simp
  have c: "sample_claims \<noteq> []" by (simp add: sample_claims_def)
  show ?thesis
    using finalizer_waits_for_claims[OF f refl, of "Inr sample_claims" "\<lambda>_. None"]
      finalizer_waits_for_claims[OF f refl, of "Inr []" "\<lambda>_. None"] c
    by auto
qed

end
