(* ===== verification/Nodeclaim_Controllers.thy ===== *)
theory Nodeclaim_Controllers
  imports Cloud_Provider
begin

text \<open>
  The controllers of node claims and nodes: garbage collection, tagging and the unregistered
  taint under \<^verbatim>\<open>src/pkg/controllers/nodeclaim\<close>, and the interruption controller of
  \<^verbatim>\<open>src/pkg/controllers/interruption/controller.go\<close>. The API server's answers to list
  requests and to writes are parameters; the model returns the writes sent, in order.
\<close>

section \<open>Garbage collection\<close>

text \<open>Deleting one instance that no node claim accounts for, and its node. The result is the
  worker's error.\<close>

definition garbageCollect ::
  "cloud_env \<Rightarrow> kube_writer \<Rightarrow> int \<Rightarrow> k8s_node list \<Rightarrow> node_claim \<Rightarrow> cloud_state \<Rightarrow>
   (gerror option outcome \<times> kube_write list \<times> cloud_state) option" where
  "garbageCollect env write now nodes cl s =
     (case cp_Delete env now cl s of
        None \<Rightarrow> None
      | Some (Panic, s') \<Rightarrow> Some (Panic, [], s')
      | Some (Err e, s') \<Rightarrow>
          Some (Ok (if IsInstanceStateOperationNotSupportedError (Some e) \<or> IsNodeClaimNotFoundError (Some e)
                    then None else Some e), [], s')
      | Some (Ok _, s') \<Rightarrow>
          (case find (\<lambda>n. nodeProviderID n = clProviderID cl) nodes of
             None \<Rightarrow> Some (Ok None, [], s')
           | Some n \<Rightarrow> Some (Ok (IgnoreNotFound (write (DeleteNode (nodeName n)))), [DeleteNode (nodeName n)], s')))"

definition is_orphan :: "int \<Rightarrow> node_claim list \<Rightarrow> node_claim \<Rightarrow> bool" where
  "is_orphan now claims cl =
     (clProviderID cl \<notin> set (filter (\<lambda>p. p \<noteq> []) (map clProviderID claims))
      \<and> 30 * Second < now - clCreationTimestamp cl)"

text \<open>The workers: \<open>todo\<close> is the list of (index, claim) in the order the workers take them;
  the errors are collected by index.\<close>

fun gc_workers ::
  "cloud_env \<Rightarrow> kube_writer \<Rightarrow> int \<Rightarrow> node_claim list \<Rightarrow> k8s_node list \<Rightarrow> (nat \<times> node_claim) list \<Rightarrow> cloud_state \<Rightarrow>
   ((nat \<times> gerror option) list outcome \<times> kube_write list \<times> cloud_state) option" where
  "gc_workers env write now claims nodes [] s = Some (Ok [], [], s)"
| "gc_workers env write now claims nodes ((i, cl) # todo) s =
     (if is_orphan now claims cl
      then case garbageCollect env write now nodes cl s of
             None \<Rightarrow> None
           | Some (Panic, ws, s') \<Rightarrow> Some (Panic, ws, s')
           | Some (Err e, ws, s') \<Rightarrow> Some (Err e, ws, s')
           | Some (Ok err, ws, s') \<Rightarrow>
               (case gc_workers env write now claims nodes todo s' of
                  None \<Rightarrow> None
                | Some (r, ws', s'') \<Rightarrow> Some (outcome_map (\<lambda>es. (i, err) # es) r, ws @ ws', s''))
      else gc_workers env write now claims nodes todo s)"

record gc_answer =
  gaResult :: reconcile_result
  gaError :: "gerror option"
  gaWrites :: "kube_write list"

record gc_env =
  gcCloud :: cloud_env
  gcOrder :: "(nat \<times> node_claim) list \<Rightarrow> (nat \<times> node_claim) list"
  gcClaims :: "node_claim kube_list"
  gcNodes :: "k8s_node kube_list"

definition managed :: "node_claim list \<Rightarrow> node_claim list" where
  "managed retrieved = filter (\<lambda>cl. clDeletionTimestamp cl = None) retrieved"

text \<open>\<open>successfulCount\<close> is the number of successful runs, an unsigned 64 bit counter.\<close>

definition gc_Reconcile ::
  "gc_env \<Rightarrow> kube_writer \<Rightarrow> int \<Rightarrow> 64 word \<Rightarrow> cloud_state \<Rightarrow>
   (gc_answer outcome \<times> 64 word \<times> cloud_state) option" where
  "gc_Reconcile genv write now successfulCount s =
     (let fail = (\<lambda>e s'. Some (Ok \<lparr>gaResult = noRequeue, gaError = Some e, gaWrites = []\<rparr>, successfulCount, s')) in
      case cp_List (gcCloud genv) now s of
        None \<Rightarrow> None
      | Some (Panic, s1) \<Rightarrow> Some (Panic, successfulCount, s1)
      | Some (Err e, s1) \<Rightarrow> fail (Wrap ''listing cloudprovider machines, '' e) s1
      | Some (Ok retrieved, s1) \<Rightarrow>
          (case gcClaims genv of
             Inl e \<Rightarrow> fail e s1
           | Inr claims \<Rightarrow>
               (case gcNodes genv of
                  Inl e \<Rightarrow> fail e s1
                | Inr nodes \<Rightarrow>
                    (case gc_workers (gcCloud genv) write now claims nodes
                            (gcOrder genv (List.enumerate 0 (managed retrieved))) s1 of
                       None \<Rightarrow> None
                     | Some (Panic, ws, s2) \<Rightarrow> Some (Panic, successfulCount, s2)
                     | Some (Err e, ws, s2) \<Rightarrow> Some (Err e, successfulCount, s2)
                     | Some (Ok es, ws, s2) \<Rightarrow>
                         (case multierr_Combine (map (\<lambda>i. Option.bind (map_of es i) (\<lambda>e. e)) [0..<length retrieved]) of
                            Some e \<Rightarrow> Some (Ok \<lparr>gaResult = noRequeue, gaError = Some e, gaWrites = ws\<rparr>, successfulCount, s2)
                          | None \<Rightarrow>
                              Some (Ok \<lparr>gaResult = requeueAfter (if successfulCount + 1 \<le> 20 then 10 * Second else Minute),
                                        gaError = None, gaWrites = ws\<rparr>, successfulCount + 1, s2))))))"

section \<open>Tagging\<close>

definition isTaggable :: "node_claim \<Rightarrow> bool" where
  "isTaggable cl =
     (if map_get (clAnnotations cl) AnnotationInstanceTagged = ''true''
         \<and> map_get (clAnnotations cl) AnnotationClusterNameTaggedCompatability = ''true'' then False
      else if clNodeName cl = [] then False
      else if clDeletionTimestamp cl \<noteq> None then False
      else True)"

definition wanted_tags :: "string \<Rightarrow> node_claim \<Rightarrow> (string \<times> string) list" where
  "wanted_tags clusterID cl =
     [(TagName, clNodeName cl), (TagNodeClaim, clName cl), (ECSClusterIDTagKey, clusterID)]"

definition missing_tags :: "string \<Rightarrow> node_claim \<Rightarrow> ecs_instance \<Rightarrow> (string \<times> string) list" where
  "missing_tags clusterID cl ins = filter (\<lambda>(k, v). k \<notin> fst ` set (inTags ins)) (wanted_tags clusterID cl)"

record tag_env =
  teClusterID :: string
  teInstances :: ecs_instances
  teAddTags :: "string \<Rightarrow> (string \<times> string) list \<Rightarrow> gerror option"

abbreviation teOwned :: "tag_env \<Rightarrow> instance_provider \<Rightarrow> instances_api" where
  "teOwned env p \<equiv> cluster_instances (teInstances env) (teClusterID env) (ipRegion p)"

definition tagInstance ::
  "tag_env \<Rightarrow> int \<Rightarrow> node_claim \<Rightarrow> string \<Rightarrow> instance_provider \<Rightarrow> (unit outcome \<times> instance_provider) option" where
  "tagInstance env now cl i p =
     (case instance_Get (teOwned env p) now i p of
        None \<Rightarrow> None
      | Some (Panic, p') \<Rightarrow> Some (Panic, p')
      | Some (Err e, p') \<Rightarrow> Some (Err (Wrap ''tagging nodeclaim, '' e), p')
      | Some (Ok ins, p') \<Rightarrow>
          (let tags = missing_tags (teClusterID env) cl ins in
           if tags = [] then Some (Ok (), p')
           else map_option (\<lambda>(r, q). (outcome_wrap ''tagging nodeclaim, '' r, q))
                  (instance_CreateTags (teOwned env p') (teAddTags env) now i tags p')))"

record claim_answer =
  cnResult :: reconcile_result
  cnError :: "gerror option"
  cnClaim :: node_claim
  cnWrites :: "kube_write list"

definition tagging_Reconcile ::
  "tag_env \<Rightarrow> kube_writer \<Rightarrow> int \<Rightarrow> node_claim \<Rightarrow> instance_provider \<Rightarrow>
   (claim_answer outcome \<times> instance_provider) option" where
  "tagging_Reconcile env write now cl p =
     (let answer = (\<lambda>e c ws q. Some (Ok \<lparr>cnResult = noRequeue, cnError = e, cnClaim = c, cnWrites = ws\<rparr>, q)) in
      if \<not> isTaggable cl then answer None cl [] p
      else case ParseInstanceID (clProviderID cl) of
        Panic \<Rightarrow> Some (Panic, p)
      | Err e \<Rightarrow> answer None cl [] p
      | Ok i \<Rightarrow>
          (case tagInstance env now cl i p of
             None \<Rightarrow> None
           | Some (Panic, p') \<Rightarrow> Some (Panic, p')
           | Some (Err e, p') \<Rightarrow> answer (IgnoreNodeClaimNotFoundError (Some e)) cl [] p'
           | Some (Ok _, p') \<Rightarrow>
               (let cl' = cl\<lparr>clAnnotations := assign (clAnnotations cl)
                      [(AnnotationInstanceTagged, ''true''),
                       (AnnotationClusterNameTaggedCompatability, ''true'')]\<rparr>
                in if cl' = cl then answer None cl [] p'
                   else answer (IgnoreNotFound (write (PatchNodeClaim cl'))) cl' [PatchNodeClaim cl'] p')))"

section \<open>The unregistered taint\<close>

definition TaintEffectNoExecute :: string where "TaintEffectNoExecute = ''NoExecute''"
definition NodeReady :: string where "NodeReady = ''Ready''"

definition UnregisteredNoExecuteTaint :: taint where
  "UnregisteredNoExecuteTaint =
     \<lparr>taintKey = UnregisteredTaintKey, taintValue = [], taintEffect = TaintEffectNoExecute\<rparr>"

definition MatchTaint :: "taint \<Rightarrow> taint \<Rightarrow> bool" where
  "MatchTaint t u = (taintKey t = taintKey u \<and> taintEffect t = taintEffect u)"

definition hasUnregisteredTaint :: "k8s_node \<Rightarrow> bool" where
  "hasUnregisteredTaint node = list_ex (\<lambda>t. taintKey t = UnregisteredTaintKey) (nodeTaints node)"

definition isNodeReady :: "int \<Rightarrow> k8s_node \<Rightarrow> bool" where
  "isNodeReady now node =
     list_ex (\<lambda>c. nodeCondType c = NodeReady \<and> nodeCondStatus c = ConditionTrue
        \<and> 15 * Second < now - nodeCondTime c) (nodeConditions node)"

definition without_unregistered_taint :: "k8s_node \<Rightarrow> k8s_node" where
  "without_unregistered_taint node =
     node\<lparr>nodeTaints := filter (\<lambda>t. \<not> MatchTaint t UnregisteredNoExecuteTaint) (nodeTaints node)\<rparr>"

text \<open>\<^verbatim>\<open>retry.RetryOnConflict\<close> with the default back-off: at most five attempts;
  \<open>attempt\<close> is the answer to the attempt with a given number.\<close>

fun retry_on_conflict :: "nat \<Rightarrow> (nat \<Rightarrow> gerror option) \<Rightarrow> nat \<Rightarrow> gerror option \<times> nat" where
  "retry_on_conflict 0 attempt n = (attempt n, Suc n)"
| "retry_on_conflict (Suc left) attempt n =
     (if api_IsConflict (attempt n) then retry_on_conflict left attempt (Suc n) else (attempt n, Suc n))"

text \<open>The nodes with the registered label, one after the other; a failed patch is logged.\<close>

definition taint_patches :: "(nat \<Rightarrow> kube_writer) \<Rightarrow> int \<Rightarrow> k8s_node \<Rightarrow> kube_write list" where
  "taint_patches write now node =
     (if hasUnregisteredTaint node \<and> isNodeReady now node
      then replicate (snd (retry_on_conflict 4 (\<lambda>n. write n (PatchNode (without_unregistered_taint node))) 0))
             (PatchNode (without_unregistered_taint node))
      else [])"

definition unregisteredtaint_Reconcile ::
  "(nat \<Rightarrow> kube_writer) \<Rightarrow> int \<Rightarrow> k8s_node kube_list \<Rightarrow> reconcile_result \<times> gerror option \<times> kube_write list" where
  "unregisteredtaint_Reconcile write now listed =
     (case listed of
        Inl e \<Rightarrow> (noRequeue, Some e, [])
      | Inr nodes \<Rightarrow> (requeueAfter Minute, None, concat (map (taint_patches write now) nodes)))"

section \<open>Interruption\<close>

definition ConditionTypeInstanceExpired :: string where "ConditionTypeInstanceExpired = ''InstanceExpired''"

text \<open>The events that reach the controller: nodes labelled as spot capacity.\<close>

definition interruption_filter :: "k8s_node \<Rightarrow> bool" where
  "interruption_filter node = (map_of (nodeLabels node) CapacityTypeLabelKey = Some CapacityTypeSpot)"

definition is_interrupted :: "k8s_node \<Rightarrow> bool" where
  "is_interrupted node =
     list_ex (\<lambda>c. nodeCondType c = ConditionTypeInstanceExpired \<and> nodeCondStatus c = ConditionTrue) (nodeConditions node)"

definition getNodeClaimByNodeName :: "node_claim kube_list \<Rightarrow> string \<Rightarrow> gerror + node_claim" where
  "getNodeClaimByNodeName listed name =
     (case listed of
        Inl e \<Rightarrow> Inl e
      | Inr cls \<Rightarrow>
          (case find (\<lambda>cl. clNodeName cl = name) cls of
             Some cl \<Rightarrow> Inr cl
           | None \<Rightarrow> Inl (ErrorString (''no nodeclaim found for node '' @ name))))"

definition deleteNodeClaim :: "kube_writer \<Rightarrow> node_claim \<Rightarrow> gerror option \<times> kube_write list" where
  "deleteNodeClaim write cl =
     (if clDeletionTimestamp cl \<noteq> None then (None, [])
      else (case write (DeleteNodeClaim (clName cl)) of
              None \<Rightarrow> None
            | Some e \<Rightarrow> IgnoreNotFound (Some (Wrap ''deleting the node on interruption message, '' e)),
            [DeleteNodeClaim (clName cl)]))"

definition interruption_Reconcile ::
  "node_claim kube_list \<Rightarrow> kube_writer \<Rightarrow> int \<Rightarrow> k8s_node \<Rightarrow> unavailable_offerings \<Rightarrow>
   (reconcile_result \<times> gerror option \<times> kube_write list) \<times> unavailable_offerings" where
  "interruption_Reconcile listed write now node u =
     (if \<not> is_interrupted node then ((noRequeue, None, []), u)
      else case getNodeClaimByNodeName listed (nodeName node) of
        Inl e \<Rightarrow> ((requeueAfter (5 * Second), Some e, []), u)
      | Inr cl \<Rightarrow>
          (let zone = map_get (clLabels cl) LabelTopologyZone;
               instanceType = map_get (clLabels cl) LabelInstanceTypeStable;
               u' = (if zone \<noteq> [] \<and> instanceType \<noteq> [] then MarkUnavailable now instanceType zone CapacityTypeSpot u else u);
               (err, ws) = deleteNodeClaim write cl
           in (if err \<noteq> None then (requeueAfter (5 * Second), err, ws) else (noRequeue, None, ws), u')))"

section \<open>Lemmas\<close>

text \<open>Listing does not depend on what a deletion would answer.\<close>

lemma list_ignores_delete:
  "cp_List (env\<lparr>ceDelete := d\<rparr>) now s = cp_List env now s"
proof -
  have types: "list_types (env\<lparr>ceDelete := d\<rparr>) = list_types env"
    by (simp add: fun_eq_iff list_types_def types_env_def Let_def)
  have "claim_of_instance (env\<lparr>ceDelete := d\<rparr>) = claim_of_instance env"
    unfolding claim_of_instance_def[abs_def] resolveInstanceTypeFromInstance_def resolveNodePoolFromInstance_def
      resolveNodeClassFromInstance_def resolveNodeClassFromNodePool_def[abs_def] resolve_class_def GetInstanceTypes_def
      types by (cases env) (simp only: cloud_env.simps)
  then have "claims_of_instances (env\<lparr>ceDelete := d\<rparr>) now is s = claims_of_instances env now is s" for "is" s
    by (induction "is" arbitrary: s) (simp_all split: prod.splits outcome.splits)
  then show ?thesis by (simp add: cp_List_def split: option.splits prod.splits outcome.splits)
qed

lemma instance_Delete_cong:
  assumes "del' i = del i"
  shows "instance_Delete api del' now i p = instance_Delete api del now i p"
  unfolding instance_Delete_def assms ..

lemma garbageCollect_cong:
  assumes "\<forall>i. ParseInstanceID (clProviderID cl) = Ok i \<longrightarrow> d i = ceDelete env i"
  shows "garbageCollect (env\<lparr>ceDelete := d\<rparr>) write now nodes cl s = garbageCollect env write now nodes cl s"
proof -
  have "cp_Delete (env\<lparr>ceDelete := d\<rparr>) now cl s = cp_Delete env now cl s"
    using assms instance_Delete_cong[of d _ "ceDelete env"] by (simp add: cp_Delete_def split: outcome.splits)
  then show ?thesis by (simp add: garbageCollect_def)
qed

lemma gc_workers_cong:
  assumes "\<forall>(n, cl) \<in> set todo. is_orphan now claims cl \<longrightarrow>
      (\<forall>i. ParseInstanceID (clProviderID cl) = Ok i \<longrightarrow> d i = ceDelete env i)"
  shows "gc_workers (env\<lparr>ceDelete := d\<rparr>) write now claims nodes todo s = gc_workers env write now claims nodes todo s"
  using assms
proof (induction todo arbitrary: s)
  case (Cons t todo)
  obtain n cl where t: "t = (n, cl)" by (cases t)
  show ?case
  proof (cases "is_orphan now claims cl")
    case True
    then have "garbageCollect (env\<lparr>ceDelete := d\<rparr>) write now nodes cl s = garbageCollect env write now nodes cl s"
      using Cons.prems t by (intro garbageCollect_cong) auto
    with Cons True t show ?thesis by (simp split: option.splits prod.splits outcome.splits)
  qed (use Cons t in simp)
qed simp

text \<open>The orphans of a run, as they should be: instances that are not on their way out, older than
  thirty seconds, and not accounted for by a node claim (an instance without a provider ID never
  is).\<close>

definition orphans :: "int \<Rightarrow> node_claim list \<Rightarrow> node_claim list \<Rightarrow> node_claim set" where
  "orphans now claims retrieved =
     {cl \<in> set retrieved. clDeletionTimestamp cl = None \<and> clCreationTimestamp cl + 30 * Second < now
        \<and> (clProviderID cl = [] \<or> clProviderID cl \<notin> clProviderID ` set claims)}"

lemma orphans_iff: "cl \<in> orphans now claims retrieved \<longleftrightarrow> cl \<in> set (managed retrieved) \<and> is_orphan now claims cl"
  by (auto simp: orphans_def managed_def is_orphan_def)

definition deletes_node_of :: "k8s_node list \<Rightarrow> node_claim set \<Rightarrow> kube_write \<Rightarrow> bool" where
  "deletes_node_of nodes cls w =
     (\<exists>cl \<in> cls. \<exists>nd \<in> set nodes. nodeProviderID nd = clProviderID cl \<and> w = DeleteNode (nodeName nd))"

lemma deletes_node_of_mono: "deletes_node_of nodes A w \<Longrightarrow> A \<subseteq> B \<Longrightarrow> deletes_node_of nodes B w"
  unfolding deletes_node_of_def by blast

text \<open>The deletion of an instance ended without an error, and what it wrote is part of \<open>ws\<close>.\<close>

definition collected :: "cloud_env \<Rightarrow> kube_writer \<Rightarrow> int \<Rightarrow> k8s_node list \<Rightarrow> kube_write list \<Rightarrow> node_claim \<Rightarrow> bool" where
  "collected env write now nodes ws cl =
     (\<exists>s1 ws1 s2. garbageCollect env write now nodes cl s1 = Some (Ok None, ws1, s2) \<and> set ws1 \<subseteq> set ws)"

lemma garbageCollect_writes:
  assumes "garbageCollect env write now nodes cl s = Some (r, ws, s')" "w \<in> set ws"
  shows "\<exists>nd \<in> set nodes. nodeProviderID nd = clProviderID cl \<and> w = DeleteNode (nodeName nd)"
  using assms unfolding garbageCollect_def
  by (auto split: option.splits prod.splits outcome.splits if_splits dest!: find_Some_iff_mem)

text \<open>The workers that end without a panic are the collections of the orphans, one after the
  other.\<close>

lemma gc_workers_Ok_cases:
  assumes "gc_workers env write now claims nodes ((i, cl) # todo) s = Some (Ok es, ws, s')" "is_orphan now claims cl"
  obtains err ws1 s1 es2 ws2 where "garbageCollect env write now nodes cl s = Some (Ok err, ws1, s1)"
    "gc_workers env write now claims nodes todo s1 = Some (Ok es2, ws2, s')" "es = (i, err) # es2" "ws = ws1 @ ws2"
proof -
  obtain r1 ws1 s1 where g: "garbageCollect env write now nodes cl s = Some (r1, ws1, s1)"
    using assms by (auto split: option.splits)
  then obtain err where "r1 = Ok err" using assms by (cases r1) auto
  with g assms that show thesis by (auto split: option.splits)
qed

lemma gc_workers_writes:
  assumes "gc_workers env write now claims nodes todo s = Some (Ok es, ws, s')" "w \<in> set ws"
  shows "deletes_node_of nodes {cl \<in> snd ` set todo. is_orphan now claims cl} w"
  using assms
proof (induction todo arbitrary: s es ws)
  case (Cons t todo)
  obtain i cl where t: "t = (i, cl)" by (cases t)
  have mono: "{c \<in> snd ` set todo. is_orphan now claims c} \<subseteq> {c \<in> snd ` set (t # todo). is_orphan now claims c}" by auto
  show ?case
  proof (cases "is_orphan now claims cl")
    case True
    from gc_workers_Ok_cases[OF Cons.prems(1)[unfolded t] True] obtain err ws1 s1 es2 ws2
      where g: "garbageCollect env write now nodes cl s = Some (Ok err, ws1, s1)"
        and r: "gc_workers env write now claims nodes todo s1 = Some (Ok es2, ws2, s')" "ws = ws1 @ ws2" .
    have "deletes_node_of nodes {c \<in> snd ` set (t # todo). is_orphan now claims c} w" if "w \<in> set ws1"
      unfolding deletes_node_of_def using garbageCollect_writes[OF g that] True t
      by (intro bexI[of _ cl]) auto
    with deletes_node_of_mono[OF _ mono] Cons.IH[OF r(1)] Cons.prems(2) r(2) show ?thesis by auto
  next
    case False
    with Cons.prems(1) have "gc_workers env write now claims nodes todo s = Some (Ok es, ws, s')"
      unfolding t by simp
    from deletes_node_of_mono[OF Cons.IH[OF this Cons.prems(2)] mono] show ?thesis .
  qed
qed simp

lemma gc_workers_keys:
  assumes "gc_workers env write now claims nodes todo s = Some (Ok es, ws, s')"
  shows "fst ` set es \<subseteq> fst ` set todo \<and> (distinct (map fst todo) \<longrightarrow> distinct (map fst es))"
  using assms
proof (induction todo arbitrary: s es ws)
  case (Cons t todo)
  obtain i cl where t: "t = (i, cl)" by (cases t)
  show ?case
  proof (cases "is_orphan now claims cl")
    case True
    from gc_workers_Ok_cases[OF Cons.prems[unfolded t] True] obtain err ws1 s1 es2 ws2
      where r: "gc_workers env write now claims nodes todo s1 = Some (Ok es2, ws2, s')" "es = (i, err) # es2" .
    show ?thesis using Cons.IH[OF r(1)] unfolding r(2) t by auto
  next
    case False
    with Cons.prems have "gc_workers env write now claims nodes todo s = Some (Ok es, ws, s')"
      unfolding t by simp
    from Cons.IH[OF this] show ?thesis by auto
  qed
qed simp

lemma gc_workers_handle_orphans:
  assumes "gc_workers env write now claims nodes todo s = Some (Ok es, ws, s')"
    and "(i, cl) \<in> set todo" "is_orphan now claims cl"
  shows "\<exists>err s1 ws1 s2. (i, err) \<in> set es
    \<and> garbageCollect env write now nodes cl s1 = Some (Ok err, ws1, s2) \<and> set ws1 \<subseteq> set ws"
  using assms(1,2)
proof (induction todo arbitrary: s es ws)
  case (Cons t todo)
  obtain k c where t: "t = (k, c)" by (cases t)
  show ?case
  proof (cases "is_orphan now claims c")
    case True
    from gc_workers_Ok_cases[OF Cons.prems(1)[unfolded t] True] obtain err ws1 s1 es2 ws2
      where g: "garbageCollect env write now nodes c s = Some (Ok err, ws1, s1)"
        and r: "gc_workers env write now claims nodes todo s1 = Some (Ok es2, ws2, s')" "es = (k, err) # es2"
          "ws = ws1 @ ws2" .
    show ?thesis
    proof (cases "(i, cl) = t")
      case False
      with Cons.prems(2) Cons.IH[OF r(1)] show ?thesis unfolding r(2,3) set_append list.set by blast
    qed (use g r t in auto)
  next
    case False
    with Cons.prems(1) have "gc_workers env write now claims nodes todo s = Some (Ok es, ws, s')"
      unfolding t by simp
    from Cons.IH[OF this] Cons.prems(2) False assms(3) t show ?thesis by auto
  qed
qed simp

text \<open>The orphan whose worker reports no error was collected.\<close>

lemma gc_workers_collect:
  assumes w: "gc_workers env write now claims nodes todo s = Some (Ok es, ws, s')" and "distinct (map fst todo)"
    and i: "(i, cl) \<in> set todo" "is_orphan now claims cl" and ok: "Option.bind (map_of es i) (\<lambda>e. e) = None"
  shows "collected env write now nodes ws cl"
proof -
  from gc_workers_handle_orphans[OF w i] obtain err c1 ws1 c2 where e: "(i, err) \<in> set es"
    "garbageCollect env write now nodes cl c1 = Some (Ok err, ws1, c2)" "set ws1 \<subseteq> set ws" by blast
  then have "err = None" using ok map_of_is_SomeI[OF _ e(1)] gc_workers_keys[OF w] assms(2) by simp
  with e show ?thesis unfolding collected_def by blast
qed

section \<open>Properties\<close>

text \<open>
  C4. Garbage collection deletes orphans only: nodes are deleted only for instances the cloud
  provider lists as not stopping, which are older than thirty seconds and whose provider ID no
  node claim carries; the answers of DeleteInstance for every other instance make no difference,
  whatever the order of the workers. After a run without error every orphan was collected (its
  deletion was accepted, or refused because it is gone already or still starting); such a run
  counts and asks for the next one after ten seconds, or a minute once twenty runs succeeded.
\<close>

theorem gc_deletes_only_orphans:
  assumes order: "\<forall>xs. mset (gcOrder genv xs) = mset xs"
    and run: "gc_Reconcile genv write now n s = Some (Ok a, n', s')"
    and listed: "cp_List (gcCloud genv) now s = Some (Ok retrieved, s1)"
    and claims: "gcClaims genv = Inr claims" and nodes: "gcNodes genv = Inr nodes"
  shows "(\<forall>w \<in> set (gaWrites a). deletes_node_of nodes (orphans now claims retrieved) w)
    \<and> (\<forall>d. (\<forall>cl \<in> orphans now claims retrieved. \<forall>i. ParseInstanceID (clProviderID cl) = Ok i \<longrightarrow>
             d i = ceDelete (gcCloud genv) i) \<longrightarrow>
         gc_Reconcile (genv\<lparr>gcCloud := (gcCloud genv)\<lparr>ceDelete := d\<rparr>\<rparr>) write now n s
           = gc_Reconcile genv write now n s)
    \<and> (gaError a = None \<longrightarrow> n' = n + 1 \<and> gaResult a = requeueAfter (if n' \<le> 20 then 10 * Second else Minute)
         \<and> (\<forall>cl \<in> orphans now claims retrieved. collected (gcCloud genv) write now nodes (gaWrites a) cl))
    \<and> (gaError a \<noteq> None \<longrightarrow> n' = n)"
proof (intro conjI)
  let ?todo = "gcOrder genv (List.enumerate 0 (managed retrieved))"
  have todo: "set ?todo = set (List.enumerate 0 (managed retrieved))" using order by (metis set_mset_mset)
  then have cls: "snd ` set ?todo = set (managed retrieved)"
    by (metis map_snd_enumerate set_map)
  have "mset (map fst ?todo) = mset (map fst (List.enumerate 0 (managed retrieved)))"
    using order by (simp only: mset_map)
  then have dist: "distinct (map fst ?todo)" by (metis distinct_upt map_fst_enumerate mset_eq_imp_distinct_iff)
  obtain es ws s2 where w: "gc_workers (gcCloud genv) write now claims nodes ?todo s1 = Some (Ok es, ws, s2)"
    and ws: "gaWrites a = ws"
    using run listed claims nodes
    by (auto simp: gc_Reconcile_def Let_def split: option.splits prod.splits outcome.splits)
  have "{cl \<in> snd ` set ?todo. is_orphan now claims cl} = orphans now claims retrieved" unfolding cls by (auto simp: orphans_iff)
  with gc_workers_writes[OF w] ws show "\<forall>w \<in> set (gaWrites a). deletes_node_of nodes (orphans now claims retrieved) w" by simp
  show "\<forall>d. (\<forall>cl \<in> orphans now claims retrieved. \<forall>i. ParseInstanceID (clProviderID cl) = Ok i \<longrightarrow>
      d i = ceDelete (gcCloud genv) i) \<longrightarrow>
    gc_Reconcile (genv\<lparr>gcCloud := (gcCloud genv)\<lparr>ceDelete := d\<rparr>\<rparr>) write now n s = gc_Reconcile genv write now n s"
  proof (intro allI impI)
    fix d
    assume "\<forall>cl \<in> orphans now claims retrieved. \<forall>i. ParseInstanceID (clProviderID cl) = Ok i \<longrightarrow>
      d i = ceDelete (gcCloud genv) i"
    then have "\<forall>(k, cl) \<in> set ?todo. is_orphan now claims cl \<longrightarrow>
      (\<forall>i. ParseInstanceID (clProviderID cl) = Ok i \<longrightarrow> d i = ceDelete (gcCloud genv) i)"
      using cls by (force simp: orphans_iff)
    from gc_workers_cong[OF this]
    show "gc_Reconcile (genv\<lparr>gcCloud := (gcCloud genv)\<lparr>ceDelete := d\<rparr>\<rparr>) write now n s = gc_Reconcile genv write now n s"
      by (simp add: gc_Reconcile_def list_ignores_delete listed claims nodes)
  qed
  have "collected (gcCloud genv) write now nodes (gaWrites a) cl"
    if ok: "gaError a = None" and cl: "cl \<in> orphans now claims retrieved" for cl
  proof -
    from cl obtain i where i: "(i, cl) \<in> set ?todo" "is_orphan now claims cl" unfolding orphans_iff cls[symmetric] by force
    have "i < length (managed retrieved)" using i(1) todo by (simp add: in_set_enumerate_eq)
    then have "i < length retrieved" unfolding managed_def using length_filter_le order_less_le_trans by blast
    moreover have "multierr_Combine (map (\<lambda>i. Option.bind (map_of es i) (\<lambda>e. e)) [0..<length retrieved]) = None"
      using run listed claims nodes w ok by (auto simp: gc_Reconcile_def Let_def split: option.splits)
    ultimately show ?thesis using gc_workers_collect[OF w dist i] ws by simp
  qed
  then show "gaError a = None \<longrightarrow> n' = n + 1 \<and> gaResult a = requeueAfter (if n' \<le> 20 then 10 * Second else Minute)
      \<and> (\<forall>cl \<in> orphans now claims retrieved. collected (gcCloud genv) write now nodes (gaWrites a) cl)"
    and "gaError a \<noteq> None \<longrightarrow> n' = n"
    using run listed claims nodes w
    by (auto simp: gc_Reconcile_def Let_def split: option.splits)
qed

text \<open>
  C21. Tagging: a node claim is marked as tagged only when its node is known, it is not being
  deleted, and its instance carries the keys of the name, node claim and cluster tags, or AddTags accepted those
  of the three, with the node's name, the claim's name and the cluster's id, whose keys the instance
  lacks, and no others; then it is not taggable any more. An instance that is not found is not an
  error and leaves the claim as it is.
\<close>

theorem tagged_claims_have_tags:
  assumes run: "tagging_Reconcile env write now cl p = Some (Ok a, p')"
    and i: "ParseInstanceID (clProviderID cl) = Ok i"
    and got: "instance_Get (teOwned env p) now i p = Some (r, q)"
  shows "(cnWrites a \<noteq> [] \<longrightarrow>
      clNodeName cl \<noteq> [] \<and> clDeletionTimestamp cl = None
      \<and> map_get (clAnnotations (cnClaim a)) AnnotationInstanceTagged = ''true''
      \<and> \<not> isTaggable (cnClaim a) \<and> cnWrites a = [PatchNodeClaim (cnClaim a)]
      \<and> (\<exists>ins tags. r = Ok ins
          \<and> set tags = {(k, v) \<in> {(TagName, clNodeName cl), (TagNodeClaim, clName cl), (ECSClusterIDTagKey, teClusterID env)}.
                k \<notin> fst ` set (inTags ins)}
          \<and> (tags = [] \<or> teAddTags env i tags = None)))
    \<and> (\<forall>e. r = Err e \<longrightarrow> IsNodeClaimNotFoundError (Some e) \<longrightarrow>
         cnError a = None \<and> cnClaim a = cl \<and> cnWrites a = [])"
proof -
  have wrapped: "IsNodeClaimNotFoundError (Some (Wrap m e)) = IsNodeClaimNotFoundError (Some e)" for m e
    by (simp add: IsNodeClaimNotFoundError_def)
  have keys: "AnnotationInstanceTagged \<noteq> AnnotationClusterNameTaggedCompatability" by (simp add: label_defs)
  have marked: "\<not> isTaggable (cl\<lparr>clAnnotations := assign (clAnnotations cl)
      [(AnnotationInstanceTagged, ''true''), (AnnotationClusterNameTaggedCompatability, ''true'')]\<rparr>)"
    "map_get (assign (clAnnotations cl)
      [(AnnotationInstanceTagged, ''true''), (AnnotationClusterNameTaggedCompatability, ''true'')]) AnnotationInstanceTagged = ''true''"
    by (simp_all add: isTaggable_def map_get_def map_of_assign keys keys[symmetric])
  have known: "clNodeName cl \<noteq> []" "clDeletionTimestamp cl = None" if "isTaggable cl"
    using that by (auto simp: isTaggable_def split: if_splits)
  have tag: "tagInstance env now cl i p = Some (Ok u, p1) \<Longrightarrow>
      \<exists>ins tags. r = Ok ins
          \<and> set tags = {(k, v) \<in> {(TagName, clNodeName cl), (TagNodeClaim, clName cl), (ECSClusterIDTagKey, teClusterID env)}.
                k \<notin> fst ` set (inTags ins)}
          \<and> (tags = [] \<or> teAddTags env i tags = None)" for u p1
  proof -
    assume "tagInstance env now cl i p = Some (Ok u, p1)"
    with got obtain ins where "r = Ok ins" "missing_tags (teClusterID env) cl ins = []
        \<or> teAddTags env i (missing_tags (teClusterID env) cl ins) = None"
      by (auto simp: tagInstance_def instance_CreateTags_def Let_def
        split: outcome.splits if_splits option.splits prod.splits bool.splits)
    moreover have "set (missing_tags (teClusterID env) cl ins) =
        {(k, v) \<in> {(TagName, clNodeName cl), (TagNodeClaim, clName cl), (ECSClusterIDTagKey, teClusterID env)}.
           k \<notin> fst ` set (inTags ins)}"
      unfolding missing_tags_def wanted_tags_def set_filter list.set by blast
    ultimately show ?thesis by blast
  qed
  show ?thesis
  proof (cases r)
    case (Err e)
    then show ?thesis using run i got wrapped tag
      by (auto simp: tagging_Reconcile_def tagInstance_def Let_def IgnoreNodeClaimNotFoundError_def split: if_splits)
  next
    case (Ok ins)
    then show ?thesis using run i marked tag known
      by (auto simp: tagging_Reconcile_def Let_def split: if_splits option.splits prod.splits outcome.splits)
  next
    case Panic
    then show ?thesis using run i got by (auto simp: tagging_Reconcile_def tagInstance_def Let_def split: if_splits)
  qed
qed

lemma retry_attempts:
  "n < snd (retry_on_conflict left attempt n) \<and> snd (retry_on_conflict left attempt n) \<le> Suc (n + left)
   \<and> (\<forall>j. n \<le> j \<longrightarrow> Suc j < snd (retry_on_conflict left attempt n) \<longrightarrow> api_IsConflict (attempt j))"
proof (induction left attempt n rule: retry_on_conflict.induct)
  case (2 left attempt n)
  show ?case
  proof (cases "api_IsConflict (attempt n)")
    case True
    note ih = 2[OF True]
    from ih True have "\<forall>j. n \<le> j \<longrightarrow> Suc j < snd (retry_on_conflict left attempt (Suc n)) \<longrightarrow> api_IsConflict (attempt j)"
      by (metis Suc_leI le_neq_implies_less)
    then show ?thesis using ih True by simp
  qed simp
qed simp

text \<open>
  C37. The unregistered taint: exactly the nodes that carry a taint with the key and whose Ready
  condition has been true for more than fifteen seconds are patched. The patch removes exactly the
  taints with the key and the NoExecute effect; it is sent to each such node at least once and at
  most five times, again only after a conflict.
\<close>

theorem taint_removed_from_ready_nodes:
  assumes "unregisteredtaint_Reconcile write now (Inr nodes) = (r, e, ws)"
  shows "r = requeueAfter Minute \<and> e = None
    \<and> (\<exists>tries. let patch = \<lambda>nd. PatchNode (nd\<lparr>nodeTaints :=
             filter (\<lambda>t. taintKey t \<noteq> UnregisteredTaintKey \<or> taintEffect t \<noteq> ''NoExecute'') (nodeTaints nd)\<rparr>)
        in ws = concat (map (\<lambda>nd. replicate (tries nd) (patch nd)) nodes)
         \<and> (\<forall>nd. if (\<exists>t \<in> set (nodeTaints nd). taintKey t = UnregisteredTaintKey)
                 \<and> (\<exists>c \<in> set (nodeConditions nd). nodeCondType c = ''Ready'' \<and> nodeCondStatus c = ConditionTrue
                      \<and> nodeCondTime c + 15 * Second < now)
               then 1 \<le> tries nd \<and> tries nd \<le> 5 \<and> (\<forall>j. Suc j < tries nd \<longrightarrow> api_IsConflict (write j (patch nd)))
               else tries nd = 0))"
proof -
  have ws: "ws = concat (map (taint_patches write now) nodes)" and re: "r = requeueAfter Minute" "e = None"
    using assms by (auto simp: unregisteredtaint_Reconcile_def)
  define patch where "patch nd = PatchNode (without_unregistered_taint nd)" for nd
  define tries where "tries nd = (if hasUnregisteredTaint nd \<and> isNodeReady now nd
    then snd (retry_on_conflict 4 (\<lambda>n. write n (patch nd)) 0) else 0)" for nd
  have taints: "patch = (\<lambda>nd. PatchNode (nd\<lparr>nodeTaints :=
      filter (\<lambda>t. taintKey t \<noteq> UnregisteredTaintKey \<or> taintEffect t \<noteq> ''NoExecute'') (nodeTaints nd)\<rparr>))"
    by (simp add: patch_def without_unregistered_taint_def MatchTaint_def UnregisteredNoExecuteTaint_def
        TaintEffectNoExecute_def fun_eq_iff)
  have "ws = concat (map (\<lambda>nd. replicate (tries nd) (patch nd)) nodes)"
    unfolding ws by (rule arg_cong[of _ _ concat]) (simp add: tries_def taint_patches_def patch_def)
  moreover have "if (\<exists>t \<in> set (nodeTaints nd). taintKey t = UnregisteredTaintKey)
        \<and> (\<exists>c \<in> set (nodeConditions nd). nodeCondType c = ''Ready'' \<and> nodeCondStatus c = ConditionTrue
             \<and> nodeCondTime c + 15 * Second < now)
      then 1 \<le> tries nd \<and> tries nd \<le> 5 \<and> (\<forall>j. Suc j < tries nd \<longrightarrow> api_IsConflict (write j (patch nd)))
      else tries nd = 0" for nd
  proof -
    have "hasUnregisteredTaint nd \<longleftrightarrow> (\<exists>t \<in> set (nodeTaints nd). taintKey t = UnregisteredTaintKey)"
      "isNodeReady now nd \<longleftrightarrow> (\<exists>c \<in> set (nodeConditions nd). nodeCondType c = ''Ready''
         \<and> nodeCondStatus c = ConditionTrue \<and> nodeCondTime c + 15 * Second < now)"
      by (auto simp: hasUnregisteredTaint_def isNodeReady_def list_ex_iff NodeReady_def)
    note parts = this[symmetric]
    show ?thesis
      using retry_attempts[of 0 4 "\<lambda>n. write n (patch nd)"] unfolding tries_def parts by simp
  qed
  ultimately show ?thesis unfolding taints Let_def using re by blast
qed

text \<open>A ready node that carries the key with other effects only is patched without a change.\<close>

lemma other_effect_patched_in_vain:
  assumes "hasUnregisteredTaint nd" "isNodeReady now nd" "\<forall>t \<in> set (nodeTaints nd). taintEffect t \<noteq> TaintEffectNoExecute"
  shows "PatchNode nd \<in> set (taint_patches write now nd)"
proof -
  have "without_unregistered_taint nd = nd"
    using assms(3) by (simp add: without_unregistered_taint_def MatchTaint_def UnregisteredNoExecuteTaint_def
        filter_id_conv)
  moreover have "0 < snd (retry_on_conflict k f n)" for k f n by (induction k arbitrary: n) auto
  ultimately show ?thesis using assms(1,2) by (simp add: taint_patches_def)
qed


section \<open>Witnesses\<close>

definition sample_node :: k8s_node where
  "sample_node = \<lparr>nodeName = ''n1'', nodeLabels = [(CapacityTypeLabelKey, CapacityTypeSpot)], nodeCreation = 0,
     nodeProviderID = ''cn-x.i-1'', nodeTaints = [UnregisteredNoExecuteTaint],
     nodeConditions = [\<lparr>nodeCondType = NodeReady, nodeCondStatus = ConditionTrue, nodeCondReason = [], nodeCondTime = 0\<rparr>,
       \<lparr>nodeCondType = ConditionTypeInstanceExpired, nodeCondStatus = ConditionTrue, nodeCondReason = [], nodeCondTime = 0\<rparr>],
     nodeCapacity = []\<rparr>"

definition sample_gc_env :: gc_env where
  "sample_gc_env = \<lparr>gcCloud = sample_cloud_env, gcOrder = (\<lambda>xs. xs), gcClaims = Inr [], gcNodes = Inr [sample_node]\<rparr>"

lemma sample_cp_List:
  "cp_List sample_cloud_env 101 sample_cloud_state = Some (Ok [instanceToNodeClaim 101 sample_instance None], sample_cloud_state)"
proof -
  have items: "map snd (cache_list 101 (instanceCache sample_cached)) = [sample_instance]"
    by (simp add: sample_cached_def syncAllInstances_def NewInstanceProvider_def cache_set_def Let_def cache_new_def
        cache_list_def item_expired_def instanceCacheExpiration_def Second_def)
  have "instance_List (cluster_instances ecs cid region) 101 sample_cached = Some (Ok [sample_instance], sample_cached)" for ecs cid region
    using items by (simp add: instance_List_def sample_cached_def instanceCacheExpiration_def Second_def)
  then show ?thesis
    by (simp add: cp_List_def sample_cloud_state_def claim_of_instance_def resolveInstanceTypeFromInstance_def
        resolveNodePoolFromInstance_def resolveNodeClassFromInstance_def sample_instance_def label_defs
        IgnoreNotFound_def api_IsNotFound_def Let_def)
qed

theorem gc_deletes_only_orphans_witness:
  "\<exists>a s'. gc_Reconcile sample_gc_env (\<lambda>_. None) 101 0 sample_cloud_state = Some (Ok a, 1, s')
     \<and> gaWrites a = [DeleteNode ''n1''] \<and> gaResult a = requeueAfter (10 * Second)"
proof -
  let ?cl = "instanceToNodeClaim 101 sample_instance None"
  have pid: "clProviderID ?cl = ''cn-x'' @ ''.'' @ ''i-1''"
    by (simp add: instanceToNodeClaim_def sample_instance_def)
  have parse: "ParseInstanceID (clProviderID ?cl) = Ok ''i-1''"
    unfolding pid by (rule ParseInstanceID_joined) (simp_all add: any_char_def)
  have orphan: "is_orphan 101 [] ?cl"
    by (simp add: is_orphan_def instanceToNodeClaim_def sample_instance_def zeroTime_def Second_def)
  have man: "managed [?cl] = [?cl]"
    by (simp add: managed_def instanceToNodeClaim_def sample_instance_def instance_status_defs zero_claim_def)
  have del: "\<exists>s'. cp_Delete sample_cloud_env 101 ?cl sample_cloud_state = Some (Ok (), s')"
    using sample_cached_get parse
    by (simp add: cp_Delete_def instance_Delete_def instance_Get_def sample_cloud_state_def sample_instance_def
        instance_status_defs sample_cloud_env_def)
  have node: "find (\<lambda>n. nodeProviderID n = clProviderID ?cl) [sample_node] = Some sample_node"
    unfolding pid by (simp add: sample_node_def)
  obtain a s' where run: "gc_Reconcile sample_gc_env (\<lambda>_. None) 101 0 sample_cloud_state = Some (Ok a, 1, s')"
    and a: "gaWrites a = [DeleteNode ''n1'']" "gaError a = None"
    using del orphan node man sample_cp_List
    by (auto simp: gc_Reconcile_def sample_gc_env_def Let_def garbageCollect_def IgnoreNotFound_def api_IsNotFound_def
        sample_node_def multierr_Combine_def List.map_filter_def)
  have "gaResult a = requeueAfter (10 * Second)"
    using gc_deletes_only_orphans[OF _ run, of "[?cl]" sample_cloud_state "[]" "[sample_node]"] sample_cp_List a(2)
    by (simp add: sample_gc_env_def)
  with run a show ?thesis by blast
qed

definition sample_tag_env :: tag_env where
  "sample_tag_env = \<lparr>teClusterID = ''c1'', teInstances = (\<lambda>_. Ok None), teAddTags = (\<lambda>_ _. None)\<rparr>"

definition sample_tag_claim :: node_claim where
  "sample_tag_claim = zero_claim\<lparr>clName := ''claim'', clNodeName := ''n1'', clProviderID := ''cn-x'' @ ''.'' @ ''i-1'',
     clLabels := [(LabelTopologyZone, ''cn-x-a''), (LabelInstanceTypeStable, ''ecs.g7.large'')]\<rparr>"

theorem tagged_claims_have_tags_witness:
  "\<exists>a p'. tagging_Reconcile sample_tag_env (\<lambda>_. None) 101 sample_tag_claim sample_cached = Some (Ok a, p')
     \<and> cnWrites a \<noteq> [] \<and> \<not> isTaggable (cnClaim a)"
proof -
  have parse: "ParseInstanceID (clProviderID sample_tag_claim) = Ok ''i-1''"
    using ParseInstanceID_joined[of "''cn-x''" "''i-1''"] by (simp add: sample_tag_claim_def any_char_def)
  have got: "instance_Get (teOwned sample_tag_env sample_cached) 101 ''i-1'' sample_cached = Some (Ok sample_instance, sample_cached)"
    by (simp add: instance_Get_def sample_cached_get)
  have taggable: "isTaggable sample_tag_claim"
    by (simp add: isTaggable_def sample_tag_claim_def zero_claim_def map_get_def)
  have recent: "101 - lastUpdateTime sample_cached < instanceCacheExpiration"
    by (simp add: sample_cached_def instanceCacheExpiration_def Second_def)
  have tag: "\<exists>q. tagInstance sample_tag_env 101 sample_tag_claim ''i-1'' sample_cached = Some (Ok (), q)"
    using got recent by (simp add: tagInstance_def instance_CreateTags_def Let_def)
      (simp add: sample_tag_env_def instance_List_def)
  have diff: "sample_tag_claim\<lparr>clAnnotations := assign (clAnnotations sample_tag_claim)
      [(AnnotationInstanceTagged, ''true''), (AnnotationClusterNameTaggedCompatability, ''true'')]\<rparr> \<noteq> sample_tag_claim"
    by (simp add: sample_tag_claim_def zero_claim_def assign_def)
  obtain a p' where run: "tagging_Reconcile sample_tag_env (\<lambda>_. None) 101 sample_tag_claim sample_cached = Some (Ok a, p')"
    and w: "cnWrites a \<noteq> []"
    using taggable parse tag diff by (auto simp: tagging_Reconcile_def Let_def)
  from tagged_claims_have_tags[OF run parse got] run w show ?thesis by blast
qed

theorem taint_removed_from_ready_nodes_witness:
  "set (snd (snd (unregisteredtaint_Reconcile (\<lambda>_ _. None) (16 * Second) (Inr [sample_node]))))
     = {PatchNode (sample_node\<lparr>nodeTaints := []\<rparr>)}"
proof -
  have ready: "\<exists>t \<in> set (nodeTaints sample_node). taintKey t = UnregisteredTaintKey"
    "\<exists>c \<in> set (nodeConditions sample_node). nodeCondType c = ''Ready'' \<and> nodeCondStatus c = ConditionTrue
       \<and> nodeCondTime c + 15 * Second < 16 * Second"
    "filter (\<lambda>t. taintKey t \<noteq> UnregisteredTaintKey \<or> taintEffect t \<noteq> ''NoExecute'') (nodeTaints sample_node) = []"
    by (simp_all add: sample_node_def UnregisteredNoExecuteTaint_def TaintEffectNoExecute_def NodeReady_def Second_def)
  obtain r e ws where run: "unregisteredtaint_Reconcile (\<lambda>_ _. None) (16 * Second) (Inr [sample_node]) = (r, e, ws)"
    by (metis prod_cases3)
  show ?thesis
  proof (rule exE[OF conjunct2[OF conjunct2[OF taint_removed_from_ready_nodes[OF run]]]], unfold Let_def, elim conjE)
    fix tries
    assume ws: "ws = concat (map (\<lambda>nd. replicate (tries nd) (PatchNode (nd\<lparr>nodeTaints :=
        filter (\<lambda>t. taintKey t \<noteq> UnregisteredTaintKey \<or> taintEffect t \<noteq> ''NoExecute'') (nodeTaints nd)\<rparr>))) [sample_node])"
    assume "\<forall>nd. if (\<exists>t \<in> set (nodeTaints nd). taintKey t = UnregisteredTaintKey)
          \<and> (\<exists>c \<in> set (nodeConditions nd). nodeCondType c = ''Ready'' \<and> nodeCondStatus c = ConditionTrue
               \<and> nodeCondTime c + 15 * Second < 16 * Second)
        then 1 \<le> tries nd \<and> tries nd \<le> 5 \<and> (\<forall>j. Suc j < tries nd \<longrightarrow> api_IsConflict None) else tries nd = 0"
    from this[rule_format, of sample_node] ready(1,2) have "1 \<le> tries sample_node" by presburger
    then show ?thesis using run ws ready(3) by simp
  qed
qed


end
