(* ===== verification/System.thy ===== *)
theory System
  imports Nodeclass_Status Nodeclass_Lifecycle Nodeclaim_Controllers
begin

text \<open>
  What the properties of \<^verbatim>\<open>Spec2Isabelle\<close> that span components rest on: a step relation of the
  two providers that launches, the interruption controller, the cache janitors, the refresh
  controllers and the scheduler share. Offerings are marked and evicted, instance types are
  refreshed, listed and swept, in any order, as time goes on. The invariant \<open>marks_respected\<close> ties
  every cached answer to the change counter it was computed under. \<open>Cluster\<close> shows that the
  handlers of the whole process are runs of these steps.
\<close>

section \<open>Marking and listing, interleaved\<close>

record sys_state =
  sysTime :: int
  sysUnavailable :: unavailable_offerings
  sysTypes :: instance_type_provider

definition sys_init :: "int \<Rightarrow> string \<Rightarrow> sys_state" where
  "sys_init now region =
     \<lparr>sysTime = now, sysUnavailable = NewUnavailableOfferings,
      sysTypes = NewInstanceTypeProvider region (cache_new InstanceTypesAndZonesTTL)\<rparr>"

text \<open>The counter has room for \<open>n\<close> more changes.\<close>

definition counter_fits :: "nat \<Rightarrow> unavailable_offerings \<Rightarrow> bool" where
  "counter_fits n u = (unat (SeqNum u) + n < 2 ^ 64)"

lemma counter_fits_add:
  assumes "counter_fits n u" "SeqNum u' = SeqNum u + of_nat n"
  shows "unat (SeqNum u') = unat (SeqNum u) + n"
proof -
  have "unat (of_nat n :: 64 word) = n" using assms(1) by (simp add: counter_fits_def unat_of_nat)
  with assms show ?thesis by (simp add: counter_fits_def unat_word_ariths(1))
qed

abbreviation evictions :: "int \<Rightarrow> unavailable_offerings \<Rightarrow> nat" where
  "evictions t u \<equiv> length (fst (cache_delete_expired t (uoCache u)))"

text \<open>The janitor of the cache of computed types.\<close>

definition sweep_types :: "int \<Rightarrow> instance_type_provider \<Rightarrow> instance_type_provider" where
  "sweep_types t p = p\<lparr>instanceTypesCache := snd (cache_delete_expired t (instanceTypesCache p))\<rparr>"

text \<open>Each step happens at a time not before the last one; the counter of the unavailable
  offerings does not wrap around within a run.\<close>

inductive sys_step :: "sys_state \<Rightarrow> sys_state \<Rightarrow> bool" where
  idle: "sysTime s \<le> t \<Longrightarrow> sys_step s (s\<lparr>sysTime := t\<rparr>)"
| marked: "sysTime s \<le> t \<Longrightarrow> counter_fits 1 (sysUnavailable s) \<Longrightarrow>
    u = MarkUnavailable t it z ct (sysUnavailable s) \<Longrightarrow>
    sys_step s (s\<lparr>sysTime := t, sysUnavailable := u\<rparr>)"
| evicted: "sysTime s \<le> t \<Longrightarrow> counter_fits (evictions t (sysUnavailable s)) (sysUnavailable s) \<Longrightarrow>
    u = uo_evict t (sysUnavailable s) \<Longrightarrow>
    sys_step s (s\<lparr>sysTime := t, sysUnavailable := u\<rparr>)"
| listed: "sysTime s \<le> t \<Longrightarrow> leUnavailable env = sysUnavailable s \<Longrightarrow>
    itp_List env t kc nc (sysTypes s) = (r, p) \<Longrightarrow> sys_step s (s\<lparr>sysTime := t, sysTypes := p\<rparr>)"
| types: "sysTime s \<le> t \<Longrightarrow> UpdateInstanceTypes api cni h t (sysTypes s) = Some (r, p) \<Longrightarrow>
    sys_step s (s\<lparr>sysTime := t, sysTypes := p\<rparr>)"
| offerings: "sysTime s \<le> t \<Longrightarrow> UpdateInstanceTypeOfferings oapi oh t (sysTypes s) = (r, p) \<Longrightarrow>
    sys_step s (s\<lparr>sysTime := t, sysTypes := p\<rparr>)"
| swept: "sysTime s \<le> t \<Longrightarrow> p = sweep_types t (sysTypes s) \<Longrightarrow> sys_step s (s\<lparr>sysTime := t, sysTypes := p\<rparr>)"

text \<open>The cache of computed types changes only when a listing misses, under a key with the
  current counter.\<close>

lemma refresh_keeps_cache:
  "UpdateInstanceTypes api cni h t p = Some (r, p') \<Longrightarrow> instanceTypesCache p' = instanceTypesCache p"
  "UpdateInstanceTypeOfferings oapi oh t p = (r', p') \<Longrightarrow> instanceTypesCache p' = instanceTypesCache p"
  by (auto simp: UpdateInstanceTypes_def UpdateInstanceTypeOfferings_def Let_def
      split: option.splits outcome.splits prod.splits)

abbreviation given_kubelet :: "kubelet_configuration option \<Rightarrow> kubelet_configuration" where
  "given_kubelet kc \<equiv> (case kc of None \<Rightarrow> empty_kubelet | Some k \<Rightarrow> k)"

lemma list_cache_cases:
  assumes "itp_List env t kc nc p = (r, p')"
  obtains (same) "instanceTypesCache p' = instanceTypesCache p"
    | (stored) its where "r = Ok its"
      "cache_get t (list_key env (given_kubelet kc) nc p) (instanceTypesCache p) = None"
      "instanceTypesCache p' = cache_set_default t (list_key env (given_kubelet kc) nc p) its (instanceTypesCache p)"
proof (cases "(\<exists>its. r = Ok its) \<and> cache_get t (list_key env (given_kubelet kc) nc p) (instanceTypesCache p) = None")
  case True
  then obtain its where r: "r = Ok its"
    and miss: "cache_get t (list_key env (given_kubelet kc) nc p) (instanceTypesCache p) = None"
    by blast
  from assms r have run: "itp_List env t kc nc p = (Ok its, p')" by simp
  show thesis by (rule itp_List_miss[OF miss run]) (rule stored[OF r miss])
next
  case False
  have "instanceTypesCache p' = instanceTypesCache p"
    using False assms unfolding itp_List_def Let_def by (simp split: option.splits outcome.splits) auto
  then show thesis by (rule same)
qed

lemma cache_get_set_default_cases:
  "cache_get t' k' (cache_set_default t k x c) = Some y \<Longrightarrow>
     (k' = k \<and> y = x) \<or> cache_get t' k' c = Some y"
  by (auto simp: cache_set_default_def cache_get_def cache_set_def Let_def update_conv' split: option.splits if_splits)

subsection \<open>Marks\<close>

abbreviation launchable :: "string \<Rightarrow> string \<Rightarrow> instance_type \<Rightarrow> bool" where
  "launchable z ct ty \<equiv> HasCompatible (launch_reqs ct z) (AvailableOfferings (Offerings ty))"

lemma MarkUnavailable_fields:
  "cache_wf (uoCache u) \<Longrightarrow> cache_wf (uoCache (MarkUnavailable t it z ct u))"
  "SeqNum (MarkUnavailable t it z ct u) = SeqNum u + 1"
  by (simp_all add: MarkUnavailable_def MarkUnavailableWithTTL_def)

lemma uo_evict_fields:
  "SeqNum (uo_evict t u) = SeqNum u + of_nat (evictions t u)"
  "evictions t u = 0 \<Longrightarrow> uo_evict t u = u"
  using uo_step_seq[of "EJanitor t" u] uo_step_silent[of "EJanitor t" u]
  by (auto intro!: unavailable_offerings.equality)

lemma unavailable_earlier: "IsUnavailable until it z ct u \<Longrightarrow> t \<le> until \<Longrightarrow> IsUnavailable t it z ct u"
  by (auto simp: IsUnavailable_def cache_get_def item_expired_def split: option.splits if_splits)

lemma mark_keeps_unavailable:
  assumes "0 \<le> now" "t \<le> now + UnavailableOfferingsTTL" "IsUnavailable t it z ct u"
  shows "IsUnavailable t it z ct (MarkUnavailable now it' z' ct' u)"
  using assms by (simp add: IsUnavailable_def MarkUnavailable_def MarkUnavailableWithTTL_def cache_get_set go_simps)

lemma evict_keeps_unavailable:
  "cache_wf (uoCache u) \<Longrightarrow> now \<le> t \<Longrightarrow> IsUnavailable t it z ct (uo_evict now u) = IsUnavailable t it z ct u"
  using cache_get_delete_expired[of "uoCache u" now t]
  by (simp add: IsUnavailable_def uo_evict_def case_prod_unfold Let_def)

subsection \<open>The invariant of every run\<close>

text \<open>No cached answer was written under a later counter than the current one, and those
  written under the current one offer nothing that is marked from now on.\<close>

definition answer_respects :: "sys_state \<Rightarrow> 64 word \<Rightarrow> instance_type list \<Rightarrow> bool" where
  "answer_respects s c its =
     (unat c \<le> unat (SeqNum (sysUnavailable s))
      \<and> (c = SeqNum (sysUnavailable s) \<longrightarrow>
          (\<forall>ty \<in> set its. \<forall>z ct until. sysTime s \<le> until \<longrightarrow>
             IsUnavailable until (itName ty) z ct (sysUnavailable s) \<longrightarrow> \<not> launchable z ct ty)))"

definition marks_respected :: "sys_state \<Rightarrow> bool" where
  "marks_respected s =
     (cache_wf (uoCache (sysUnavailable s)) \<and> cache_wf (instanceTypesCache (sysTypes s)) \<and> 0 \<le> sysTime s \<and>
      (\<forall>t a b c h k its. cache_get t (list_cache_key a b c h k) (instanceTypesCache (sysTypes s)) = Some its \<longrightarrow>
         answer_respects s c its))"

lemma marks_respectedD:
  assumes "marks_respected s"
  shows "cache_wf (uoCache (sysUnavailable s))" "0 \<le> sysTime s" "cache_wf (instanceTypesCache (sysTypes s))"
    "cache_get t (list_cache_key a b c h k) (instanceTypesCache (sysTypes s)) = Some its \<Longrightarrow> answer_respects s c its"
  using assms unfolding marks_respected_def by blast+

lemma marks_respectedI:
  assumes "cache_wf (uoCache (sysUnavailable s))" "0 \<le> sysTime s" "cache_wf (instanceTypesCache (sysTypes s))"
    "\<And>t a b c h k its. cache_get t (list_cache_key a b c h k) (instanceTypesCache (sysTypes s)) = Some its \<Longrightarrow>
       answer_respects s c its"
  shows "marks_respected s"
  using assms unfolding marks_respected_def by blast

lemma marks_respected_init: "0 \<le> start \<Longrightarrow> marks_respected (sys_init start region)"
  by (simp add: marks_respected_def sys_init_def NewUnavailableOfferings_wf NewInstanceTypeProvider_def)

text \<open>An answer stays good as time passes, and any answer is good once the counter has moved.\<close>

lemma answer_respects_later:
  "answer_respects s c its \<Longrightarrow> sysTime s \<le> sysTime s' \<Longrightarrow> sysUnavailable s' = sysUnavailable s \<Longrightarrow>
   answer_respects s' c its"
  unfolding answer_respects_def by (metis order_trans)

lemma answer_respects_moved:
  assumes "answer_respects s c its" "unat (SeqNum (sysUnavailable s)) < unat (SeqNum (sysUnavailable s'))"
  shows "answer_respects s' c its"
  using assms unfolding answer_respects_def by force

lemma marks_respected_same_cache:
  assumes "marks_respected s" "sysTime s \<le> sysTime s'" "sysUnavailable s' = sysUnavailable s"
    "instanceTypesCache (sysTypes s') = instanceTypesCache (sysTypes s)"
  shows "marks_respected s'"
  using marks_respectedD[OF assms(1)] answer_respects_later[OF _ assms(2,3)] assms(2-4)
  by (intro marks_respectedI) auto

lemma marks_respected_moved:
  assumes "marks_respected s" "sysTime s \<le> sysTime s'" "cache_wf (uoCache (sysUnavailable s'))"
    "unat (SeqNum (sysUnavailable s)) < unat (SeqNum (sysUnavailable s'))"
    "instanceTypesCache (sysTypes s') = instanceTypesCache (sysTypes s)"
  shows "marks_respected s'"
  using marks_respectedD[OF assms(1)] answer_respects_moved[OF _ assms(4)] assms(2,3,5)
  by (intro marks_respectedI) auto

text \<open>A listing respects the marks, whether it is computed or read from the cache.\<close>

lemma listing_respects:
  assumes inv: "marks_respected s" and time: "sysTime s \<le> t" and env: "leUnavailable env = sysUnavailable s"
    and run: "itp_List env t kc nc (sysTypes s) = (Ok its, p)"
  shows "answer_respects (s\<lparr>sysTime := t, sysTypes := p'\<rparr>) (SeqNum (leUnavailable env)) its"
proof (cases "cache_get t (list_key env (given_kubelet kc) nc (sysTypes s)) (instanceTypesCache (sysTypes s))")
  case None
  have "\<not> launchable z ct ty"
    if "ty \<in> set its" "t \<le> until" "IsUnavailable until (itName ty) z ct (sysUnavailable s)" for ty z ct until
    using fresh_launchable_iff[OF None run that(1) refl] unavailable_earlier[OF that(3,2)] env by simp
  with env show ?thesis by (simp add: answer_respects_def)
next
  case (Some x)
  then have "x = its" using run by (auto simp: itp_List_def Let_def split: option.splits)
  with Some marks_respectedD(4)[OF inv] env have "answer_respects s (SeqNum (leUnavailable env)) its"
    unfolding list_key_def by metis
  then show ?thesis by (rule answer_respects_later) (use time in simp_all)
qed

lemma marks_respected_list:
  assumes inv: "marks_respected s" and time: "sysTime s \<le> t" and env: "leUnavailable env = sysUnavailable s"
    and run: "itp_List env t kc nc (sysTypes s) = (r, p)"
  shows "marks_respected (s\<lparr>sysTime := t, sysTypes := p\<rparr>)"
  using run
proof (cases rule: list_cache_cases)
  case same
  show ?thesis by (rule marks_respected_same_cache[OF inv]) (use time same in simp_all)
next
  case (stored its)
  let ?s = "s\<lparr>sysTime := t, sysTypes := p\<rparr>"
  have "answer_respects ?s c x"
    if get: "cache_get t' (list_cache_key a b c h k) (instanceTypesCache p) = Some x" for t' a b c h k x
    using cache_get_set_default_cases[OF get[unfolded stored(3)]]
  proof
    assume new: "list_cache_key a b c h k = list_key env (given_kubelet kc) nc (sysTypes s) \<and> x = its"
    then have "c = SeqNum (leUnavailable env)" using list_cache_key_inj by (metis list_key_def)
    with new listing_respects[OF inv time env] run stored(1) show ?thesis by blast
  next
    assume "cache_get t' (list_cache_key a b c h k) (instanceTypesCache (sysTypes s)) = Some x"
    from marks_respectedD(4)[OF inv this] show ?thesis by (rule answer_respects_later) (use time in simp_all)
  qed
  then show ?thesis using marks_respectedD(1-3)[OF inv] time stored(3) by (intro marks_respectedI) auto
qed

lemma marks_respected_evict:
  assumes inv: "marks_respected s" and step: "sysTime s \<le> t" "counter_fits (evictions t (sysUnavailable s)) (sysUnavailable s)"
    "u = uo_evict t (sysUnavailable s)"
  shows "marks_respected (s\<lparr>sysTime := t, sysUnavailable := u\<rparr>)"
proof (cases "evictions t (sysUnavailable s) = 0")
  case True
  show ?thesis by (rule marks_respected_same_cache[OF inv]) (use step True in \<open>auto simp: uo_evict_fields\<close>)
next
  case False
  from counter_fits_add[OF step(2), of u]
  have "unat (SeqNum u) = unat (SeqNum (sysUnavailable s)) + evictions t (sysUnavailable s)"
    by (simp add: step(3) uo_evict_fields)
  then show ?thesis
    by (intro marks_respected_moved[OF inv]) (use step False marks_respectedD(1)[OF inv] in \<open>auto simp: uo_evict_wf\<close>)
qed

lemma marks_respected_sweep:
  assumes inv: "marks_respected s" and step: "sysTime s \<le> t" "p = sweep_types t (sysTypes s)"
  shows "marks_respected (s\<lparr>sysTime := t, sysTypes := p\<rparr>)"
proof -
  note D = marks_respectedD[OF inv]
  have "answer_respects (s\<lparr>sysTime := t, sysTypes := p\<rparr>) c its"
    if "cache_get t' (list_cache_key a b c h k) (instanceTypesCache p) = Some its" for t' a b c h k its
  proof -
    from that have "cache_get t' (list_cache_key a b c h k) (snd (cache_delete_expired t (instanceTypesCache (sysTypes s))))
        = Some its" by (simp add: step(2) sweep_types_def)
    from D(4)[OF swept_get[OF D(3) this]] show ?thesis by (rule answer_respects_later) (use step(1) in simp_all)
  qed
  then show ?thesis using D(1-3) step by (intro marks_respectedI) (auto simp: sweep_types_def)
qed

lemma marks_respected_step:
  assumes "sys_step s s'" "marks_respected s"
  shows "marks_respected s'"
  using assms
proof (induction rule: sys_step.induct)
  case (idle s t)
  show ?case by (rule marks_respected_same_cache[OF idle(2)]) (use idle in auto)
next
  case (marked s t u it z ct)
  from counter_fits_add[OF marked(2), of u] have "unat (SeqNum u) = unat (SeqNum (sysUnavailable s)) + 1"
    by (simp add: marked(3) MarkUnavailable_fields)
  then show ?case
    by (intro marks_respected_moved[OF marked(4)])
      (use marked marks_respectedD(1)[OF marked(4)] in \<open>auto simp: MarkUnavailable_fields\<close>)
next
  case (evicted s t u)
  show ?case by (rule marks_respected_evict[OF evicted(4,1-3)])
next
  case (listed s t env kc nc r p)
  show ?case by (rule marks_respected_list[OF listed(4,1,2,3)])
next
  case (types s t api cni h r p)
  show ?case
    by (rule marks_respected_same_cache[OF types(3)]) (use types in \<open>auto simp: refresh_keeps_cache(1)\<close>)
next
  case (offerings s t oapi oh r p)
  show ?case
    by (rule marks_respected_same_cache[OF offerings(3)]) (use offerings in \<open>auto simp: refresh_keeps_cache(2)\<close>)
next
  case (swept s t p)
  show ?case by (rule marks_respected_sweep[OF swept(3,1,2)])
qed

subsection \<open>A mark lasts for its time to live\<close>

definition mark_lasts :: "string \<Rightarrow> string \<Rightarrow> string \<Rightarrow> int \<Rightarrow> sys_state \<Rightarrow> bool" where
  "mark_lasts it z ct until s =
     (cache_wf (uoCache (sysUnavailable s)) \<and> 0 \<le> sysTime s \<and>
      (sysTime s \<le> until \<longrightarrow> until \<le> sysTime s + UnavailableOfferingsTTL \<and> IsUnavailable until it z ct (sysUnavailable s)))"

lemma mark_lasts_step:
  assumes "sys_step s s'" "mark_lasts it z ct until s"
  shows "mark_lasts it z ct until s'"
  using assms
proof (induction rule: sys_step.induct)
  case (marked s t u it' z' ct')
  then have "IsUnavailable until it z ct u" if "t \<le> until"
    unfolding marked(3) mark_lasts_def by (intro mark_keeps_unavailable) (use that marked in \<open>auto simp: mark_lasts_def\<close>)
  with marked show ?case by (auto simp: mark_lasts_def MarkUnavailable_fields)
next
  case (evicted s t u)
  then have "IsUnavailable until it z ct u" if "t \<le> until"
    using evict_keeps_unavailable[of "sysUnavailable s" t until] that by (auto simp: mark_lasts_def)
  with evicted show ?case by (auto simp: mark_lasts_def uo_evict_wf)
qed (auto simp: mark_lasts_def)

lemma mark_lasts_mark:
  assumes "0 \<le> t" "cache_wf (uoCache (sysUnavailable s))"
  shows "mark_lasts it z ct (t + UnavailableOfferingsTTL)
    (s\<lparr>sysTime := t, sysUnavailable := MarkUnavailable t it z ct (sysUnavailable s)\<rparr>)"
  using assms uo.mark_same[OF assms(1), of "t + UnavailableOfferingsTTL" "(it, z, ct)"]
  by (simp add: mark_lasts_def MarkUnavailable_fields uo_unavailable_def uo_mark_def)

subsection \<open>Clock and counter only move forward\<close>

definition forward :: "sys_state \<Rightarrow> sys_state \<Rightarrow> bool" where
  "forward s s' = (sysTime s \<le> sysTime s' \<and> unat (SeqNum (sysUnavailable s)) \<le> unat (SeqNum (sysUnavailable s')))"

lemma forward_step: "sys_step s s' \<Longrightarrow> forward s s'"
proof (induction rule: sys_step.induct)
  case (marked s t u it z ct)
  with counter_fits_add[OF marked(2), of u] show ?case by (simp add: forward_def MarkUnavailable_fields)
next
  case (evicted s t u)
  with counter_fits_add[OF evicted(2), of u] show ?case by (simp add: forward_def uo_evict_fields)
qed (simp_all add: forward_def)

text \<open>After the janitor has removed a mark, no cached answer is read before a new one is
  computed.\<close>

lemma evicted_key_gone:
  assumes "cache_wf (uoCache u)" "map_of (cache_items (uoCache u)) k = Some item" "item_expired t item"
  shows "0 < evictions t u" "cache_get t' k (uoCache (uo_evict t u)) = None"
proof -
  have mem: "(k, item) \<in> set (cache_items (uoCache u))" using assms(2) by (rule map_of_SomeD)
  with assms(3) show "0 < evictions t u"
    by (auto simp: cache_delete_expired_def filter_empty_conv)
  have "x = item" if "(k, x) \<in> set (cache_items (uoCache u))" for x
    using that mem assms(1) by (metis cache_wf_def eq_key_imp_eq_value)
  then have "map_of (filter (\<lambda>(k, it). \<not> item_expired t it) (cache_items (uoCache u))) k = None"
    using assms(3) by (auto simp: map_of_eq_None_iff)
  then show "cache_get t' k (uoCache (uo_evict t u)) = None"
    by (simp add: cache_get_def uo_evict_def cache_delete_expired_def)
qed

lemma no_answer_under_new_counter:
  assumes "marks_respected s" "counter_fits (evictions t (sysUnavailable s)) (sysUnavailable s)"
    "0 < evictions t (sysUnavailable s)"
    and "unat (SeqNum (uo_evict t (sysUnavailable s))) \<le> unat c"
  shows "cache_get t' (list_cache_key a b c h k) (instanceTypesCache (sysTypes s)) = None"
proof (rule ccontr)
  assume "cache_get t' (list_cache_key a b c h k) (instanceTypesCache (sysTypes s)) \<noteq> None"
  then obtain its where "cache_get t' (list_cache_key a b c h k) (instanceTypesCache (sysTypes s)) = Some its" by auto
  from marks_respectedD(4)[OF assms(1) this] assms(3,4) counter_fits_add[OF assms(2) uo_evict_fields(1)]
  show False by (simp add: answer_respects_def)
qed

subsection \<open>A concrete run\<close>

definition sample_sys_types :: instance_type_provider where
  "sample_sys_types = snd (the (UpdateInstanceTypes (\<lambda>_. Ok (Some \<lparr>pgItems = [sample_info], pgNextToken = None\<rparr>))
     (Ok []) (\<lambda>_. 7) 1 (NewInstanceTypeProvider ''cn-beijing'' (cache_new InstanceTypesAndZonesTTL))))"

definition sample_sys_offers :: instance_type_provider where
  "sample_sys_offers = snd (UpdateInstanceTypeOfferings sample_available (\<lambda>_. 7) 1 sample_sys_types)"

lemma sample_all_types:
  "getAllInstanceTypes (\<lambda>_. Ok (Some \<lparr>pgItems = [sample_info], pgNextToken = None\<rparr>)) = Some (Ok [sample_info])"
  using token_loop_pages[of "\<lambda>_. Ok (Some \<lparr>pgItems = [sample_info], pgNextToken = None\<rparr>)" None
      "[\<lparr>pgItems = [sample_info], pgNextToken = None\<rparr>]" "[]"]
  by (simp add: getAllInstanceTypes_def)

lemma sample_updates:
  "UpdateInstanceTypes (\<lambda>_. Ok (Some \<lparr>pgItems = [sample_info], pgNextToken = None\<rparr>)) (Ok []) (\<lambda>_. 7) 1
     (NewInstanceTypeProvider ''cn-beijing'' (cache_new InstanceTypesAndZonesTTL)) = Some (Ok (), sample_sys_types)"
  "UpdateInstanceTypeOfferings sample_available (\<lambda>_. 7) 1 sample_sys_types = (Ok (), sample_sys_offers)"
proof -
  show "UpdateInstanceTypes (\<lambda>_. Ok (Some \<lparr>pgItems = [sample_info], pgNextToken = None\<rparr>)) (Ok []) (\<lambda>_. 7) 1
     (NewInstanceTypeProvider ''cn-beijing'' (cache_new InstanceTypesAndZonesTTL)) = Some (Ok (), sample_sys_types)"
    by (simp add: sample_sys_types_def UpdateInstanceTypes_def sample_all_types case_prod_unfold Let_def)
  have "fst (UpdateInstanceTypeOfferings sample_available (\<lambda>_. 7) 1 sample_sys_types) = Ok ()"
    by (simp add: UpdateInstanceTypeOfferings_def sample_available_def processAvailableResourcesResponse_def
        processAvailableResources_def process_resource_def in_stock_def Let_def HasChanged_def)
  then show "UpdateInstanceTypeOfferings sample_available (\<lambda>_. 7) 1 sample_sys_types = (Ok (), sample_sys_offers)"
    by (simp add: sample_sys_offers_def prod_eq_iff)
qed

lemma sample_sys_fields:
  "instanceTypesInfo sample_sys_offers = [sample_info]"
  "instanceTypesOfferings sample_sys_offers = [(''ecs.g7.large'', [''b''])]"
  "spotInstanceTypesOfferings sample_sys_offers = [(''ecs.g7.large'', [''b''])]"
  "itpRegion sample_sys_offers = ''cn-beijing''" "cache_get t k (instanceTypesCache sample_sys_offers) = None"
proof -
  have t: "instanceTypesInfo sample_sys_types = [sample_info]" "itpRegion sample_sys_types = ''cn-beijing''"
    "instanceTypesCache sample_sys_types = cache_new InstanceTypesAndZonesTTL"
    by (simp_all add: sample_sys_types_def UpdateInstanceTypes_def sample_all_types NewInstanceTypeProvider_def
        ClusterCNITypeTerway_def case_prod_unfold Let_def)
  then show "instanceTypesInfo sample_sys_offers = [sample_info]"
    "instanceTypesOfferings sample_sys_offers = [(''ecs.g7.large'', [''b''])]"
    "spotInstanceTypesOfferings sample_sys_offers = [(''ecs.g7.large'', [''b''])]"
    "itpRegion sample_sys_offers = ''cn-beijing''" "cache_get t k (instanceTypesCache sample_sys_offers) = None"
    by (simp_all add: sample_sys_offers_def UpdateInstanceTypeOfferings_def sample_available_def
        processAvailableResourcesResponse_def processAvailableResources_def process_resource_def in_stock_def Let_def
        case_prod_unfold zones_of_def)
qed

section \<open>Creation and the hash controller\<close>

lemma hash_Reconcile_annotations:
  assumes "caError (hash_Reconcile hash listed write nc) = None"
  shows "map_of (ncAnnotations (caClass (hash_Reconcile hash listed write nc))) AnnotationECSNodeClassHash
      = Some (Hash hash nc)"
    and "map_of (ncAnnotations (caClass (hash_Reconcile hash listed write nc))) AnnotationECSNodeClassHashVersion
      = Some ECSNodeClassHashVersion"
proof -
  let ?nc' = "nc\<lparr>ncAnnotations := assign (ncAnnotations nc) [(AnnotationECSNodeClassHash, Hash hash nc),
      (AnnotationECSNodeClassHashVersion, ECSNodeClassHashVersion)]\<rparr>"
  have "caClass (hash_Reconcile hash listed write nc) = ?nc'"
    using assms unfolding hash_Reconcile_def Let_def by (auto simp: class_answer_of_def split: prod.splits if_splits)
  then show "map_of (ncAnnotations (caClass (hash_Reconcile hash listed write nc))) AnnotationECSNodeClassHash
      = Some (Hash hash nc)"
    and "map_of (ncAnnotations (caClass (hash_Reconcile hash listed write nc))) AnnotationECSNodeClassHashVersion
      = Some ECSNodeClassHashVersion"
    by (simp_all add: map_of_assign)
qed

end
