(* ===== verification/Refresh.thy ===== *)
theory Refresh
  imports Pricing Instance_Type_Provider Karp_Objects
begin

text \<open>
  The controllers that refresh the pricing and the instance type provider:
  \<^verbatim>\<open>src/pkg/controllers/providers/pricing/controllers.go\<close> and
  \<^verbatim>\<open>src/pkg/controllers/providers/instancetype/instancetype.go\<close>. Each runs two updates in
  parallel. The two updates of the instance type provider hold a lock of their own for all
  their work and share the change monitor only, so a run is one of the two orders; the locale
  \<open>independent_work\<close> says when the order does not matter. The two pricing updates share the
  time of the last synchronisation and ask the price service outside every lock; their runs are
  the interleavings of their steps.
\<close>

section \<open>Two updates in parallel\<close>

type_synonym 's work = "'s \<Rightarrow> (unit outcome \<times> 's) option"

definition both :: "bool \<Rightarrow> 's work \<Rightarrow> 's work \<Rightarrow> 's \<Rightarrow> (unit outcome \<times> unit outcome \<times> 's) option" where
  "both in_order f g s =
     (if in_order
      then (case f s of None \<Rightarrow> None
            | Some (a, s1) \<Rightarrow> (case g s1 of None \<Rightarrow> None | Some (b, s2) \<Rightarrow> Some (a, b, s2)))
      else (case g s of None \<Rightarrow> None
            | Some (b, s1) \<Rightarrow> (case f s1 of None \<Rightarrow> None | Some (a, s2) \<Rightarrow> Some (a, b, s2))))"

definition refresh_Reconcile ::
  "string \<Rightarrow> bool \<Rightarrow> 's work \<Rightarrow> 's work \<Rightarrow> 's \<Rightarrow> ((reconcile_result \<times> gerror option) outcome \<times> 's) option" where
  "refresh_Reconcile msg in_order f g s =
     (case both in_order f g s of
        None \<Rightarrow> None
      | Some (a, b, s') \<Rightarrow>
          Some (if a = Panic \<or> b = Panic then Panic
                else case multierr_Combine [outcome_err a, outcome_err b] of
                       Some e \<Rightarrow> Ok (noRequeue, Some (Wrap msg e))
                     | None \<Rightarrow> Ok (requeueAfter (12 * Hour), None), s'))"

locale independent_work =
  fixes f g :: "'s work" and same :: "'s \<Rightarrow> 's \<Rightarrow> bool"
  assumes commute: "rel_option (rel_prod (=) (rel_prod (=) same)) (both True f g s) (both False f g s)"
    and same_refl: "same s s" and same_sym: "same s t \<Longrightarrow> same t s"
begin

lemma reconcile_order:
  "rel_option (rel_prod (=) same) (refresh_Reconcile msg o1 f g s) (refresh_Reconcile msg o2 f g s)"
proof -
  show ?thesis
    using commute[of s]
    by (cases o1; cases o2; cases "both True f g s"; cases "both False f g s")
       (auto simp: refresh_Reconcile_def rel_prod_sel same_refl intro: same_sym split: option.splits)
qed

end

section \<open>The two controllers\<close>

text \<open>What the price service answers to one update: to \<^verbatim>\<open>Sync\<close>, if the update
  calls it, and to \<^verbatim>\<open>ListInstancesDetails\<close>.\<close>

record price_answers =
  paSync :: "gerror option"
  paDetails :: "region_prices option"

text \<open>Where an update is: before it reads the time of the last synchronisation, before
  \<^verbatim>\<open>Sync\<close>, before it lists the prices and stores them, or at its end, with its
  error.\<close>

datatype price_pc = Started | Syncing | Listing | Ended "gerror option"

definition store_spot :: "region_prices \<Rightarrow> pricing_provider \<Rightarrow> pricing_provider" where
  "store_spot prices p = p\<lparr>spotPrices := fold update_spot1 prices (spotPrices p), spotPricingUpdated := True\<rparr>"

definition store_on_demand :: "region_prices \<Rightarrow> pricing_provider \<Rightarrow> pricing_provider" where
  "store_on_demand prices p = p\<lparr>onDemandPrices := map (\<lambda>(it, i). (it, OnDemandPricePerHour i)) prices\<rparr>"

fun price_step ::
  "int \<Rightarrow> price_answers \<Rightarrow> (region_prices \<Rightarrow> pricing_provider \<Rightarrow> pricing_provider) \<Rightarrow> price_pc \<Rightarrow> pricing_provider \<Rightarrow>
   price_pc \<times> pricing_provider" where
  "price_step now a store Started p = (if priceLastUpdatedTimestamp p + 5 * Minute < now then Syncing else Listing, p)"
| "price_step now a store Syncing p =
     (case paSync a of Some e \<Rightarrow> (Ended (Some e), p) | None \<Rightarrow> (Listing, p\<lparr>priceLastUpdatedTimestamp := now\<rparr>))"
| "price_step now a store Listing p =
     (case paDetails a of
        None \<Rightarrow> (Ended (Some (no_price_error p)), p)
      | Some prices \<Rightarrow> if prices = [] then (Ended (Some (no_price_error p)), p) else (Ended None, store prices p))"
| "price_step now a store (Ended e) p = (Ended e, p)"

text \<open>One step of the spot update or of the on-demand update.\<close>

definition price_turn ::
  "int \<Rightarrow> price_answers \<Rightarrow> price_answers \<Rightarrow> bool \<Rightarrow> price_pc \<times> price_pc \<times> pricing_provider \<Rightarrow>
   price_pc \<times> price_pc \<times> pricing_provider" where
  "price_turn now sa oa spot_moves c =
     (case c of (s, d, p) \<Rightarrow>
        if spot_moves then (case price_step now sa store_spot s p of (s', p') \<Rightarrow> (s', d, p'))
        else (case price_step now oa store_on_demand d p of (d', p') \<Rightarrow> (s, d', p')))"

definition pc_error :: "price_pc \<Rightarrow> gerror option" where
  "pc_error pc = (case pc of Ended e \<Rightarrow> e | _ \<Rightarrow> None)"

definition pricing_result :: "gerror option \<Rightarrow> gerror option \<Rightarrow> reconcile_result \<times> gerror option" where
  "pricing_result spotErr onDemandErr =
     (case multierr_Combine [spotErr, onDemandErr] of
        Some e \<Rightarrow> (noRequeue, Some (Wrap ''updating pricing, '' e))
      | None \<Rightarrow> (requeueAfter (12 * Hour), None))"

text \<open>A run: the steps are taken in the order of \<open>turns\<close>; what is left of the updates then
  (at most three steps each) is run to the end.\<close>

definition pricing_Reconcile ::
  "bool list \<Rightarrow> int \<Rightarrow> price_answers \<Rightarrow> price_answers \<Rightarrow> pricing_provider \<Rightarrow>
   (reconcile_result \<times> gerror option) \<times> pricing_provider" where
  "pricing_Reconcile turns now sa oa p =
     (case fold (price_turn now sa oa) (turns @ [True, True, True, False, False, False]) (Started, Started, p) of
        (s, d, p') \<Rightarrow> (pricing_result (pc_error s) (pc_error d), p'))"

record types_env_refresh =
  trTypes :: "string option \<Rightarrow> types_page option outcome"
  trCNI :: "string outcome"
  trTypesHash :: "ecs_type_info list \<Rightarrow> nat"
  trOffers :: "string option \<Rightarrow> available_body option outcome"
  trOffersHash :: "(string \<times> string list) list \<Rightarrow> nat"

definition types_work :: "types_env_refresh \<Rightarrow> int \<Rightarrow> instance_type_provider work" where
  "types_work env now p = UpdateInstanceTypes (trTypes env) (trCNI env) (trTypesHash env) now p"

definition offers_work :: "types_env_refresh \<Rightarrow> int \<Rightarrow> instance_type_provider work" where
  "offers_work env now p = Some (UpdateInstanceTypeOfferings (trOffers env) (trOffersHash env) now p)"

definition instancetype_Reconcile ::
  "types_env_refresh \<Rightarrow> bool \<Rightarrow> int \<Rightarrow> instance_type_provider \<Rightarrow>
   ((reconcile_result \<times> gerror option) outcome \<times> instance_type_provider) option" where
  "instancetype_Reconcile env in_order now p =
     refresh_Reconcile ''updating instancetype, '' in_order (types_work env now) (offers_work env now) p"

section \<open>The order does not matter\<close>

text \<open>Prices: first the steps of one update, then the invariants of a run of both.\<close>

text \<open>A turn brings its update nearer to its end.\<close>

fun steps_left :: "price_pc \<Rightarrow> nat" where
  "steps_left Started = 3"
| "steps_left Syncing = 2"
| "steps_left Listing = 1"
| "steps_left (Ended e) = 0"

lemma price_step_progress: "steps_left (fst (price_step now a store pc p)) \<le> steps_left pc - 1"
  by (cases pc) (auto split: option.splits)

lemma steps_left_0: "steps_left pc = 0 \<longleftrightarrow> (\<exists>e. pc = Ended e)"
  by (cases pc) auto

lemma price_turn_progress:
  "price_turn now sa oa True (s, d, p) = (s', d', p') \<Longrightarrow> steps_left s' \<le> steps_left s - 1 \<and> d' = d"
  "price_turn now sa oa False (s, d, p) = (s', d', p') \<Longrightarrow> steps_left d' \<le> steps_left d - 1 \<and> s' = s"
  using price_step_progress[of now sa store_spot s p] price_step_progress[of now oa store_on_demand d p]
  by (auto simp: price_turn_def split: prod.splits)

lemma both_end:
  assumes "fold (price_turn now sa oa) (turns @ [True, True, True, False, False, False]) c = (s, d, q)"
  obtains e e' where "s = Ended e" "d = Ended e'"
proof -
  obtain s0 d0 q0 where c0: "fold (price_turn now sa oa) turns c = (s0, d0, q0)" by (metis prod_cases3)
  obtain s1 d1 q1 where c1: "price_turn now sa oa True (s0, d0, q0) = (s1, d1, q1)" by (metis prod_cases3)
  obtain s2 d2 q2 where c2: "price_turn now sa oa True (s1, d1, q1) = (s2, d2, q2)" by (metis prod_cases3)
  obtain s3 d3 q3 where c3: "price_turn now sa oa True (s2, d2, q2) = (s3, d3, q3)" by (metis prod_cases3)
  obtain s4 d4 q4 where c4: "price_turn now sa oa False (s3, d3, q3) = (s4, d4, q4)" by (metis prod_cases3)
  obtain s5 d5 q5 where c5: "price_turn now sa oa False (s4, d4, q4) = (s5, d5, q5)" by (metis prod_cases3)
  have c6: "price_turn now sa oa False (s5, d5, q5) = (s, d, q)" using assms c0 c1 c2 c3 c4 c5 by simp
  have "steps_left s0 \<le> 3" "steps_left d0 \<le> 3" by (cases s0; simp) (cases d0; simp)
  then have "steps_left s = 0" "steps_left d = 0"
    using price_turn_progress(1)[OF c1] price_turn_progress(1)[OF c2] price_turn_progress(1)[OF c3]
      price_turn_progress(2)[OF c4] price_turn_progress(2)[OF c5] price_turn_progress(2)[OF c6] by auto
  then show thesis using that by (auto simp: steps_left_0)
qed

text \<open>What an update reports when the other one does not meddle with its synchronisation.\<close>

definition price_error :: "int \<Rightarrow> price_answers \<Rightarrow> pricing_provider \<Rightarrow> gerror option" where
  "price_error now a p =
     (if priceLastUpdatedTimestamp p + 5 * Minute < now \<and> paSync a \<noteq> None then paSync a
      else if paDetails a \<in> {None, Some []} then Some (no_price_error p) else None)"

definition past_sync :: "price_pc \<Rightarrow> bool" where
  "past_sync pc = (case pc of Listing \<Rightarrow> True | Ended e \<Rightarrow> True | _ \<Rightarrow> False)"

definition pc_possible :: "int \<Rightarrow> price_answers \<Rightarrow> pricing_provider \<Rightarrow> price_pc \<Rightarrow> bool" where
  "pc_possible now a p pc =
     (let stale = priceLastUpdatedTimestamp p + 5 * Minute < now in
      case pc of Started \<Rightarrow> True | Syncing \<Rightarrow> stale | Listing \<Rightarrow> \<not> (stale \<and> paSync a \<noteq> None)
      | Ended e \<Rightarrow> e = price_error now a p)"

text \<open>What is stored at any moment of a run that started with \<open>p\<close>.\<close>

definition stored_prices ::
  "price_answers \<Rightarrow> price_answers \<Rightarrow> pricing_provider \<Rightarrow> price_pc \<times> price_pc \<times> pricing_provider \<Rightarrow> bool" where
  "stored_prices sa oa p c =
     (case c of (s, d, q) \<Rightarrow> prRegion q = prRegion p
        \<and> onDemandPrices q = (if d = Ended None then onDemandPrices (store_on_demand (the (paDetails oa)) p) else onDemandPrices p)
        \<and> spotPrices q = (if s = Ended None then spotPrices (store_spot (the (paDetails sa)) p) else spotPrices p)
        \<and> spotPricingUpdated q = (s = Ended None \<or> spotPricingUpdated p)
        \<and> (d = Ended None \<longrightarrow> paDetails oa \<notin> {None, Some []}) \<and> (s = Ended None \<longrightarrow> paDetails sa \<notin> {None, Some []}))"

definition synced ::
  "int \<Rightarrow> price_answers \<Rightarrow> price_answers \<Rightarrow> pricing_provider \<Rightarrow> price_pc \<times> price_pc \<times> pricing_provider \<Rightarrow> bool" where
  "synced now sa oa p c =
     (case c of (s, d, q) \<Rightarrow> pc_possible now sa p s \<and> pc_possible now oa p d
        \<and> priceLastUpdatedTimestamp q =
            (if priceLastUpdatedTimestamp p + 5 * Minute < now \<and> paSync sa = None \<and> (past_sync s \<or> past_sync d)
             then now else priceLastUpdatedTimestamp p))"

lemma stored_prices_turn:
  assumes "stored_prices sa oa p c"
  shows "stored_prices sa oa p (price_turn now sa oa t c)"
proof -
  obtain s d q where c: "c = (s, d, q)" by (metis prod_cases3)
  show ?thesis
  proof (cases t)
    case True
    then show ?thesis using assms c
      by (cases s) (auto simp: price_turn_def stored_prices_def store_spot_def split: option.splits)
  next
    case False
    then show ?thesis using assms c
      by (cases d) (auto simp: price_turn_def stored_prices_def store_on_demand_def split: option.splits)
  qed
qed

lemma synced_turn:
  assumes "synced now sa oa p c" "stored_prices sa oa p c"
    "(paSync sa = None) = (paSync oa = None) \<or> \<not> priceLastUpdatedTimestamp p + 5 * Minute < now"
  shows "synced now sa oa p (price_turn now sa oa t c)"
proof -
  obtain s d q where c: "c = (s, d, q)" by (metis prod_cases3)
  have "no_price_error q = no_price_error p" using assms(2) c by (simp add: stored_prices_def no_price_error_def)
  moreover have "0 < Minute" by (simp add: Minute_def Second_def)
  ultimately show ?thesis
  proof (cases t)
    case True
    then show ?thesis using assms(1,3) c \<open>0 < Minute\<close> \<open>no_price_error q = no_price_error p\<close>
      by (cases s) (auto simp: price_turn_def synced_def pc_possible_def past_sync_def price_error_def store_spot_def Let_def
          split: option.splits if_splits price_pc.splits)
  next
    case False
    then show ?thesis using assms(1,3) c \<open>0 < Minute\<close> \<open>no_price_error q = no_price_error p\<close>
      by (cases d) (auto simp: price_turn_def synced_def pc_possible_def past_sync_def price_error_def store_on_demand_def Let_def
          split: option.splits if_splits price_pc.splits)
  qed
qed

text \<open>An update that is not interrupted is the atomic one.\<close>

lemma alone_spot:
  "fold (\<lambda>_ (pc, q). price_step now a store_spot pc q) [0, 1, 2 :: nat] (Started, p) =
     (case UpdateSpotPricing now (paSync a) (paDetails a) p of (e, q) \<Rightarrow> (Ended e, q))"
  by (auto simp: UpdateSpotPricing_def syncPricingData_def store_spot_def split: option.splits list.splits)

lemma alone_on_demand:
  "fold (\<lambda>_ (pc, q). price_step now a store_on_demand pc q) [0, 1, 2 :: nat] (Started, p) =
     (case UpdateOnDemandPricing now (paSync a) (paDetails a) p of (e, q) \<Rightarrow> (Ended e, q))"
  by (auto simp: UpdateOnDemandPricing_def syncPricingData_def store_on_demand_def split: option.splits list.splits)

definition one_after_the_other ::
  "int \<Rightarrow> price_answers \<Rightarrow> price_answers \<Rightarrow> pricing_provider \<Rightarrow> (reconcile_result \<times> gerror option) \<times> pricing_provider" where
  "one_after_the_other now sa oa p =
     (case UpdateSpotPricing now (paSync sa) (paDetails sa) p of (es, p1) \<Rightarrow>
        case UpdateOnDemandPricing now (paSync oa) (paDetails oa) p1 of (eo, p2) \<Rightarrow> (pricing_result es eo, p2))"

lemma run_without_overlap: "pricing_Reconcile [] now sa oa p = one_after_the_other now sa oa p"
proof -
  obtain es p1 where u: "UpdateSpotPricing now (paSync sa) (paDetails sa) p = (es, p1)" by fastforce
  obtain eo p2 where v: "UpdateOnDemandPricing now (paSync oa) (paDetails oa) p1 = (eo, p2)" by fastforce
  have "fold (price_turn now sa oa) [True, True, True] (Started, Started, p) = (Ended es, Started, p1)"
    using alone_spot[of now sa p] u by (simp add: price_turn_def case_prod_unfold)
  moreover have "fold (price_turn now sa oa) [False, False, False] (Ended es, Started, p1) = (Ended es, Ended eo, p2)"
    using alone_on_demand[of now oa p1] v by (simp add: price_turn_def case_prod_unfold)
  ultimately have "fold (price_turn now sa oa) ([True, True, True] @ [False, False, False]) (Started, Started, p)
      = (Ended es, Ended eo, p2)" unfolding fold_append by simp
  then show ?thesis using u v by (simp add: pricing_Reconcile_def one_after_the_other_def pc_error_def)
qed

lemma run_ends:
  obtains e e' q where
    "fold (price_turn now sa oa) (turns @ [True, True, True, False, False, False]) (Started, Started, p) = (Ended e, Ended e', q)"
    "pricing_Reconcile turns now sa oa p = (pricing_result e e', q)" "stored_prices sa oa p (Ended e, Ended e', q)"
    "(paSync sa = None) = (paSync oa = None) \<or> \<not> priceLastUpdatedTimestamp p + 5 * Minute < now \<Longrightarrow>
       synced now sa oa p (Ended e, Ended e', q)"
proof -
  let ?ts = "turns @ [True, True, True, False, False, False]"
  obtain s d q where c: "fold (price_turn now sa oa) ?ts (Started, Started, p) = (s, d, q)" by (metis prod_cases3)
  from both_end[OF c] obtain e e' where e: "s = Ended e" "d = Ended e'" .
  have start: "stored_prices sa oa p (Started, Started, p)" "synced now sa oa p (Started, Started, p)"
    by (simp_all add: stored_prices_def synced_def pc_possible_def past_sync_def)
  have stored: "stored_prices sa oa p (fold (price_turn now sa oa) ts (Started, Started, p))" for ts
    by (induction ts rule: rev_induct) (simp_all add: start stored_prices_turn)
  have "synced now sa oa p (fold (price_turn now sa oa) ts (Started, Started, p))"
    if "(paSync sa = None) = (paSync oa = None) \<or> \<not> priceLastUpdatedTimestamp p + 5 * Minute < now" for ts
    by (induction ts rule: rev_induct) (simp_all add: start synced_turn stored that)
  from this[of ?ts] stored[of ?ts] c e show thesis
    by (intro that[of e e' q]) (simp_all add: pricing_Reconcile_def pc_error_def)
qed

lemma interleavings_agree:
  assumes "(paSync sa = None) = (paSync oa = None) \<or> \<not> priceLastUpdatedTimestamp p + 5 * Minute < now"
  shows "pricing_Reconcile turns now sa oa p = pricing_Reconcile turns' now sa oa p"
proof -
  obtain e d q where 1: "pricing_Reconcile turns now sa oa p = (pricing_result e d, q)"
    "stored_prices sa oa p (Ended e, Ended d, q)" "synced now sa oa p (Ended e, Ended d, q)"
    using run_ends[of now sa oa turns p] assms by metis
  obtain e' d' q' where 2: "pricing_Reconcile turns' now sa oa p = (pricing_result e' d', q')"
    "stored_prices sa oa p (Ended e', Ended d', q')" "synced now sa oa p (Ended e', Ended d', q')"
    using run_ends[of now sa oa turns' p] assms by metis
  have "e' = e" "d' = d" using 1(3) 2(3) by (simp_all add: synced_def pc_possible_def)
  moreover have "q' = q"
    using 1(2,3) 2(2,3) calculation by (intro pricing_provider.equality) (simp_all add: stored_prices_def synced_def past_sync_def)
  ultimately show ?thesis using 1(1) 2(1) by simp
qed

text \<open>Up to the order of the change monitor's entries.\<close>

definition same_types :: "instance_type_provider \<Rightarrow> instance_type_provider \<Rightarrow> bool" where
  "same_types p q =
     (p\<lparr>itpCm := itpCm q\<rparr> = q \<and> (\<forall>t k. cache_get t k (itpCm p) = cache_get t k (itpCm q)))"

lemma HasChanged_other:
  assumes "k \<noteq> k'"
  shows "fst (HasChanged now k hv (snd (HasChanged now k' hv' cm))) = fst (HasChanged now k hv cm)"
    and "cache_get t x (snd (HasChanged now k hv (snd (HasChanged now k' hv' cm)))) =
         cache_get t x (snd (HasChanged now k' hv' (snd (HasChanged now k hv cm))))"
proof -
  have other: "cache_get t k (cache_set_default now k' y c) = cache_get t k c" if "k \<noteq> k'" for t k k' y and c :: "nat go_cache"
    using that by (simp add: cache_set_default_def)
  show "fst (HasChanged now k hv (snd (HasChanged now k' hv' cm))) = fst (HasChanged now k hv cm)"
    using assms by (auto simp: HasChanged_def other)
  show "cache_get t x (snd (HasChanged now k hv (snd (HasChanged now k' hv' cm)))) =
      cache_get t x (snd (HasChanged now k' hv' (snd (HasChanged now k hv cm))))"
    using assms by (auto simp: HasChanged_def other cache_set_default_def cache_get_def cache_set_def Let_def update_conv'
        split: option.splits)
qed

text \<open>What an update writes when its requests succeeded.\<close>

definition set_types :: "types_env_refresh \<Rightarrow> int \<Rightarrow> ecs_type_info list \<Rightarrow> instance_type_provider \<Rightarrow> instance_type_provider" where
  "set_types env now infos p =
     (let (changed, cm) = HasChanged now ''instance-types'' (trTypesHash env infos) (itpCm p)
      in p\<lparr>itpCm := cm, instanceTypesSeqNum := instanceTypesSeqNum p + (if changed then 1 else 0),
           instanceTypesInfo := infos\<rparr>)"

definition set_offers ::
  "types_env_refresh \<Rightarrow> int \<Rightarrow> (string \<times> string list) list \<Rightarrow> instance_type_provider \<Rightarrow> instance_type_provider" where
  "set_offers env now offers p =
     (let (changed, cm) = HasChanged now ''instance-type-offering'' (trOffersHash env offers) (itpCm p)
      in p\<lparr>itpCm := cm, instanceTypesOfferingsSeqNum := instanceTypesOfferingsSeqNum p + (if changed then 1 else 0),
           instanceTypesOfferings := offers\<rparr>)"

lemma types_work_cases:
  obtains "types_work env now = (\<lambda>p. None)"
    | a where "types_work env now = (\<lambda>p. Some (a, p))"
    | infos where "types_work env now = (\<lambda>p. Some (Ok (), set_types env now infos p))"
proof (cases "getAllInstanceTypes (trTypes env)")
  case None
  then have "types_work env now = (\<lambda>p. None)" by (simp add: fun_eq_iff types_work_def UpdateInstanceTypes_def)
  then show thesis by (rule that(1))
next
  case (Some r)
  show thesis
  proof (cases "\<exists>infos cni. r = Ok infos \<and> trCNI env = Ok cni")
    case True
    then obtain infos cni where "r = Ok infos" "trCNI env = Ok cni" by blast
    with Some have "types_work env now = (\<lambda>p. Some (Ok (), set_types env now
        (if cni = ClusterCNITypeTerway then filter terway_ok infos else infos) p))"
      by (simp add: fun_eq_iff types_work_def UpdateInstanceTypes_def set_types_def Let_def case_prod_unfold)
    then show thesis by (rule that(3))
  next
    case False
    with Some have "\<exists>a. types_work env now = (\<lambda>p. Some (a, p))"
      by (cases r; cases "trCNI env") (auto simp: fun_eq_iff types_work_def UpdateInstanceTypes_def)
    then show thesis using that(2) by blast
  qed
qed

lemma offers_work_cases:
  obtains a where "offers_work env now = (\<lambda>p. Some (a, p))"
    | a offers where "offers_work env now = (\<lambda>p. Some (a, set_offers env now offers p))"
    | offers spot where "offers_work env now =
        (\<lambda>p. Some (Ok (), (set_offers env now offers p)\<lparr>spotInstanceTypesOfferings := spot\<rparr>))"
proof (cases "outcome_bind (trOffers env None) processAvailableResourcesResponse")
  case (Ok offers)
  note first = Ok
  show thesis
  proof (cases "outcome_bind (trOffers env (Some ''SpotAsPriceGo'')) processAvailableResourcesResponse")
    case (Ok spot)
    have "offers_work env now =
        (\<lambda>p. Some (Ok (), (set_offers env now offers p)\<lparr>spotInstanceTypesOfferings := spot\<rparr>))"
      by (simp add: first Ok fun_eq_iff offers_work_def UpdateInstanceTypeOfferings_def set_offers_def Let_def case_prod_unfold)
    then show thesis by (rule that(3))
  next
    case (Err e)
    have "offers_work env now = (\<lambda>p. Some (Err e, set_offers env now offers p))"
      by (simp add: first Err fun_eq_iff offers_work_def UpdateInstanceTypeOfferings_def set_offers_def Let_def case_prod_unfold)
    then show thesis by (rule that(2))
  next
    case Panic
    have "offers_work env now = (\<lambda>p. Some (Panic, set_offers env now offers p))"
      by (simp add: first Panic fun_eq_iff offers_work_def UpdateInstanceTypeOfferings_def set_offers_def Let_def case_prod_unfold)
    then show thesis by (rule that(2))
  qed
next
  case (Err e)
  have "offers_work env now = (\<lambda>p. Some (Err e, p))"
    by (simp add: Err fun_eq_iff offers_work_def UpdateInstanceTypeOfferings_def)
  then show thesis by (rule that(1))
next
  case Panic
  have "offers_work env now = (\<lambda>p. Some (Panic, p))"
    by (simp add: Panic fun_eq_iff offers_work_def UpdateInstanceTypeOfferings_def)
  then show thesis by (rule that(1))
qed

lemma same_types_refl: "same_types p p"
  by (simp add: same_types_def)

lemma set_types_offers:
  "same_types (set_offers env now offers (set_types env now infos p)) (set_types env now infos (set_offers env now offers p))"
  "same_types ((set_offers env now offers (set_types env now infos p))\<lparr>spotInstanceTypesOfferings := spot\<rparr>)
     (set_types env now infos ((set_offers env now offers p)\<lparr>spotInstanceTypesOfferings := spot\<rparr>))"
proof -
  have ne: "''instance-types'' \<noteq> ''instance-type-offering''" by simp
  note swap = HasChanged_other[OF ne] HasChanged_other(1)[OF ne[symmetric]]
  show "same_types (set_offers env now offers (set_types env now infos p)) (set_types env now infos (set_offers env now offers p))"
    "same_types ((set_offers env now offers (set_types env now infos p))\<lparr>spotInstanceTypesOfferings := spot\<rparr>)
     (set_types env now infos ((set_offers env now offers p)\<lparr>spotInstanceTypesOfferings := spot\<rparr>))"
    by (simp_all add: same_types_def set_types_def set_offers_def Let_def case_prod_unfold swap)
qed

interpretation instance_types: independent_work "types_work env now" "offers_work env now" same_types for env now
proof
  fix p
  show "rel_option (rel_prod (=) (rel_prod (=) same_types))
      (both True (types_work env now) (offers_work env now) p)
      (both False (types_work env now) (offers_work env now) p)"
    by (rule types_work_cases[of env now]; rule offers_work_cases[of env now])
       (simp_all add: both_def same_types_refl set_types_offers)
next
  show "same_types s s" for s by (rule same_types_refl)
  show "same_types s t \<Longrightarrow> same_types t s" for s t
    unfolding same_types_def by (cases s; cases t) auto
qed

text \<open>When only one of two calls of \<^verbatim>\<open>Sync\<close> succeeds, the order does matter: the
  on-demand update that starts after the spot update has synchronised does not call it.\<close>

lemma sync_race:
  assumes "priceLastUpdatedTimestamp p + 5 * Minute < now" "paSync sa = None" "paSync oa = Some e"
    "paDetails oa = Some (x # xs)"
  shows "onDemandPrices (snd (pricing_Reconcile [True, True] now sa oa p)) = map (\<lambda>(it, i). (it, OnDemandPricePerHour i)) (x # xs)"
    and "onDemandPrices (snd (pricing_Reconcile [False, False] now sa oa p)) = onDemandPrices p"
  using assms
  by (auto simp: pricing_Reconcile_def price_turn_def store_on_demand_def store_spot_def Minute_def Second_def split: option.splits)

text \<open>
  C36. The refresh controllers run their two updates in parallel. Unless the prices are stale and
  exactly one of the two updates' own calls of Sync would fail, every interleaving of the steps of
  the two pricing updates has the result of running the spot update and then the on-demand update;
  and whatever the two updates are answered and however they interleave, each price list is the
  listed one or the old one, and a run without error, the only one that waits twelve hours for the
  next, has stored both. The order of the two instance type updates changes neither the instance
  types, offerings and counters nor the result.
\<close>

theorem refresh_order_irrelevant:
  "((paSync sa = None) = (paSync oa = None) \<or> \<not> priceLastUpdatedTimestamp p + 5 * Minute < now \<longrightarrow>
      pricing_Reconcile turns now sa oa p =
        (case UpdateSpotPricing now (paSync sa) (paDetails sa) p of (es, p1) \<Rightarrow>
           case UpdateOnDemandPricing now (paSync oa) (paDetails oa) p1 of (eo, p2) \<Rightarrow> (pricing_result es eo, p2)))
   \<and> (let (r, p') = pricing_Reconcile turns now sa oa p;
          newSpot = fold update_spot1 (the (paDetails sa)) (spotPrices p);
          newOnDemand = map (\<lambda>(it, i). (it, OnDemandPricePerHour i)) (the (paDetails oa))
      in spotPrices p' \<in> {spotPrices p, newSpot} \<and> onDemandPrices p' \<in> {onDemandPrices p, newOnDemand}
         \<and> (if snd r = None then fst r = requeueAfter (12 * Hour) \<and> spotPrices p' = newSpot \<and> spotPricingUpdated p'
              \<and> onDemandPrices p' = newOnDemand
            else fst r = noRequeue))
   \<and> rel_option (rel_prod (=) same_types) (instancetype_Reconcile env True now q) (instancetype_Reconcile env False now q)"
proof (intro conjI impI)
  assume "(paSync sa = None) = (paSync oa = None) \<or> \<not> priceLastUpdatedTimestamp p + 5 * Minute < now"
  from interleavings_agree[OF this, of turns "[]"]
  show "pricing_Reconcile turns now sa oa p =
        (case UpdateSpotPricing now (paSync sa) (paDetails sa) p of (es, p1) \<Rightarrow>
           case UpdateOnDemandPricing now (paSync oa) (paDetails oa) p1 of (eo, p2) \<Rightarrow> (pricing_result es eo, p2))"
    by (simp add: run_without_overlap one_after_the_other_def)
next
  obtain e d q where run: "pricing_Reconcile turns now sa oa p = (pricing_result e d, q)"
    "stored_prices sa oa p (Ended e, Ended d, q)"
    using run_ends[of now sa oa turns p] by metis
  show "let (r, p') = pricing_Reconcile turns now sa oa p;
          newSpot = fold update_spot1 (the (paDetails sa)) (spotPrices p);
          newOnDemand = map (\<lambda>(it, i). (it, OnDemandPricePerHour i)) (the (paDetails oa))
      in spotPrices p' \<in> {spotPrices p, newSpot} \<and> onDemandPrices p' \<in> {onDemandPrices p, newOnDemand}
         \<and> (if snd r = None then fst r = requeueAfter (12 * Hour) \<and> spotPrices p' = newSpot \<and> spotPricingUpdated p'
              \<and> onDemandPrices p' = newOnDemand
            else fst r = noRequeue)"
    using run by (cases e; cases d) (simp_all add: stored_prices_def store_spot_def store_on_demand_def pricing_result_def
        multierr_Combine_def)
next
  show "rel_option (rel_prod (=) same_types) (instancetype_Reconcile env True now q) (instancetype_Reconcile env False now q)"
    using instance_types.reconcile_order[of "''updating instancetype, ''" True env now q False]
    by (simp add: instancetype_Reconcile_def)
qed

theorem refresh_order_irrelevant_witness:
  "pricing_Reconcile [False, True, False, True, True] 1 \<lparr>paSync = None, paDetails = None\<rparr> \<lparr>paSync = None, paDetails =
       Some [(''t'', \<lparr>OnDemandPricePerHour = 3, SpotPricePerHour = []\<rparr>)]\<rparr> (NewPricingProvider [] ''r'')
   = pricing_Reconcile [] 1 \<lparr>paSync = None, paDetails = None\<rparr> \<lparr>paSync = None, paDetails =
       Some [(''t'', \<lparr>OnDemandPricePerHour = 3, SpotPricePerHour = []\<rparr>)]\<rparr> (NewPricingProvider [] ''r'')"
proof -
  let ?a = "\<lparr>paSync = None, paDetails = None\<rparr> :: price_answers"
  let ?b = "\<lparr>paSync = None, paDetails = Some [(''t'', \<lparr>OnDemandPricePerHour = 3, SpotPricePerHour = []\<rparr>)]\<rparr> :: price_answers"
  have "pricing_Reconcile turns 1 ?a ?b (NewPricingProvider [] ''r'') =
      one_after_the_other 1 ?a ?b (NewPricingProvider [] ''r'')" for turns
    unfolding one_after_the_other_def
    by (rule refresh_order_irrelevant[THEN conjunct1, rule_format]) simp
  then show ?thesis by metis
qed

end
