(* ===== verification/Operator.thy ===== *)
theory Operator
  imports System Refresh
begin

text \<open>
  Wiring: the options and their validation (\<^verbatim>\<open>src/pkg/operator/options\<close>), the
  providers the operator creates (\<^verbatim>\<open>src/pkg/operator/operator.go\<close>), the controllers that
  are started (\<^verbatim>\<open>src/pkg/controllers/controllers.go\<close>) and the telemetry controller
  (\<^verbatim>\<open>src/pkg/controllers/telemetry/controller.go\<close>).
\<close>

section \<open>Options\<close>

record options =
  ClusterID :: string
  optVMMemoryOverheadPercent :: rat
  Interruption :: bool
  TelemetryShare :: bool
  APGCreationQPS :: int

definition validateRequiredFields :: "options \<Rightarrow> gerror option" where
  "validateRequiredFields opts =
     (if ClusterID opts = [] then Some (ErrorString ''missing field, cluster-id'') else None)"

definition Validate :: "options \<Rightarrow> gerror option" where
  "Validate opts = multierr_Combine [validateRequiredFields opts]"

text \<open>What parsing the flags gives: the request for help ends the process (\<open>None\<close>).\<close>

datatype flag_answer = FlagHelp | FlagError gerror | FlagsParsed options

definition options_Parse :: "flag_answer \<Rightarrow> options outcome option" where
  "options_Parse ans =
     (case ans of
        FlagHelp \<Rightarrow> None
      | FlagError e \<Rightarrow> Some (Err (Wrap ''parsing flags, '' e))
      | FlagsParsed opts \<Rightarrow>
          Some (case Validate opts of
                  Some e \<Rightarrow> Err (Wrap ''validating options, '' e)
                | None \<Rightarrow> Ok opts))"

text \<open>Defaults from the environment: \<open>look\<close> is \<^verbatim>\<open>os.LookupEnv\<close>, \<open>parse\<close> the
  conversion of \<^verbatim>\<open>strconv\<close>.\<close>

definition with_default :: "(string \<Rightarrow> string option) \<Rightarrow> (string \<Rightarrow> 'a option) \<Rightarrow> string \<Rightarrow> 'a \<Rightarrow> 'a" where
  "with_default look parse k def =
     (case look k of None \<Rightarrow> def | Some v \<Rightarrow> (case parse v of None \<Rightarrow> def | Some x \<Rightarrow> x))"

definition WithDefaultFloat64 :: "(string \<Rightarrow> string option) \<Rightarrow> (string \<Rightarrow> rat option) \<Rightarrow> string \<Rightarrow> rat \<Rightarrow> rat" where
  "WithDefaultFloat64 look parse k def = with_default look parse k def"

definition AddFlags ::
  "(string \<Rightarrow> string option) \<Rightarrow> (string \<Rightarrow> rat option) \<Rightarrow> (string \<Rightarrow> bool option) \<Rightarrow> (string \<Rightarrow> int option) \<Rightarrow> options" where
  "AddFlags look parseFloat parseBool parseInt =
     \<lparr>ClusterID = with_default look Some ''CLUSTER_ID'' [],
      optVMMemoryOverheadPercent = WithDefaultFloat64 look parseFloat ''VM_MEMORY_OVERHEAD_PERCENT'' (fl64 (65 / 1000)),
      Interruption = with_default look parseBool ''INTERRUPTION'' True,
      TelemetryShare = with_default look parseBool ''TELEMETRY_SHARE'' True,
      APGCreationQPS = with_default look parseInt ''APG_CREATION_QPS'' 100\<rparr>"

section \<open>The operator\<close>

record operator =
  opUnavailable :: unavailable_offerings
  opInstances :: instance_provider
  opPricing :: pricing_provider
  opVSwitches :: vswitch_provider
  opSecurityGroups :: "ecs_security_group list go_cache"
  opImages :: "image list go_cache"
  opDisks :: "string list go_cache"
  opVersion :: version_provider
  opTypes :: instance_type_provider
  opAck :: ack_provider

text \<open>\<open>clients\<close> are the errors of creating the client configuration, the three API clients
  and the pricing provider, in order; the first one ends the process (\<open>None\<close>).\<close>

definition NewOperator ::
  "gerror option list \<Rightarrow> (string \<times> (string \<times> price) list) list \<Rightarrow> options \<Rightarrow> string \<Rightarrow> operator option" where
  "NewOperator clients initialPrices opts region =
     (if list_ex (\<lambda>e. e \<noteq> None) clients then None
      else Some
        \<lparr>opUnavailable = NewUnavailableOfferings,
         opInstances = NewInstanceProvider region,
         opPricing = NewPricingProvider initialPrices region,
         opVSwitches = NewVSwitchProvider (cache_new DefaultTTL) (cache_new AvailableIPAddressTTL),
         opSecurityGroups = cache_new DefaultTTL,
         opImages = cache_new DefaultTTL,
         opDisks = cache_new InstanceTypeAvailableDiskTTL,
         opVersion = NewVersionProvider (cache_new KubernetesVersionTTL),
         opTypes = NewInstanceTypeProvider region (cache_new InstanceTypesAndZonesTTL),
         opAck = NewAckProvider (ClusterID opts) (cache_new ClusterAttachScriptTTL)\<rparr>)"

datatype controller =
    NodeClassHash | NodeClassStatus | NodeClassTermination | ProvidersPricing | GarbageCollection
  | UnregisteredTaint | Tagging | ProvidersInstanceType | InterruptionController | TelemetryController

definition NewControllers :: "options \<Rightarrow> controller list" where
  "NewControllers opts =
     [NodeClassHash, NodeClassStatus, NodeClassTermination, ProvidersPricing, GarbageCollection,
      UnregisteredTaint, Tagging, ProvidersInstanceType]
     @ (if Interruption opts then [InterruptionController] else [])
     @ (if TelemetryShare opts then [TelemetryController] else [])"

section \<open>Telemetry\<close>

definition defaultTelemetryEndpoint :: string where
  "defaultTelemetryEndpoint = ''https://api.cloudpilot.ai/api/v1/telemetry''"
definition karpenterInitializedKey :: string where
  "karpenterInitializedKey = ''karpenter.sh/initialized''"
definition LabelZoneRegion :: string where "LabelZoneRegion = ''failure-domain.beta.kubernetes.io/region''"
definition LabelZoneFailureDomain :: string where
  "LabelZoneFailureDomain = ''failure-domain.beta.kubernetes.io/zone''"

record ClusterResourcesInfo =
  CPUUsage :: int
  MemoryUsage :: int
  CPURequest :: int
  MemoryRequest :: int
  CPUCapacity :: int
  MemoryCapacity :: int
  riInstanceTypes :: "string list"

record InterruptionEvent =
  evCloudProvider :: string
  evTimestamp :: int
  evRegion :: string
  evZone :: string
  evInstanceType :: string
  evInstanceCreateTimestamp :: int

text \<open>\<^verbatim>\<open>MilliValue\<close> and \<^verbatim>\<open>Value\<close> of a quantity round up.\<close>

definition milli_value :: "rat \<Rightarrow> int" where "milli_value q = ceiling (q * 1000)"
definition whole_value :: "rat \<Rightarrow> int" where "whole_value q = ceiling q"

definition sum_resources :: "resource_list list \<Rightarrow> int \<times> int" where
  "sum_resources rls =
     fold (\<lambda>rl (c, m). (int64 (c + milli_value (quantity rl ''cpu'')), int64 (m + whole_value (quantity rl ''memory''))))
       rls (0, 0)"

definition getClusterResourcesCapacity :: "k8s_node kube_list \<Rightarrow> int \<times> int \<times> string list" where
  "getClusterResourcesCapacity listed =
     (case listed of
        Inl e \<Rightarrow> (0, 0, [])
      | Inr ns \<Rightarrow>
          (let nodes = filter (\<lambda>n. map_of (nodeLabels n) karpenterInitializedKey = None) ns;
               (c, m) = sum_resources (map nodeCapacity nodes)
           in (c, m, uniq (filter (\<lambda>t. t \<noteq> []) (map (\<lambda>n. map_get (nodeLabels n) LabelInstanceTypeStable) nodes)))))"

text \<open>\<open>requests\<close> is what \<^verbatim>\<open>resources.RequestsForPods\<close> of karpenter sums up.\<close>

definition getClusterResourcesRequest :: "gerror + resource_list \<Rightarrow> int \<times> int" where
  "getClusterResourcesRequest requests =
     (case requests of
        Inl e \<Rightarrow> (0, 0)
      | Inr rl \<Rightarrow> (milli_value (quantity rl ''cpu''), whole_value (quantity rl ''memory'')))"

definition getClusterResourcesUsage :: "resource_list kube_list \<Rightarrow> int \<times> int" where
  "getClusterResourcesUsage metrics = (case metrics of Inl e \<Rightarrow> (0, 0) | Inr rls \<Rightarrow> sum_resources rls)"

text \<open>\<open>listed\<close> is the answer of the metrics API, \<open>convert\<close> the conversion between its versions.\<close>

definition getNodeMetricsFromMetricsAPI ::
  "'v kube_list \<Rightarrow> ('v list \<Rightarrow> resource_list kube_list) \<Rightarrow> resource_list kube_list" where
  "getNodeMetricsFromMetricsAPI listed convert = (case listed of Inl e \<Rightarrow> Inl e | Inr ms \<Rightarrow> convert ms)"

datatype telemetry_post =
    PostResources string ClusterResourcesInfo
  | PostInterruption string InterruptionEvent

definition PushTelemetryClusterResourceInfo ::
  "string \<Rightarrow> k8s_node kube_list \<Rightarrow> gerror + resource_list \<Rightarrow> resource_list kube_list \<Rightarrow> telemetry_post" where
  "PushTelemetryClusterResourceInfo clusterIDHash nodes requests metrics =
     (let (cc, mc, its) = getClusterResourcesCapacity nodes;
          (cr, mr) = getClusterResourcesRequest requests;
          (cu, mu) = getClusterResourcesUsage metrics
      in PostResources (defaultTelemetryEndpoint @ ''/clusters/'' @ clusterIDHash @ ''/resourcesInfo'')
           \<lparr>CPUUsage = cu, MemoryUsage = mu, CPURequest = cr, MemoryRequest = mr, CPUCapacity = cc,
            MemoryCapacity = mc, riInstanceTypes = its\<rparr>)"

definition PushInterruptionEvent :: "int \<Rightarrow> string \<Rightarrow> k8s_node \<Rightarrow> telemetry_post" where
  "PushInterruptionEvent now clusterIDHash node =
     PostInterruption (defaultTelemetryEndpoint @ ''/clusters/'' @ clusterIDHash @ ''/interruptionEvent'')
       \<lparr>evCloudProvider = ''alibabacloud'', evTimestamp = now,
        evRegion = map_get (nodeLabels node) LabelZoneRegion,
        evZone = map_get (nodeLabels node) LabelZoneFailureDomain,
        evInstanceType = map_get (nodeLabels node) LabelInstanceTypeStable,
        evInstanceCreateTimestamp = nodeCreation node\<rparr>"

text \<open>\<^verbatim>\<open>push\<close>: \<open>newRequest\<close> is the error of building the request for a path (after
  which the nil request is sent all the same), \<open>send\<close> that of sending it, which is logged.\<close>

fun post_path :: "telemetry_post \<Rightarrow> string" where
  "post_path (PostResources url info) = url"
| "post_path (PostInterruption url ev) = url"

definition push :: "(string \<Rightarrow> gerror option) \<Rightarrow> (telemetry_post \<Rightarrow> gerror option) \<Rightarrow> telemetry_post \<Rightarrow> gerror option outcome" where
  "push newRequest send post = (case newRequest (post_path post) of Some e \<Rightarrow> Panic | None \<Rightarrow> Ok (send post))"

text \<open>\<open>once\<close> says whether the resources were posted; \<open>hash\<close> is the SHA-256 of the cluster
  id. The posts are handed to \<open>push\<close> in order; their paths are a constant and a hexadecimal hash, for
  which building a request does not fail, and the outcome of sending is only logged.\<close>

definition telemetry_Reconcile ::
  "(string \<Rightarrow> string) \<Rightarrow> options \<Rightarrow> k8s_node kube_list \<Rightarrow> gerror + resource_list \<Rightarrow> resource_list kube_list \<Rightarrow>
   int \<Rightarrow> k8s_node \<Rightarrow> bool \<Rightarrow> telemetry_post list \<times> reconcile_result \<times> bool" where
  "telemetry_Reconcile hash opts nodes requests metrics now node once =
     ((if once then [] else [PushTelemetryClusterResourceInfo (hash (ClusterID opts)) nodes requests metrics])
      @ (if is_interrupted node then [PushInterruptionEvent now (hash (ClusterID opts)) node] else []),
      noRequeue, True)"

section \<open>The operator starts in the states the invariants start from\<close>

text \<open>Every cache of a new operator is well-formed and expires its entries, the shared
  providers start in the initial state of the step relation, and only a configured cluster gets
  that far.\<close>

lemma new_operator_wf:
  assumes "NewOperator clients prices opts region = Some op"
  shows "ip_wf (opInstances op)" "cache_wf (uoCache (opUnavailable op))" "cache_wf (instanceTypesCache (opTypes op))"
    "sys_init now region = \<lparr>sysTime = now, sysUnavailable = opUnavailable op, sysTypes = opTypes op\<rparr>"
  using assms
  by (auto simp: NewOperator_def ip_wf_new NewUnavailableOfferings_wf NewInstanceTypeProvider_def sys_init_def split: if_splits)

lemma parsed_options_valid: "options_Parse ans = Some (Ok opts) \<Longrightarrow> ClusterID opts \<noteq> []"
  by (auto simp: options_Parse_def Validate_def validateRequiredFields_def multierr_Combine_def List.map_filter_def
      split: flag_answer.splits option.splits if_splits)

lemma push_without_request_panics: "newRequest (post_path post) = Some e \<Longrightarrow> push newRequest send post = Panic"
  by (simp add: push_def)

lemma resources_posted_once:
  "fst (telemetry_Reconcile hash opts ns rs ms now node True) =
     (if is_interrupted node then [PushInterruptionEvent now (hash (ClusterID opts)) node] else [])"
  by (simp add: telemetry_Reconcile_def)

end
