(* ===== verification/Cluster.thy ===== *)
theory Cluster
  imports Operator
begin

text \<open>
  The whole process: the providers an operator creates, and every handler that changes them,
  karpenter's calls of the cloud provider and the reconcilers of the controllers, in any order.
  \<open>cluster_step\<close> is their interleaving; each handler runs to its end at one instant. Seen through
  \<open>shared\<close>, every handler is a run of the steps of \<open>sys_step\<close> (the locale
  \<open>simulation\<close>), so that what holds of all interleavings of marking, evicting, listing and
  refreshing holds of the process. The controllers that only write Kubernetes objects (hash,
  termination, unregistered taint, telemetry) leave the providers alone and have no rule.
\<close>

section \<open>The state of the process\<close>

record cluster_state =
  clusterTime :: int
  ctCloud :: cloud_state
  ctGroups :: "ecs_security_group list go_cache"
  ctVersion :: version_provider
  ctImages :: "image list go_cache"
  ctCollections :: "64 word"

definition cluster_of :: "int \<Rightarrow> operator \<Rightarrow> cluster_state" where
  "cluster_of now op =
     \<lparr>clusterTime = now,
      ctCloud = \<lparr>csTypes = opTypes op, csPricing = opPricing op,
        csLaunch = \<lparr>lsUnavailable = opUnavailable op, lsVSwitches = opVSwitches op, lsDisks = opDisks op,
          lsAck = opAck op\<rparr>,
        csInstances = opInstances op\<rparr>,
      ctGroups = opSecurityGroups op, ctVersion = opVersion op, ctImages = opImages op, ctCollections = 0\<rparr>"

abbreviation ctUnavailable :: "cluster_state \<Rightarrow> unavailable_offerings" where
  "ctUnavailable c \<equiv> lsUnavailable (csLaunch (ctCloud c))"

abbreviation with_unavailable :: "unavailable_offerings \<Rightarrow> cloud_state \<Rightarrow> cloud_state" where
  "with_unavailable u s \<equiv> s\<lparr>csLaunch := (csLaunch s)\<lparr>lsUnavailable := u\<rparr>\<rparr>"

text \<open>The status controller shares the vSwitch provider with the launches.\<close>

definition status_of :: "cluster_state \<Rightarrow> status_state" where
  "status_of c = \<lparr>ssVSwitches = lsVSwitches (csLaunch (ctCloud c)), ssGroups = ctGroups c, ssVersion = ctVersion c,
     ssImages = ctImages c\<rparr>"

definition with_status :: "status_state \<Rightarrow> cluster_state \<Rightarrow> cluster_state" where
  "with_status st c = c\<lparr>ctCloud := (ctCloud c)\<lparr>csLaunch := (csLaunch (ctCloud c))\<lparr>lsVSwitches := ssVSwitches st\<rparr>\<rparr>,
     ctGroups := ssGroups st, ctVersion := ssVersion st, ctImages := ssImages st\<rparr>"

text \<open>Refreshing the instance types asks the ACK provider for the cluster's network once the
  types are read; \<open>parse\<close> and \<open>describe\<close> are those of \<open>GetClusterCNI\<close>.\<close>

definition refresh_types ::
  "(string \<Rightarrow> json outcome) \<Rightarrow> string option outcome \<Rightarrow> types_env_refresh \<Rightarrow> bool \<Rightarrow> int \<Rightarrow> cloud_state \<Rightarrow>
   ((reconcile_result \<times> gerror option) outcome \<times> cloud_state) option" where
  "refresh_types parse describe env in_order now s =
     (let (cni, ack) = GetClusterCNI parse describe (lsAck (csLaunch s));
          ack' = (case getAllInstanceTypes (trTypes env) of Some (Ok _) \<Rightarrow> ack | _ \<Rightarrow> lsAck (csLaunch s))
      in map_option (\<lambda>(r, p). (r, s\<lparr>csTypes := p, csLaunch := (csLaunch s)\<lparr>lsAck := ack'\<rparr>\<rparr>))
           (instancetype_Reconcile (env\<lparr>trCNI := cni\<rparr>) in_order now (csTypes s)))"

text \<open>The janitors of all caches but the one of the unavailable offerings, whose evictions
  count as changes.\<close>

abbreviation swept_cache :: "int \<Rightarrow> 'v go_cache \<Rightarrow> 'v go_cache" where
  "swept_cache now c \<equiv> snd (cache_delete_expired now c)"

definition sweep_launch :: "int \<Rightarrow> launch_state \<Rightarrow> launch_state" where
  "sweep_launch now ls = ls
     \<lparr>lsVSwitches := (lsVSwitches ls)\<lparr>vsCache := swept_cache now (vsCache (lsVSwitches ls)),
        availableIPAddressCache := swept_cache now (availableIPAddressCache (lsVSwitches ls))\<rparr>,
      lsDisks := swept_cache now (lsDisks ls),
      lsAck := (lsAck ls)\<lparr>ackCache := swept_cache now (ackCache (lsAck ls))\<rparr>\<rparr>"

definition sweep_instances :: "int \<Rightarrow> instance_provider \<Rightarrow> instance_provider" where
  "sweep_instances now p = p\<lparr>instanceCache := swept_cache now (instanceCache p)\<rparr>"

definition sweep :: "int \<Rightarrow> cluster_state \<Rightarrow> cluster_state" where
  "sweep now c = c
     \<lparr>ctCloud := (ctCloud c)\<lparr>csTypes := sweep_types now (csTypes (ctCloud c)),
        csLaunch := sweep_launch now (csLaunch (ctCloud c)),
        csInstances := sweep_instances now (csInstances (ctCloud c))\<rparr>,
      ctGroups := swept_cache now (ctGroups c),
      ctVersion := (ctVersion c)\<lparr>verCache := swept_cache now (verCache (ctVersion c))\<rparr>,
      ctImages := swept_cache now (ctImages c)\<rparr>"

section \<open>Steps\<close>

text \<open>The results a launch may answer with fit into the change counter.\<close>

definition launch_results :: "apg_response option \<Rightarrow> launch_result option list" where
  "launch_results resp = (case response_results resp of None \<Rightarrow> [] | Some lrs \<Rightarrow> lrs)"

definition room_for_launch :: "launch_env \<Rightarrow> unavailable_offerings \<Rightarrow> bool" where
  "room_for_launch env u =
     (\<forall>req resp. lvCreateGroup env req = Ok resp \<longrightarrow> counter_fits (length (launch_results resp)) u)"

inductive cluster_step :: "cluster_state \<Rightarrow> cluster_state \<Rightarrow> bool" where
  created: "clusterTime c \<le> t \<Longrightarrow> room_for_launch (ceLaunch env) (ctUnavailable c) \<Longrightarrow>
    cp_Create env t cl (ctCloud c) = (r, s) \<Longrightarrow> cluster_step c (c\<lparr>clusterTime := t, ctCloud := s\<rparr>)"
| retrieved: "clusterTime c \<le> t \<Longrightarrow> cp_List env t (ctCloud c) = Some (r, s) \<Longrightarrow>
    cluster_step c (c\<lparr>clusterTime := t, ctCloud := s\<rparr>)"
| got: "clusterTime c \<le> t \<Longrightarrow> cp_Get env t i (ctCloud c) = Some (r, s) \<Longrightarrow>
    cluster_step c (c\<lparr>clusterTime := t, ctCloud := s\<rparr>)"
| deleted: "clusterTime c \<le> t \<Longrightarrow> cp_Delete env t cl (ctCloud c) = Some (r, s) \<Longrightarrow>
    cluster_step c (c\<lparr>clusterTime := t, ctCloud := s\<rparr>)"
| drifted: "clusterTime c \<le> t \<Longrightarrow> IsDrifted env t cl (ctCloud c) = Some (r, s) \<Longrightarrow>
    cluster_step c (c\<lparr>clusterTime := t, ctCloud := s\<rparr>)"
| offered: "clusterTime c \<le> t \<Longrightarrow> GetInstanceTypes env t np (ctCloud c) = (r, s) \<Longrightarrow>
    cluster_step c (c\<lparr>clusterTime := t, ctCloud := s\<rparr>)"
| collected: "clusterTime c \<le> t \<Longrightarrow> gc_Reconcile genv kw t (ctCollections c) (ctCloud c) = Some (r, n, s) \<Longrightarrow>
    cluster_step c (c\<lparr>clusterTime := t, ctCloud := s, ctCollections := n\<rparr>)"
| tagged: "clusterTime c \<le> t \<Longrightarrow> tagging_Reconcile tenv kw t cl (csInstances (ctCloud c)) = Some (r, p) \<Longrightarrow>
    cluster_step c (c\<lparr>clusterTime := t, ctCloud := (ctCloud c)\<lparr>csInstances := p\<rparr>\<rparr>)"
| interrupted: "clusterTime c \<le> t \<Longrightarrow> counter_fits 1 (ctUnavailable c) \<Longrightarrow>
    interruption_Reconcile cls kw t nd (ctUnavailable c) = (r, u) \<Longrightarrow>
    cluster_step c (c\<lparr>clusterTime := t, ctCloud := with_unavailable u (ctCloud c)\<rparr>)"
| resolved: "clusterTime c \<le> t \<Longrightarrow> status_Reconcile senv kw t nc (status_of c) = Some (r, st) \<Longrightarrow>
    cluster_step c ((with_status st c)\<lparr>clusterTime := t\<rparr>)"
| refreshed: "clusterTime c \<le> t \<Longrightarrow> refresh_types parse describe renv ord t (ctCloud c) = Some (r, s) \<Longrightarrow>
    cluster_step c (c\<lparr>clusterTime := t, ctCloud := s\<rparr>)"
| priced: "clusterTime c \<le> t \<Longrightarrow> pricing_Reconcile turns t sa oa (csPricing (ctCloud c)) = (r, p) \<Longrightarrow>
    cluster_step c (c\<lparr>clusterTime := t, ctCloud := (ctCloud c)\<lparr>csPricing := p\<rparr>\<rparr>)"
| expired: "clusterTime c \<le> t \<Longrightarrow> counter_fits (evictions t (ctUnavailable c)) (ctUnavailable c) \<Longrightarrow>
    cluster_step c (c\<lparr>clusterTime := t, ctCloud := with_unavailable (uo_evict t (ctUnavailable c)) (ctCloud c)\<rparr>)"
| swept: "clusterTime c \<le> t \<Longrightarrow> cluster_step c ((sweep t c)\<lparr>clusterTime := t\<rparr>)"

section \<open>Simulation\<close>

locale simulation =
  fixes step :: "'c \<Rightarrow> 'c \<Rightarrow> bool" and spec :: "'a \<Rightarrow> 'a \<Rightarrow> bool" and abs :: "'c \<Rightarrow> 'a"
  assumes simulates: "step c c' \<Longrightarrow> spec\<^sup>*\<^sup>* (abs c) (abs c')"
begin

lemma runs: "step\<^sup>*\<^sup>* c c' \<Longrightarrow> spec\<^sup>*\<^sup>* (abs c) (abs c')"
proof (induction rule: rtranclp_induct)
  case (step y z)
  from step.IH simulates[OF step.hyps(2)] show ?case by (rule rtranclp_trans)
qed simp

lemma invariant:
  assumes "step\<^sup>*\<^sup>* c c'" "P (abs c)" and "\<And>a a'. spec a a' \<Longrightarrow> P a \<Longrightarrow> P a'"
  shows "P (abs c')"
  using runs[OF assms(1)] assms(2)
  by (induction rule: rtranclp_induct) (auto intro: assms(3))

end

definition cloud_shared :: "int \<Rightarrow> cloud_state \<Rightarrow> sys_state" where
  "cloud_shared t s = \<lparr>sysTime = t, sysUnavailable = lsUnavailable (csLaunch s), sysTypes = csTypes s\<rparr>"

definition shared :: "cluster_state \<Rightarrow> sys_state" where
  "shared c = cloud_shared (clusterTime c) (ctCloud c)"

lemma cloud_shared_simps [simp]:
  "sysTime (cloud_shared t s) = t" "sysUnavailable (cloud_shared t s) = lsUnavailable (csLaunch s)"
  "sysTypes (cloud_shared t s) = csTypes s"
  "(cloud_shared t s)\<lparr>sysTime := t'\<rparr> = cloud_shared t' s"
  "(cloud_shared t s)\<lparr>sysTypes := p\<rparr> = cloud_shared t (s\<lparr>csTypes := p\<rparr>)"
  "(cloud_shared t s)\<lparr>sysUnavailable := u\<rparr> = cloud_shared t (with_unavailable u s)"
  by (simp_all add: cloud_shared_def)

lemma cloud_shared_eq:
  "lsUnavailable (csLaunch s') = lsUnavailable (csLaunch s) \<Longrightarrow> csTypes s' = csTypes s \<Longrightarrow>
   cloud_shared t s' = cloud_shared t s"
  by (simp add: cloud_shared_def)

text \<open>Time passes before a handler runs.\<close>

lemma wait_then:
  assumes "clusterTime c \<le> t" "sys_step\<^sup>*\<^sup>* (cloud_shared t (ctCloud c)) (cloud_shared t s)"
  shows "sys_step\<^sup>*\<^sup>* (shared c) (cloud_shared t s)"
proof -
  have "sys_step (shared c) (cloud_shared t (ctCloud c))"
    using sys_step.idle[of "shared c" t] assms(1) by (simp add: shared_def)
  from this assms(2) show ?thesis by (rule converse_rtranclp_into_rtranclp)
qed

lemma types_env_unavailable [simp]: "leUnavailable (types_env env s) = lsUnavailable (csLaunch s)"
  by (simp add: types_env_def)

lemma list_types_shared:
  assumes "list_types env t nc s = (r, s')"
  shows "sys_step\<^sup>*\<^sup>* (cloud_shared t s) (cloud_shared t s')"
proof -
  obtain p where run: "itp_List (types_env env s) t (KubeletConfiguration (ncSpec nc)) nc (csTypes s) = (r, p)"
    and s': "lsUnavailable (csLaunch s') = lsUnavailable (csLaunch s)" "csTypes s' = p"
    using assms by (auto simp: list_types_def Let_def case_prod_unfold prod_eq_iff)
  have "sys_step (cloud_shared t s) ((cloud_shared t s)\<lparr>sysTime := t, sysTypes := p\<rparr>)"
    by (rule sys_step.listed[where env = "types_env env s"]) (use run in simp_all)
  moreover have "cloud_shared t s' = cloud_shared t (s\<lparr>csTypes := p\<rparr>)" by (rule cloud_shared_eq) (simp_all add: s')
  ultimately show ?thesis by (simp add: r_into_rtranclp)
qed

lemma list_types_unavailable:
  "list_types env t nc s = (r, s') \<Longrightarrow> lsUnavailable (csLaunch s') = lsUnavailable (csLaunch s)"
  by (auto simp: list_types_def Let_def split: prod.splits)

lemma GetInstanceTypes_shared:
  assumes "GetInstanceTypes env t np s = (r, s')"
  shows "sys_step\<^sup>*\<^sup>* (cloud_shared t s) (cloud_shared t s')"
  using assms by (auto simp: GetInstanceTypes_def intro: list_types_shared split: outcome.splits)

lemma claim_of_instance_shared:
  assumes "claim_of_instance env t i s = (r, s')"
  shows "sys_step\<^sup>*\<^sup>* (cloud_shared t s) (cloud_shared t s')"
proof -
  have "sys_step\<^sup>*\<^sup>* (cloud_shared t s) (cloud_shared t s1)"
    if "resolveInstanceTypeFromInstance env t i s = (x, s1)" for x s1
    using that GetInstanceTypes_shared[of env t _ s]
    by (auto simp: resolveInstanceTypeFromInstance_def Let_def split: outcome.splits prod.splits)
  with assms show ?thesis
    by (auto simp: claim_of_instance_def split: outcome.splits prod.splits option.splits)
qed

lemma claims_of_instances_shared:
  "claims_of_instances env t is s = (r, s') \<Longrightarrow> sys_step\<^sup>*\<^sup>* (cloud_shared t s) (cloud_shared t s')"
proof (induction "is" arbitrary: s r)
  case (Cons i "is")
  obtain x s1 where i: "claim_of_instance env t i s = (x, s1)" by (cases "claim_of_instance env t i s")
  note first = claim_of_instance_shared[OF i]
  show ?case
  proof (cases x)
    case (Ok cl)
    obtain y s2 where rest: "claims_of_instances env t is s1 = (y, s2)" by (cases "claims_of_instances env t is s1")
    with Cons.prems i Ok have s': "s' = s2" by simp
    from first Cons.IH[OF rest[folded s']] show ?thesis by (rule rtranclp_trans)
  qed (use first Cons.prems i in auto)
qed simp

lemma cp_List_shared:
  assumes "cp_List env t s = Some (r, s')"
  shows "sys_step\<^sup>*\<^sup>* (cloud_shared t s) (cloud_shared t s')"
proof -
  have inst: "cloud_shared t (s\<lparr>csInstances := p\<rparr>) = cloud_shared t s" for p by (simp add: cloud_shared_def)
  from assms show ?thesis
    using claims_of_instances_shared[of env t _ "s\<lparr>csInstances := p\<rparr>" for p]
    by (auto simp: cp_List_def inst split: option.splits outcome.splits prod.splits)
qed

lemma cp_Get_shared:
  assumes "cp_Get env t i s = Some (r, s')"
  shows "sys_step\<^sup>*\<^sup>* (cloud_shared t s) (cloud_shared t s')"
proof -
  have inst: "cloud_shared t (s\<lparr>csInstances := p\<rparr>) = cloud_shared t s" for p by (simp add: cloud_shared_def)
  from assms show ?thesis
    using claim_of_instance_shared[of env t _ "s\<lparr>csInstances := p\<rparr>" for p]
    by (auto simp: cp_Get_def inst split: option.splits outcome.splits prod.splits)
qed

text \<open>Deletions and drift checks touch the instances only.\<close>

lemma cp_Delete_shared: "cp_Delete env t cl s = Some (r, s') \<Longrightarrow> cloud_shared t' s' = cloud_shared t' s"
  by (auto simp: cp_Delete_def cloud_shared_def split: outcome.splits)

lemma IsDrifted_shared: "IsDrifted env t cl s = Some (r, s') \<Longrightarrow> cloud_shared t' s' = cloud_shared t' s"
  by (auto simp: IsDrifted_def isNodeClassDrifted_def getInstance_def Let_def cloud_shared_def
      split: outcome.splits option.splits if_splits)

lemma gc_workers_shared:
  "gc_workers env kw t claims nodes todo s = Some (r, ws, s') \<Longrightarrow> cloud_shared t' s' = cloud_shared t' s"
proof (induction todo arbitrary: s r ws)
  case (Cons x todo)
  obtain n cl where x: "x = (n, cl)" by (cases x)
  have one: "cloud_shared t' s1 = cloud_shared t' s" if "garbageCollect env kw t nodes cl s = Some (a, b, s1)" for a b s1
    using that cp_Delete_shared[of env t cl s _ _ t']
    by (auto simp: garbageCollect_def split: option.splits outcome.splits prod.splits)
  from Cons.prems x show ?case
    by (auto split: if_splits option.splits prod.splits outcome.splits dest!: one Cons.IH)
qed simp

lemma gc_Reconcile_shared:
  assumes "gc_Reconcile genv kw t n s = Some (r, n', s')"
  shows "sys_step\<^sup>*\<^sup>* (cloud_shared t s) (cloud_shared t s')"
proof -
  note listing = cp_List_shared[of "gcCloud genv" t s]
  have workers: "sys_step\<^sup>*\<^sup>* (cloud_shared t s) (cloud_shared t s2)"
    if "cp_List (gcCloud genv) t s = Some (x, s1)" "gc_workers (gcCloud genv) kw t cls ns todo s1 = Some (y, ws, s2)"
    for x s1 cls ns todo y ws s2
    using listing[OF that(1)] gc_workers_shared[OF that(2), of t] by simp
  from assms show ?thesis
    by (auto simp: gc_Reconcile_def Let_def intro: listing workers
        split: option.splits outcome.splits prod.splits sum.splits)
qed

text \<open>A launch marks what its response reports out of stock.\<close>

lemma marks_shared:
  "counter_fits (length ks) (lsUnavailable (csLaunch s)) \<Longrightarrow>
   sys_step\<^sup>*\<^sup>* (cloud_shared t s) (cloud_shared t (with_unavailable (fold (uo_mark t) ks (lsUnavailable (csLaunch s))) s))"
proof (induction ks arbitrary: s)
  case (Cons k ks)
  let ?u = "lsUnavailable (csLaunch s)"
  let ?s1 = "with_unavailable (uo_mark t k ?u) s"
  have one: "counter_fits 1 ?u" using Cons.prems by (simp add: counter_fits_def)
  have seq: "SeqNum (uo_mark t k ?u) = SeqNum ?u + of_nat 1" by (simp add: uo_mark_def MarkUnavailable_fields)
  have "counter_fits (length ks) (lsUnavailable (csLaunch ?s1))"
    using Cons.prems counter_fits_add[OF one seq] by (simp add: counter_fits_def)
  from Cons.IH[OF this] have rest: "sys_step\<^sup>*\<^sup>* (cloud_shared t ?s1)
      (cloud_shared t (with_unavailable (fold (uo_mark t) (k # ks) ?u) s))" by simp
  have "sys_step (cloud_shared t s) ((cloud_shared t s)\<lparr>sysTime := t, sysUnavailable := uo_mark t k ?u\<rparr>)"
    by (rule sys_step.marked) (use one in \<open>simp_all add: uo_mark_def\<close>)
  then have "sys_step (cloud_shared t s) (cloud_shared t ?s1)" by simp
  from this rest show ?case by (rule converse_rtranclp_into_rtranclp)
qed simp

lemma out_of_stock_length: "length (out_of_stock ct resp) \<le> length (launch_results resp)"
  unfolding out_of_stock_def launch_results_def length_map
  by (rule order_trans[OF length_filter_le]) (simp add: compact_def List.map_filter_def)

lemma launch_marks:
  assumes "instance_Create env t region nc cl its ls = (r, ls')"
  obtains (unchanged) "lsUnavailable ls' = lsUnavailable ls"
    | (marks) req resp ct where "lvCreateGroup env req = Ok resp"
      "lsUnavailable ls' = fold (uo_mark t) (out_of_stock ct resp) (lsUnavailable ls)"
proof -
  have "thesis" if launch: "launchInstance env t region nc cl chosen tags ls = (x, ls')" for chosen tags x
  proof -
    let ?ct = "getCapacityType cl chosen"
    have keep: "lsUnavailable st' = lsUnavailable st"
      if "getProvisioningGroup env t region nc cl chosen zs ?ct tags st = (a, st')" for zs st a st'
      using getProvisioningGroup_unavailable[of env t region nc cl chosen zs ?ct tags st] that by simp
    show thesis
      using launch unchanged marks[of _ _ ?ct]
      by (auto simp: launchInstance_def Let_def updateUnavailable_marks split: outcome.splits prod.splits dest!: keep)
  qed
  with assms unchanged show thesis
    by (auto simp: instance_Create_def Let_def split: option.splits outcome.splits prod.splits)
qed

lemma cp_Create_shared:
  assumes "cp_Create env t cl s = (r, s')" and "room_for_launch (ceLaunch env) (lsUnavailable (csLaunch s))"
  shows "sys_step\<^sup>*\<^sup>* (cloud_shared t s) (cloud_shared t s')"
proof -
  have types: "sys_step\<^sup>*\<^sup>* (cloud_shared t s) (cloud_shared t s1)"
    "lsUnavailable (csLaunch s1) = lsUnavailable (csLaunch s)"
    if "resolveInstanceTypes env t cl nc s = (x, s1)" for nc x s1
  proof -
    from that obtain y where "list_types env t nc s = (y, s1)"
      by (auto simp: resolveInstanceTypes_def split: prod.splits)
    then show "sys_step\<^sup>*\<^sup>* (cloud_shared t s) (cloud_shared t s1)"
      "lsUnavailable (csLaunch s1) = lsUnavailable (csLaunch s)"
      by (rule list_types_shared, rule list_types_unavailable)
  qed
  have launch: "sys_step\<^sup>*\<^sup>* (cloud_shared t s1) (cloud_shared t (s1\<lparr>csLaunch := ls\<rparr>))"
    if "instance_Create (ceLaunch env) t region nc cl its (csLaunch s1) = (x, ls)"
      "lsUnavailable (csLaunch s1) = lsUnavailable (csLaunch s)" for region nc its x ls s1
    using that(1)
  proof (cases rule: launch_marks)
    case unchanged
    then show ?thesis by (simp add: cloud_shared_eq[of "s1\<lparr>csLaunch := ls\<rparr>" s1])
  next
    case (marks req resp ct)
    let ?u = "fold (uo_mark t) (out_of_stock ct resp) (lsUnavailable (csLaunch s1))"
    have "counter_fits (length (out_of_stock ct resp)) (lsUnavailable (csLaunch s1))"
      using assms(2) marks(1) that(2) out_of_stock_length[of ct resp]
      unfolding room_for_launch_def counter_fits_def by fastforce
    from marks_shared[OF this] have "sys_step\<^sup>*\<^sup>* (cloud_shared t s1) (cloud_shared t (with_unavailable ?u s1))" .
    moreover have "cloud_shared t (s1\<lparr>csLaunch := ls\<rparr>) = cloud_shared t (with_unavailable ?u s1)"
      by (rule cloud_shared_eq) (simp_all add: marks(2))
    ultimately show ?thesis by simp
  qed
  from assms(1) show ?thesis
    by (auto simp: cp_Create_def Let_def dest: types launch
        split: outcome.splits condition_status.splits prod.splits if_splits intro: rtranclp_trans)
qed

lemma interruption_shared:
  assumes "interruption_Reconcile cls kw t nd (lsUnavailable (csLaunch s)) = (r, u)"
    and "counter_fits 1 (lsUnavailable (csLaunch s))"
  shows "sys_step\<^sup>*\<^sup>* (cloud_shared t s) (cloud_shared t (with_unavailable u s))"
proof -
  consider "u = lsUnavailable (csLaunch s)" | it z where "u = uo_mark t (it, z, CapacityTypeSpot) (lsUnavailable (csLaunch s))"
    using assms(1) by (auto simp: interruption_Reconcile_def Let_def uo_mark_def split: if_splits sum.splits prod.splits)
  then show ?thesis
  proof cases
    case 1
    then show ?thesis by (simp add: cloud_shared_def)
  next
    case 2
    with marks_shared[of "[(it, z, CapacityTypeSpot)]" s t] assms(2) show ?thesis by simp
  qed
qed

lemma works_shared:
  "types_work env t (csTypes s) = Some (r, p) \<Longrightarrow> sys_step (cloud_shared t s) (cloud_shared t (s\<lparr>csTypes := p\<rparr>))"
  "offers_work env t (csTypes s) = Some (r, p) \<Longrightarrow> sys_step (cloud_shared t s) (cloud_shared t (s\<lparr>csTypes := p\<rparr>))"
  using sys_step.types[of "cloud_shared t s" t _ _ _ r p] sys_step.offerings[of "cloud_shared t s" t _ _ r p]
  by (simp_all add: types_work_def offers_work_def)

lemma refresh_types_shared:
  assumes "refresh_types parse describe env in_order t s = Some (r, s')"
  shows "sys_step\<^sup>*\<^sup>* (cloud_shared t s) (cloud_shared t s')"
proof -
  obtain env' p where run: "instancetype_Reconcile env' in_order t (csTypes s) = Some (r, p)"
    and s': "lsUnavailable (csLaunch s') = lsUnavailable (csLaunch s)" "csTypes s' = p"
    using assms by (auto simp: refresh_types_def Let_def split: prod.splits)
  let ?f = "types_work env' t" and ?g = "offers_work env' t"
  from run obtain a b where "both in_order ?f ?g (csTypes s) = Some (a, b, p)"
    by (auto simp: instancetype_Reconcile_def refresh_Reconcile_def split: option.splits prod.splits)
  then obtain q x y where
    "?f (csTypes s) = Some (x, q) \<and> ?g q = Some (y, p) \<or> ?g (csTypes s) = Some (x, q) \<and> ?f q = Some (y, p)"
    by (auto simp: both_def split: if_splits option.splits prod.splits)
  then have "sys_step (cloud_shared t s) (cloud_shared t (s\<lparr>csTypes := q\<rparr>))"
    "sys_step (cloud_shared t (s\<lparr>csTypes := q\<rparr>)) (cloud_shared t (s\<lparr>csTypes := p\<rparr>))"
    using works_shared[of env' t s x q] works_shared[of env' t "s\<lparr>csTypes := q\<rparr>" y p] by auto
  moreover have "cloud_shared t s' = cloud_shared t (s\<lparr>csTypes := p\<rparr>)" by (rule cloud_shared_eq) (simp_all add: s')
  ultimately show ?thesis by (simp add: converse_rtranclp_into_rtranclp r_into_rtranclp)
qed

lemma evict_shared:
  assumes "clusterTime c \<le> t" "counter_fits (evictions t (ctUnavailable c)) (ctUnavailable c)"
  shows "sys_step (shared c)
    (shared (c\<lparr>clusterTime := t, ctCloud := with_unavailable (uo_evict t (ctUnavailable c)) (ctCloud c)\<rparr>))"
proof -
  have "sys_step (shared c) ((shared c)\<lparr>sysTime := t, sysUnavailable := uo_evict t (ctUnavailable c)\<rparr>)"
    by (rule sys_step.evicted) (use assms in \<open>simp_all add: shared_def\<close>)
  then show ?thesis by (simp add: shared_def)
qed

lemma sweep_shared:
  assumes "clusterTime c \<le> t"
  shows "sys_step (shared c) (shared ((sweep t c)\<lparr>clusterTime := t\<rparr>))"
proof -
  have "sys_step (shared c) ((shared c)\<lparr>sysTime := t, sysTypes := sweep_types t (csTypes (ctCloud c))\<rparr>)"
    by (rule sys_step.swept) (use assms in \<open>simp_all add: shared_def\<close>)
  moreover have "shared ((sweep t c)\<lparr>clusterTime := t\<rparr>)
      = cloud_shared t ((ctCloud c)\<lparr>csTypes := sweep_types t (csTypes (ctCloud c))\<rparr>)"
    by (simp add: shared_def cloud_shared_def sweep_def sweep_launch_def)
  ultimately show ?thesis by (simp add: shared_def)
qed

lemma cluster_step_shared:
  assumes "cluster_step c c'"
  shows "sys_step\<^sup>*\<^sup>* (shared c) (shared c')"
  using assms
proof (induction rule: cluster_step.induct)
  case (created c t env cl r s)
  from wait_then[OF created(1) cp_Create_shared[OF created(3,2)]] show ?case by (simp add: shared_def)
next
  case (retrieved c t env r s)
  from wait_then[OF retrieved(1) cp_List_shared[OF retrieved(2)]] show ?case by (simp add: shared_def)
next
  case (got c t env i r s)
  from wait_then[OF got(1) cp_Get_shared[OF got(2)]] show ?case by (simp add: shared_def)
next
  case (deleted c t env cl r s)
  from wait_then[OF deleted(1), of s] cp_Delete_shared[OF deleted(2), of t] show ?case by (simp add: shared_def)
next
  case (drifted c t env cl r s)
  from wait_then[OF drifted(1), of s] IsDrifted_shared[OF drifted(2), of t] show ?case by (simp add: shared_def)
next
  case (offered c t env np r s)
  from wait_then[OF offered(1) GetInstanceTypes_shared[OF offered(2)]] show ?case by (simp add: shared_def)
next
  case (collected c t genv kw r n s)
  from wait_then[OF collected(1) gc_Reconcile_shared[OF collected(2)]] show ?case by (simp add: shared_def)
next
  case (tagged c t tenv kw cl r p)
  from wait_then[OF tagged(1), of "(ctCloud c)\<lparr>csInstances := p\<rparr>"] show ?case by (simp add: shared_def cloud_shared_def)
next
  case (interrupted c t cls kw nd r u)
  from wait_then[OF interrupted(1) interruption_shared[OF interrupted(3,2)]] show ?case by (simp add: shared_def)
next
  case (resolved c t senv kw nc r st)
  from wait_then[OF resolved(1), of "ctCloud (with_status st c)"] show ?case
    by (simp add: shared_def cloud_shared_def with_status_def)
next
  case (refreshed c t parse describe renv ord r s)
  from wait_then[OF refreshed(1) refresh_types_shared[OF refreshed(2)]] show ?case by (simp add: shared_def)
next
  case (priced c t turns sa oa r p)
  from wait_then[OF priced(1), of "(ctCloud c)\<lparr>csPricing := p\<rparr>"] show ?case by (simp add: shared_def cloud_shared_def)
next
  case (expired c t)
  then show ?case by (rule r_into_rtranclp[where r = sys_step, OF evict_shared])
next
  case (swept c t)
  then show ?case by (rule r_into_rtranclp[where r = sys_step, OF sweep_shared])
qed

interpretation process: simulation cluster_step sys_step shared
  by unfold_locales (rule cluster_step_shared)

section \<open>Reachable states\<close>

definition reachable :: "cluster_state \<Rightarrow> bool" where
  "reachable c \<longleftrightarrow> (\<exists>clients prices opts region op start. NewOperator clients prices opts region = Some op
     \<and> 0 \<le> start \<and> cluster_step\<^sup>*\<^sup>* (cluster_of start op) c)"

lemma reachable_step: "reachable c \<Longrightarrow> cluster_step c c' \<Longrightarrow> reachable c'"
  unfolding reachable_def by (meson rtranclp.rtrancl_into_rtrancl)

lemma reachable_steps: "cluster_step\<^sup>*\<^sup>* c c' \<Longrightarrow> reachable c \<Longrightarrow> reachable c'"
  by (induction rule: rtranclp_induct) (auto intro: reachable_step)

lemma reachable_invariant:
  assumes "reachable c"
    and init: "\<And>clients prices opts region op start. NewOperator clients prices opts region = Some op \<Longrightarrow> 0 \<le> start \<Longrightarrow>
      P (cluster_of start op)"
    and step: "\<And>c c'. cluster_step c c' \<Longrightarrow> P c \<Longrightarrow> P c'"
  shows "P c"
proof -
  obtain clients prices opts region op start where op: "NewOperator clients prices opts region = Some op" "0 \<le> start"
    and run: "cluster_step\<^sup>*\<^sup>* (cluster_of start op) c" using assms(1) unfolding reachable_def by blast
  from run show ?thesis by (induction rule: rtranclp_induct) (auto intro: init[OF op] step)
qed

lemma reachable_respects: "reachable c \<Longrightarrow> marks_respected (shared c)"
proof -
  assume "reachable c"
  then obtain clients prices opts region op start where op: "NewOperator clients prices opts region = Some op" "0 \<le> start"
    and run: "cluster_step\<^sup>*\<^sup>* (cluster_of start op) c" unfolding reachable_def by blast
  have "shared (cluster_of start op) = sys_init start region"
    using new_operator_wf(4)[OF op(1), of start] by (simp add: shared_def cloud_shared_def cluster_of_def)
  then have "marks_respected (shared (cluster_of start op))" using marks_respected_init[OF op(2)] by simp
  from process.invariant[where P = marks_respected, OF run this marks_respected_step] show ?thesis .
qed

lemma steps_forward: "cluster_step\<^sup>*\<^sup>* c c' \<Longrightarrow> forward (shared c) (shared c')"
  using process.invariant[of c c' "forward (shared c)"] forward_step
  by (force simp: forward_def)

text \<open>What \<open>list_types\<close> answers is a listing of the shared state.\<close>

lemma list_types_listing:
  assumes "list_types env now nc (ctCloud c) = (Ok its, s)"
  obtains p where "itp_List (types_env env (ctCloud c)) now (KubeletConfiguration (ncSpec nc)) nc (sysTypes (shared c))
      = (Ok its, p)"
    and "leUnavailable (types_env env (ctCloud c)) = sysUnavailable (shared c)"
  using assms that by (auto simp: list_types_def Let_def shared_def split: prod.splits)

lemma mark_withheld:
  assumes "reachable c" "IsUnavailable until it z ct (ctUnavailable c)" "until \<le> clusterTime c + UnavailableOfferingsTTL"
    and "cluster_step\<^sup>*\<^sup>* c c'" "clusterTime c' \<le> now" "now \<le> until"
    and "list_types env now nc (ctCloud c') = (Ok its, s)" "ty \<in> set its" "itName ty = it"
  shows "\<not> launchable z ct ty"
proof -
  have inv: "marks_respected (shared c')" by (rule reachable_respects[OF reachable_steps[OF assms(4,1)]])
  have "mark_lasts it z ct until (shared c)"
    using assms(2,3) marks_respectedD(1,2)[OF reachable_respects[OF assms(1)]]
    by (simp add: mark_lasts_def shared_def)
  from process.invariant[where P = "mark_lasts it z ct until", OF assms(4) this mark_lasts_step] assms(5,6)
  have "IsUnavailable until it z ct (sysUnavailable (shared c'))" by (simp add: mark_lasts_def shared_def)
  moreover obtain p where run: "itp_List (types_env env (ctCloud c')) now (KubeletConfiguration (ncSpec nc)) nc
      (sysTypes (shared c')) = (Ok its, p)"
    and u: "leUnavailable (types_env env (ctCloud c')) = sysUnavailable (shared c')"
    by (rule list_types_listing[OF assms(7)])
  have "sysTime (shared c') \<le> now" using assms(5) by (simp add: shared_def)
  from listing_respects[OF inv this u run] have "answer_respects ((shared c')\<lparr>sysTime := now, sysTypes := p\<rparr>)
      (SeqNum (sysUnavailable (shared c'))) its" unfolding u .
  ultimately show ?thesis using assms(6,8,9) unfolding answer_respects_def by simp
qed

lemma reachable_unavailable_wf: "reachable c \<Longrightarrow> cache_wf (uoCache (ctUnavailable c))"
  using marks_respectedD(1)[OF reachable_respects] by (simp add: shared_def)

lemma evictions_fit:
  "counter_fits (length (cache_items (uoCache u))) u \<Longrightarrow> counter_fits (evictions t u) u"
  unfolding counter_fits_def
  by (rule le_less_trans) (simp_all add: cache_delete_expired_def)

lemma expired_mark_gone:
  assumes "reachable c" "map_of (cache_items (uoCache (ctUnavailable c))) (key it z ct) = Some item" "item_expired t item"
  shows "\<not> IsUnavailable t' it z ct (uo_evict t (ctUnavailable c))"
  using evicted_key_gone(2)[OF reachable_unavailable_wf[OF assms(1)] assms(2,3)] by (simp add: IsUnavailable_def)

text \<open>The first listing after the janitor removed a mark.\<close>

lemma expired_mark_returns:
  assumes "reachable c" "clusterTime c \<le> t" "counter_fits (evictions t (ctUnavailable c)) (ctUnavailable c)"
    and "map_of (cache_items (uoCache (ctUnavailable c))) (key it z ct) = Some item" "item_expired t item"
    and "c1 = c\<lparr>clusterTime := t, ctCloud := with_unavailable (uo_evict t (ctUnavailable c)) (ctCloud c)\<rparr>"
    and "cluster_step\<^sup>*\<^sup>* c1 c2"
    and "instanceTypesCache (csTypes (ctCloud c2)) = instanceTypesCache (csTypes (ctCloud c1))"
    and "list_types env now nc (ctCloud c2) = (Ok its, s)" "ty \<in> set its" "itName ty = it"
  shows "launchable z ct ty \<longleftrightarrow>
      z \<in> svZoneID ` set (stVSwitches (ncStatus nc))
      \<and> \<not> IsUnavailable now it z ct (ctUnavailable c2)
      \<and> (ct = CapacityTypeOnDemand \<and> z \<in> set (zones_of (instanceTypesOfferings (csTypes (ctCloud c2))) it)
           \<and> OnDemandPrice it (csPricing (ctCloud c2)) \<noteq> None
       \<or> ct = CapacityTypeSpot \<and> z \<in> set (zones_of (spotInstanceTypesOfferings (csTypes (ctCloud c2))) it)
           \<and> (\<exists>t zs. (t, zs) \<in> set (instanceTypesOfferings (csTypes (ctCloud c2))) \<and> z \<in> set zs)
           \<and> SpotPrice it z (csPricing (ctCloud c2)) \<noteq> None)"
proof -
  note inv = reachable_respects[OF assms(1)]
  note moved = evicted_key_gone(1)[OF reachable_unavailable_wf[OF assms(1)] assms(4,5)]
  have seq: "unat (SeqNum (uo_evict t (ctUnavailable c))) \<le> unat (SeqNum (ctUnavailable c2))"
    using steps_forward[OF assms(7)] by (simp add: forward_def shared_def assms(6))
  have "cache_get now (list_cache_key a b (SeqNum (ctUnavailable c2)) h k) (instanceTypesCache (csTypes (ctCloud c2))) = None"
    for a b h k
    using no_answer_under_new_counter[OF inv, of t "SeqNum (ctUnavailable c2)" now a b h k] assms(3,8) moved seq
    by (simp add: shared_def assms(6))
  then have miss: "cache_get now (list_key (types_env env (ctCloud c2)) (given_kubelet (KubeletConfiguration (ncSpec nc))) nc
      (csTypes (ctCloud c2))) (instanceTypesCache (csTypes (ctCloud c2))) = None" by (simp add: list_key_def)
  obtain p where run: "itp_List (types_env env (ctCloud c2)) now (KubeletConfiguration (ncSpec nc)) nc
      (csTypes (ctCloud c2)) = (Ok its, p)"
    using list_types_listing[OF assms(9)] by (auto simp: shared_def)
  from fresh_launchable_iff[OF miss run assms(10) assms(11)[symmetric]] show ?thesis by (simp add: types_env_def)
qed

section \<open>A concrete run\<close>

text \<open>A process that knows one instance type, in stock in one zone, as spot and on demand; its
  network is unnamed, so the ACK provider keeps asking.\<close>

definition sample_operator :: operator where
  "sample_operator = the (NewOperator [] [(''cn-beijing'', [(''ecs.g7.large'', 2)])]
     \<lparr>ClusterID = ''c1'', optVMMemoryOverheadPercent = 0, Interruption = True, TelemetryShare = False, APGCreationQPS = 100\<rparr>
     ''cn-beijing'')"

definition sample_started :: cluster_state where
  "sample_started = cluster_of 0 sample_operator"

definition sample_running :: cluster_state where
  "sample_running = sample_started\<lparr>clusterTime := 1,
     ctCloud := (ctCloud sample_started)\<lparr>csTypes := sample_sys_offers\<rparr>\<rparr>"

definition sample_refresh :: types_env_refresh where
  "sample_refresh = \<lparr>trTypes = (\<lambda>_. Ok (Some \<lparr>pgItems = [sample_info], pgNextToken = None\<rparr>)), trCNI = Ok [],
     trTypesHash = (\<lambda>_. 7), trOffers = sample_available, trOffersHash = (\<lambda>_. 7)\<rparr>"

definition sample_spot_claim :: node_claim where
  "sample_spot_claim = zero_claim\<lparr>clNodeName := ''n1'',
     clLabels := [(LabelTopologyZone, ''b''), (LabelInstanceTypeStable, ''ecs.g7.large'')]\<rparr>"

definition sample_marked :: cluster_state where
  "sample_marked = sample_running\<lparr>clusterTime := 2, ctCloud := with_unavailable
     (MarkUnavailable 2 ''ecs.g7.large'' ''b'' CapacityTypeSpot NewUnavailableOfferings) (ctCloud sample_running)\<rparr>"

definition sample_listing_env :: cloud_env where
  "sample_listing_env = sample_cloud_env\<lparr>ceJson := (\<lambda>_. Ok JNull), ceCluster := Ok (Some [])\<rparr>"

lemma sample_started_fields:
  "csTypes (ctCloud sample_started) = NewInstanceTypeProvider ''cn-beijing'' (cache_new InstanceTypesAndZonesTTL)"
  "ctUnavailable sample_started = NewUnavailableOfferings" "clusterTime sample_started = 0"
  "csPricing (ctCloud sample_started) = lePricing sample_env"
  "lsAck (csLaunch (ctCloud sample_started)) = NewAckProvider ''c1'' (cache_new ClusterAttachScriptTTL)"
  by (simp_all add: sample_started_def sample_operator_def NewOperator_def cluster_of_def sample_env_def)

lemma sample_cni: "GetClusterCNI (\<lambda>_. Ok JNull) (Ok (Some [])) (NewAckProvider i c) = (Ok [], NewAckProvider i c)"
  by (simp add: GetClusterCNI_def NewAckProvider_def)

lemma reachable_started: "reachable sample_started"
proof -
  have "NewOperator [] [(''cn-beijing'', [(''ecs.g7.large'', 2)])]
     \<lparr>ClusterID = ''c1'', optVMMemoryOverheadPercent = 0, Interruption = True, TelemetryShare = False, APGCreationQPS = 100\<rparr>
     ''cn-beijing'' = Some sample_operator"
    by (simp add: sample_operator_def NewOperator_def)
  then show ?thesis unfolding reachable_def sample_started_def by blast
qed

lemma reachable_running: "reachable sample_running"
proof -
  let ?s = "(ctCloud sample_started)\<lparr>csTypes := sample_sys_offers\<rparr>"
  let ?env = "sample_refresh\<lparr>trCNI := Ok []\<rparr>"
  have "\<exists>r. instancetype_Reconcile ?env True 1 (csTypes (ctCloud sample_started)) = Some (r, sample_sys_offers)"
    by (simp add: instancetype_Reconcile_def refresh_Reconcile_def both_def types_work_def offers_work_def
        sample_refresh_def sample_started_fields sample_updates)
  then obtain r where "refresh_types (\<lambda>_. Ok JNull) (Ok (Some [])) sample_refresh True 1 (ctCloud sample_started) = Some (r, ?s)"
    by (auto simp: refresh_types_def sample_started_fields sample_cni Let_def split: option.splits outcome.splits)
  from cluster_step.refreshed[OF _ this] have "cluster_step sample_started sample_running"
    by (simp add: sample_running_def sample_started_fields)
  with reachable_started show ?thesis by (rule reachable_step)
qed

lemma reachable_marked: "reachable sample_marked"
proof -
  have u: "ctUnavailable sample_running = NewUnavailableOfferings"
    by (simp add: sample_running_def sample_started_fields)
  have run: "\<exists>r. interruption_Reconcile (Inr [sample_spot_claim]) (\<lambda>_. None) 2 sample_node (ctUnavailable sample_running)
      = (r, MarkUnavailable 2 ''ecs.g7.large'' ''b'' CapacityTypeSpot NewUnavailableOfferings)"
    unfolding u by (simp add: interruption_Reconcile_def is_interrupted_def sample_node_def getNodeClaimByNodeName_def
        sample_spot_claim_def zero_claim_def map_get_def label_defs deleteNodeClaim_def)
  then obtain r where "interruption_Reconcile (Inr [sample_spot_claim]) (\<lambda>_. None) 2 sample_node (ctUnavailable sample_running)
      = (r, MarkUnavailable 2 ''ecs.g7.large'' ''b'' CapacityTypeSpot NewUnavailableOfferings)" by blast
  moreover have "counter_fits 1 (ctUnavailable sample_running)"
    unfolding u by (simp add: counter_fits_def NewUnavailableOfferings_def NewUnavailableOfferingsWithCache_def)
  moreover have "clusterTime sample_running \<le> 2" by (simp add: sample_running_def)
  ultimately have "cluster_step sample_running sample_marked"
    unfolding sample_marked_def by (intro cluster_step.interrupted)
  with reachable_running show ?thesis by (rule reachable_step)
qed

text \<open>Whatever is marked, the type is listed.\<close>

lemma sample_listing:
  assumes "csTypes s = sample_sys_offers" "csPricing s = lePricing sample_env"
    and "lsAck (csLaunch s) = NewAckProvider ''c1'' (cache_new ClusterAttachScriptTTL)"
  shows "\<exists>ty s'. list_types sample_listing_env now sample_nc s = (Ok [ty], s') \<and> itName ty = ''ecs.g7.large''"
proof -
  let ?le = "types_env sample_listing_env s"
  let ?ofs = "createOfferings now (lePricing ?le) (leUnavailable ?le) ''ecs.g7.large''
      (map (zone_data_of sample_sys_offers (vswitch_zones sample_nc) ''ecs.g7.large'') (allZones sample_sys_offers))"
  have pr: "lePricing ?le = lePricing sample_env" "ClusterCNI ?le = Ok []"
    by (simp_all add: types_env_def assms sample_listing_env_def sample_cni)
  have "?ofs \<noteq> []"
  proof -
    have "OnDemandPrice ''ecs.g7.large'' (lePricing sample_env) \<noteq> None" by code_simp
    then show ?thesis by (auto simp: pr createOfferings_def allZones_def sample_sys_fields zone_offerings_def)
  qed
  then obtain ty where ty: "NewInstanceType (leRnd ?le) (VMMemoryOverheadPercent ?le) sample_info
      empty_kubelet (itpRegion sample_sys_offers) (SystemDisk (ncSpec sample_nc)) ?ofs [] = Ok (Some ty)"
    using never_windows
    by (auto simp: NewInstanceType_def Let_def sample_info_def computeCapacity_def cpu_def ephemeralStorage_def
        nvidiaGPUs_def amdGPUs_def gpus_of_def DefaultSystemDisk_def sample_nc_def zero_nodeclass_def)
  have "type_of_info ?le now empty_kubelet sample_nc (vswitch_zones sample_nc) [] sample_sys_offers sample_info
      = Ok (Some ty)"
    using ty by (simp add: type_of_info_def sample_info_def)
  moreover have "validateState sample_nc sample_sys_offers = None" "KubeletConfiguration (ncSpec sample_nc) = None"
    by (simp_all add: validateState_def sample_sys_fields sample_nc_def zero_nodeclass_def)
  ultimately have "fst (list_types sample_listing_env now sample_nc s) = Ok [ty]"
    by (simp add: list_types_def itp_List_def Let_def assms(1) sample_sys_fields pr compact_def case_prod_unfold)
  moreover have "itName ty = ''ecs.g7.large''" using NewInstanceType_Some[OF ty] by (simp add: sample_info_def)
  ultimately show ?thesis by (metis prod.collapse)
qed

lemma sample_marked_fields:
  "csTypes (ctCloud sample_marked) = sample_sys_offers" "csPricing (ctCloud sample_marked) = lePricing sample_env"
  "lsAck (csLaunch (ctCloud sample_marked)) = NewAckProvider ''c1'' (cache_new ClusterAttachScriptTTL)"
  "clusterTime sample_marked = 2"
  "ctUnavailable sample_marked = MarkUnavailable 2 ''ecs.g7.large'' ''b'' CapacityTypeSpot NewUnavailableOfferings"
  "IsUnavailable t ''ecs.g7.large'' ''b'' CapacityTypeSpot
     (MarkUnavailable 2 ''ecs.g7.large'' ''b'' CapacityTypeSpot NewUnavailableOfferings) \<longleftrightarrow> t \<le> 2 + UnavailableOfferingsTTL"
  using uo.mark_same[of 2 t "(''ecs.g7.large'', ''b'', CapacityTypeSpot)" NewUnavailableOfferings]
  by (simp_all add: sample_marked_def sample_running_def sample_started_fields uo_unavailable_def uo_mark_def)

lemma sample_mark_items:
  "uoCache (ctUnavailable sample_marked) = \<lparr>defaultExpiration = UnavailableOfferingsTTL,
     cache_items = [(key ''ecs.g7.large'' ''b'' CapacityTypeSpot, \<lparr>Object = (), Expiration = 2 + UnavailableOfferingsTTL\<rparr>)]\<rparr>"
  "SeqNum (ctUnavailable sample_marked) = 1"
  by (simp_all add: sample_marked_fields(5) MarkUnavailable_def MarkUnavailableWithTTL_def NewUnavailableOfferings_def
      NewUnavailableOfferingsWithCache_def cache_new_def cache_set_def go_simps)

lemma sample_mark_stored:
  "map_of (cache_items (uoCache (ctUnavailable sample_marked))) (key ''ecs.g7.large'' ''b'' CapacityTypeSpot)
     = Some \<lparr>Object = (), Expiration = 2 + UnavailableOfferingsTTL\<rparr>"
  by (simp add: sample_mark_items)

lemma sample_marks_fit:
  "counter_fits (length (cache_items (uoCache (ctUnavailable sample_marked)))) (ctUnavailable sample_marked)"
  unfolding counter_fits_def sample_mark_items by simp

end
