(* ===== verification/Cluster_Wf.thy ===== *)
theory Cluster_Wf
  imports Cluster
begin

text \<open>
  The well-formedness of all provider state: in every reachable state each cache has every key
  once, keeps the time to live it was created with and holds entries that expire within it, and the
  instance cache stores instances under their ids. These are the hypotheses under
  which the theories of the providers state what their caches answer.
\<close>

section \<open>The invariant\<close>

definition unavailable_wf :: "int \<Rightarrow> unavailable_offerings \<Rightarrow> bool" where
  "unavailable_wf now u = cache_ok UnavailableOfferingsTTL now (uoCache u)"

definition vswitches_wf :: "int \<Rightarrow> vswitch_provider \<Rightarrow> bool" where
  "vswitches_wf now p = (cache_ok DefaultTTL now (vsCache p) \<and> cache_ok AvailableIPAddressTTL now (availableIPAddressCache p)
     \<and> distinct (map fst (inflightIPs p)))"

definition ack_wf :: "int \<Rightarrow> ack_provider \<Rightarrow> bool" where
  "ack_wf now p = cache_ok ClusterAttachScriptTTL now (ackCache p)"

definition types_wf :: "int \<Rightarrow> instance_type_provider \<Rightarrow> bool" where
  "types_wf now p = (cache_ok InstanceTypesAndZonesTTL now (instanceTypesCache p) \<and> cache_ok (24 * Hour) now (itpCm p))"

definition version_wf :: "int \<Rightarrow> version_provider \<Rightarrow> bool" where
  "version_wf now p = (cache_ok KubernetesVersionTTL now (verCache p) \<and> cache_ok (24 * Hour) now (verCm p))"

definition launch_wf :: "int \<Rightarrow> launch_state \<Rightarrow> bool" where
  "launch_wf now ls = (unavailable_wf now (lsUnavailable ls) \<and> vswitches_wf now (lsVSwitches ls)
     \<and> cache_ok InstanceTypeAvailableDiskTTL now (lsDisks ls) \<and> ack_wf now (lsAck ls))"

definition instances_wf :: "int \<Rightarrow> instance_provider \<Rightarrow> bool" where
  "instances_wf now p = (ip_wf p \<and> cache_ok instanceCacheExpiration now (instanceCache p))"

definition cloud_wf :: "int \<Rightarrow> cloud_state \<Rightarrow> bool" where
  "cloud_wf now s = (types_wf now (csTypes s) \<and> launch_wf now (csLaunch s) \<and> instances_wf now (csInstances s))"

definition cluster_wf :: "cluster_state \<Rightarrow> bool" where
  "cluster_wf c = (cloud_wf (clusterTime c) (ctCloud c) \<and> cache_ok DefaultTTL (clusterTime c) (ctGroups c)
     \<and> version_wf (clusterTime c) (ctVersion c) \<and> cache_ok DefaultTTL (clusterTime c) (ctImages c))"

lemmas wf_defs = cluster_wf_def cloud_wf_def launch_wf_def unavailable_wf_def vswitches_wf_def ack_wf_def types_wf_def
  version_wf_def instances_wf_def

lemma cloud_wf_later: "cloud_wf now s \<Longrightarrow> now \<le> t \<Longrightarrow> cloud_wf t s"
  by (auto simp: wf_defs intro: cache_ok_later)

section \<open>Marks\<close>

lemma unavailable_wf_mark: "unavailable_wf now u \<Longrightarrow> unavailable_wf now (uo_mark now k u)"
  by (auto simp: unavailable_wf_def uo_mark_def MarkUnavailable_def MarkUnavailableWithTTL_def go_simps intro: cache_ok_set)

lemma unavailable_wf_marks: "unavailable_wf now u \<Longrightarrow> unavailable_wf now (fold (uo_mark now) ks u)"
  by (induction ks arbitrary: u) (simp_all add: unavailable_wf_mark)

lemma unavailable_wf_evict: "unavailable_wf now u \<Longrightarrow> unavailable_wf now (uo_evict t u)"
  by (simp add: unavailable_wf_def uo_evict_def Let_def case_prod_unfold)

section \<open>Instances\<close>

lemma instances_wf_sync: "instances_wf t p \<Longrightarrow> instances_wf t (syncAllInstances t ins p)"
proof (induction ins arbitrary: p)
  case (Cons i ins)
  let ?p = "p\<lparr>instanceCache := cache_set t (inID i) i 0 (instanceCache p)\<rparr>"
  have "instances_wf t ?p"
    using Cons.prems ip_wf_sync[of p t "[i]"] by (simp add: instances_wf_def syncAllInstances_def)
  from Cons.IH[OF this] show ?case by (simp add: syncAllInstances_def)
qed (simp add: syncAllInstances_def)

lemma instances_wf_time [simp]: "instances_wf now (p\<lparr>lastUpdateTime := t\<rparr>) = instances_wf now p"
  by (simp add: instances_wf_def)

lemma instances_wf_List: "instances_wf t p \<Longrightarrow> instance_List api t p = Some (r, p') \<Longrightarrow> instances_wf t p'"
  by (auto simp: instance_List_def instances_wf_sync split: if_splits option.splits outcome.splits)

lemma instances_wf_Get: "instances_wf t p \<Longrightarrow> instance_Get api t i p = Some (r, p') \<Longrightarrow> instances_wf t p'"
  by (auto simp: instance_Get_def Let_def intro: instances_wf_sync instances_wf_List
      split: option.splits outcome.splits prod.splits)

lemma instances_wf_delete: "instances_wf t p \<Longrightarrow> instances_wf t (p\<lparr>instanceCache := cache_delete i (instanceCache p)\<rparr>)"
  using ip_wf_delete by (auto simp: instances_wf_def)

lemma instances_wf_Delete:
  assumes "instances_wf t p" "instance_Delete api del t i p = Some (r, p')"
  shows "instances_wf t p'"
  using assms
  by (auto simp: instance_Delete_def intro: instances_wf_Get instances_wf_delete
      split: option.splits outcome.splits prod.splits if_splits bool.splits)

section \<open>Operations\<close>

lemma itp_List_wf: "itp_List env t kc nc p = (r, p') \<Longrightarrow> types_wf t p \<Longrightarrow> types_wf t p'"
  by (auto simp: itp_List_def Let_def types_wf_def split: option.splits outcome.splits)

lemma works_wf:
  "types_work env t p = Some (r, p') \<Longrightarrow> types_wf t p \<Longrightarrow> types_wf t p'"
  "offers_work env t p = Some (r, p') \<Longrightarrow> types_wf t p \<Longrightarrow> types_wf t p'"
  by (auto simp: types_work_def offers_work_def UpdateInstanceTypes_def UpdateInstanceTypeOfferings_def Let_def types_wf_def
      case_prod_unfold split: option.splits outcome.splits)

lemma instancetype_Reconcile_wf:
  assumes "instancetype_Reconcile env ord t p = Some (r, p')" "types_wf t p"
  shows "types_wf t p'"
proof -
  from assms(1) obtain a b where "both ord (types_work env t) (offers_work env t) p = Some (a, b, p')"
    by (auto simp: instancetype_Reconcile_def refresh_Reconcile_def split: option.splits prod.splits)
  with assms(2) show ?thesis
    by (auto simp: both_def split: if_splits option.splits prod.splits dest: works_wf)
qed

lemma GetClusterCNI_wf: "GetClusterCNI parse describe p = (r, p') \<Longrightarrow> ack_wf t p \<Longrightarrow> ack_wf t p'"
  by (auto simp: GetClusterCNI_def ack_wf_def split: if_splits outcome.splits option.splits)

lemma GetNodeRegisterScript_wf: "GetNodeRegisterScript env t labels kc p = (r, p') \<Longrightarrow> ack_wf t p \<Longrightarrow> ack_wf t p'"
  by (auto simp: GetNodeRegisterScript_def ack_wf_def Let_def split: if_splits outcome.splits option.splits)

lemma filter_disks_wf:
  assumes "FilterInstanceTypesBySystemDisk order api t nc its c = Ok (kept, c')" "cache_ok ttl t c"
  shows "cache_ok ttl t c'"
proof -
  have "cache_ok ttl t (snd st')" if "outcome_fold (filter_worker api t wanted) xs st = Ok st'" "cache_ok ttl t (snd st)"
    for wanted xs st st'
    using that
  proof (induction xs arbitrary: st)
    case (Cons x xs)
    from Cons.prems obtain st1 where x: "filter_worker api t wanted x st = Ok st1"
      and rest: "outcome_fold (filter_worker api t wanted) xs st1 = Ok st'" by auto
    have "cache_ok ttl t (snd st1)"
      using x Cons.prems(2) by (auto simp: filter_worker_def Let_def split: option.splits outcome.splits)
    from Cons.IH[OF rest this] show ?case .
  qed simp
  with assms show ?thesis
    by (auto simp: FilterInstanceTypesBySystemDisk_def split: option.splits)
qed

lemma getProvisioningGroup_wf:
  assumes "getProvisioningGroup env t region nc cl its zs ct tags ls = (r, ls')" "launch_wf t ls"
  shows "launch_wf t ls'"
  using assms
  by (auto simp: getProvisioningGroup_def Let_def launch_wf_def
      split: outcome.splits prod.splits if_splits option.splits
      dest: GetNodeRegisterScript_wf filter_disks_wf)

lemma deduct_distinct: "distinct (map fst m) \<Longrightarrow> distinct (map fst (fold (deduct_step its ct) zs m))"
  by (induction zs arbitrary: m) (auto simp: deduct_step_def Let_def distinct_update case_prod_unfold)

lemma ZonalVSwitchesForLaunch_wf:
  "ZonalVSwitchesForLaunch t nc its ct p = (r, p') \<Longrightarrow> vswitches_wf t p \<Longrightarrow> vswitches_wf t p'"
  by (auto simp: ZonalVSwitchesForLaunch_def Let_def vswitches_wf_def deduct_distinct split: if_splits)

lemma launchInstance_wf:
  assumes "launchInstance env t region nc cl its tags ls = (r, ls')" "launch_wf t ls"
  shows "launch_wf t ls'"
proof -
  let ?ct = "getCapacityType cl its"
  obtain zonal vs where z: "ZonalVSwitchesForLaunch t nc its ?ct (lsVSwitches ls) = (zonal, vs)"
    by (cases "ZonalVSwitchesForLaunch t nc its ?ct (lsVSwitches ls)")
  have first: "launch_wf t (ls\<lparr>lsVSwitches := vs\<rparr>)"
    using assms(2) ZonalVSwitchesForLaunch_wf[OF z] by (simp add: launch_wf_def)
  have second: "launch_wf t st" if "getProvisioningGroup env t region nc cl its zs ?ct tags (ls\<lparr>lsVSwitches := vs\<rparr>) = (x, st)"
    for zs x st by (rule getProvisioningGroup_wf[OF that first])
  have third: "launch_wf t (st\<lparr>lsUnavailable := fold (uo_mark t) ks (lsUnavailable st)\<rparr>)" if "launch_wf t st" for st ks
    using that unavailable_wf_marks by (simp add: launch_wf_def)
  from assms(1) show ?thesis
    by (auto simp: launchInstance_def Let_def z updateUnavailable_marks intro: first second third
        split: outcome.splits prod.splits)
qed

lemma instance_Create_wf:
  assumes "instance_Create env t region nc cl its ls = (r, ls')" "launch_wf t ls"
  shows "launch_wf t ls'"
  using assms
  by (auto simp: instance_Create_def Let_def intro: launchInstance_wf split: option.splits outcome.splits prod.splits)

section \<open>The cloud provider\<close>

lemma list_types_wf:
  assumes "list_types env t nc s = (r, s')" "cloud_wf t s"
  shows "cloud_wf t s'"
proof -
  obtain p where p: "itp_List (types_env env s) t (KubeletConfiguration (ncSpec nc)) nc (csTypes s) = (r, p)"
    and s': "s' = s\<lparr>csTypes := p\<rparr> \<or> s' = s\<lparr>csTypes := p, csLaunch := (csLaunch s)\<lparr>lsAck :=
      snd (GetClusterCNI (ceJson env) (ceCluster env) (lsAck (csLaunch s)))\<rparr>\<rparr>"
    using assms(1) by (auto simp: list_types_def Let_def split: prod.splits if_splits)
  have "ack_wf t (snd (GetClusterCNI (ceJson env) (ceCluster env) (lsAck (csLaunch s))))"
    using assms(2) GetClusterCNI_wf[OF surjective_pairing] by (simp add: cloud_wf_def launch_wf_def)
  with s' assms(2) itp_List_wf[OF p] show ?thesis by (auto simp: cloud_wf_def launch_wf_def)
qed

lemma GetInstanceTypes_wf: "GetInstanceTypes env t np s = (r, s') \<Longrightarrow> cloud_wf t s \<Longrightarrow> cloud_wf t s'"
  by (auto simp: GetInstanceTypes_def intro: list_types_wf split: outcome.splits)

lemma claim_of_instance_wf:
  assumes "claim_of_instance env t i s = (r, s')" "cloud_wf t s"
  shows "cloud_wf t s'"
proof -
  have "cloud_wf t s1" if "resolveInstanceTypeFromInstance env t i s = (x, s1)" for x s1
    using that assms(2) GetInstanceTypes_wf[of env t _ s]
    by (auto simp: resolveInstanceTypeFromInstance_def Let_def split: outcome.splits prod.splits)
  with assms(1) show ?thesis
    by (auto simp: claim_of_instance_def split: outcome.splits prod.splits option.splits)
qed

lemma claims_of_instances_wf:
  "claims_of_instances env t is s = (r, s') \<Longrightarrow> cloud_wf t s \<Longrightarrow> cloud_wf t s'"
proof (induction "is" arbitrary: s r)
  case (Cons i "is")
  obtain x s1 where i: "claim_of_instance env t i s = (x, s1)" by (cases "claim_of_instance env t i s")
  note first = claim_of_instance_wf[OF i Cons.prems(2)]
  show ?case
  proof (cases x)
    case (Ok cl)
    obtain y s2 where rest: "claims_of_instances env t is s1 = (y, s2)" by (cases "claims_of_instances env t is s1")
    with Cons.prems i Ok have s': "s' = s2" by simp
    from Cons.IH[OF rest[folded s'] first] show ?thesis .
  qed (use first Cons.prems i in auto)
qed simp

lemma with_instances: "cloud_wf t s \<Longrightarrow> instances_wf t p \<Longrightarrow> cloud_wf t (s\<lparr>csInstances := p\<rparr>)"
  by (simp add: cloud_wf_def)

lemma cloud_instances: "cloud_wf t s \<Longrightarrow> instances_wf t (csInstances s)"
  by (simp add: cloud_wf_def)

lemma cp_List_wf:
  assumes "cp_List env t s = Some (r, s')" "cloud_wf t s"
  shows "cloud_wf t s'"
proof -
  have "cloud_wf t (s\<lparr>csInstances := p\<rparr>)" if "instance_List (ceOwned env s) t (csInstances s) = Some (x, p)" for x p
    using instances_wf_List[OF cloud_instances[OF assms(2)] that] assms(2) by (simp add: with_instances)
  with assms(1) show ?thesis
    by (auto simp: cp_List_def intro: claims_of_instances_wf split: option.splits outcome.splits prod.splits)
qed

lemma cp_Get_wf:
  assumes "cp_Get env t i s = Some (r, s')" "cloud_wf t s"
  shows "cloud_wf t s'"
proof -
  have "cloud_wf t (s\<lparr>csInstances := p\<rparr>)" if "instance_Get (ceOwned env s) t i' (csInstances s) = Some (x, p)" for i' x p
    using instances_wf_Get[OF cloud_instances[OF assms(2)] that] assms(2) by (simp add: with_instances)
  with assms show ?thesis
    by (auto simp: cp_Get_def intro: claim_of_instance_wf split: option.splits outcome.splits prod.splits)
qed

lemma cp_Delete_wf:
  assumes "cp_Delete env t cl s = Some (r, s')" "cloud_wf t s"
  shows "cloud_wf t s'"
proof -
  have "cloud_wf t (s\<lparr>csInstances := p\<rparr>)"
    if "instance_Delete (ceOwned env s) (ceDelete env) t i (csInstances s) = Some (x, p)" for i x p
    using instances_wf_Delete[OF cloud_instances[OF assms(2)] that] assms(2) by (simp add: with_instances)
  with assms show ?thesis by (auto simp: cp_Delete_def split: outcome.splits)
qed

lemma IsDrifted_wf:
  assumes "IsDrifted env t cl s = Some (r, s')" "cloud_wf t s"
  shows "cloud_wf t s'"
proof -
  have "cloud_wf t (s\<lparr>csInstances := p\<rparr>)" if "instance_Get (ceOwned env s) t i (csInstances s) = Some (x, p)" for i x p
    using instances_wf_Get[OF cloud_instances[OF assms(2)] that] assms(2) by (simp add: with_instances)
  with assms show ?thesis
    by (auto simp: IsDrifted_def isNodeClassDrifted_def getInstance_def Let_def
        split: outcome.splits option.splits if_splits)
qed

lemma cp_Create_wf:
  assumes "cp_Create env t cl s = (r, s')" "cloud_wf t s"
  shows "cloud_wf t s'"
proof -
  have types: "cloud_wf t s1" if "resolveInstanceTypes env t cl nc s = (x, s1)" for nc x s1
    using that list_types_wf[OF _ assms(2)] by (auto simp: resolveInstanceTypes_def split: prod.splits)
  have "cloud_wf t (s1\<lparr>csLaunch := ls\<rparr>)"
    if "resolveInstanceTypes env t cl nc s = (x, s1)"
      "instance_Create (ceLaunch env) t region nc' cl its (csLaunch s1) = (y, ls)" for nc x s1 region nc' its y ls
    using types[OF that(1)] instance_Create_wf[OF that(2)] by (simp add: cloud_wf_def)
  with assms(1,2) types show ?thesis
    by (auto simp: cp_Create_def Let_def split: outcome.splits condition_status.splits prod.splits if_splits)
qed

section \<open>The controllers\<close>

lemma gc_workers_wf:
  "gc_workers env kw t claims nodes todo s = Some (r, ws, s') \<Longrightarrow> cloud_wf t s \<Longrightarrow> cloud_wf t s'"
proof (induction todo arbitrary: s r ws)
  case (Cons x todo)
  obtain n cl where x: "x = (n, cl)" by (cases x)
  have one: "cloud_wf t s1" if "garbageCollect env kw t nodes cl s = Some (a, b, s1)" for a b s1
    using that cp_Delete_wf[of env t cl s, OF _ Cons.prems(2)]
    by (auto simp: garbageCollect_def split: option.splits outcome.splits prod.splits)
  from Cons.prems x show ?case
    by (auto split: if_splits option.splits prod.splits outcome.splits intro: one Cons.IH)
qed simp

lemma gc_Reconcile_wf:
  assumes "gc_Reconcile genv kw t n s = Some (r, n', s')" "cloud_wf t s"
  shows "cloud_wf t s'"
  using assms(1) cp_List_wf[OF _ assms(2)]
  by (auto simp: gc_Reconcile_def Let_def intro: gc_workers_wf split: option.splits outcome.splits prod.splits sum.splits)

lemma tagging_wf:
  assumes "tagging_Reconcile env kw t cl p = Some (r, p')" "instances_wf t p"
  shows "instances_wf t p'"
proof -
  have tags: "instances_wf t q'" if "instance_CreateTags api add t i ts q = Some (x, q')" "instances_wf t q" for api add i ts q x q'
    using that by (auto simp: instance_CreateTags_def intro: instances_wf_sync instances_wf_List
        split: option.splits outcome.splits prod.splits bool.splits)
  have "instances_wf t q" if "tagInstance env t cl i p = Some (x, q)" for i x q
    using that assms(2) instances_wf_Get[OF assms(2)]
    by (auto simp: tagInstance_def Let_def intro: tags split: option.splits outcome.splits prod.splits if_splits)
  with assms show ?thesis
    by (auto simp: tagging_Reconcile_def Let_def split: option.splits outcome.splits prod.splits if_splits)
qed

lemma interruption_wf:
  assumes "interruption_Reconcile cls kw t nd u = (r, u')" "unavailable_wf t u"
  shows "unavailable_wf t u'"
  using assms(1,2) unavailable_wf_mark[OF assms(2)]
  by (auto simp: interruption_Reconcile_def Let_def uo_mark_def split: if_splits sum.splits prod.splits)

definition status_wf :: "int \<Rightarrow> status_state \<Rightarrow> bool" where
  "status_wf t st = (vswitches_wf t (ssVSwitches st) \<and> cache_ok DefaultTTL t (ssGroups st) \<and> version_wf t (ssVersion st)
     \<and> cache_ok DefaultTTL t (ssImages st))"

lemma process_vswitch_wf: "vswitches_wf t (snd st) \<Longrightarrow> vswitches_wf t (snd (process_vswitch t v st))"
  by (simp add: process_vswitch_def Let_def vswitches_wf_def distinct_delete)

lemma process_vswitches_wf: "vswitches_wf t (snd st) \<Longrightarrow> vswitches_wf t (snd (fold (process_vswitch t) vs st))"
  by (induction vs arbitrary: st) (simp_all add: process_vswitch_wf)

lemma list_terms_wf: "list_terms t api ts st = (r, vs, p) \<Longrightarrow> vswitches_wf t (snd st) \<Longrightarrow> vswitches_wf t p"
proof (induction ts arbitrary: st)
  case (Cons x ts)
  obtain ws y where d: "describeVSwitches api (term_tags x) (term_id x) = (ws, y)"
    by (cases "describeVSwitches api (term_tags x) (term_id x)")
  note first = process_vswitches_wf[OF Cons.prems(2), of ws]
  from Cons.prems(1) d show ?case
  proof (cases y)
    case (Ok a)
    with Cons.prems(1) d have "list_terms t api ts (fold (process_vswitch t) ws st) = (r, vs, p)" by simp
    from Cons.IH[OF this first] show ?thesis .
  qed (use first in auto)
qed simp

lemma vswitch_List_wf: "vswitch_List h api t nc p = (r, p') \<Longrightarrow> vswitches_wf t p \<Longrightarrow> vswitches_wf t p'"
  using list_terms_wf[of t api _ "([], p)"]
  by (fastforce simp: vswitch_List_def Let_def vswitches_wf_def split: if_splits outcome.splits option.splits prod.splits)

lemma getSecurityGroups_wf: "getSecurityGroups h api t fs c = Some (r, c') \<Longrightarrow> cache_ok ttl t c \<Longrightarrow> cache_ok ttl t c'"
  by (auto simp: getSecurityGroups_def split: outcome.splits option.splits if_splits)

lemma GetImages_wf: "GetImages env t v nc c = (r, c') \<Longrightarrow> cache_ok ttl t c \<Longrightarrow> cache_ok ttl t c'"
  by (auto simp: GetImages_def Let_def split: outcome.splits option.splits if_splits)

lemma version_Get_wf: "version_Get h sv t p = (r, p') \<Longrightarrow> version_wf t p \<Longrightarrow> version_wf t p'"
  by (auto simp: version_Get_def version_wf_def Let_def case_prod_unfold split: outcome.splits option.splits if_splits)

lemma sub_reconcilers_wf:
  "VSwitch_Reconcile env t nc st = (r, st') \<Longrightarrow> status_wf t st \<Longrightarrow> status_wf t st'"
  "SecurityGroup_Reconcile env t nc st = Some (r, st') \<Longrightarrow> status_wf t st \<Longrightarrow> status_wf t st'"
  "Image_Reconcile env t nc st = (r, st') \<Longrightarrow> status_wf t st \<Longrightarrow> status_wf t st'"
proof -
  show "VSwitch_Reconcile env t nc st = (r, st') \<Longrightarrow> status_wf t st \<Longrightarrow> status_wf t st'"
    by (auto simp: VSwitch_Reconcile_def status_wf_def split: prod.splits dest: vswitch_List_wf)
  show "SecurityGroup_Reconcile env t nc st = Some (r, st') \<Longrightarrow> status_wf t st \<Longrightarrow> status_wf t st'"
    by (auto simp: SecurityGroup_Reconcile_def sg_List_def status_wf_def dest: getSecurityGroups_wf)
  show "Image_Reconcile env t nc st = (r, st') \<Longrightarrow> status_wf t st \<Longrightarrow> status_wf t st'"
    by (auto simp: Image_Reconcile_def image_List_def status_wf_def split: prod.splits outcome.splits
        dest: version_Get_wf GetImages_wf)
qed

lemma run_reconcilers_wf:
  assumes "run_reconcilers env t nc st = Some (r, st')" "status_wf t st"
  shows "status_wf t st'"
proof -
  obtain a st1 where v: "VSwitch_Reconcile env t nc st = (a, st1)" by (cases "VSwitch_Reconcile env t nc st")
  have wf1: "status_wf t st1" by (rule sub_reconcilers_wf(1)[OF v assms(2)])
  have wf2: "status_wf t st2" if "SecurityGroup_Reconcile env t nc1 st1 = Some (b, st2)" for nc1 b st2
    by (rule sub_reconcilers_wf(2)[OF that wf1])
  have wf3: "status_wf t st3" if "SecurityGroup_Reconcile env t nc1 st1 = Some (b, st2)"
    "Image_Reconcile env t nc2 st2 = (d, st3)" for nc1 b st2 nc2 d st3
    by (rule sub_reconcilers_wf(3)[OF that(2) wf2[OF that(1)]])
  from assms(1) wf1 show ?thesis
    by (auto simp: run_reconcilers_def v intro: wf2 wf3 split: outcome.splits option.splits prod.splits)
qed

lemma status_Reconcile_wf:
  assumes "status_Reconcile env kw t nc st = Some (r, st')" "status_wf t st"
  shows "status_wf t st'"
  using assms(1,2) run_reconcilers_wf[OF _ assms(2)]
  by (auto simp: status_Reconcile_def Let_def split: option.splits outcome.splits prod.splits if_splits)

lemma refresh_types_wf:
  assumes "refresh_types parse describe env ord t s = Some (r, s')" "cloud_wf t s"
  shows "cloud_wf t s'"
proof -
  have "ack_wf t (snd (GetClusterCNI parse describe (lsAck (csLaunch s))))"
    using assms(2) GetClusterCNI_wf[OF surjective_pairing] by (simp add: cloud_wf_def launch_wf_def)
  with assms show ?thesis
    by (auto simp: refresh_types_def Let_def cloud_wf_def launch_wf_def case_prod_unfold
        dest: instancetype_Reconcile_wf split: option.splits outcome.splits)
qed

lemma sweep_wf: "cluster_wf c \<Longrightarrow> cluster_wf (sweep t c)"
  by (auto simp: sweep_def sweep_launch_def sweep_types_def sweep_instances_def wf_defs ip_wf_def list_all_iff)
     (auto simp: cache_delete_expired_def)

section \<open>Every reachable state is well-formed\<close>

lemma instances_wf_new: "0 \<le> now \<Longrightarrow> instances_wf now (NewInstanceProvider region)"
  by (simp add: instances_wf_def ip_wf_new) (simp add: NewInstanceProvider_def instanceCacheExpiration_pos)

lemma cluster_of_wf:
  assumes "NewOperator clients prices opts region = Some op" "0 \<le> start"
  shows "cluster_wf (cluster_of start op)"
  using assms
  by (auto simp: NewOperator_def cluster_of_def cluster_wf_def cloud_wf_def launch_wf_def unavailable_wf_def vswitches_wf_def ack_wf_def
      types_wf_def version_wf_def instances_wf_new NewUnavailableOfferings_def NewUnavailableOfferingsWithCache_def
      NewVSwitchProvider_def NewVersionProvider_def NewInstanceTypeProvider_def NewAckProvider_def NewChangeMonitor_def
      go_simps cache_new_def cache_ok_def cache_wf_def split: if_splits)

lemma cluster_wf_time: "cluster_wf c \<Longrightarrow> clusterTime c \<le> t \<Longrightarrow> cluster_wf (c\<lparr>clusterTime := t\<rparr>)"
  by (auto simp: cluster_wf_def version_wf_def intro: cloud_wf_later cache_ok_later)

text \<open>A handler that works on the providers of the cloud provider only.\<close>

lemma cluster_wf_cloud:
  assumes "cluster_wf c" "clusterTime c \<le> t" "cloud_wf t (ctCloud c) \<Longrightarrow> cloud_wf t s"
  shows "cluster_wf (c\<lparr>clusterTime := t, ctCloud := s\<rparr>)" "cluster_wf (c\<lparr>clusterTime := t, ctCloud := s, ctCollections := n\<rparr>)"
  using cluster_wf_time[OF assms(1,2)] assms(3) by (simp_all add: cluster_wf_def)

lemma resolved_wf:
  assumes "clusterTime c \<le> t" "status_Reconcile senv kw t nc (status_of c) = Some (r, st)" "cluster_wf c"
  shows "cluster_wf ((with_status st c)\<lparr>clusterTime := t\<rparr>)"
proof -
  have wf: "cluster_wf (c\<lparr>clusterTime := t\<rparr>)" by (rule cluster_wf_time[OF assms(3,1)])
  then have "status_wf t (status_of c)" by (simp add: status_wf_def status_of_def wf_defs)
  from status_Reconcile_wf[OF assms(2) this] wf show ?thesis
    by (simp add: status_wf_def with_status_def cluster_wf_def cloud_wf_def launch_wf_def)
qed

lemma cluster_wf_step:
  assumes "cluster_step c c'" "cluster_wf c"
  shows "cluster_wf c'"
  using assms
proof (induction rule: cluster_step.induct)
  case (created c t env cl r s)
  show ?case by (rule cluster_wf_cloud[OF created(4,1)]) (rule cp_Create_wf[OF created(3)])
next
  case (retrieved c t env r s)
  show ?case by (rule cluster_wf_cloud[OF retrieved(3,1)]) (rule cp_List_wf[OF retrieved(2)])
next
  case (got c t env i r s)
  show ?case by (rule cluster_wf_cloud[OF got(3,1)]) (rule cp_Get_wf[OF got(2)])
next
  case (deleted c t env cl r s)
  show ?case by (rule cluster_wf_cloud[OF deleted(3,1)]) (rule cp_Delete_wf[OF deleted(2)])
next
  case (drifted c t env cl r s)
  show ?case by (rule cluster_wf_cloud[OF drifted(3,1)]) (rule IsDrifted_wf[OF drifted(2)])
next
  case (offered c t env np r s)
  show ?case by (rule cluster_wf_cloud[OF offered(3,1)]) (rule GetInstanceTypes_wf[OF offered(2)])
next
  case (collected c t genv kw r n s)
  show ?case by (rule cluster_wf_cloud[OF collected(3,1)]) (rule gc_Reconcile_wf[OF collected(2)])
next
  case (tagged c t tenv kw cl r p)
  show ?case by (rule cluster_wf_cloud[OF tagged(3,1)]) (auto intro: with_instances tagging_wf[OF tagged(2)] dest: cloud_instances)
next
  case (interrupted c t cls kw nd r u)
  show ?case
    by (rule cluster_wf_cloud[OF interrupted(4,1)])
      (use interruption_wf[OF interrupted(3)] in \<open>simp add: cloud_wf_def launch_wf_def\<close>)
next
  case (resolved c t senv kw nc r st)
  then show ?case by (rule resolved_wf)
next
  case (refreshed c t parse describe renv ord r s)
  show ?case by (rule cluster_wf_cloud[OF refreshed(3,1)]) (rule refresh_types_wf[OF refreshed(2)])
next
  case (priced c t turns sa oa r p)
  show ?case by (rule cluster_wf_cloud[OF priced(3,1)]) (simp add: cloud_wf_def)
next
  case (expired c t)
  show ?case
    by (rule cluster_wf_cloud[OF expired(3,1)]) (simp add: cloud_wf_def launch_wf_def unavailable_wf_evict)
next
  case (swept c t)
  from sweep_wf[OF cluster_wf_time[OF swept(2,1)], of t] show ?case by (simp add: sweep_def wf_defs)
qed

lemma reachable_wf: "reachable c \<Longrightarrow> cluster_wf c"
  by (erule reachable_invariant) (auto intro: cluster_of_wf cluster_wf_step)

lemma stored_mark_expires:
  assumes "reachable c" "map_of (cache_items (uoCache (ctUnavailable c))) k = Some item"
  shows "0 < Expiration item"
proof -
  have "cache_ok UnavailableOfferingsTTL (clusterTime c) (uoCache (ctUnavailable c))"
    using reachable_wf[OF assms(1)] by (simp add: wf_defs)
  with map_of_SomeD[OF assms(2)] show ?thesis by (auto simp: cache_ok_def list_all_iff)
qed

text \<open>
  C10. Every state the process can reach is well-typed beyond what the types of the model say:
  each cache of each provider holds every key at most once, has the time to live it was created
  with, and every entry in it has an expiration within that time from now (none lives for ever);
  cached instances are stored under their own id, and addresses in flight are counted once per
  vSwitch. So without a further store no offering is withheld and no cached instance, list of
  instance types, vSwitch, address count, disk answer, attach script, security group, image or
  version is served longer than its time to live.
\<close>

theorem reachable_state_well_formed:
  assumes "reachable c"
  shows "cluster_wf c
    \<and> (\<forall>t it z ct. IsUnavailable t it z ct (ctUnavailable c) \<longrightarrow> t \<le> clusterTime c + UnavailableOfferingsTTL)
    \<and> (\<forall>t k i. cache_get t k (instanceCache (csInstances (ctCloud c))) = Some i \<longrightarrow>
         inID i = k \<and> t \<le> clusterTime c + instanceCacheExpiration)
    \<and> (\<forall>t k. cache_get t k (instanceTypesCache (csTypes (ctCloud c))) \<noteq> None \<longrightarrow> t \<le> clusterTime c + InstanceTypesAndZonesTTL)
    \<and> (\<forall>t k. cache_get t k (vsCache (lsVSwitches (csLaunch (ctCloud c)))) \<noteq> None \<longrightarrow> t \<le> clusterTime c + DefaultTTL)
    \<and> (\<forall>t k. cache_get t k (availableIPAddressCache (lsVSwitches (csLaunch (ctCloud c)))) \<noteq> None \<longrightarrow>
         t \<le> clusterTime c + AvailableIPAddressTTL)
    \<and> (\<forall>t k. cache_get t k (lsDisks (csLaunch (ctCloud c))) \<noteq> None \<longrightarrow> t \<le> clusterTime c + InstanceTypeAvailableDiskTTL)
    \<and> (\<forall>t k. cache_get t k (ackCache (lsAck (csLaunch (ctCloud c)))) \<noteq> None \<longrightarrow> t \<le> clusterTime c + ClusterAttachScriptTTL)
    \<and> (\<forall>t k. cache_get t k (ctGroups c) \<noteq> None \<longrightarrow> t \<le> clusterTime c + DefaultTTL)
    \<and> (\<forall>t k. cache_get t k (ctImages c) \<noteq> None \<longrightarrow> t \<le> clusterTime c + DefaultTTL)
    \<and> (\<forall>t k. cache_get t k (verCache (ctVersion c)) \<noteq> None \<longrightarrow> t \<le> clusterTime c + KubernetesVersionTTL)"
proof -
  have wf: "cluster_wf c" by (rule reachable_wf[OF assms])
  have keyed: "inID i = k" if "cache_get t k (instanceCache (csInstances (ctCloud c))) = Some i" for t k i
    using wf that by (fastforce simp: wf_defs ip_wf_def list_all_iff cache_get_def split: option.splits if_splits dest: map_of_SomeD)
  note oks = wf[unfolded wf_defs]
  show ?thesis
  proof (intro conjI allI impI)
    show "cluster_wf c" by (rule wf)
    show "IsUnavailable t it z ct (ctUnavailable c) \<Longrightarrow> t \<le> clusterTime c + UnavailableOfferingsTTL" for t it z ct
      using oks by (auto simp: IsUnavailable_def intro: cache_ok_served)
    show "cache_get t k (instanceCache (csInstances (ctCloud c))) = Some i \<Longrightarrow> inID i = k" for t k i by (rule keyed)
    show "cache_get t k (instanceCache (csInstances (ctCloud c))) = Some i \<Longrightarrow> t \<le> clusterTime c + instanceCacheExpiration"
      for t k i using oks by (auto intro: cache_ok_served)
  qed (use oks in \<open>blast intro: cache_ok_served\<close>)+
qed

theorem reachable_state_well_formed_witness:
  "cluster_wf sample_marked
   \<and> \<not> IsUnavailable (3 + UnavailableOfferingsTTL) ''ecs.g7.large'' ''b'' CapacityTypeSpot (ctUnavailable sample_marked)"
proof -
  note wf = reachable_state_well_formed[OF reachable_marked, unfolded sample_marked_fields(4)]
  have "\<not> IsUnavailable (3 + UnavailableOfferingsTTL) it z ct (ctUnavailable sample_marked)" for it z ct
    using wf[THEN conjunct2, THEN conjunct1] by fastforce
  with wf[THEN conjunct1] show ?thesis by blast
qed

end
