(* ===== verification/Events.thy ===== *)
theory Events
  imports Nodeclass_Lifecycle Nodeclaim_Controllers
begin

text \<open>
  The events published for users: \<^verbatim>\<open>src/pkg/cloudprovider/events/events.go\<close>,
  \<^verbatim>\<open>src/pkg/controllers/interruption/events/events.go\<close> and
  \<^verbatim>\<open>src/pkg/controllers/nodeclass/termination/events.go\<close>, and which handler hands which
  of them to the recorder. The recorder is karpenter's; \<open>uid\<close> gives the UID the API server
  assigned to an object, by which it drops repeated events.
\<close>

section \<open>Events\<close>

datatype event_object =
    OnNodePool node_pool | OnNodeClaim node_claim | OnNode k8s_node | OnNodeClass ecs_nodeclass

record event =
  InvolvedObject :: event_object
  evType :: string
  Reason :: string
  Message :: string
  DedupeValues :: "string list"

definition EventTypeNormal :: string where "EventTypeNormal = ''Normal''"
definition EventTypeWarning :: string where "EventTypeWarning = ''Warning''"

definition NodePoolFailedToResolveNodeClass :: "(event_object \<Rightarrow> string) \<Rightarrow> node_pool \<Rightarrow> event" where
  "NodePoolFailedToResolveNodeClass uid np =
     \<lparr>InvolvedObject = OnNodePool np, evType = EventTypeWarning, Reason = [], Message = ''Failed resolving NodeClass'',
      DedupeValues = [uid (OnNodePool np)]\<rparr>"

definition NodeClaimFailedToResolveNodeClass :: "(event_object \<Rightarrow> string) \<Rightarrow> node_claim \<Rightarrow> event" where
  "NodeClaimFailedToResolveNodeClass uid cl =
     \<lparr>InvolvedObject = OnNodeClaim cl, evType = EventTypeWarning, Reason = [], Message = ''Failed resolving NodeClass'',
      DedupeValues = [uid (OnNodeClaim cl)]\<rparr>"

definition TerminatingOnInterruption :: "(event_object \<Rightarrow> string) \<Rightarrow> k8s_node option \<Rightarrow> node_claim \<Rightarrow> event list" where
  "TerminatingOnInterruption uid node cl =
     \<lparr>InvolvedObject = OnNodeClaim cl, evType = EventTypeWarning, Reason = ''TerminatingOnInterruption'',
      Message = ''Interruption triggered termination for the NodeClaim'', DedupeValues = [uid (OnNodeClaim cl)]\<rparr>
     # (case node of
          None \<Rightarrow> []
        | Some nd \<Rightarrow>
            [\<lparr>InvolvedObject = OnNode nd, evType = EventTypeWarning, Reason = ''TerminatingOnInterruption'',
              Message = ''Interruption triggered termination for the Node'', DedupeValues = [uid (OnNode nd)]\<rparr>])"

definition WaitingOnNodeClaimTerminationEvent :: "(event_object \<Rightarrow> string) \<Rightarrow> ecs_nodeclass \<Rightarrow> string list \<Rightarrow> event" where
  "WaitingOnNodeClaimTerminationEvent uid nc names =
     \<lparr>InvolvedObject = OnNodeClass nc, evType = EventTypeNormal, Reason = ''WaitingOnNodeClaimTermination'',
      Message = ''Waiting on NodeClaim termination for '' @ PrettySlice (\<lambda>s. s) names 5,
      DedupeValues = [uid (OnNodeClass nc)]\<rparr>"

section \<open>What the handlers publish\<close>

text \<open>\<^verbatim>\<open>Create\<close>, \<^verbatim>\<open>GetInstanceTypes\<close> and \<^verbatim>\<open>IsDrifted\<close>: an event when
  the node class is not found (or terminating, which counts as not found).\<close>

definition create_events :: "(event_object \<Rightarrow> string) \<Rightarrow> cloud_env \<Rightarrow> node_claim \<Rightarrow> event list" where
  "create_events uid env cl =
     (case resolveNodeClassFromNodeClaim env cl of
        Err e \<Rightarrow> if api_IsNotFound (Some e) then [NodeClaimFailedToResolveNodeClass uid cl] else []
      | _ \<Rightarrow> [])"

definition types_events :: "(event_object \<Rightarrow> string) \<Rightarrow> cloud_env \<Rightarrow> node_pool \<Rightarrow> event list" where
  "types_events uid env np =
     (case resolveNodeClassFromNodePool env np of
        Err e \<Rightarrow> if api_IsNotFound (Some e) then [NodePoolFailedToResolveNodeClass uid np] else []
      | _ \<Rightarrow> [])"

definition drift_events :: "(event_object \<Rightarrow> string) \<Rightarrow> cloud_env \<Rightarrow> node_claim \<Rightarrow> event list" where
  "drift_events uid env cl =
     (case map_of (clLabels cl) NodePoolLabelKey of
        None \<Rightarrow> []
      | Some name \<Rightarrow>
          (case ceNodePool env name of
             Ok np \<Rightarrow> if poolNodeClassRef np = None then [] else types_events uid env np
           | _ \<Rightarrow> []))"

text \<open>The interruption controller publishes once the deletion of the claim is accepted.\<close>

definition interruption_events ::
  "(event_object \<Rightarrow> string) \<Rightarrow> node_claim kube_list \<Rightarrow> kube_writer \<Rightarrow> k8s_node \<Rightarrow> event list" where
  "interruption_events uid listed write node =
     (if \<not> is_interrupted node then []
      else case getNodeClaimByNodeName listed (nodeName node) of
        Inl e \<Rightarrow> []
      | Inr cl \<Rightarrow>
          (if clDeletionTimestamp cl \<noteq> None then []
           else case write (DeleteNodeClaim (clName cl)) of
             Some e \<Rightarrow> []
           | None \<Rightarrow> TerminatingOnInterruption uid (Some node) cl))"

definition termination_events ::
  "(event_object \<Rightarrow> string) \<Rightarrow> node_claim kube_list \<Rightarrow> ecs_nodeclass \<Rightarrow> event list" where
  "termination_events uid listed nc =
     (if ncDeletionTimestamp nc = None \<or> TerminationFinalizer \<notin> set (ncFinalizers nc) then []
      else case listed of
        Inl e \<Rightarrow> []
      | Inr cls \<Rightarrow> if cls \<noteq> [] then [WaitingOnNodeClaimTerminationEvent uid nc (map clName cls)] else [])"

section \<open>Events and outcomes\<close>

text \<open>
  Events tell what happened. A missing node class is reported on the claim of a creation, which
  then fails with insufficient capacity before anything is launched, and on the node pool of a
  listing, which then fails too, or of a drift check, which then reports no drift. The claim and
  the node of an interruption are reported exactly when the deletion of the claim was sent and
  accepted, and a node class is reported as waiting exactly when its finalizer is kept for
  another ten minutes because of node claims.
\<close>

theorem events_report_outcomes:
  "(create_events uid env cl \<noteq> [] \<longrightarrow> (\<exists>e. cp_Create env now cl s = (Err (InsufficientCapacityError e), s)))
   \<and> (types_events uid env np \<noteq> [] \<longrightarrow> (\<exists>e. GetInstanceTypes env now np s = (Err e, s) \<and> api_IsNotFound (Some e)))
   \<and> (drift_events uid env cl \<noteq> [] \<longrightarrow> IsDrifted env now cl s = Some (Ok [], s))
   \<and> (interruption_events uid listed kw node \<noteq> [] \<longleftrightarrow>
        (\<exists>w \<in> set (snd (snd (fst (interruption_Reconcile listed kw now node u)))). kw w = None))
   \<and> (termination_events uid listed nc \<noteq> [] \<longleftrightarrow>
        caResult (termination_Reconcile listed kw nc) = requeueAfter (10 * Minute))"
proof (intro conjI)
  show "create_events uid env cl \<noteq> [] \<longrightarrow> (\<exists>e. cp_Create env now cl s = (Err (InsufficientCapacityError e), s))"
    by (auto simp: create_events_def cp_Create_def split: outcome.splits if_splits)
  show "types_events uid env np \<noteq> [] \<longrightarrow> (\<exists>e. GetInstanceTypes env now np s = (Err e, s) \<and> api_IsNotFound (Some e))"
    by (auto simp: types_events_def GetInstanceTypes_def split: outcome.splits if_splits)
  have "api_IsNotFound (Some (Wrap m e)) = api_IsNotFound (Some e)" for m e by (simp add: api_IsNotFound_def)
  then show "drift_events uid env cl \<noteq> [] \<longrightarrow> IsDrifted env now cl s = Some (Ok [], s)"
    by (auto simp: drift_events_def types_events_def IsDrifted_def Let_def IgnoreNotFound_def
        split: outcome.splits option.splits if_splits)
  show "interruption_events uid listed kw node \<noteq> [] \<longleftrightarrow>
      (\<exists>w \<in> set (snd (snd (fst (interruption_Reconcile listed kw now node u)))). kw w = None)"
    by (auto simp: interruption_events_def interruption_Reconcile_def deleteNodeClaim_def Let_def
        TerminatingOnInterruption_def split: sum.splits option.splits if_splits)
  show "termination_events uid listed nc \<noteq> [] \<longleftrightarrow>
      caResult (termination_Reconcile listed kw nc) = requeueAfter (10 * Minute)"
    by (auto simp: termination_events_def termination_Reconcile_def class_finalize_def class_answer_of_def Let_def
        requeueAfter_def noRequeue_def go_simps split: sum.splits option.splits if_splits)
qed

theorem events_report_outcomes_witness:
  "create_events (\<lambda>_. []) sample_cloud_env (zero_claim\<lparr>clNodeClassRef := Some ''gone''\<rparr>) \<noteq> []
   \<and> (\<exists>e. cp_Create sample_cloud_env 1 (zero_claim\<lparr>clNodeClassRef := Some ''gone''\<rparr>) sample_cloud_state
        = (Err (InsufficientCapacityError e), sample_cloud_state))"
proof -
  have "create_events (\<lambda>_. []) sample_cloud_env (zero_claim\<lparr>clNodeClassRef := Some ''gone''\<rparr>) \<noteq> []"
    by (simp add: create_events_def resolveNodeClassFromNodeClaim_def resolve_class_def sample_cloud_env_def api_IsNotFound_def)
  with events_report_outcomes[of "\<lambda>_. []" sample_cloud_env "zero_claim\<lparr>clNodeClassRef := Some ''gone''\<rparr>" 1
      sample_cloud_state] show ?thesis by blast
qed

end
