(* ===== verification/Startup.thy ===== *)
theory Startup
  imports Operator Events
begin

text \<open>
  What happens before and around the providers: the client configuration
  (\<^verbatim>\<open>src/pkg/utils/client/client.go\<close>), decoding of embedded data
  (\<^verbatim>\<open>utils/object/object.go\<close>), hashes of names (\<^verbatim>\<open>utils.Hash\<close>), the options
  in the context, the liveness probes, how the controllers are registered with the controller
  manager, and the tool that writes the embedded price list
  (\<^verbatim>\<open>src/hack/tools/price_gen/price_gen.go\<close>). The profile of the alibabacloud command
  line tool, the decoders and SHA-256 are parameters.
\<close>

section \<open>Clients\<close>

record 'c cli_profile =
  RegionId :: string
  GetCredential :: "'c outcome"

record 'c client_config =
  cfgRegionId :: string
  cfgCredential :: 'c

definition NewClientConfig :: "'c cli_profile outcome \<Rightarrow> 'c client_config outcome" where
  "NewClientConfig loaded =
     outcome_bind loaded (\<lambda>profile.
       if RegionId profile = [] then Err (ErrorString ''regionId must be set in the config file'')
       else outcome_map (\<lambda>c. \<lparr>cfgRegionId = RegionId profile, cfgCredential = c\<rparr>) (GetCredential profile))"

lemma NewClientConfig_region: "NewClientConfig loaded = Ok cfg \<Longrightarrow> cfgRegionId cfg \<noteq> []"
  by (auto simp: NewClientConfig_def split: if_splits)

section \<open>Decoding and hashing\<close>

text \<open>\<^verbatim>\<open>lo.Must0\<close> turns every error into a panic.\<close>

definition must :: "'a outcome \<Rightarrow> 'a outcome" where
  "must r = (case r of Ok v \<Rightarrow> Ok v | _ \<Rightarrow> Panic)"

definition JSONUnmarshal :: "('raw \<Rightarrow> 'a outcome) \<Rightarrow> 'raw \<Rightarrow> 'a outcome" where
  "JSONUnmarshal parse raw = must (parse raw)"

definition YAMLUnmarshal :: "('raw \<Rightarrow> 'a outcome) \<Rightarrow> 'raw \<Rightarrow> 'a outcome" where
  "YAMLUnmarshal parse raw = must (parse raw)"

text \<open>The verb \<^verbatim>\<open>%x\<close> on an array of bytes: two lower case digits per byte.\<close>

definition hex_bytes :: "nat list \<Rightarrow> string" where
  "hex_bytes bs = concat (map (\<lambda>b. [hex_digit (b div 16), hex_digit (b mod 16)]) bs)"

definition name_Hash :: "(string \<Rightarrow> nat list) \<Rightarrow> string \<Rightarrow> string" where
  "name_Hash sha256 str = hex_bytes (sha256 str)"

lemma hex_digit_inj: "m < 16 \<Longrightarrow> n < 16 \<Longrightarrow> hex_digit m = hex_digit n \<Longrightarrow> m = n"
  by (auto simp: hex_digit_def dest!: arg_cong[where f = "of_char :: char \<Rightarrow> nat"] split: if_splits)

text \<open>Printing loses nothing: equal names mean equal digests.\<close>

lemma hex_bytes_inj:
  "list_all (\<lambda>b. b < 256) xs \<Longrightarrow> list_all (\<lambda>b. b < 256) ys \<Longrightarrow> hex_bytes xs = hex_bytes ys \<Longrightarrow> xs = ys"
proof (induction xs arbitrary: ys)
  case Nil
  then show ?case by (cases ys) (auto simp: hex_bytes_def)
next
  case (Cons x xs)
  then obtain y zs where ys: "ys = y # zs" by (cases ys) (auto simp: hex_bytes_def)
  with Cons.prems have d: "hex_digit (x div 16) = hex_digit (y div 16)" "hex_digit (x mod 16) = hex_digit (y mod 16)"
    "hex_bytes xs = hex_bytes zs" "x < 256" "y < 256" by (auto simp: hex_bytes_def)
  then have "x div 16 = y div 16" "x mod 16 = y mod 16" by (auto intro!: hex_digit_inj)
  then have "x = y" by (metis div_mult_mod_eq)
  with Cons ys d(3) show ?case by simp
qed

lemma name_Hash_length: "length (name_Hash sha256 s) = 2 * length (sha256 s)"
proof -
  have "length (hex_bytes bs) = 2 * length bs" for bs by (induction bs) (auto simp: hex_bytes_def)
  then show ?thesis by (simp add: name_Hash_def)
qed

section \<open>Options in the context\<close>

text \<open>The value a context carries under the options' key.\<close>

definition ToContext :: "options \<Rightarrow> options option \<Rightarrow> options option" where
  "ToContext opts ctx = Some opts"

definition FromContext :: "options option \<Rightarrow> options option" where
  "FromContext ctx = (case ctx of None \<Rightarrow> None | Some opts \<Rightarrow> Some opts)"

section \<open>Liveness probes\<close>

text \<open>A probe takes and releases the locks of its provider: it succeeds once nobody holds them.\<close>

definition ack_LivenessProbe :: "ack_provider \<Rightarrow> gerror option" where
  "ack_LivenessProbe p = None"
definition pricing_LivenessProbe :: "pricing_provider \<Rightarrow> gerror option" where
  "pricing_LivenessProbe p = None"
definition vswitch_LivenessProbe :: "vswitch_provider \<Rightarrow> gerror option" where
  "vswitch_LivenessProbe p = None"

definition itp_LivenessProbe :: "ack_provider \<Rightarrow> pricing_provider \<Rightarrow> gerror option" where
  "itp_LivenessProbe ack prices = (case ack_LivenessProbe ack of Some e \<Rightarrow> Some e | None \<Rightarrow> pricing_LivenessProbe prices)"

definition cp_LivenessProbe :: "cloud_state \<Rightarrow> gerror option" where
  "cp_LivenessProbe s = itp_LivenessProbe (lsAck (csLaunch s)) (csPricing s)"

definition CloudProviderName :: string where "CloudProviderName = ''alibabacloud''"

datatype api_kind = NodeKind | NodeClaimKind | ECSNodeClassKind

definition GetSupportedNodeClasses :: "api_kind list" where
  "GetSupportedNodeClasses = [ECSNodeClassKind]"

section \<open>Registration\<close>

text \<open>How a controller is woken: by changes of objects that pass its filter (and, for the
  termination controller, by the watch \<open>termination_enqueue\<close>), or on its own, once its last
  result says so; and how many reconciliations run at a time.\<close>

datatype trigger = OnObject api_kind | OnTimer

record registration =
  Named :: string
  ForTrigger :: trigger
  MaxConcurrentReconciles :: nat

named_theorems register_defs \<open>registrations of the controllers\<close>

definition hash_Register :: registration where
  [register_defs]: "hash_Register =
     \<lparr>Named = ''nodeclass.hash'', ForTrigger = OnObject ECSNodeClassKind, MaxConcurrentReconciles = 10\<rparr>"
definition status_Register :: registration where
  [register_defs]: "status_Register =
     \<lparr>Named = ''nodeclass.status'', ForTrigger = OnObject ECSNodeClassKind, MaxConcurrentReconciles = 10\<rparr>"
definition termination_Register :: registration where
  [register_defs]: "termination_Register =
     \<lparr>Named = ''nodeclass.termination'', ForTrigger = OnObject ECSNodeClassKind, MaxConcurrentReconciles = 10\<rparr>"
definition pricing_Register :: registration where
  [register_defs]: "pricing_Register =
     \<lparr>Named = ''providers.pricing'', ForTrigger = OnTimer, MaxConcurrentReconciles = 1\<rparr>"
definition gc_Register :: registration where
  [register_defs]: "gc_Register =
     \<lparr>Named = ''instance.garbagecollection'', ForTrigger = OnTimer, MaxConcurrentReconciles = 1\<rparr>"
definition unregisteredtaint_Register :: registration where
  [register_defs]: "unregisteredtaint_Register =
     \<lparr>Named = ''node.unregisteredtaint'', ForTrigger = OnTimer, MaxConcurrentReconciles = 1\<rparr>"
text \<open>Only taggable claims reach the tagging controller.\<close>

definition tagging_filter :: "node_claim \<Rightarrow> bool" where
  "tagging_filter cl = isTaggable cl"

definition tagging_Register :: registration where
  [register_defs]: "tagging_Register =
     \<lparr>Named = ''nodeclaim.tagging'', ForTrigger = OnObject NodeClaimKind, MaxConcurrentReconciles = 1\<rparr>"
definition instancetype_Register :: registration where
  [register_defs]: "instancetype_Register =
     \<lparr>Named = ''providers.instancetype'', ForTrigger = OnTimer, MaxConcurrentReconciles = 1\<rparr>"
definition interruption_Register :: registration where
  [register_defs]: "interruption_Register =
     \<lparr>Named = ''interruption'', ForTrigger = OnObject NodeKind, MaxConcurrentReconciles = 1\<rparr>"
definition telemetry_Register :: registration where
  [register_defs]: "telemetry_Register =
     \<lparr>Named = ''telemetry'', ForTrigger = OnObject NodeKind, MaxConcurrentReconciles = 1\<rparr>"

fun Register :: "controller \<Rightarrow> registration" where
  "Register NodeClassHash = hash_Register"
| "Register NodeClassStatus = status_Register"
| "Register NodeClassTermination = termination_Register"
| "Register ProvidersPricing = pricing_Register"
| "Register GarbageCollection = gc_Register"
| "Register UnregisteredTaint = unregisteredtaint_Register"
| "Register Tagging = tagging_Register"
| "Register ProvidersInstanceType = instancetype_Register"
| "Register InterruptionController = interruption_Register"
| "Register TelemetryController = telemetry_Register"

text \<open>The controller manager refuses a name that is taken; the names of one process differ.\<close>

lemma registered_names_distinct: "distinct (map (Named \<circ> Register) (NewControllers opts))"
  by (simp add: NewControllers_def register_defs)

section \<open>The price list\<close>

text \<open>The tool asks the price service for the details of every region (\<open>details\<close>, nil when the
  service has none, and with a nil price or not for each instance type) and writes the on-demand
  prices; \<open>listed\<close> has every region once.\<close>

type_synonym listed_prices = "(string \<times> instance_type_price option) list"

definition regional_prices :: "listed_prices \<Rightarrow> (string \<times> price) list outcome" where
  "regional_prices prices =
     outcome_mapM (\<lambda>(it, info). outcome_map (\<lambda>i. (it, OnDemandPricePerHour i)) (deref info)) prices"

definition price_gen ::
  "gerror option \<Rightarrow> string list \<Rightarrow> (string \<Rightarrow> listed_prices option) \<Rightarrow> ((string \<times> (string \<times> price) list) list \<Rightarrow> 'raw outcome) \<Rightarrow>
   ('raw \<Rightarrow> gerror option) \<Rightarrow> 'raw outcome" where
  "price_gen client listed details marshal writeFile =
     (if client \<noteq> None then Panic
      else outcome_bind (outcome_mapM (\<lambda>r. outcome_map (Pair r) (outcome_bind (deref (details r)) regional_prices)) listed) (\<lambda>all.
        case marshal all of
          Ok raw \<Rightarrow> (if writeFile raw \<noteq> None then Panic else Ok raw)
        | _ \<Rightarrow> Panic))"

text \<open>\<^verbatim>\<open>Reset\<close> of the pricing provider reads what is embedded.\<close>

definition embedded_prices ::
  "('raw \<Rightarrow> (string \<times> (string \<times> price) list) list outcome) \<Rightarrow> 'raw \<Rightarrow> string \<Rightarrow> pricing_provider outcome" where
  "embedded_prices parse raw region = outcome_map (\<lambda>initial. NewPricingProvider initial region) (JSONUnmarshal parse raw)"

lemma map_of_regional:
  "regional_prices ps = Ok qs \<Longrightarrow> map_of qs it = map_option OnDemandPricePerHour (Option.bind (map_of ps it) id)"
proof (induction ps arbitrary: qs)
  case (Cons e ps)
  obtain a i where e: "e = (a, i)" by (cases e)
  with Cons.prems obtain p rest where p: "i = Some p" "regional_prices ps = Ok rest"
    "qs = (a, OnDemandPricePerHour p) # rest"
    by (cases i) (auto simp: regional_prices_def)
  from Cons.IH[OF p(2)] show ?case by (auto simp: e p)
qed (simp add: regional_prices_def)

lemma outcome_mapM_keys:
  "outcome_mapM (\<lambda>r. outcome_map (Pair r) (f r)) rs = Ok all \<Longrightarrow>
   (if r \<in> set rs then \<exists>v. f r = Ok v \<and> map_of all r = Some v else map_of all r = None)"
proof (induction rs arbitrary: all)
  case (Cons x rs)
  then obtain v rest where x: "f x = Ok v" "outcome_mapM (\<lambda>r. outcome_map (Pair r) (f r)) rs = Ok rest"
    "all = (x, v) # rest" by (cases "f x") auto
  with Cons.IH[OF x(2)] show ?case by auto
qed simp

lemma start_prices:
  "OnDemandPrice it (NewPricingProvider initial region) =
     (case map_of initial region of
        Some ps \<Rightarrow> map_of ps it
      | None \<Rightarrow> (case map_of initial defaultRegion of Some ps \<Rightarrow> map_of ps it | None \<Rightarrow> None))"
  "SpotPrice it z (NewPricingProvider initial region) = OnDemandPrice it (NewPricingProvider initial region)"
proof -
  have "map_of (populateInitialSpotPricing ps) it = map_option newZonalPricing (map_of ps it)" for ps
    unfolding populateInitialSpotPricing_def by (induction ps) auto
  then show "OnDemandPrice it (NewPricingProvider initial region) =
     (case map_of initial region of
        Some ps \<Rightarrow> map_of ps it
      | None \<Rightarrow> (case map_of initial defaultRegion of Some ps \<Rightarrow> map_of ps it | None \<Rightarrow> None))"
    "SpotPrice it z (NewPricingProvider initial region) = OnDemandPrice it (NewPricingProvider initial region)"
    by (auto simp: NewPricingProvider_def pricing_Reset_def OnDemandPrice_def SpotPrice_def newZonalPricing_def Let_def
        split: option.splits)
qed

text \<open>
  C38. The price list survives its round trip through the tool and the binary: if decoding inverts
  encoding, a provider that starts from the written list knows exactly the on-demand prices the
  service had for its region (for a region the service does not list, those of the default
  region), and takes them as spot prices in every zone until the first update.
\<close>

theorem generated_prices_are_served:
  assumes json: "\<And>all raw. marshal all = Ok raw \<Longrightarrow> parse raw = Ok all"
    and gen: "price_gen client listed details marshal writeFile = Ok raw"
  shows "\<exists>p. embedded_prices parse raw region = Ok p
    \<and> (\<forall>it. OnDemandPrice it p =
         (let r = (if region \<in> set listed then region else defaultRegion) in
          if r \<in> set listed then map_option OnDemandPricePerHour (Option.bind (map_of (the (details r)) it) id) else None))
    \<and> (\<forall>it z. SpotPrice it z p = OnDemandPrice it p)"
proof -
  from gen obtain all where all: "outcome_mapM (\<lambda>r. outcome_map (Pair r) (outcome_bind (deref (details r)) regional_prices)) listed = Ok all"
    and out: "(case marshal all of Ok raw \<Rightarrow> (if writeFile raw \<noteq> None then Panic else Ok raw) | _ \<Rightarrow> Panic) = Ok raw"
    unfolding price_gen_def by (auto simp only: outcome_bind_Ok_iff split: if_splits)
  from out have raw: "marshal all = Ok raw" by (cases "marshal all") (simp_all split: if_splits)
  have "embedded_prices parse raw region = Ok (NewPricingProvider all region)"
    by (simp add: embedded_prices_def JSONUnmarshal_def must_def json[OF raw])
  moreover have "OnDemandPrice it (NewPricingProvider all region) =
      (let r = (if region \<in> set listed then region else defaultRegion) in
       if r \<in> set listed then map_option OnDemandPricePerHour (Option.bind (map_of (the (details r)) it) id) else None)" for it
  proof -
    have "if r \<in> set listed then \<exists>ps. map_of all r = Some ps
        \<and> map_of ps it = map_option OnDemandPricePerHour (Option.bind (map_of (the (details r)) it) id)
      else map_of all r = None" for r
      using outcome_mapM_keys[OF all, of r] map_of_regional[of "the (details r)" _ it]
      by (cases "details r") (auto split: if_splits)
    from this[of region] this[of defaultRegion] show ?thesis
      by (auto simp: start_prices Let_def split: option.splits if_splits)
  qed
  ultimately show ?thesis by (simp add: start_prices(2))
qed

theorem generated_prices_are_served_witness:
  "\<exists>raw p. price_gen None [''cn-beijing'']
      (\<lambda>_. Some [(''ecs.g7.large'', Some \<lparr>OnDemandPricePerHour = 2, SpotPricePerHour = []\<rparr>)]) Ok (\<lambda>_. None) = Ok raw
    \<and> embedded_prices Ok raw ''cn-beijing'' = Ok p \<and> OnDemandPrice ''ecs.g7.large'' p = Some 2"
proof -
  let ?d = "\<lambda>_ :: string. Some [(''ecs.g7.large'', Some \<lparr>OnDemandPricePerHour = 2, SpotPricePerHour = []\<rparr>)]"
  have gen: "price_gen None [''cn-beijing''] ?d Ok (\<lambda>_. None) = Ok [(''cn-beijing'', [(''ecs.g7.large'', 2)])]"
    by (simp add: price_gen_def regional_prices_def)
  from generated_prices_are_served[OF _ gen, of Ok "''cn-beijing''"] obtain p where
    "embedded_prices Ok [(''cn-beijing'', [(''ecs.g7.large'', 2)])] ''cn-beijing'' = Ok p"
    "OnDemandPrice ''ecs.g7.large'' p = Some 2" by auto
  with gen show ?thesis by blast
qed

end
