(* ===== verification/Ownership.thy ===== *)
theory Ownership
  imports Nodeclaim_Controllers
begin

text \<open>
  Which instances the provider ever looks at: a launch tags its instance as owned by the cluster,
  a listing asks ECS for instances with that tag only, and everything else (look-ups, deletions, node
  claims from instances, garbage collection, tagging) works on what a listing returned. ECS itself is
  a parameter; \<open>serves_fleet\<close> states the documented effect of the tag filter of
  \<^verbatim>\<open>DescribeInstances\<close>, that an instance in the answer exists and has the requested tags.
\<close>

definition cluster_tag :: "string \<Rightarrow> string" where
  "cluster_tag clusterID = ''kubernetes.io/cluster/'' @ clusterID"

text \<open>An instance as ECS describes it; it has every tag key once.\<close>

definition has_tag :: "describe_instance \<Rightarrow> string \<times> string \<Rightarrow> bool" where
  "has_tag d = (\<lambda>(k, v). \<exists>ts. eiTags d = Some ts \<and> (Some k, Some v) \<in> set ts \<and> distinct (map fst ts))"

abbreviation owned_by :: "string \<Rightarrow> describe_instance \<Rightarrow> bool" where
  "owned_by clusterID d \<equiv> has_tag d (cluster_tag clusterID, ''owned'')"

text \<open>\<open>fleet\<close> has the instances of the account, those of other clusters and of other users
  included, as ECS describes them during the run. Every answer consists of instances of the fleet
  that have the tags the request asks for.\<close>

definition serves_fleet :: "describe_instance set \<Rightarrow> ecs_instances \<Rightarrow> bool" where
  "serves_fleet fleet ecs = (\<forall>req pg d. ecs req = Ok (Some pg) \<longrightarrow> Some d \<in> set (pgItems pg) \<longrightarrow>
     d \<in> fleet \<and> (\<forall>kv \<in> set (irTag req). has_tag d kv))"

text \<open>An instance keeps its cluster: two descriptions with the same id agree on the cluster's tag.\<close>

definition keeps_cluster :: "string \<Rightarrow> describe_instance set \<Rightarrow> bool" where
  "keeps_cluster clusterID fleet = (\<forall>d \<in> fleet. \<forall>d' \<in> fleet.
     eiInstanceId d = eiInstanceId d' \<longrightarrow> owned_by clusterID d = owned_by clusterID d')"

text \<open>The ids of the instances of the fleet that are not the cluster's.\<close>

definition foreign_id :: "string \<Rightarrow> describe_instance set \<Rightarrow> string \<Rightarrow> bool" where
  "foreign_id clusterID fleet i = (\<exists>d \<in> fleet. eiInstanceId d = Some i \<and> \<not> owned_by clusterID d)"

text \<open>What the provider keeps of the fleet: instances with the cluster's tag, under their ids.\<close>

definition fleet_instance :: "string \<Rightarrow> describe_instance set \<Rightarrow> ecs_instance \<Rightarrow> bool" where
  "fleet_instance clusterID fleet i = (\<exists>d \<in> fleet. owned_by clusterID d \<and> NewInstance d = Ok i)"

definition caches_owned :: "string \<Rightarrow> describe_instance set \<Rightarrow> instance_provider \<Rightarrow> bool" where
  "caches_owned clusterID fleet p = (\<forall>(k, item) \<in> set (cache_items (instanceCache p)).
     k = inID (Object item) \<and> fleet_instance clusterID fleet (Object item))"

section \<open>Listings\<close>

lemma outcome_mapM_set:
  "outcome_mapM f xs = Ok ys \<Longrightarrow> y \<in> set ys \<Longrightarrow> \<exists>x \<in> set xs. f x = Ok y"
  by (induction xs arbitrary: ys) auto

lemma list_instances_owned:
  assumes "serves_fleet fleet ecs" "list_instances (cluster_instances ecs cid region) = Some (Ok ins)"
  shows "\<forall>i \<in> set ins. fleet_instance cid fleet i"
  using assms(2) unfolding list_instances_def
proof (rule token_loop_all)
  fix t pg i
  assume page: "instances_page (cluster_instances ecs cid region) t = Ok (Some pg)" "i \<in> set (pgItems pg)"
  then obtain pg' where ecs: "cluster_instances ecs cid region t = Ok (Some pg')"
    and items: "outcome_mapM (\<lambda>out. outcome_bind (deref out) NewInstance) (pgItems pg') = Ok (pgItems pg)"
    by (auto simp: instances_page_def split: option.splits)
  from outcome_mapM_set[OF items page(2)] obtain d where d: "Some d \<in> set (pgItems pg')" "NewInstance d = Ok i"
    by (metis deref_simps(1,2) option.exhaust outcome.distinct(3) outcome_bind.simps)
  have "d \<in> fleet \<and> owned_by cid d"
    using assms(1) ecs d(1) unfolding serves_fleet_def cluster_instances_def cluster_tag_def by fastforce
  with d(2) show "fleet_instance cid fleet i" by (auto simp: fleet_instance_def)
qed simp

lemma caches_owned_sync:
  "caches_owned cid fleet p \<Longrightarrow> \<forall>i \<in> set ins. fleet_instance cid fleet i \<Longrightarrow>
   caches_owned cid fleet (syncAllInstances now ins p)"
proof (induction ins arbitrary: p)
  case (Cons i ins)
  let ?p = "p\<lparr>instanceCache := cache_set now (inID i) i 0 (instanceCache p)\<rparr>"
  obtain e where e: "cache_items (instanceCache ?p) =
      AList.update (inID i) \<lparr>Object = i, Expiration = e\<rparr> (cache_items (instanceCache p))"
    by (simp add: cache_set_def Let_def)
  have "caches_owned cid fleet ?p"
    using Cons.prems set_update_pairs[of "inID i" "\<lparr>Object = i, Expiration = e\<rparr>" "cache_items (instanceCache p)"]
    unfolding caches_owned_def e by fastforce
  from Cons.IH[OF this] Cons.prems(2) show ?case by (simp add: syncAllInstances_def)
qed (simp add: syncAllInstances_def)

lemma caches_owned_time [simp]: "caches_owned cid fleet (p\<lparr>lastUpdateTime := t\<rparr>) = caches_owned cid fleet p"
  by (simp add: caches_owned_def)

lemma instance_List_owned:
  assumes "serves_fleet fleet ecs" "caches_owned cid fleet p"
    and "instance_List (cluster_instances ecs cid region) now p = Some (r, p')"
  shows "caches_owned cid fleet p'" and "r = Ok ins \<Longrightarrow> i \<in> set ins \<Longrightarrow> fleet_instance cid fleet i"
proof -
  have cached: "fleet_instance cid fleet i" if "i \<in> set (map snd (cache_list now (instanceCache p)))" for i
    using that assms(2) by (fastforce simp: cache_list_def caches_owned_def)
  note listed = list_instances_owned[OF assms(1), of cid region]
  show "caches_owned cid fleet p'"
    using assms(2,3) listed caches_owned_sync[OF assms(2)]
    by (auto simp: instance_List_def split: if_splits option.splits outcome.splits)
  show "r = Ok ins \<Longrightarrow> i \<in> set ins \<Longrightarrow> fleet_instance cid fleet i"
    using assms(3) listed cached by (auto simp: instance_List_def split: if_splits option.splits outcome.splits)
qed

lemma instance_Get_owned:
  assumes "serves_fleet fleet ecs" "caches_owned cid fleet p"
    and "instance_Get (cluster_instances ecs cid region) now i p = Some (r, p')"
  shows "caches_owned cid fleet p'" and "r = Ok ins \<Longrightarrow> fleet_instance cid fleet ins \<and> inID ins = i"
proof -
  have get: "fleet_instance cid fleet x \<and> inID x = i"
    if "caches_owned cid fleet q" "cache_get now i (instanceCache q) = Some x" for q x
    using that by (fastforce simp: caches_owned_def cache_get_def split: option.splits if_splits dest: map_of_SomeD)
  have sync: "caches_owned cid fleet (syncAllInstances now l q)"
    if "instance_List (cluster_instances ecs cid region) now p = Some (Ok l, q)" for l q
    using caches_owned_sync[of cid fleet q l now] instance_List_owned[OF assms(1,2) that] by blast
  show "caches_owned cid fleet p'" "r = Ok ins \<Longrightarrow> fleet_instance cid fleet ins \<and> inID ins = i"
    using assms(2,3) sync get instance_List_owned(1)[OF assms(1,2), of region now]
    by (auto simp: instance_Get_def Let_def split: option.splits outcome.splits prod.splits if_splits)
qed

lemma NewInstance_id: "NewInstance d = Ok i \<Longrightarrow> eiInstanceId d = Some (inID i)"
  by (cases "eiInstanceId d") (auto simp: NewInstance_def)

lemma fleet_instance_not_foreign:
  assumes "keeps_cluster cid fleet" "fleet_instance cid fleet i"
  shows "\<not> foreign_id cid fleet (inID i)"
proof -
  from assms(2) obtain d where d: "d \<in> fleet" "owned_by cid d" "eiInstanceId d = Some (inID i)"
    by (auto simp: fleet_instance_def dest: NewInstance_id)
  have "owned_by cid d'" if "d' \<in> fleet" "eiInstanceId d' = Some (inID i)" for d'
    using assms(1) d that unfolding keeps_cluster_def by metis
  then show ?thesis by (auto simp: foreign_id_def)
qed

text \<open>An instance of another cluster is not found, so nothing is asked of ECS to delete it.\<close>

lemma instance_Delete_foreign:
  assumes "serves_fleet fleet ecs" "caches_owned cid fleet p" "keeps_cluster cid fleet" "foreign_id cid fleet i"
  shows "instance_Delete (cluster_instances ecs cid region) del now i p =
      instance_Delete (cluster_instances ecs cid region) del' now i p"
    and "instance_Delete (cluster_instances ecs cid region) del now i p \<noteq> Some (Ok (), p')"
proof -
  have "x \<noteq> Ok ins" if "instance_Get (cluster_instances ecs cid region) now i p = Some (x, q)" for x q ins
    using instance_Get_owned(2)[OF assms(1,2) that] fleet_instance_not_foreign[OF assms(3)] assms(4) by blast
  then show "instance_Delete (cluster_instances ecs cid region) del now i p =
      instance_Delete (cluster_instances ecs cid region) del' now i p"
    "instance_Delete (cluster_instances ecs cid region) del now i p \<noteq> Some (Ok (), p')"
    by (auto simp: instance_Delete_def split: option.splits outcome.splits prod.splits)
qed

section \<open>Node claims of owned instances only\<close>

text \<open>The claim stands for an instance of the fleet that has the cluster's tag.\<close>

definition claim_owned :: "string \<Rightarrow> describe_instance set \<Rightarrow> node_claim \<Rightarrow> bool" where
  "claim_owned clusterID fleet cl = (\<exists>d \<in> fleet. owned_by clusterID d
     \<and> (\<exists>i. NewInstance d = Ok i \<and> clProviderID cl = inRegion i @ ''.'' @ inID i \<and> clCreationTimestamp cl = CreationTime i))"

lemma claim_of_instance_owned:
  "claim_of_instance env now i s = (Ok cl, s') \<Longrightarrow> fleet_instance cid fleet i \<Longrightarrow> claim_owned cid fleet cl"
  by (auto simp: claim_of_instance_def claim_owned_def fleet_instance_def instanceToNodeClaim_def
      split: outcome.splits prod.splits option.splits)

lemma claim_of_instance_instances: "claim_of_instance env now i s = (r, s') \<Longrightarrow> csInstances s' = csInstances s"
  by (auto simp: claim_of_instance_def resolveInstanceTypeFromInstance_def GetInstanceTypes_def list_types_def Let_def
      split: outcome.splits prod.splits option.splits)

lemma claims_of_instances_owned:
  "claims_of_instances env now is s = (r, s') \<Longrightarrow> \<forall>i \<in> set is. fleet_instance cid fleet i \<Longrightarrow>
   csInstances s' = csInstances s \<and> (\<forall>cls. r = Ok cls \<longrightarrow> (\<forall>cl \<in> set cls. claim_owned cid fleet cl))"
proof (induction "is" arbitrary: s r)
  case (Cons i "is")
  obtain x s1 where i: "claim_of_instance env now i s = (x, s1)" by (cases "claim_of_instance env now i s")
  obtain y s2 where rest: "claims_of_instances env now is s1 = (y, s2)" by (cases "claims_of_instances env now is s1")
  show ?case
  proof (cases x)
    case (Ok cl)
    then have r: "r = outcome_map (\<lambda>cls. cl # cls) y" and s': "s' = s2" using Cons.prems(1) i rest by auto
    have "claim_owned cid fleet cl" using claim_of_instance_owned[of env now i s cl s1 cid] i Ok Cons.prems(2) by simp
    moreover have "csInstances s' = csInstances s1 \<and> (\<forall>cls. y = Ok cls \<longrightarrow> (\<forall>cl \<in> set cls. claim_owned cid fleet cl))"
      by (rule Cons.IH[OF rest[folded s']]) (use Cons.prems(2) in simp)
    ultimately show ?thesis using claim_of_instance_instances[OF i] r by auto
  qed (use Cons.prems i claim_of_instance_instances[OF i] in auto)
qed simp

lemma cp_List_owned:
  assumes "serves_fleet fleet (ceInstances env)" "cid = lvClusterID (ceLaunch env)" "caches_owned cid fleet (csInstances s)"
    and run: "cp_List env now s = Some (r, s')"
  shows "caches_owned cid fleet (csInstances s') \<and> (\<forall>cls. r = Ok cls \<longrightarrow> (\<forall>c \<in> set cls. claim_owned cid fleet c))"
proof -
  obtain x p where list: "instance_List (ceOwned env s) now (csInstances s) = Some (x, p)"
    using run by (auto simp: cp_List_def split: option.splits)
  note own = instance_List_owned[OF assms(1,3) list[folded assms(2)]]
  have "csInstances s' = p \<and> (\<forall>cls. r = Ok cls \<longrightarrow> (\<forall>c \<in> set cls. claim_owned cid fleet c))"
    using run list claims_of_instances_owned[of env now _ "s\<lparr>csInstances := p\<rparr>" r s' cid fleet] own(2)
    by (auto simp: cp_List_def split: option.splits outcome.splits)
  with own(1) show ?thesis by blast
qed

lemma cp_Get_owned:
  assumes "serves_fleet fleet (ceInstances env)" "cid = lvClusterID (ceLaunch env)" "caches_owned cid fleet (csInstances s)"
    and run: "cp_Get env now pid s = Some (r, s')"
  shows "caches_owned cid fleet (csInstances s') \<and> (\<forall>c. r = Ok c \<longrightarrow> claim_owned cid fleet c)"
proof -
  have get: "caches_owned cid fleet p" "\<And>ins. x = Ok ins \<Longrightarrow> fleet_instance cid fleet ins"
    if "instance_Get (ceOwned env s) now i (csInstances s) = Some (x, p)" for i x p
    using instance_Get_owned[OF assms(1,3) that[folded assms(2)]] by auto
  have one: "csInstances s2 = p" "\<And>c. y = Ok c \<Longrightarrow> fleet_instance cid fleet ins \<Longrightarrow> claim_owned cid fleet c"
    if "claim_of_instance env now ins (s\<lparr>csInstances := p\<rparr>) = (y, s2)" for ins p y s2
    using claim_of_instance_instances[OF that] claim_of_instance_owned[of env now ins "s\<lparr>csInstances := p\<rparr>" _ s2 cid] that
    by auto
  from run show ?thesis
    using assms(3) get one by (auto simp: cp_Get_def split: option.splits outcome.splits prod.splits)
qed


section \<open>A fleet shared by two clusters\<close>

definition sample_described :: "string \<Rightarrow> string \<Rightarrow> describe_instance" where
  "sample_described i clusterID =
     \<lparr>eiCreationTime = Some [], eiStatus = Some ''Running'', eiInstanceId = Some i, eiImageId = Some ''img'',
      eiInstanceType = Some ''ecs.g7.large'', eiRegionId = Some ''cn-x'', eiZoneId = Some ''b'',
      eiSpotStrategy = Some ''NoSpot'', eiSecurityGroupIds = None, eiVpcAttributes = None,
      eiTags = Some [(Some (cluster_tag clusterID), Some ''owned'')]\<rparr>"

definition sample_instances :: "describe_instance list" where
  "sample_instances = [sample_described ''i-1'' (lvClusterID sample_launch_env), sample_described ''i-2'' ''other'']"

definition sample_fleet :: ecs_instances where
  "sample_fleet req = Ok (Some \<lparr>pgItems = map Some (filter (\<lambda>d. \<forall>(k, v) \<in> set (irTag req).
       (Some k, Some v) \<in> set (case eiTags d of None \<Rightarrow> [] | Some ts \<Rightarrow> ts)) sample_instances), pgNextToken = None\<rparr>)"

lemma sample_fleet_serves: "serves_fleet (set sample_instances) sample_fleet"
  by (auto simp: serves_fleet_def sample_fleet_def sample_instances_def has_tag_def sample_described_def)

lemma sample_fleet_keeps: "keeps_cluster cid (set sample_instances)"
  by (auto simp: keeps_cluster_def sample_instances_def sample_described_def)

lemma sample_foreign: "foreign_id (lvClusterID sample_launch_env) (set sample_instances) ''i-2''"
  by (simp add: foreign_id_def sample_instances_def sample_described_def has_tag_def cluster_tag_def sample_launch_env_def)

definition sample_fleet_env :: cloud_env where
  "sample_fleet_env = sample_cloud_env\<lparr>ceInstances := sample_fleet\<rparr>"

definition sample_fresh_state :: cloud_state where
  "sample_fresh_state = sample_cloud_state\<lparr>csInstances := NewInstanceProvider ''cn-x''\<rparr>"


end
