(* ===== verification/Tags.thy ===== *)
theory Tags
  imports Instance_Launch
begin

text \<open>
  Tags of instances: the keys reserved for the provider
  (\<^verbatim>\<open>RestrictedTagPatterns\<close> of \<^verbatim>\<open>src/pkg/apis/v1alpha1/labels.go\<close>), the
  admission rules on the tags of a node class (the validation markers of
  \<^verbatim>\<open>src/pkg/apis/v1alpha1/ecsnodeclass.go\<close>) and what a launch makes of the user's tags.
\<close>

section \<open>Reserved keys\<close>

definition ArchitectureAmd64 :: string where "ArchitectureAmd64 = ''amd64''"
definition ArchitectureArm64 :: string where "ArchitectureArm64 = ''arm64''"

definition WellKnownArchitectures :: "string list" where
  "WellKnownArchitectures = [ArchitectureAmd64, ArchitectureArm64]"

definition RestrictedLabelDomains :: "string list" where
  "RestrictedLabelDomains = [Group]"

definition alnum :: "char \<Rightarrow> bool" where
  "alnum c = (let n = (of_char c :: nat) in 48 \<le> n \<and> n \<le> 57 \<or> 65 \<le> n \<and> n \<le> 90 \<or> 97 \<le> n \<and> n \<le> 122)"

definition name_char :: "char \<Rightarrow> bool" where
  "name_char c = (alnum c \<or> c = CHR ''-'' \<or> c = CHR ''_'')"

text \<open>The expressions between \<^verbatim>\<open>^\<close> and \<^verbatim>\<open>$\<close>.\<close>

definition RestrictedTagPatterns :: "re list" where
  "RestrictedTagPatterns =
     [Seq (lit ''kubernetes.io/cluster/'') (Seq (Cls alnum) (StarC name_char)),
      lit NodePoolLabelKey, lit ECSClusterIDTagKey, lit LabelNodeClass, lit TagNodeClaim]"

definition match_whole :: "re \<Rightarrow> string \<Rightarrow> bool" where
  "match_whole e s = list_ex (\<lambda>(t, cs, r). r = []) (matches e s)"

definition restricted_tag :: "string \<Rightarrow> bool" where
  "restricted_tag k = list_ex (\<lambda>e. match_whole e k) RestrictedTagPatterns"

section \<open>Admission\<close>

text \<open>The rules on the keys of \<^verbatim>\<open>spec.tags\<close>.\<close>

definition tag_admitted :: "string \<Rightarrow> bool" where
  "tag_admitted k \<longleftrightarrow> k \<noteq> [] \<and> k \<noteq> ''ecs:ecs-cluster-name'' \<and> take 21 k \<noteq> ''kubernetes.io/cluster''
     \<and> k \<noteq> ''karpenter.sh/nodepool'' \<and> k \<noteq> ''karpenter.sh/nodeclaim'' \<and> k \<noteq> ''karpenter.k8s.alibabacloud/ecsnodeclass''"

definition tags_admitted :: "(string \<times> string) list \<Rightarrow> bool" where
  "tags_admitted tags = list_all (\<lambda>(k, v). tag_admitted k) tags"

section \<open>Lemmas\<close>

lemma matches_lit_prefix:
  "matches (lit w) s = (if take (length w) s = w then [(w, [], drop (length w) s)] else [])"
proof (induction w arbitrary: s)
  case (Cons c w)
  show ?case by (cases s) (auto simp: seq_matches_def Cons.IH)
qed simp

lemma match_whole_lit [simp]: "match_whole (lit w) s \<longleftrightarrow> s = w"
  by (auto simp: match_whole_def matches_lit_prefix)

lemma spans_whole: "list_ex (\<lambda>(t, r). r = []) (spans p s) \<longleftrightarrow> list_all p s"
proof (induction s)
  case (Cons c s)
  then show ?case by (simp add: list_ex_iff case_prod_unfold bex_Un)
qed simp

lemma match_whole_Seq_lit:
  "match_whole (Seq (lit w) e) k \<longleftrightarrow> take (length w) k = w \<and> match_whole e (drop (length w) k)"
  by (simp add: match_whole_def matches_lit_prefix seq_matches_def list_ex_iff case_prod_unfold)

lemma match_whole_name:
  "match_whole (Seq (Cls p) (StarC q)) k \<longleftrightarrow> (case k of [] \<Rightarrow> False | c # rest \<Rightarrow> p c \<and> list_all q rest)"
  using spans_whole[of q]
  by (cases k) (auto simp: match_whole_def seq_matches_def list_ex_iff case_prod_unfold)

definition cluster_name :: "string \<Rightarrow> bool" where
  "cluster_name cid = (case cid of [] \<Rightarrow> False | c # rest \<Rightarrow> alnum c \<and> list_all name_char rest)"

lemma restricted_tag_iff:
  "restricted_tag k \<longleftrightarrow> k \<in> {NodePoolLabelKey, ECSClusterIDTagKey, LabelNodeClass, TagNodeClaim}
     \<or> take 22 k = ''kubernetes.io/cluster/'' \<and> cluster_name (drop 22 k)"
proof -
  have n: "length ''kubernetes.io/cluster/'' = 22" by simp
  show ?thesis
    by (auto simp only: restricted_tag_def RestrictedTagPatterns_def match_whole_Seq_lit match_whole_name cluster_name_def n
        list_ex_iff set_simps insert_iff empty_iff bex_simps match_whole_lit)
qed

section \<open>The user's tags\<close>

lemma getTags_lookup:
  "map_of (getTags cid nc cl) k =
     (if k = LabelNodeClass then Some (ncName nc) else if k = ECSClusterIDTagKey then Some cid
      else if k = NodePoolLabelKey then Some (map_get (clLabels cl) NodePoolLabelKey)
      else if k = ''kubernetes.io/cluster/'' @ cid then Some ''owned'' else map_of (specTags (ncSpec nc)) k)"
  by (simp add: getTags_def map_of_assign label_defs)

lemma own_keys_refused:
  "\<not> tag_admitted LabelNodeClass" "\<not> tag_admitted NodePoolLabelKey"
  "\<not> tag_admitted (''kubernetes.io/cluster/'' @ cid)"
proof -
  show "\<not> tag_admitted LabelNodeClass" "\<not> tag_admitted NodePoolLabelKey" by code_simp+
  show "\<not> tag_admitted (''kubernetes.io/cluster/'' @ cid)" by (simp add: tag_admitted_def)
qed



end
