(* ===== verification/Go_Heap.thy ===== *)
theory Go_Heap
  imports Prelude
begin

text \<open>
  A store for the places where aliasing matters: pointers, slices and maps as addresses of cells.
  A cell is a value of a type \<open>'c\<close> that the client chooses, usually a datatype with one
  constructor per Go type behind an address; the locale \<open>cell_kind\<close> ties a constructor to its
  destructor. A reading follows addresses and returns the value it finds together with its footprint,
  the addresses it visited, or \<open>None\<close> for an address without a cell of the expected type (which
  Go's type system rules out). The locale \<open>deep_copier\<close> states what a deep copy promises:
  it only allocates, and the copy has the same value in cells of its own.
\<close>

section \<open>The store\<close>

type_synonym 'c store = "'c list"

definition cell_at :: "'c store \<Rightarrow> nat \<Rightarrow> 'c option" where
  "cell_at h a = (if a < length h then Some (h ! a) else None)"

definition new_cell :: "'c \<Rightarrow> 'c store \<Rightarrow> nat \<times> 'c store" where
  "new_cell c h = (length h, h @ [c])"

lemma cell_at_bound: "cell_at h a = Some c \<Longrightarrow> a < length h"
  by (simp add: cell_at_def split: if_splits)

lemma cell_at_append [simp]: "a < length h \<Longrightarrow> cell_at (h @ h') a = cell_at h a"
  by (simp add: cell_at_def nth_append)

lemma cell_at_new [simp]: "cell_at (h @ c # h') (length h) = Some c"
  by (simp add: cell_at_def)

lemma cell_at_update [simp]: "a \<noteq> b \<Longrightarrow> cell_at (h[b := c]) a = cell_at h a"
  by (simp add: cell_at_def)

lemma cell_at_update_same: "a < length h \<Longrightarrow> cell_at (h[a := c]) a = Some c"
  by (simp add: cell_at_def)

section \<open>Readings\<close>

type_synonym ('c, 'v) reading = "'c store \<Rightarrow> ('v \<times> nat list) option"

text \<open>A reading depends on the cells of its footprint only.\<close>

definition reads_locally :: "('c, 'v) reading \<Rightarrow> bool" where
  "reads_locally r \<longleftrightarrow> (\<forall>h v fp. r h = Some (v, fp) \<longrightarrow> set fp \<subseteq> {..<length h}
     \<and> (\<forall>h'. (\<forall>a \<in> set fp. cell_at h' a = cell_at h a) \<longrightarrow> r h' = Some (v, fp)))"

definition rd_return :: "'v \<Rightarrow> ('c, 'v) reading" where
  "rd_return v = (\<lambda>h. Some (v, []))"

definition rd_fail :: "('c, 'v) reading" where
  "rd_fail = (\<lambda>h. None)"

definition rd_bind :: "('c, 'v) reading \<Rightarrow> ('v \<Rightarrow> ('c, 'w) reading) \<Rightarrow> ('c, 'w) reading" where
  "rd_bind r f = (\<lambda>h. case r h of
     None \<Rightarrow> None
   | Some (v, fp) \<Rightarrow> (case f v h of None \<Rightarrow> None | Some (w, fq) \<Rightarrow> Some (w, fp @ fq)))"

definition rd_map :: "('v \<Rightarrow> 'w) \<Rightarrow> ('c, 'v) reading \<Rightarrow> ('c, 'w) reading" where
  "rd_map g r = (\<lambda>h. map_option (\<lambda>(v, fp). (g v, fp)) (r h))"

definition rd_cell :: "('c \<Rightarrow> 'a option) \<Rightarrow> nat \<Rightarrow> ('c, 'a) reading" where
  "rd_cell dest a = (\<lambda>h. map_option (\<lambda>x. (x, [a])) (Option.bind (cell_at h a) dest))"

fun rd_list :: "('a \<Rightarrow> ('c, 'v) reading) \<Rightarrow> 'a list \<Rightarrow> ('c, 'v list) reading" where
  "rd_list rd [] = rd_return []"
| "rd_list rd (x # xs) = rd_bind (rd x) (\<lambda>v. rd_map ((#) v) (rd_list rd xs))"

named_theorems reading_intros \<open>readings that depend on their footprint only\<close>

lemma reads_locallyD:
  assumes "reads_locally r" "r h = Some (v, fp)"
  shows "set fp \<subseteq> {..<length h}" "\<And>h'. (\<And>a. a \<in> set fp \<Longrightarrow> cell_at h' a = cell_at h a) \<Longrightarrow> r h' = Some (v, fp)"
  using assms unfolding reads_locally_def by blast+

lemma rd_bind_Some:
  "rd_bind r f h = Some (w, fq) \<longleftrightarrow> (\<exists>v fp fp'. r h = Some (v, fp) \<and> f v h = Some (w, fp') \<and> fq = fp @ fp')"
  by (auto simp: rd_bind_def split: option.splits)

lemma rd_map_Some: "rd_map g r h = Some (w, fp) \<longleftrightarrow> (\<exists>v. r h = Some (v, fp) \<and> w = g v)"
  by (auto simp: rd_map_def)

lemma rd_cell_Some: "rd_cell dest a h = Some (x, fp) \<longleftrightarrow> (\<exists>c. cell_at h a = Some c \<and> dest c = Some x) \<and> fp = [a]"
  by (auto simp: rd_cell_def Option.bind_eq_Some_conv)

lemmas reading_Some = rd_bind_Some rd_map_Some rd_cell_Some

lemma reads_locallyI:
  assumes "\<And>h v fp. r h = Some (v, fp) \<Longrightarrow> set fp \<subseteq> {..<length h}"
    and "\<And>h h' v fp. r h = Some (v, fp) \<Longrightarrow> (\<And>a. a \<in> set fp \<Longrightarrow> cell_at h' a = cell_at h a) \<Longrightarrow> r h' = Some (v, fp)"
  shows "reads_locally r"
  using assms unfolding reads_locally_def by blast

lemma reads_locally_return [reading_intros]: "reads_locally (rd_return v)"
  by (simp add: reads_locally_def rd_return_def)

lemma reads_locally_fail [reading_intros]: "reads_locally rd_fail"
  by (simp add: reads_locally_def rd_fail_def)

lemma reads_locally_cell [reading_intros]: "reads_locally (rd_cell dest a)"
proof (rule reads_locallyI)
  fix h v fp
  assume "rd_cell dest a h = Some (v, fp)"
  then show "set fp \<subseteq> {..<length h}" by (auto simp: rd_cell_Some dest: cell_at_bound)
next
  fix h h' v fp
  assume "rd_cell dest a h = Some (v, fp)" "\<And>b. b \<in> set fp \<Longrightarrow> cell_at h' b = cell_at h b"
  then show "rd_cell dest a h' = Some (v, fp)" by (simp add: rd_cell_Some)
qed

lemma reads_locally_map [reading_intros]:
  assumes "reads_locally r"
  shows "reads_locally (rd_map g r)"
  by (rule reads_locallyI) (auto simp: rd_map_Some intro: reads_locallyD[OF assms] dest: subsetD[OF reads_locallyD(1)[OF assms]])

lemma reads_locally_bind [reading_intros]:
  assumes "reads_locally r" "\<And>v. reads_locally (f v)"
  shows "reads_locally (rd_bind r f)"
  unfolding reads_locally_def
proof (intro allI impI conjI)
  fix h w fq
  assume "rd_bind r f h = Some (w, fq)"
  then obtain v fp fp' where rd: "r h = Some (v, fp)" "f v h = Some (w, fp')" and fq: "fq = fp @ fp'"
    by (auto simp: rd_bind_Some)
  note r = reads_locallyD[OF assms(1) rd(1)] and f = reads_locallyD[OF assms(2) rd(2)]
  show "set fq \<subseteq> {..<length h}" using r(1) f(1) fq by simp
  fix h'
  assume "\<forall>a \<in> set fq. cell_at h' a = cell_at h a"
  with fq have "r h' = Some (v, fp)" "f v h' = Some (w, fp')" by (auto intro: r(2) f(2))
  with fq show "rd_bind r f h' = Some (w, fq)" by (simp add: rd_bind_def)
qed

lemma reads_locally_list [reading_intros]: "(\<And>x. reads_locally (rd x)) \<Longrightarrow> reads_locally (rd_list rd xs)"
  by (induction xs) (auto intro: reading_intros)

text \<open>Allocation leaves every reading alone.\<close>

lemma reading_append:
  assumes "reads_locally r" "r h = Some (v, fp)"
  shows "r (h @ h') = Some (v, fp)"
  using reads_locallyD[OF assms] by (auto simp: subset_iff)

section \<open>Pointers, slices and maps\<close>

text \<open>A slice is a window of an array; nil is \<open>None\<close>. Maps are read in the order of their
  cell, with every key once.\<close>

record slice =
  slArray :: nat
  slOffset :: nat
  slLen :: nat

definition window :: "slice \<Rightarrow> 'a list \<Rightarrow> 'a list" where
  "window s xs = take (slLen s) (drop (slOffset s) xs)"

definition read_ptr :: "('c \<Rightarrow> 'a option) \<Rightarrow> ('a \<Rightarrow> ('c, 'v) reading) \<Rightarrow> nat option \<Rightarrow> ('c, 'v option) reading" where
  "read_ptr dest rd p = (case p of
     None \<Rightarrow> rd_return None
   | Some a \<Rightarrow> rd_bind (rd_cell dest a) (\<lambda>x. rd_map Some (rd x)))"

definition read_slice ::
  "('c \<Rightarrow> 'a list option) \<Rightarrow> ('a \<Rightarrow> ('c, 'v) reading) \<Rightarrow> slice option \<Rightarrow> ('c, 'v list option) reading" where
  "read_slice dest rd s = (case s of
     None \<Rightarrow> rd_return None
   | Some sl \<Rightarrow> rd_bind (rd_cell dest (slArray sl)) (\<lambda>xs.
       if slOffset sl + slLen sl \<le> length xs then rd_map Some (rd_list rd (window sl xs)) else rd_fail))"

definition read_gomap :: "('c \<Rightarrow> ('k \<times> 'v) list option) \<Rightarrow> nat option \<Rightarrow> ('c, ('k \<times> 'v) list option) reading" where
  "read_gomap dest p = (case p of
     None \<Rightarrow> rd_return None
   | Some a \<Rightarrow> rd_bind (rd_cell dest a) (\<lambda>m. if distinct (map fst m) then rd_return (Some m) else rd_fail))"

definition read_pair ::
  "('a \<Rightarrow> ('c, 'v) reading) \<Rightarrow> ('b \<Rightarrow> ('c, 'w) reading) \<Rightarrow> 'a \<times> 'b \<Rightarrow> ('c, 'v \<times> 'w) reading" where
  "read_pair r1 r2 x = rd_bind (r1 (fst x)) (\<lambda>v. rd_map (Pair v) (r2 (snd x)))"

section \<open>Copying\<close>

text \<open>\<^verbatim>\<open>new\<close> with a copy into the new cell. Every \<^verbatim>\<open>DeepCopyInto\<close> starts with
  \<^verbatim>\<open>*out = *in\<close>, so the cell is allocated with that value.\<close>

definition copy_ptr ::
  "('a \<Rightarrow> 'c) \<Rightarrow> ('c \<Rightarrow> 'a option) \<Rightarrow> ('a \<Rightarrow> 'c store \<Rightarrow> 'a \<times> 'c store) \<Rightarrow> nat option \<Rightarrow> 'c store \<Rightarrow> nat option \<times> 'c store"
where
  "copy_ptr mk dest copy p h =
     (case p of
        None \<Rightarrow> (None, h)
      | Some a \<Rightarrow>
          (case Option.bind (cell_at h a) dest of
             None \<Rightarrow> (None, h)
           | Some x \<Rightarrow>
               (let (b, h1) = new_cell (mk x) h;
                    (y, h2) = copy x h1
                in (Some b, h2[b := mk y]))))"

text \<open>The loop over a slice: element \<open>i\<close> of the array at \<open>b\<close> becomes the copy of \<open>x\<close>.\<close>

definition put_elem :: "('a list \<Rightarrow> 'c) \<Rightarrow> ('c \<Rightarrow> 'a list option) \<Rightarrow> nat \<Rightarrow> nat \<Rightarrow> 'a \<Rightarrow> 'c store \<Rightarrow> 'c store" where
  "put_elem mk dest b i y h =
     (case Option.bind (cell_at h b) dest of None \<Rightarrow> h | Some ys \<Rightarrow> h[b := mk (ys[i := y])])"

fun copy_elems ::
  "('a list \<Rightarrow> 'c) \<Rightarrow> ('c \<Rightarrow> 'a list option) \<Rightarrow> ('a \<Rightarrow> 'c store \<Rightarrow> 'a \<times> 'c store) \<Rightarrow> nat \<Rightarrow> nat \<Rightarrow> 'a list \<Rightarrow> 'c store \<Rightarrow> 'c store"
where
  "copy_elems mk dest copy b i [] h = h"
| "copy_elems mk dest copy b i (x # xs) h =
     (let (y, h1) = copy x h in copy_elems mk dest copy b (Suc i) xs (put_elem mk dest b i y h1))"

definition copy_slice ::
  "('a list \<Rightarrow> 'c) \<Rightarrow> ('c \<Rightarrow> 'a list option) \<Rightarrow> 'a \<Rightarrow> ('a \<Rightarrow> 'c store \<Rightarrow> 'a \<times> 'c store) \<Rightarrow>
   slice option \<Rightarrow> 'c store \<Rightarrow> slice option \<times> 'c store" where
  "copy_slice mk dest zero copy s h =
     (case s of
        None \<Rightarrow> (None, h)
      | Some sl \<Rightarrow>
          (case Option.bind (cell_at h (slArray sl)) dest of
             None \<Rightarrow> (None, h)
           | Some xs \<Rightarrow>
               (let (b, h1) = new_cell (mk (replicate (slLen sl) zero)) h
                in (Some \<lparr>slArray = b, slOffset = 0, slLen = slLen sl\<rparr>,
                    copy_elems mk dest copy b 0 (window sl xs) h1))))"

text \<open>\<^verbatim>\<open>make\<close> and the built-in \<^verbatim>\<open>copy\<close>.\<close>

definition copy_plain_slice ::
  "('a list \<Rightarrow> 'c) \<Rightarrow> ('c \<Rightarrow> 'a list option) \<Rightarrow> 'a \<Rightarrow> slice option \<Rightarrow> 'c store \<Rightarrow> slice option \<times> 'c store" where
  "copy_plain_slice mk dest zero s h =
     (case s of
        None \<Rightarrow> (None, h)
      | Some sl \<Rightarrow>
          (case Option.bind (cell_at h (slArray sl)) dest of
             None \<Rightarrow> (None, h)
           | Some xs \<Rightarrow>
               (let (b, h1) = new_cell (mk (replicate (slLen sl) zero)) h
                in (Some \<lparr>slArray = b, slOffset = 0, slLen = slLen sl\<rparr>, h1[b := mk (window sl xs)]))))"

text \<open>\<^verbatim>\<open>make\<close> of a map and an assignment per entry.\<close>

definition put_entry :: "(('k \<times> 'v) list \<Rightarrow> 'c) \<Rightarrow> ('c \<Rightarrow> ('k \<times> 'v) list option) \<Rightarrow> nat \<Rightarrow> 'k \<times> 'v \<Rightarrow> 'c store \<Rightarrow> 'c store" where
  "put_entry mk dest b e h =
     (case Option.bind (cell_at h b) dest of None \<Rightarrow> h | Some m \<Rightarrow> h[b := mk (AList.update (fst e) (snd e) m)])"

definition copy_gomap ::
  "(('k \<times> 'v) list \<Rightarrow> 'c) \<Rightarrow> ('c \<Rightarrow> ('k \<times> 'v) list option) \<Rightarrow> nat option \<Rightarrow> 'c store \<Rightarrow> nat option \<times> 'c store" where
  "copy_gomap mk dest p h =
     (case p of
        None \<Rightarrow> (None, h)
      | Some a \<Rightarrow>
          (case Option.bind (cell_at h a) dest of
             None \<Rightarrow> (None, h)
           | Some m \<Rightarrow> (let (b, h1) = new_cell (mk []) h in (Some b, fold (put_entry mk dest b) m h1))))"

definition copy_plain :: "'a \<Rightarrow> 'c store \<Rightarrow> 'a \<times> 'c store" where
  "copy_plain x h = (x, h)"

definition copy_pair ::
  "('a \<Rightarrow> 'c store \<Rightarrow> 'a \<times> 'c store) \<Rightarrow> ('b \<Rightarrow> 'c store \<Rightarrow> 'b \<times> 'c store) \<Rightarrow> 'a \<times> 'b \<Rightarrow> 'c store \<Rightarrow> ('a \<times> 'b) \<times> 'c store"
where
  "copy_pair c1 c2 x h = (let (y, h1) = c1 (fst x) h; (z, h2) = c2 (snd x) h1 in ((y, z), h2))"

section \<open>What a deep copy promises\<close>

locale cell_kind =
  fixes mk :: "'a \<Rightarrow> 'c" and dest :: "'c \<Rightarrow> 'a option"
  assumes dest_mk: "dest (mk x) = Some x"

locale deep_copier =
  fixes rd :: "'a \<Rightarrow> ('c, 'v) reading" and copy :: "'a \<Rightarrow> 'c store \<Rightarrow> 'a \<times> 'c store"
  assumes locally: "reads_locally (rd x)"
    and copies: "rd x h = Some (v, fp) \<Longrightarrow>
      \<exists>y rest fp'. copy x h = (y, h @ rest) \<and> rd y (h @ rest) = Some (v, fp') \<and> set fp' \<inter> {..<length h} = {}"
begin

lemma copyE:
  assumes "rd x h = Some (v, fp)" "copy x h = (y, h')"
  obtains rest fp' where "h' = h @ rest" "rd y h' = Some (v, fp')" "set fp' \<inter> {..<length h} = {}"
  using copies[OF assms(1)] assms(2) by auto

text \<open>The copy and the original share nothing: a store that differs from the one after the copy
  only in cells of the one still holds the other.\<close>

lemma independent:
  assumes rd: "rd x h = Some (v, fp)" and cp: "copy x h = (y, h')"
  shows "\<exists>fp'. rd x h' = Some (v, fp) \<and> rd y h' = Some (v, fp') \<and> set fp \<inter> set fp' = {}
    \<and> (\<forall>h2. (\<forall>a. a \<notin> set fp \<longrightarrow> cell_at h2 a = cell_at h' a) \<longrightarrow> rd y h2 = Some (v, fp'))
    \<and> (\<forall>h2. (\<forall>a. a \<notin> set fp' \<longrightarrow> cell_at h2 a = cell_at h' a) \<longrightarrow> rd x h2 = Some (v, fp))"
proof -
  from copyE[OF rd cp] obtain rest fp' where h': "h' = h @ rest" and y: "rd y h' = Some (v, fp')"
    and fresh: "set fp' \<inter> {..<length h} = {}" by metis
  have x: "rd x h' = Some (v, fp)" unfolding h' by (rule reading_append[OF locally rd])
  have disj: "set fp \<inter> set fp' = {}" using reads_locallyD(1)[OF locally rd] fresh by blast
  have "rd y h2 = Some (v, fp')" if "\<forall>a. a \<notin> set fp \<longrightarrow> cell_at h2 a = cell_at h' a" for h2
    by (rule reads_locallyD(2)[OF locally y]) (use that disj in blast)
  moreover have "rd x h2 = Some (v, fp)" if "\<forall>a. a \<notin> set fp' \<longrightarrow> cell_at h2 a = cell_at h' a" for h2
    by (rule reads_locallyD(2)[OF locally x]) (use that disj in blast)
  ultimately show ?thesis using x y disj by blast
qed

end

section \<open>Deep copies from deep copies\<close>

named_theorems copier_intros \<open>deep copiers of compound types\<close>

lemma plain_copier [copier_intros]: "deep_copier rd_return copy_plain"
  by unfold_locales (auto simp: rd_return_def copy_plain_def reads_locally_def)

lemma pair_copier [copier_intros]:
  assumes "deep_copier r1 c1" "deep_copier r2 c2"
  shows "deep_copier (read_pair r1 r2) (copy_pair c1 c2)"
proof
  note L = deep_copier.locally[OF assms(1)] deep_copier.locally[OF assms(2)]
  fix x
  show "reads_locally (read_pair r1 r2 x)" unfolding read_pair_def by (intro reading_intros L)
next
  note L = deep_copier.locally[OF assms(1)] deep_copier.locally[OF assms(2)]
  fix x h v fp
  assume "read_pair r1 r2 x h = Some (v, fp)"
  then obtain v1 v2 fp1 fp2 where rd: "r1 (fst x) h = Some (v1, fp1)" "r2 (snd x) h = Some (v2, fp2)" and v: "v = (v1, v2)"
    by (auto simp: read_pair_def reading_Some)
  obtain y1 m1 q1 where c1: "c1 (fst x) h = (y1, h @ m1)" "r1 y1 (h @ m1) = Some (v1, q1)" "set q1 \<inter> {..<length h} = {}"
    using deep_copier.copies[OF assms(1) rd(1)] by blast
  obtain y2 m2 q2 where c2: "c2 (snd x) (h @ m1) = (y2, (h @ m1) @ m2)" "r2 y2 ((h @ m1) @ m2) = Some (v2, q2)"
    "set q2 \<inter> {..<length (h @ m1)} = {}"
    using deep_copier.copies[OF assms(2) reading_append[OF L(2) rd(2)]] by blast
  have "read_pair r1 r2 (y1, y2) (h @ m1 @ m2) = Some (v, q1 @ q2)"
    using reading_append[OF L(1) c1(2), of m2] c2(2) v by (simp add: read_pair_def rd_bind_def rd_map_def)
  moreover have "copy_pair c1 c2 x h = ((y1, y2), h @ m1 @ m2)" using c1(1) c2(1) by (simp add: copy_pair_def)
  moreover have "set (q1 @ q2) \<inter> {..<length h} = {}" using c1(3) c2(3) by fastforce
  ultimately show "\<exists>y rest fp'. copy_pair c1 c2 x h = (y, h @ rest) \<and> read_pair r1 r2 y (h @ rest) = Some (v, fp')
      \<and> set fp' \<inter> {..<length h} = {}" by blast
qed

text \<open>A struct is copied like the tuple of its fields.\<close>

lemma struct_copier:
  assumes "deep_copier r c" "\<And>t. tup (mks t) = t"
    and "\<And>k. rd k = rd_map g (r (tup k))" "\<And>k h. copy k h = map_prod mks id (c (tup k) h)"
  shows "deep_copier rd copy"
proof
  fix k
  show "reads_locally (rd k)" unfolding assms(3) by (intro reading_intros deep_copier.locally[OF assms(1)])
next
  fix k h v fp
  assume "rd k h = Some (v, fp)"
  then obtain w where w: "r (tup k) h = Some (w, fp)" "v = g w" by (auto simp: assms(3) rd_map_Some)
  from deep_copier.copies[OF assms(1) w(1)] obtain t rest fp' where
    t: "c (tup k) h = (t, h @ rest)" "r t (h @ rest) = Some (w, fp')" "set fp' \<inter> {..<length h} = {}" by blast
  then have "copy k h = (mks t, h @ rest)" "rd (mks t) (h @ rest) = Some (v, fp')"
    by (simp_all add: assms(2-4) w(2) rd_map_def)
  with t(3) show "\<exists>y rest fp'. copy k h = (y, h @ rest) \<and> rd y (h @ rest) = Some (v, fp') \<and> set fp' \<inter> {..<length h} = {}"
    by blast
qed

lemma reading_elsewhere:
  assumes "reads_locally r" "r h = Some (v, fp)" "b \<notin> set fp"
  shows "r (h[b := c]) = Some (v, fp)"
  by (rule reads_locallyD(2)[OF assms(1,2)]) (use assms(3) in \<open>metis cell_at_update\<close>)

lemma ptr_copier [copier_intros]:
  assumes "deep_copier rd copy" "cell_kind mk dest"
  shows "deep_copier (read_ptr dest rd) (copy_ptr mk dest copy)"
proof
  fix p
  show "reads_locally (read_ptr dest rd p)"
    unfolding read_ptr_def by (auto intro!: reading_intros deep_copier.locally[OF assms(1)] split: option.split)
next
  fix p h v fp
  assume rd: "read_ptr dest rd p h = Some (v, fp)"
  show "\<exists>y rest fp'. copy_ptr mk dest copy p h = (y, h @ rest) \<and> read_ptr dest rd y (h @ rest) = Some (v, fp')
      \<and> set fp' \<inter> {..<length h} = {}"
  proof (cases p)
    case None
    with rd show ?thesis by (simp add: read_ptr_def copy_ptr_def rd_return_def)
  next
    case (Some a)
    with rd obtain x w q where x: "Option.bind (cell_at h a) dest = Some x" and w: "rd x h = Some (w, q)" and v: "v = Some w"
      by (auto simp: read_ptr_def reading_Some)
    from deep_copier.copies[OF assms(1) reading_append[OF deep_copier.locally[OF assms(1)] w, of "[mk x]"]]
    obtain y rest q' where y: "copy x (h @ [mk x]) = (y, (h @ [mk x]) @ rest)" "rd y ((h @ [mk x]) @ rest) = Some (w, q')"
      "set q' \<inter> {..<length (h @ [mk x])} = {}" by blast
    then have "length h \<notin> set q'" by auto
    from reading_elsewhere[OF deep_copier.locally[OF assms(1)] y(2) this, of "mk y"]
    have "rd y (h @ mk y # rest) = Some (w, q')" by (simp add: list_update_append)
    then have "read_ptr dest rd (Some (length h)) (h @ mk y # rest) = Some (v, length h # q')"
      using v cell_kind.dest_mk[OF assms(2)] by (simp add: read_ptr_def rd_bind_def rd_cell_def rd_map_def)
    moreover have "copy_ptr mk dest copy p h = (Some (length h), h @ mk y # rest)"
      using Some x y(1) by (simp add: copy_ptr_def new_cell_def list_update_append)
    moreover have "set (length h # q') \<inter> {..<length h} = {}" using y(3) by fastforce
    ultimately show ?thesis by blast
  qed
qed

text \<open>The loop keeps the store but for the new array, whose elements become the copies one by one.\<close>

lemma copy_elems_copies:
  assumes "deep_copier rd copy" "cell_kind mk dest"
    and "rd_list rd xs (pre @ mk ys # post) = Some (vs, fp)" "length pre \<notin> set fp" "length ys = i + length xs"
  shows "\<exists>zs rest fp'. copy_elems mk dest copy (length pre) i xs (pre @ mk ys # post) = pre @ mk (take i ys @ zs) # post @ rest
    \<and> length zs = length xs \<and> rd_list rd zs (pre @ mk (take i ys @ zs) # post @ rest) = Some (vs, fp')
    \<and> set fp' \<inter> {..<length (pre @ mk ys # post)} = {}"
  using assms(3-)
proof (induction xs arbitrary: ys post vs fp i)
  case Nil
  then show ?case by (auto simp: rd_return_def)
next
  case (Cons x xs)
  note L = deep_copier.locally[OF assms(1)]
  let ?h = "pre @ mk ys # post"
  from Cons.prems(1) obtain v ws p1 p2 where x: "rd x ?h = Some (v, p1)" "rd_list rd xs ?h = Some (ws, p2)"
    and vs: "vs = v # ws" "fp = p1 @ p2" by (auto simp: reading_Some)
  from deep_copier.copies[OF assms(1) x(1)] obtain y m q where
    y: "copy x ?h = (y, ?h @ m)" "rd y (?h @ m) = Some (v, q)" "set q \<inter> {..<length ?h} = {}" by blast
  let ?ys = "ys[i := y]"
  have put: "put_elem mk dest (length pre) i y (?h @ m) = pre @ mk ?ys # post @ m"
    by (simp add: put_elem_def cell_kind.dest_mk[OF assms(2)] list_update_append)
  have "rd_list rd xs (?h @ m) = Some (ws, p2)" by (rule reading_append[OF reads_locally_list[OF L] x(2)])
  from reading_elsewhere[OF reads_locally_list[OF L] this, of "length pre" "mk ?ys"] Cons.prems(2) vs(2)
  have "rd_list rd xs (pre @ mk ?ys # post @ m) = Some (ws, p2)" by (simp add: list_update_append)
  from Cons.IH[OF this, of "Suc i"] Cons.prems(2,3) vs(2) obtain zs rest q' where
    IH: "copy_elems mk dest copy (length pre) (Suc i) xs (pre @ mk ?ys # post @ m)
        = pre @ mk (take (Suc i) ?ys @ zs) # post @ m @ rest" "length zs = length xs"
      "rd_list rd zs (pre @ mk (take (Suc i) ?ys @ zs) # post @ m @ rest) = Some (ws, q')"
      "set q' \<inter> {..<length (pre @ mk ?ys # post @ m)} = {}" by auto
  have tk: "take (Suc i) ?ys @ zs = take i ys @ y # zs"
    using Cons.prems(3) by (simp add: take_Suc_conv_app_nth)
  have "length pre \<notin> set q" using y(3) by auto
  from reading_elsewhere[OF L reading_append[OF L y(2), of rest] this, of "mk (take i ys @ y # zs)"]
  have "rd y (pre @ mk (take i ys @ y # zs) # post @ m @ rest) = Some (v, q)" by (simp add: list_update_append)
  with IH(3) vs(1) tk have "rd_list rd (y # zs) (pre @ mk (take i ys @ y # zs) # post @ m @ rest) = Some (vs, q @ q')"
    by (simp add: rd_bind_def rd_map_def)
  moreover have "set (q @ q') \<inter> {..<length ?h} = {}" using y(3) IH(4) by fastforce
  moreover have "copy_elems mk dest copy (length pre) i (x # xs) ?h = pre @ mk (take i ys @ y # zs) # post @ m @ rest"
    using y(1) put IH(1) tk by simp
  ultimately show ?case using IH(2) by (intro exI[of _ "y # zs"] exI[of _ "m @ rest"] exI[of _ "q @ q'"]) simp
qed

lemma window_length: "slOffset sl + slLen sl \<le> length xs \<Longrightarrow> length (window sl xs) = slLen sl"
  by (simp add: window_def)

lemma whole_window [simp]: "n = length zs \<Longrightarrow> window \<lparr>slArray = b, slOffset = 0, slLen = n\<rparr> zs = zs"
  by (simp add: window_def)

lemma read_sliceE:
  assumes "read_slice dest rd (Some sl) h = Some (v, fp)"
  obtains xs vs q where "Option.bind (cell_at h (slArray sl)) dest = Some xs" "slOffset sl + slLen sl \<le> length xs"
    "rd_list rd (window sl xs) h = Some (vs, q)" "v = Some vs"
  using assms by (auto simp: read_slice_def reading_Some rd_fail_def split: if_splits)

lemma read_slice_whole:
  assumes "cell_kind mk dest" "rd_list rd zs (h @ mk zs # rest) = Some (vs, q)" "n = length zs"
  shows "read_slice dest rd (Some \<lparr>slArray = length h, slOffset = 0, slLen = n\<rparr>) (h @ mk zs # rest)
    = Some (Some vs, length h # q)"
  using assms by (simp add: read_slice_def rd_bind_def rd_cell_def rd_map_def cell_kind.dest_mk)

lemma reads_locally_slice: "(\<And>x. reads_locally (rd x)) \<Longrightarrow> reads_locally (read_slice dest rd s)"
  unfolding read_slice_def by (auto intro!: reading_intros split: option.split)

lemma slice_copier [copier_intros]:
  assumes "deep_copier rd copy" "cell_kind mk dest"
  shows "deep_copier (read_slice dest rd) (copy_slice mk dest zero copy)"
proof
  show "reads_locally (read_slice dest rd s)" for s by (rule reads_locally_slice[OF deep_copier.locally[OF assms(1)]])
next
  fix s h v fp
  assume rd: "read_slice dest rd s h = Some (v, fp)"
  show "\<exists>y rest fp'. copy_slice mk dest zero copy s h = (y, h @ rest) \<and> read_slice dest rd y (h @ rest) = Some (v, fp')
      \<and> set fp' \<inter> {..<length h} = {}"
  proof (cases s)
    case None
    with rd show ?thesis by (simp add: read_slice_def copy_slice_def rd_return_def)
  next
    case (Some sl)
    from read_sliceE[OF rd[unfolded Some]] obtain xs vs q where
      xs: "Option.bind (cell_at h (slArray sl)) dest = Some xs" "slOffset sl + slLen sl \<le> length xs"
        "rd_list rd (window sl xs) h = Some (vs, q)" "v = Some vs" by metis
    note L = reads_locally_list[OF deep_copier.locally[OF assms(1)]]
    let ?new = "mk (replicate (slLen sl) zero)"
    have "rd_list rd (window sl xs) (h @ ?new # []) = Some (vs, q)" by (rule reading_append[OF L xs(3)])
    moreover have "length h \<notin> set q" using reads_locallyD(1)[OF L xs(3)] by auto
    ultimately obtain zs rest q' where
      z: "copy_elems mk dest copy (length h) 0 (window sl xs) (h @ [?new]) = h @ mk zs # rest"
        "length zs = slLen sl" "rd_list rd zs (h @ mk zs # rest) = Some (vs, q')" "set q' \<inter> {..<length (h @ [?new])} = {}"
      using copy_elems_copies[OF assms, where i = 0] window_length[OF xs(2)] by (metis append.left_neutral append_Nil
          length_replicate plus_nat.add_0 take_0)
    have "copy_slice mk dest zero copy s h =
        (Some \<lparr>slArray = length h, slOffset = 0, slLen = slLen sl\<rparr>, h @ mk zs # rest)"
      using Some xs(1) z(1) by (simp add: copy_slice_def new_cell_def)
    moreover note read_slice_whole[OF assms(2) z(3) z(2)[symmetric]]
    moreover have "set (length h # q') \<inter> {..<length h} = {}" using z(4) by fastforce
    ultimately show ?thesis using xs(4) by blast
  qed
qed

lemma rd_list_return: "rd_list rd_return xs h = Some (xs, [])"
  by (induction xs) (simp_all add: rd_return_def rd_bind_def rd_map_def)

lemma plain_slice_copier [copier_intros]:
  assumes "cell_kind mk dest"
  shows "deep_copier (read_slice dest rd_return) (copy_plain_slice mk dest zero)"
proof
  show "reads_locally (read_slice dest rd_return s)" for s by (intro reads_locally_slice reading_intros)
next
  fix s h v fp
  assume rd: "read_slice dest rd_return s h = Some (v, fp)"
  show "\<exists>y rest fp'. copy_plain_slice mk dest zero s h = (y, h @ rest) \<and> read_slice dest rd_return y (h @ rest) = Some (v, fp')
      \<and> set fp' \<inter> {..<length h} = {}"
  proof (cases s)
    case None
    with rd show ?thesis by (simp add: read_slice_def copy_plain_slice_def rd_return_def)
  next
    case (Some sl)
    from read_sliceE[OF rd[unfolded Some]] obtain xs where
      xs: "Option.bind (cell_at h (slArray sl)) dest = Some xs" "slOffset sl + slLen sl \<le> length xs" "v = Some (window sl xs)"
      by (metis rd_list_return option.inject prod.inject)
    have "copy_plain_slice mk dest zero s h =
        (Some \<lparr>slArray = length h, slOffset = 0, slLen = slLen sl\<rparr>, h @ mk (window sl xs) # [])"
      using Some xs(1) by (simp add: copy_plain_slice_def new_cell_def list_update_append)
    moreover note read_slice_whole[OF assms rd_list_return window_length[OF xs(2), symmetric], of h "[]"]
    ultimately show ?thesis using xs(3) by (intro exI conjI) auto
  qed
qed

lemma put_entries:
  assumes "cell_kind mk dest" "distinct (map fst (m @ es))"
  shows "fold (put_entry mk dest (length h)) es (h @ mk m # rest) = h @ mk (m @ es) # rest"
  using assms(2)
proof (induction es arbitrary: m)
  case (Cons e es)
  then have "fst e \<notin> fst ` set m" by auto
  then have "AList.update (fst e) (snd e) m = m @ [e]" by (induction m) auto
  then have "put_entry mk dest (length h) e (h @ mk m # rest) = h @ mk (m @ [e]) # rest"
    by (simp add: put_entry_def cell_kind.dest_mk[OF assms(1)] list_update_append)
  with Cons.IH[of "m @ [e]"] Cons.prems show ?case by simp
qed simp

lemma gomap_copier [copier_intros]:
  assumes "cell_kind mk dest"
  shows "deep_copier (read_gomap dest) (copy_gomap mk dest)"
proof
  show "reads_locally (read_gomap dest p)" for p
    unfolding read_gomap_def by (auto intro!: reading_intros split: option.split)
next
  fix p h v fp
  assume rd: "read_gomap dest p h = Some (v, fp)"
  show "\<exists>y rest fp'. copy_gomap mk dest p h = (y, h @ rest) \<and> read_gomap dest y (h @ rest) = Some (v, fp')
      \<and> set fp' \<inter> {..<length h} = {}"
  proof (cases p)
    case None
    with rd show ?thesis by (simp add: read_gomap_def copy_gomap_def rd_return_def)
  next
    case (Some a)
    with rd obtain m where m: "Option.bind (cell_at h a) dest = Some m" "distinct (map fst m)" "v = Some m"
      by (auto simp: read_gomap_def reading_Some rd_return_def rd_fail_def split: if_splits)
    have "copy_gomap mk dest p h = (Some (length h), h @ [mk m])"
      using Some m(1) put_entries[OF assms, of "[]" m h "[]"] m(2) by (simp add: copy_gomap_def new_cell_def)
    moreover have "read_gomap dest (Some (length h)) (h @ [mk m]) = Some (v, [length h])"
      using m cell_kind.dest_mk[OF assms] by (simp add: read_gomap_def rd_bind_def rd_cell_def rd_return_def)
    ultimately show ?thesis by (intro exI conjI) auto
  qed
qed

end
