(* ===== verification/Go_Objects.thy ===== *)
theory Go_Objects
  imports Go_Heap Apis
begin

text \<open>
  The API objects as Go lays them out in memory: structs whose pointer, slice and map fields are
  addresses of cells. \<open>read_nodeclass\<close> and the other readings give the value an object stands
  for, which for the specification and the status is that of \<open>Apis\<close>, where nil and empty
  slices and maps are the same (as they are for the semantic equality the controllers use).
  \<open>ObjectMeta\<close>, \<open>ListMeta\<close>, \<open>OwnerReference\<close> and \<open>ManagedFieldsEntry\<close>
  are those of \<^verbatim>\<open>k8s.io/apimachinery\<close>, \<open>NodeSelectorRequirement\<close> that of
  \<^verbatim>\<open>k8s.io/api\<close>. Bytes are characters.
\<close>

section \<open>Structs\<close>

record go_vswitch_term =
  gvTags :: "nat option"
  gvID :: string

record go_group_term =
  ggTags :: "nat option"
  ggID :: string
  ggName :: string

record go_kubelet =
  gkClusterDNS :: "slice option"
  gkMaxPods :: "nat option"
  gkPodsPerCore :: "nat option"
  gkSystemReserved :: "nat option"
  gkKubeReserved :: "nat option"
  gkEvictionHard :: "nat option"
  gkEvictionSoft :: "nat option"
  gkEvictionSoftGracePeriod :: "nat option"
  gkEvictionMaxPodGracePeriod :: "nat option"
  gkImageGCHighThresholdPercent :: "nat option"
  gkImageGCLowThresholdPercent :: "nat option"
  gkCPUCFSQuota :: "nat option"

record go_disk =
  gdCategories :: "slice option"
  gdSize :: "nat option"
  gdPerformanceLevel :: "nat option"

record go_spec =
  gsVSwitchSelectorTerms :: "slice option"
  gsVSwitchSelectionPolicy :: string
  gsSecurityGroupSelectorTerms :: "slice option"
  gsImageSelectorTerms :: "slice option"
  gsKubeletConfiguration :: "nat option"
  gsSystemDisk :: "nat option"
  gsTags :: "nat option"
  gsResourceGroupID :: string

record go_requirement =
  gqKey :: string
  gqOperator :: node_op
  gqValues :: "slice option"

record go_image =
  giID :: string
  giName :: string
  giRequirements :: "slice option"

record go_status =
  gtVSwitches :: "slice option"
  gtSecurityGroups :: "slice option"
  gtImages :: "slice option"
  gtConditions :: "slice option"

record go_owner =
  goAPIVersion :: string
  goKind :: string
  goName :: string
  goUID :: string
  goController :: "nat option"
  goBlockOwnerDeletion :: "nat option"

record go_fields =
  gfRaw :: "slice option"

record go_managed =
  geManager :: string
  geOperation :: string
  geAPIVersion :: string
  geTime :: "nat option"
  geFieldsType :: string
  geFieldsV1 :: "nat option"
  geSubresource :: string

record go_meta =
  gmName :: string
  gmGenerateName :: string
  gmNamespace :: string
  gmSelfLink :: string
  gmUID :: string
  gmResourceVersion :: string
  gmGeneration :: int
  gmCreationTimestamp :: int
  gmDeletionTimestamp :: "nat option"
  gmDeletionGracePeriodSeconds :: "nat option"
  gmLabels :: "nat option"
  gmAnnotations :: "nat option"
  gmOwnerReferences :: "slice option"
  gmFinalizers :: "slice option"
  gmManagedFields :: "slice option"

record go_nodeclass =
  gcKind :: string
  gcAPIVersion :: string
  gcMeta :: go_meta
  gcSpec :: go_spec
  gcStatus :: go_status

record go_list_meta =
  glSelfLink :: string
  glResourceVersion :: string
  glContinue :: string
  glRemainingItemCount :: "nat option"

record go_nodeclass_list =
  gnKind :: string
  gnAPIVersion :: string
  gnListMeta :: go_list_meta
  gnItems :: "slice option"
section \<open>Cells\<close>

named_theorems cell_defs \<open>destructors of cells\<close>

datatype cell =
    Int32Cell int
  | Int64Cell int
  | BoolCell bool
  | StringCell string
  | TimeCell int
  | StringArray "string list"
  | ByteArray string
  | StringMap "(string \<times> string) list"
  | DurationMap "(string \<times> int) list"
  | VSwitchTermCell go_vswitch_term
  | SecurityGroupTermCell go_group_term
  | ImageTermCell image_selector_term
  | KubeletCell go_kubelet
  | SystemDiskCell go_disk
  | SpecCell go_spec
  | VSwitchCell status_vswitch
  | SecurityGroupCell status_security_group
  | ImageCell go_image
  | StatusCell go_status
  | FieldsV1Cell go_fields
  | NodeClassCell go_nodeclass
  | NodeClassListCell go_nodeclass_list
  | VSwitchTermArray "go_vswitch_term list"
  | SecurityGroupTermArray "go_group_term list"
  | ImageTermArray "image_selector_term list"
  | VSwitchArray "status_vswitch list"
  | SecurityGroupArray "status_security_group list"
  | RequirementArray "go_requirement list"
  | ImageArray "go_image list"
  | ConditionArray "condition list"
  | OwnerArray "go_owner list"
  | ManagedFieldsArray "go_managed list"
  | NodeClassArray "go_nodeclass list"

definition the_Int32Cell :: "cell \<Rightarrow> int option" where
  [cell_defs]: "the_Int32Cell c = (case c of Int32Cell x \<Rightarrow> Some x | _ \<Rightarrow> None)"
definition the_Int64Cell :: "cell \<Rightarrow> int option" where
  [cell_defs]: "the_Int64Cell c = (case c of Int64Cell x \<Rightarrow> Some x | _ \<Rightarrow> None)"
definition the_BoolCell :: "cell \<Rightarrow> bool option" where
  [cell_defs]: "the_BoolCell c = (case c of BoolCell x \<Rightarrow> Some x | _ \<Rightarrow> None)"
definition the_StringCell :: "cell \<Rightarrow> string option" where
  [cell_defs]: "the_StringCell c = (case c of StringCell x \<Rightarrow> Some x | _ \<Rightarrow> None)"
definition the_TimeCell :: "cell \<Rightarrow> int option" where
  [cell_defs]: "the_TimeCell c = (case c of TimeCell x \<Rightarrow> Some x | _ \<Rightarrow> None)"
definition the_StringArray :: "cell \<Rightarrow> string list option" where
  [cell_defs]: "the_StringArray c = (case c of StringArray x \<Rightarrow> Some x | _ \<Rightarrow> None)"
definition the_ByteArray :: "cell \<Rightarrow> string option" where
  [cell_defs]: "the_ByteArray c = (case c of ByteArray x \<Rightarrow> Some x | _ \<Rightarrow> None)"
definition the_StringMap :: "cell \<Rightarrow> (string \<times> string) list option" where
  [cell_defs]: "the_StringMap c = (case c of StringMap x \<Rightarrow> Some x | _ \<Rightarrow> None)"
definition the_DurationMap :: "cell \<Rightarrow> (string \<times> int) list option" where
  [cell_defs]: "the_DurationMap c = (case c of DurationMap x \<Rightarrow> Some x | _ \<Rightarrow> None)"
definition the_VSwitchTermCell :: "cell \<Rightarrow> go_vswitch_term option" where
  [cell_defs]: "the_VSwitchTermCell c = (case c of VSwitchTermCell x \<Rightarrow> Some x | _ \<Rightarrow> None)"
definition the_SecurityGroupTermCell :: "cell \<Rightarrow> go_group_term option" where
  [cell_defs]: "the_SecurityGroupTermCell c = (case c of SecurityGroupTermCell x \<Rightarrow> Some x | _ \<Rightarrow> None)"
definition the_ImageTermCell :: "cell \<Rightarrow> image_selector_term option" where
  [cell_defs]: "the_ImageTermCell c = (case c of ImageTermCell x \<Rightarrow> Some x | _ \<Rightarrow> None)"
definition the_KubeletCell :: "cell \<Rightarrow> go_kubelet option" where
  [cell_defs]: "the_KubeletCell c = (case c of KubeletCell x \<Rightarrow> Some x | _ \<Rightarrow> None)"
definition the_SystemDiskCell :: "cell \<Rightarrow> go_disk option" where
  [cell_defs]: "the_SystemDiskCell c = (case c of SystemDiskCell x \<Rightarrow> Some x | _ \<Rightarrow> None)"
definition the_SpecCell :: "cell \<Rightarrow> go_spec option" where
  [cell_defs]: "the_SpecCell c = (case c of SpecCell x \<Rightarrow> Some x | _ \<Rightarrow> None)"
definition the_VSwitchCell :: "cell \<Rightarrow> status_vswitch option" where
  [cell_defs]: "the_VSwitchCell c = (case c of VSwitchCell x \<Rightarrow> Some x | _ \<Rightarrow> None)"
definition the_SecurityGroupCell :: "cell \<Rightarrow> status_security_group option" where
  [cell_defs]: "the_SecurityGroupCell c = (case c of SecurityGroupCell x \<Rightarrow> Some x | _ \<Rightarrow> None)"
definition the_ImageCell :: "cell \<Rightarrow> go_image option" where
  [cell_defs]: "the_ImageCell c = (case c of ImageCell x \<Rightarrow> Some x | _ \<Rightarrow> None)"
definition the_StatusCell :: "cell \<Rightarrow> go_status option" where
  [cell_defs]: "the_StatusCell c = (case c of StatusCell x \<Rightarrow> Some x | _ \<Rightarrow> None)"
definition the_FieldsV1Cell :: "cell \<Rightarrow> go_fields option" where
  [cell_defs]: "the_FieldsV1Cell c = (case c of FieldsV1Cell x \<Rightarrow> Some x | _ \<Rightarrow> None)"
definition the_NodeClassCell :: "cell \<Rightarrow> go_nodeclass option" where
  [cell_defs]: "the_NodeClassCell c = (case c of NodeClassCell x \<Rightarrow> Some x | _ \<Rightarrow> None)"
definition the_NodeClassListCell :: "cell \<Rightarrow> go_nodeclass_list option" where
  [cell_defs]: "the_NodeClassListCell c = (case c of NodeClassListCell x \<Rightarrow> Some x | _ \<Rightarrow> None)"
definition the_VSwitchTermArray :: "cell \<Rightarrow> go_vswitch_term list option" where
  [cell_defs]: "the_VSwitchTermArray c = (case c of VSwitchTermArray x \<Rightarrow> Some x | _ \<Rightarrow> None)"
definition the_SecurityGroupTermArray :: "cell \<Rightarrow> go_group_term list option" where
  [cell_defs]: "the_SecurityGroupTermArray c = (case c of SecurityGroupTermArray x \<Rightarrow> Some x | _ \<Rightarrow> None)"
definition the_ImageTermArray :: "cell \<Rightarrow> image_selector_term list option" where
  [cell_defs]: "the_ImageTermArray c = (case c of ImageTermArray x \<Rightarrow> Some x | _ \<Rightarrow> None)"
definition the_VSwitchArray :: "cell \<Rightarrow> status_vswitch list option" where
  [cell_defs]: "the_VSwitchArray c = (case c of VSwitchArray x \<Rightarrow> Some x | _ \<Rightarrow> None)"
definition the_SecurityGroupArray :: "cell \<Rightarrow> status_security_group list option" where
  [cell_defs]: "the_SecurityGroupArray c = (case c of SecurityGroupArray x \<Rightarrow> Some x | _ \<Rightarrow> None)"
definition the_RequirementArray :: "cell \<Rightarrow> go_requirement list option" where
  [cell_defs]: "the_RequirementArray c = (case c of RequirementArray x \<Rightarrow> Some x | _ \<Rightarrow> None)"
definition the_ImageArray :: "cell \<Rightarrow> go_image list option" where
  [cell_defs]: "the_ImageArray c = (case c of ImageArray x \<Rightarrow> Some x | _ \<Rightarrow> None)"
definition the_ConditionArray :: "cell \<Rightarrow> condition list option" where
  [cell_defs]: "the_ConditionArray c = (case c of ConditionArray x \<Rightarrow> Some x | _ \<Rightarrow> None)"
definition the_OwnerArray :: "cell \<Rightarrow> go_owner list option" where
  [cell_defs]: "the_OwnerArray c = (case c of OwnerArray x \<Rightarrow> Some x | _ \<Rightarrow> None)"
definition the_ManagedFieldsArray :: "cell \<Rightarrow> go_managed list option" where
  [cell_defs]: "the_ManagedFieldsArray c = (case c of ManagedFieldsArray x \<Rightarrow> Some x | _ \<Rightarrow> None)"
definition the_NodeClassArray :: "cell \<Rightarrow> go_nodeclass list option" where
  [cell_defs]: "the_NodeClassArray c = (case c of NodeClassArray x \<Rightarrow> Some x | _ \<Rightarrow> None)"

lemma cell_kinds [copier_intros]:
  "cell_kind Int32Cell the_Int32Cell"
  "cell_kind Int64Cell the_Int64Cell"
  "cell_kind BoolCell the_BoolCell"
  "cell_kind StringCell the_StringCell"
  "cell_kind TimeCell the_TimeCell"
  "cell_kind StringArray the_StringArray"
  "cell_kind ByteArray the_ByteArray"
  "cell_kind StringMap the_StringMap"
  "cell_kind DurationMap the_DurationMap"
  "cell_kind VSwitchTermCell the_VSwitchTermCell"
  "cell_kind SecurityGroupTermCell the_SecurityGroupTermCell"
  "cell_kind ImageTermCell the_ImageTermCell"
  "cell_kind KubeletCell the_KubeletCell"
  "cell_kind SystemDiskCell the_SystemDiskCell"
  "cell_kind SpecCell the_SpecCell"
  "cell_kind VSwitchCell the_VSwitchCell"
  "cell_kind SecurityGroupCell the_SecurityGroupCell"
  "cell_kind ImageCell the_ImageCell"
  "cell_kind StatusCell the_StatusCell"
  "cell_kind FieldsV1Cell the_FieldsV1Cell"
  "cell_kind NodeClassCell the_NodeClassCell"
  "cell_kind NodeClassListCell the_NodeClassListCell"
  "cell_kind VSwitchTermArray the_VSwitchTermArray"
  "cell_kind SecurityGroupTermArray the_SecurityGroupTermArray"
  "cell_kind ImageTermArray the_ImageTermArray"
  "cell_kind VSwitchArray the_VSwitchArray"
  "cell_kind SecurityGroupArray the_SecurityGroupArray"
  "cell_kind RequirementArray the_RequirementArray"
  "cell_kind ImageArray the_ImageArray"
  "cell_kind ConditionArray the_ConditionArray"
  "cell_kind OwnerArray the_OwnerArray"
  "cell_kind ManagedFieldsArray the_ManagedFieldsArray"
  "cell_kind NodeClassArray the_NodeClassArray"
  by (unfold_locales, simp_all add: cell_defs)
section \<open>Values\<close>

record owner_reference =
  orAPIVersion :: string
  orKind :: string
  orName :: string
  orUID :: string
  orController :: "bool option"
  orBlockOwnerDeletion :: "bool option"

record managed_fields_entry =
  mfManager :: string
  mfOperation :: string
  mfAPIVersion :: string
  mfTime :: "int option"
  mfFieldsType :: string
  mfFieldsV1 :: "string option"
  mfSubresource :: string

record object_meta =
  omName :: string
  omGenerateName :: string
  omNamespace :: string
  omSelfLink :: string
  omUID :: string
  omResourceVersion :: string
  omGeneration :: int
  omCreationTimestamp :: int
  omDeletionTimestamp :: "int option"
  omDeletionGracePeriodSeconds :: "int option"
  omLabels :: "(string \<times> string) list"
  omAnnotations :: "(string \<times> string) list"
  omOwnerReferences :: "owner_reference list"
  omFinalizers :: "string list"
  omManagedFields :: "managed_fields_entry list"

record nodeclass_object =
  noKind :: string
  noAPIVersion :: string
  noMeta :: object_meta
  noSpec :: nodeclass_spec
  noStatus :: nodeclass_status

record list_meta =
  lmSelfLink :: string
  lmResourceVersion :: string
  lmContinue :: string
  lmRemainingItemCount :: "int option"

record nodeclass_list =
  nlKind :: string
  nlAPIVersion :: string
  nlMeta :: list_meta
  nlItems :: "nodeclass_object list"

text \<open>The fields of an object that the controllers of this program read.\<close>

definition class_of_object :: "nodeclass_object \<Rightarrow> ecs_nodeclass" where
  "class_of_object nob =
     \<lparr>ncName = omName (noMeta nob), ncUID = omUID (noMeta nob), ncAnnotations = omAnnotations (noMeta nob),
      ncFinalizers = omFinalizers (noMeta nob), ncDeletionTimestamp = omDeletionTimestamp (noMeta nob),
      ncSpec = noSpec nob, ncStatus = noStatus nob\<rparr>"

definition or_empty :: "'a list option \<Rightarrow> 'a list" where
  "or_empty x = (case x of None \<Rightarrow> [] | Some xs \<Rightarrow> xs)"

section \<open>Readings\<close>

abbreviation "read_int32 \<equiv> read_ptr the_Int32Cell rd_return"
abbreviation "read_int64 \<equiv> read_ptr the_Int64Cell rd_return"
abbreviation "read_bool \<equiv> read_ptr the_BoolCell rd_return"
abbreviation "read_string \<equiv> read_ptr the_StringCell rd_return"
abbreviation "read_time \<equiv> read_ptr the_TimeCell rd_return"
abbreviation "read_strings \<equiv> read_slice the_StringArray rd_return"
abbreviation "read_bytes \<equiv> read_slice the_ByteArray rd_return"
abbreviation "read_map \<equiv> read_gomap the_StringMap"
abbreviation "read_durations \<equiv> read_gomap the_DurationMap"

definition read_vswitch_term :: "go_vswitch_term \<Rightarrow> (cell, vswitch_selector_term) reading" where
  "read_vswitch_term k =
     rd_map (\<lambda>(ts, i). \<lparr>vstTags = or_empty ts, vstID = i\<rparr>)
       (read_pair read_map rd_return
         (gvTags k, gvID k))"

definition read_group_term :: "go_group_term \<Rightarrow> (cell, security_group_selector_term) reading" where
  "read_group_term k =
     rd_map (\<lambda>(ts, i, n). \<lparr>sgtTags = or_empty ts, sgtID = i, sgtName = n\<rparr>)
       (read_pair read_map (read_pair rd_return rd_return)
         (ggTags k, ggID k, ggName k))"

definition read_kubelet :: "go_kubelet \<Rightarrow> (cell, kubelet_configuration) reading" where
  "read_kubelet k =
     rd_map (\<lambda>(dns, mp, ppc, sr, kr, eh, es, eg, em, hi, lo, q). \<lparr>ClusterDNS = or_empty dns,
          MaxPods = mp, PodsPerCore = ppc, kcSystemReserved = or_empty sr,
      kcKubeReserved = or_empty kr, EvictionHard = or_empty eh, EvictionSoft = or_empty es,
          EvictionSoftGracePeriod = or_empty eg,
      EvictionMaxPodGracePeriod = em, ImageGCHighThresholdPercent = hi, ImageGCLowThresholdPercent = lo,
          CPUCFSQuota = q\<rparr>)
       (read_pair read_strings (read_pair read_int32 (read_pair read_int32 (read_pair read_map (read_pair read_map
        (read_pair read_map (read_pair read_map (read_pair read_durations (read_pair read_int32 (read_pair read_int32
        (read_pair read_int32 read_bool))))))))))
         (gkClusterDNS k, gkMaxPods k, gkPodsPerCore k, gkSystemReserved k, gkKubeReserved k, gkEvictionHard k,
          gkEvictionSoft k, gkEvictionSoftGracePeriod k, gkEvictionMaxPodGracePeriod k,
          gkImageGCHighThresholdPercent k, gkImageGCLowThresholdPercent k, gkCPUCFSQuota k))"

definition read_disk :: "go_disk \<Rightarrow> (cell, system_disk) reading" where
  "read_disk k =
     rd_map (\<lambda>(cs, sz, pl). \<lparr>Categories = cs, diskSize = sz, PerformanceLevel = pl\<rparr>)
       (read_pair read_strings (read_pair read_int32 read_string)
         (gdCategories k, gdSize k, gdPerformanceLevel k))"

definition read_spec :: "go_spec \<Rightarrow> (cell, nodeclass_spec) reading" where
  "read_spec k =
     rd_map (\<lambda>(vts, pol, gts, its, kc, dk, ts, rg). \<lparr>VSwitchSelectorTerms = or_empty vts,
          VSwitchSelectionPolicy = pol, SecurityGroupSelectorTerms = or_empty gts,
      ImageSelectorTerms = or_empty its, KubeletConfiguration = kc, SystemDisk = dk, specTags = or_empty ts,
          ResourceGroupID = rg\<rparr>)
       (read_pair (read_slice the_VSwitchTermArray read_vswitch_term) (read_pair rd_return (read_pair (read_slice
        the_SecurityGroupTermArray read_group_term) (read_pair (read_slice the_ImageTermArray rd_return) (read_pair
        (read_ptr the_KubeletCell read_kubelet) (read_pair (read_ptr the_SystemDiskCell read_disk) (read_pair read_map
        rd_return))))))
         (gsVSwitchSelectorTerms k, gsVSwitchSelectionPolicy k, gsSecurityGroupSelectorTerms k,
          gsImageSelectorTerms k, gsKubeletConfiguration k, gsSystemDisk k, gsTags k, gsResourceGroupID k))"

definition read_requirement :: "go_requirement \<Rightarrow> (cell, selector_requirement) reading" where
  "read_requirement k =
     rd_map (\<lambda>(k, p, vs). \<lparr>selKey = k, selOperator = p, selValues = or_empty vs,
          selMinValues = None\<rparr>)
       (read_pair rd_return (read_pair rd_return read_strings)
         (gqKey k, gqOperator k, gqValues k))"

definition read_image :: "go_image \<Rightarrow> (cell, status_image) reading" where
  "read_image k =
     rd_map (\<lambda>(i, n, rs). \<lparr>siID = i, siName = n, siRequirements = or_empty rs\<rparr>)
       (read_pair rd_return (read_pair rd_return (read_slice the_RequirementArray read_requirement))
         (giID k, giName k, giRequirements k))"

definition read_status :: "go_status \<Rightarrow> (cell, nodeclass_status) reading" where
  "read_status k =
     rd_map (\<lambda>(vs, gs, ims, cs). \<lparr>stVSwitches = or_empty vs, stSecurityGroups = or_empty gs,
          stImages = or_empty ims, stConditions = or_empty cs\<rparr>)
       (read_pair (read_slice the_VSwitchArray rd_return) (read_pair (read_slice the_SecurityGroupArray rd_return)
        (read_pair (read_slice the_ImageArray read_image) (read_slice the_ConditionArray rd_return)))
         (gtVSwitches k, gtSecurityGroups k, gtImages k, gtConditions k))"

definition read_owner :: "go_owner \<Rightarrow> (cell, owner_reference) reading" where
  "read_owner k =
     rd_map (\<lambda>(a, k, n, u, c, b). \<lparr>orAPIVersion = a, orKind = k, orName = n, orUID = u,
          orController = c, orBlockOwnerDeletion = b\<rparr>)
       (read_pair rd_return (read_pair rd_return (read_pair rd_return (read_pair rd_return (read_pair read_bool
        read_bool))))
         (goAPIVersion k, goKind k, goName k, goUID k, goController k, goBlockOwnerDeletion k))"

definition read_fields :: "go_fields \<Rightarrow> (cell, string) reading" where
  "read_fields k =
     rd_map (or_empty)
       (read_bytes
         (gfRaw k))"

definition read_managed :: "go_managed \<Rightarrow> (cell, managed_fields_entry) reading" where
  "read_managed k =
     rd_map (\<lambda>(m, p, a, t, ty, f, s). \<lparr>mfManager = m, mfOperation = p, mfAPIVersion = a, mfTime = t,
          mfFieldsType = ty, mfFieldsV1 = f, mfSubresource = s\<rparr>)
       (read_pair rd_return (read_pair rd_return (read_pair rd_return (read_pair read_time (read_pair rd_return
        (read_pair (read_ptr the_FieldsV1Cell read_fields) rd_return)))))
         (geManager k, geOperation k, geAPIVersion k, geTime k, geFieldsType k, geFieldsV1 k, geSubresource k))"

definition read_meta :: "go_meta \<Rightarrow> (cell, object_meta) reading" where
  "read_meta k =
     rd_map (\<lambda>(n, gn, ns, sl, u, rv, g, ct, dt, dg, ls, as, ors, fs, mf). \<lparr>omName = n,
          omGenerateName = gn, omNamespace = ns, omSelfLink = sl, omUID = u, omResourceVersion = rv, omGeneration = g,
      omCreationTimestamp = ct, omDeletionTimestamp = dt, omDeletionGracePeriodSeconds = dg, omLabels = or_empty ls,
      omAnnotations = or_empty as, omOwnerReferences = or_empty ors, omFinalizers = or_empty fs,
          omManagedFields = or_empty mf\<rparr>)
       (read_pair rd_return (read_pair rd_return (read_pair rd_return (read_pair rd_return (read_pair rd_return
        (read_pair rd_return (read_pair rd_return (read_pair rd_return (read_pair read_time (read_pair read_int64
        (read_pair read_map (read_pair read_map (read_pair (read_slice the_OwnerArray read_owner) (read_pair
        read_strings (read_slice the_ManagedFieldsArray read_managed))))))))))))))
         (gmName k, gmGenerateName k, gmNamespace k, gmSelfLink k, gmUID k, gmResourceVersion k, gmGeneration k,
          gmCreationTimestamp k, gmDeletionTimestamp k, gmDeletionGracePeriodSeconds k, gmLabels k, gmAnnotations k,
          gmOwnerReferences k, gmFinalizers k, gmManagedFields k))"

definition read_nodeclass :: "go_nodeclass \<Rightarrow> (cell, nodeclass_object) reading" where
  "read_nodeclass k =
     rd_map (\<lambda>(k, a, m, sp, st). \<lparr>noKind = k, noAPIVersion = a, noMeta = m, noSpec = sp,
          noStatus = st\<rparr>)
       (read_pair rd_return (read_pair rd_return (read_pair read_meta (read_pair read_spec read_status)))
         (gcKind k, gcAPIVersion k, gcMeta k, gcSpec k, gcStatus k))"

definition read_list_meta :: "go_list_meta \<Rightarrow> (cell, list_meta) reading" where
  "read_list_meta k =
     rd_map (\<lambda>(sl, rv, c, r). \<lparr>lmSelfLink = sl, lmResourceVersion = rv, lmContinue = c,
          lmRemainingItemCount = r\<rparr>)
       (read_pair rd_return (read_pair rd_return (read_pair rd_return read_int64))
         (glSelfLink k, glResourceVersion k, glContinue k, glRemainingItemCount k))"

definition read_nodeclass_list :: "go_nodeclass_list \<Rightarrow> (cell, nodeclass_list) reading" where
  "read_nodeclass_list k =
     rd_map (\<lambda>(k, a, m, is). \<lparr>nlKind = k, nlAPIVersion = a, nlMeta = m, nlItems = or_empty is\<rparr>)
       (read_pair rd_return (read_pair rd_return (read_pair read_list_meta (read_slice the_NodeClassArray
        read_nodeclass)))
         (gnKind k, gnAPIVersion k, gnListMeta k, gnItems k))"
end
