(* ===== verification/Deep_Copy.thy ===== *)
theory Deep_Copy
  imports Go_Objects
begin

text \<open>
  The deep copies of the API types: \<^verbatim>\<open>src/pkg/apis/v1alpha1/zz_generated.deepcopy.go\<close>,
  with the deep copies of \<^verbatim>\<open>k8s.io/apimachinery\<close>, \<^verbatim>\<open>k8s.io/api\<close> and
  \<^verbatim>\<open>operatorpkg\<close> that it calls. A \<^verbatim>\<open>DeepCopyInto\<close> takes the struct behind
  \<^verbatim>\<open>in\<close> and returns the struct left behind \<^verbatim>\<open>out\<close>. Each of them is an
  interpretation of \<open>deep_copier\<close>.
\<close>

section \<open>Fields\<close>

abbreviation "copy_int32 \<equiv> copy_ptr Int32Cell the_Int32Cell copy_plain"
abbreviation "copy_int64 \<equiv> copy_ptr Int64Cell the_Int64Cell copy_plain"
abbreviation "copy_bool \<equiv> copy_ptr BoolCell the_BoolCell copy_plain"
abbreviation "copy_string \<equiv> copy_ptr StringCell the_StringCell copy_plain"
abbreviation "copy_time \<equiv> copy_ptr TimeCell the_TimeCell copy_plain"
abbreviation "copy_strings \<equiv> copy_plain_slice StringArray the_StringArray []"
abbreviation "copy_bytes \<equiv> copy_plain_slice ByteArray the_ByteArray (CHR 0x00)"
abbreviation "copy_map \<equiv> copy_gomap StringMap the_StringMap"
abbreviation "copy_durations \<equiv> copy_gomap DurationMap the_DurationMap"

lemmas copier_simps = copy_pair_def copy_plain_def case_prod_unfold map_prod_def Let_def

text \<open>The zero values \<^verbatim>\<open>make\<close> fills a new array with.\<close>

definition zero_vswitch_term :: go_vswitch_term where
  "zero_vswitch_term = \<lparr>gvTags = None, gvID = []\<rparr>"
definition zero_group_term :: go_group_term where
  "zero_group_term = \<lparr>ggTags = None, ggID = [], ggName = []\<rparr>"
definition zero_requirement :: go_requirement where
  "zero_requirement = \<lparr>gqKey = [], gqOperator = OpIn, gqValues = None\<rparr>"
definition zero_image :: go_image where
  "zero_image = \<lparr>giID = [], giName = [], giRequirements = None\<rparr>"
definition zero_owner :: go_owner where
  "zero_owner = \<lparr>goAPIVersion = [], goKind = [], goName = [], goUID = [], goController = None,
      goBlockOwnerDeletion = None\<rparr>"
definition zero_managed :: go_managed where
  "zero_managed = \<lparr>geManager = [], geOperation = [], geAPIVersion = [], geTime = None, geFieldsType = [],
      geFieldsV1 = None, geSubresource = []\<rparr>"
definition zero_nodeclass_ref :: go_nodeclass where
  "zero_nodeclass_ref = \<lparr>gcKind = [], gcAPIVersion = [], gcMeta = \<lparr>gmName = [], gmGenerateName = [],
      gmNamespace = [], gmSelfLink = [], gmUID = [], gmResourceVersion = [], gmGeneration = 0,
      gmCreationTimestamp = 0, gmDeletionTimestamp = None, gmDeletionGracePeriodSeconds = None, gmLabels = None,
      gmAnnotations = None, gmOwnerReferences = None, gmFinalizers = None, gmManagedFields = None\<rparr>,
      gcSpec = \<lparr>gsVSwitchSelectorTerms = None, gsVSwitchSelectionPolicy = [],
      gsSecurityGroupSelectorTerms = None, gsImageSelectorTerms = None, gsKubeletConfiguration = None,
      gsSystemDisk = None, gsTags = None, gsResourceGroupID = []\<rparr>, gcStatus = \<lparr>gtVSwitches = None,
      gtSecurityGroups = None, gtImages = None, gtConditions = None\<rparr>\<rparr>"
definition zero_image_term :: image_selector_term where "zero_image_term = \<lparr>Alias = [], imtID = []\<rparr>"
definition zero_status_vswitch :: status_vswitch where "zero_status_vswitch = \<lparr>svID = [], svZoneID = []\<rparr>"
definition zero_status_group :: status_security_group where "zero_status_group = \<lparr>ssgID = [], ssgName = []\<rparr>"
definition zero_condition :: condition where
  "zero_condition = \<lparr>ctType = [], ctStatus = ConditionUnknown, ctReason = [], ctMessage = [], ctTime = zeroTime\<rparr>"

section \<open>DeepCopyInto\<close>

text \<open>Structs without addresses are copied by the assignment \<^verbatim>\<open>*out = *in\<close> (a time is
  such a struct).\<close>

definition ImageSelectorTerm_DeepCopyInto :: "image_selector_term \<Rightarrow> cell store \<Rightarrow> image_selector_term \<times> cell store" where
  "ImageSelectorTerm_DeepCopyInto t h = (t, h)"
definition SecurityGroup_DeepCopyInto :: "status_security_group \<Rightarrow> cell store \<Rightarrow> status_security_group \<times> cell store" where
  "SecurityGroup_DeepCopyInto g h = (g, h)"
definition VSwitch_DeepCopyInto :: "status_vswitch \<Rightarrow> cell store \<Rightarrow> status_vswitch \<times> cell store" where
  "VSwitch_DeepCopyInto v h = (v, h)"
definition Condition_DeepCopyInto :: "condition \<Rightarrow> cell store \<Rightarrow> condition \<times> cell store" where
  "Condition_DeepCopyInto c h = (c\<lparr>ctTime := ctTime c\<rparr>, h)"

lemma assigned_copiers [copier_intros]:
  "deep_copier rd_return ImageSelectorTerm_DeepCopyInto" "deep_copier rd_return SecurityGroup_DeepCopyInto"
  "deep_copier rd_return VSwitch_DeepCopyInto" "deep_copier rd_return Condition_DeepCopyInto"
  by (auto simp: deep_copier_def reads_locally_def rd_return_def ImageSelectorTerm_DeepCopyInto_def
      SecurityGroup_DeepCopyInto_def VSwitch_DeepCopyInto_def Condition_DeepCopyInto_def)

text \<open>The others replace every pointer, slice and map, field by field.\<close>

definition VSwitchSelectorTerm_DeepCopyInto :: "go_vswitch_term \<Rightarrow> cell store \<Rightarrow> go_vswitch_term \<times> cell store" where
  "VSwitchSelectorTerm_DeepCopyInto k h =
     (let (ts, h) = copy_map (gvTags k) h
      in (k\<lparr>gvTags := ts\<rparr>, h))"

interpretation VSwitchSelectorTerm: deep_copier read_vswitch_term VSwitchSelectorTerm_DeepCopyInto
  by (rule struct_copier[where c = "copy_pair copy_map copy_plain"
        and tup = "\<lambda>k. (gvTags k, gvID k)"
        and mks = "\<lambda>(ts, i). \<lparr>gvTags = ts, gvID = i\<rparr>"])
    ((rule copier_intros)+, simp add: case_prod_unfold, rule read_vswitch_term_def,
      simp add: VSwitchSelectorTerm_DeepCopyInto_def copier_simps)

declare VSwitchSelectorTerm.deep_copier_axioms [copier_intros]

definition SecurityGroupSelectorTerm_DeepCopyInto :: "go_group_term \<Rightarrow> cell store \<Rightarrow> go_group_term \<times> cell store" where
  "SecurityGroupSelectorTerm_DeepCopyInto k h =
     (let (ts, h) = copy_map (ggTags k) h
      in (k\<lparr>ggTags := ts\<rparr>, h))"

interpretation SecurityGroupSelectorTerm: deep_copier read_group_term SecurityGroupSelectorTerm_DeepCopyInto
  by (rule struct_copier[where c = "copy_pair copy_map (copy_pair copy_plain copy_plain)"
        and tup = "\<lambda>k. (ggTags k, ggID k, ggName k)"
        and mks = "\<lambda>(ts, i, n). \<lparr>ggTags = ts, ggID = i, ggName = n\<rparr>"])
    ((rule copier_intros)+, simp add: case_prod_unfold, rule read_group_term_def,
      simp add: SecurityGroupSelectorTerm_DeepCopyInto_def copier_simps)

declare SecurityGroupSelectorTerm.deep_copier_axioms [copier_intros]

definition KubeletConfiguration_DeepCopyInto :: "go_kubelet \<Rightarrow> cell store \<Rightarrow> go_kubelet \<times> cell store" where
  "KubeletConfiguration_DeepCopyInto k h =
     (let (dns, h) = copy_strings (gkClusterDNS k) h;
          (mp, h) = copy_int32 (gkMaxPods k) h;
          (ppc, h) = copy_int32 (gkPodsPerCore k) h;
          (sr, h) = copy_map (gkSystemReserved k) h;
          (kr, h) = copy_map (gkKubeReserved k) h;
          (eh, h) = copy_map (gkEvictionHard k) h;
          (es, h) = copy_map (gkEvictionSoft k) h;
          (eg, h) = copy_durations (gkEvictionSoftGracePeriod k) h;
          (em, h) = copy_int32 (gkEvictionMaxPodGracePeriod k) h;
          (hi, h) = copy_int32 (gkImageGCHighThresholdPercent k) h;
          (lo, h) = copy_int32 (gkImageGCLowThresholdPercent k) h;
          (q, h) = copy_bool (gkCPUCFSQuota k) h
      in (k\<lparr>gkClusterDNS := dns, gkMaxPods := mp, gkPodsPerCore := ppc, gkSystemReserved := sr, gkKubeReserved := kr,
        gkEvictionHard := eh, gkEvictionSoft := es, gkEvictionSoftGracePeriod := eg,
        gkEvictionMaxPodGracePeriod := em, gkImageGCHighThresholdPercent := hi, gkImageGCLowThresholdPercent := lo,
        gkCPUCFSQuota := q\<rparr>, h))"

interpretation KubeletConfiguration: deep_copier read_kubelet KubeletConfiguration_DeepCopyInto
  by (rule struct_copier[where c = "copy_pair copy_strings (copy_pair copy_int32 (copy_pair copy_int32 (copy_pair
        copy_map (copy_pair copy_map (copy_pair copy_map (copy_pair copy_map (copy_pair copy_durations (copy_pair
        copy_int32 (copy_pair copy_int32 (copy_pair copy_int32 copy_bool))))))))))"
        and tup = "\<lambda>k. (gkClusterDNS k, gkMaxPods k, gkPodsPerCore k, gkSystemReserved k, gkKubeReserved k,
            gkEvictionHard k, gkEvictionSoft k, gkEvictionSoftGracePeriod k, gkEvictionMaxPodGracePeriod k,
            gkImageGCHighThresholdPercent k, gkImageGCLowThresholdPercent k, gkCPUCFSQuota k)"
        and mks = "\<lambda>(dns, mp, ppc, sr, kr, eh, es, eg, em, hi, lo, q). \<lparr>gkClusterDNS = dns,
            gkMaxPods = mp, gkPodsPerCore = ppc, gkSystemReserved = sr, gkKubeReserved = kr, gkEvictionHard = eh,
            gkEvictionSoft = es, gkEvictionSoftGracePeriod = eg, gkEvictionMaxPodGracePeriod = em,
            gkImageGCHighThresholdPercent = hi, gkImageGCLowThresholdPercent = lo, gkCPUCFSQuota = q\<rparr>"])
    ((rule copier_intros)+, simp add: case_prod_unfold, rule read_kubelet_def,
      simp add: KubeletConfiguration_DeepCopyInto_def copier_simps)

declare KubeletConfiguration.deep_copier_axioms [copier_intros]

definition SystemDisk_DeepCopyInto :: "go_disk \<Rightarrow> cell store \<Rightarrow> go_disk \<times> cell store" where
  "SystemDisk_DeepCopyInto k h =
     (let (cs, h) = copy_strings (gdCategories k) h;
          (sz, h) = copy_int32 (gdSize k) h;
          (pl, h) = copy_string (gdPerformanceLevel k) h
      in (k\<lparr>gdCategories := cs, gdSize := sz, gdPerformanceLevel := pl\<rparr>, h))"

interpretation SystemDisk: deep_copier read_disk SystemDisk_DeepCopyInto
  by (rule struct_copier[where c = "copy_pair copy_strings (copy_pair copy_int32 copy_string)"
        and tup = "\<lambda>k. (gdCategories k, gdSize k, gdPerformanceLevel k)"
        and mks = "\<lambda>(cs, sz, pl). \<lparr>gdCategories = cs, gdSize = sz, gdPerformanceLevel = pl\<rparr>"])
    ((rule copier_intros)+, simp add: case_prod_unfold, rule read_disk_def,
      simp add: SystemDisk_DeepCopyInto_def copier_simps)

declare SystemDisk.deep_copier_axioms [copier_intros]

definition ECSNodeClassSpec_DeepCopyInto :: "go_spec \<Rightarrow> cell store \<Rightarrow> go_spec \<times> cell store" where
  "ECSNodeClassSpec_DeepCopyInto k h =
     (let (vts, h) = copy_slice VSwitchTermArray the_VSwitchTermArray zero_vswitch_term VSwitchSelectorTerm_DeepCopyInto
            (gsVSwitchSelectorTerms k) h;
          (gts, h) = copy_slice SecurityGroupTermArray the_SecurityGroupTermArray zero_group_term
            SecurityGroupSelectorTerm_DeepCopyInto (gsSecurityGroupSelectorTerms k) h;
          (its, h) = copy_plain_slice ImageTermArray the_ImageTermArray zero_image_term (gsImageSelectorTerms k) h;
          (kc, h) = copy_ptr KubeletCell the_KubeletCell KubeletConfiguration_DeepCopyInto (gsKubeletConfiguration k) h;
          (dk, h) = copy_ptr SystemDiskCell the_SystemDiskCell SystemDisk_DeepCopyInto (gsSystemDisk k) h;
          (ts, h) = copy_map (gsTags k) h
      in (k\<lparr>gsVSwitchSelectorTerms := vts, gsSecurityGroupSelectorTerms := gts, gsImageSelectorTerms := its,
        gsKubeletConfiguration := kc, gsSystemDisk := dk, gsTags := ts\<rparr>, h))"

interpretation ECSNodeClassSpec: deep_copier read_spec ECSNodeClassSpec_DeepCopyInto
  by (rule struct_copier[where c = "copy_pair (copy_slice VSwitchTermArray the_VSwitchTermArray zero_vswitch_term
        VSwitchSelectorTerm_DeepCopyInto) (copy_pair copy_plain (copy_pair (copy_slice SecurityGroupTermArray
        the_SecurityGroupTermArray zero_group_term SecurityGroupSelectorTerm_DeepCopyInto) (copy_pair
        (copy_plain_slice ImageTermArray the_ImageTermArray zero_image_term) (copy_pair (copy_ptr KubeletCell
        the_KubeletCell KubeletConfiguration_DeepCopyInto) (copy_pair (copy_ptr SystemDiskCell the_SystemDiskCell
        SystemDisk_DeepCopyInto) (copy_pair copy_map copy_plain))))))"
        and tup = "\<lambda>k. (gsVSwitchSelectorTerms k, gsVSwitchSelectionPolicy k, gsSecurityGroupSelectorTerms k,
            gsImageSelectorTerms k, gsKubeletConfiguration k, gsSystemDisk k, gsTags k, gsResourceGroupID k)"
        and mks = "\<lambda>(vts, pol, gts, its, kc, dk, ts, rg). \<lparr>gsVSwitchSelectorTerms = vts,
            gsVSwitchSelectionPolicy = pol, gsSecurityGroupSelectorTerms = gts, gsImageSelectorTerms = its,
            gsKubeletConfiguration = kc, gsSystemDisk = dk, gsTags = ts, gsResourceGroupID = rg\<rparr>"])
    ((rule copier_intros)+, simp add: case_prod_unfold, rule read_spec_def,
      simp add: ECSNodeClassSpec_DeepCopyInto_def copier_simps)

declare ECSNodeClassSpec.deep_copier_axioms [copier_intros]

definition NodeSelectorRequirement_DeepCopyInto :: "go_requirement \<Rightarrow> cell store \<Rightarrow> go_requirement \<times> cell store" where
  "NodeSelectorRequirement_DeepCopyInto k h =
     (let (vs, h) = copy_strings (gqValues k) h
      in (k\<lparr>gqValues := vs\<rparr>, h))"

interpretation NodeSelectorRequirement: deep_copier read_requirement NodeSelectorRequirement_DeepCopyInto
  by (rule struct_copier[where c = "copy_pair copy_plain (copy_pair copy_plain copy_strings)"
        and tup = "\<lambda>k. (gqKey k, gqOperator k, gqValues k)"
        and mks = "\<lambda>(k, p, vs). \<lparr>gqKey = k, gqOperator = p, gqValues = vs\<rparr>"])
    ((rule copier_intros)+, simp add: case_prod_unfold, rule read_requirement_def,
      simp add: NodeSelectorRequirement_DeepCopyInto_def copier_simps)

declare NodeSelectorRequirement.deep_copier_axioms [copier_intros]

definition Image_DeepCopyInto :: "go_image \<Rightarrow> cell store \<Rightarrow> go_image \<times> cell store" where
  "Image_DeepCopyInto k h =
     (let (rs, h) = copy_slice RequirementArray the_RequirementArray zero_requirement NodeSelectorRequirement_DeepCopyInto
            (giRequirements k) h
      in (k\<lparr>giRequirements := rs\<rparr>, h))"

interpretation Image: deep_copier read_image Image_DeepCopyInto
  by (rule struct_copier[where c = "copy_pair copy_plain (copy_pair copy_plain (copy_slice RequirementArray
        the_RequirementArray zero_requirement NodeSelectorRequirement_DeepCopyInto))"
        and tup = "\<lambda>k. (giID k, giName k, giRequirements k)"
        and mks = "\<lambda>(i, n, rs). \<lparr>giID = i, giName = n, giRequirements = rs\<rparr>"])
    ((rule copier_intros)+, simp add: case_prod_unfold, rule read_image_def,
      simp add: Image_DeepCopyInto_def copier_simps)

declare Image.deep_copier_axioms [copier_intros]

definition ECSNodeClassStatus_DeepCopyInto :: "go_status \<Rightarrow> cell store \<Rightarrow> go_status \<times> cell store" where
  "ECSNodeClassStatus_DeepCopyInto k h =
     (let (vs, h) = copy_plain_slice VSwitchArray the_VSwitchArray zero_status_vswitch (gtVSwitches k) h;
          (gs, h) = copy_plain_slice SecurityGroupArray the_SecurityGroupArray zero_status_group (gtSecurityGroups k) h;
          (ims, h) = copy_slice ImageArray the_ImageArray zero_image Image_DeepCopyInto (gtImages k) h;
          (cs, h) = copy_slice ConditionArray the_ConditionArray zero_condition Condition_DeepCopyInto (gtConditions k) h
      in (k\<lparr>gtVSwitches := vs, gtSecurityGroups := gs, gtImages := ims, gtConditions := cs\<rparr>, h))"

interpretation ECSNodeClassStatus: deep_copier read_status ECSNodeClassStatus_DeepCopyInto
  by (rule struct_copier[where c = "copy_pair (copy_plain_slice VSwitchArray the_VSwitchArray zero_status_vswitch)
        (copy_pair (copy_plain_slice SecurityGroupArray the_SecurityGroupArray zero_status_group) (copy_pair
        (copy_slice ImageArray the_ImageArray zero_image Image_DeepCopyInto) (copy_slice ConditionArray
        the_ConditionArray zero_condition Condition_DeepCopyInto)))"
        and tup = "\<lambda>k. (gtVSwitches k, gtSecurityGroups k, gtImages k, gtConditions k)"
        and mks = "\<lambda>(vs, gs, ims, cs). \<lparr>gtVSwitches = vs, gtSecurityGroups = gs, gtImages = ims,
            gtConditions = cs\<rparr>"])
    ((rule copier_intros)+, simp add: case_prod_unfold, rule read_status_def,
      simp add: ECSNodeClassStatus_DeepCopyInto_def copier_simps)

declare ECSNodeClassStatus.deep_copier_axioms [copier_intros]

definition OwnerReference_DeepCopyInto :: "go_owner \<Rightarrow> cell store \<Rightarrow> go_owner \<times> cell store" where
  "OwnerReference_DeepCopyInto k h =
     (let (c, h) = copy_bool (goController k) h;
          (b, h) = copy_bool (goBlockOwnerDeletion k) h
      in (k\<lparr>goController := c, goBlockOwnerDeletion := b\<rparr>, h))"

interpretation OwnerReference: deep_copier read_owner OwnerReference_DeepCopyInto
  by (rule struct_copier[where c = "copy_pair copy_plain (copy_pair copy_plain (copy_pair copy_plain (copy_pair
        copy_plain (copy_pair copy_bool copy_bool))))"
        and tup = "\<lambda>k. (goAPIVersion k, goKind k, goName k, goUID k, goController k, goBlockOwnerDeletion k)"
        and mks = "\<lambda>(a, k, n, u, c, b). \<lparr>goAPIVersion = a, goKind = k, goName = n, goUID = u,
            goController = c, goBlockOwnerDeletion = b\<rparr>"])
    ((rule copier_intros)+, simp add: case_prod_unfold, rule read_owner_def,
      simp add: OwnerReference_DeepCopyInto_def copier_simps)

declare OwnerReference.deep_copier_axioms [copier_intros]

definition FieldsV1_DeepCopyInto :: "go_fields \<Rightarrow> cell store \<Rightarrow> go_fields \<times> cell store" where
  "FieldsV1_DeepCopyInto k h =
     (let (raw, h) = copy_bytes (gfRaw k) h
      in (k\<lparr>gfRaw := raw\<rparr>, h))"

interpretation FieldsV1: deep_copier read_fields FieldsV1_DeepCopyInto
  by (rule struct_copier[where c = copy_bytes
        and tup = "\<lambda>k. (gfRaw k)"
        and mks = "\<lambda>raw. \<lparr>gfRaw = raw\<rparr>"])
    ((rule copier_intros)+, simp add: case_prod_unfold, rule read_fields_def,
      simp add: FieldsV1_DeepCopyInto_def copier_simps)

declare FieldsV1.deep_copier_axioms [copier_intros]

definition ManagedFieldsEntry_DeepCopyInto :: "go_managed \<Rightarrow> cell store \<Rightarrow> go_managed \<times> cell store" where
  "ManagedFieldsEntry_DeepCopyInto k h =
     (let (t, h) = copy_time (geTime k) h;
          (f, h) = copy_ptr FieldsV1Cell the_FieldsV1Cell FieldsV1_DeepCopyInto (geFieldsV1 k) h
      in (k\<lparr>geTime := t, geFieldsV1 := f\<rparr>, h))"

interpretation ManagedFieldsEntry: deep_copier read_managed ManagedFieldsEntry_DeepCopyInto
  by (rule struct_copier[where c = "copy_pair copy_plain (copy_pair copy_plain (copy_pair copy_plain (copy_pair
        copy_time (copy_pair copy_plain (copy_pair (copy_ptr FieldsV1Cell the_FieldsV1Cell FieldsV1_DeepCopyInto)
        copy_plain)))))"
        and tup = "\<lambda>k. (geManager k, geOperation k, geAPIVersion k, geTime k, geFieldsType k, geFieldsV1 k,
            geSubresource k)"
        and mks = "\<lambda>(m, p, a, t, ty, f, s). \<lparr>geManager = m, geOperation = p, geAPIVersion = a,
            geTime = t, geFieldsType = ty, geFieldsV1 = f, geSubresource = s\<rparr>"])
    ((rule copier_intros)+, simp add: case_prod_unfold, rule read_managed_def,
      simp add: ManagedFieldsEntry_DeepCopyInto_def copier_simps)

declare ManagedFieldsEntry.deep_copier_axioms [copier_intros]

definition ObjectMeta_DeepCopyInto :: "go_meta \<Rightarrow> cell store \<Rightarrow> go_meta \<times> cell store" where
  "ObjectMeta_DeepCopyInto k h =
     (let (dt, h) = copy_time (gmDeletionTimestamp k) h;
          (dg, h) = copy_int64 (gmDeletionGracePeriodSeconds k) h;
          (ls, h) = copy_map (gmLabels k) h;
          (as, h) = copy_map (gmAnnotations k) h;
          (ors, h) = copy_slice OwnerArray the_OwnerArray zero_owner OwnerReference_DeepCopyInto (gmOwnerReferences k) h;
          (fs, h) = copy_strings (gmFinalizers k) h;
          (mf, h) = copy_slice ManagedFieldsArray the_ManagedFieldsArray zero_managed ManagedFieldsEntry_DeepCopyInto
            (gmManagedFields k) h
      in (k\<lparr>gmDeletionTimestamp := dt, gmDeletionGracePeriodSeconds := dg, gmLabels := ls, gmAnnotations := as,
        gmOwnerReferences := ors, gmFinalizers := fs, gmManagedFields := mf\<rparr>, h))"

interpretation ObjectMeta: deep_copier read_meta ObjectMeta_DeepCopyInto
  by (rule struct_copier[where c = "copy_pair copy_plain (copy_pair copy_plain (copy_pair copy_plain (copy_pair
        copy_plain (copy_pair copy_plain (copy_pair copy_plain (copy_pair copy_plain (copy_pair copy_plain (copy_pair
        copy_time (copy_pair copy_int64 (copy_pair copy_map (copy_pair copy_map (copy_pair (copy_slice OwnerArray
        the_OwnerArray zero_owner OwnerReference_DeepCopyInto) (copy_pair copy_strings (copy_slice ManagedFieldsArray
        the_ManagedFieldsArray zero_managed ManagedFieldsEntry_DeepCopyInto))))))))))))))"
        and tup = "\<lambda>k. (gmName k, gmGenerateName k, gmNamespace k, gmSelfLink k, gmUID k, gmResourceVersion k,
            gmGeneration k, gmCreationTimestamp k, gmDeletionTimestamp k, gmDeletionGracePeriodSeconds k, gmLabels k,
            gmAnnotations k, gmOwnerReferences k, gmFinalizers k, gmManagedFields k)"
        and mks = "\<lambda>(n, gn, ns, sl, u, rv, g, ct, dt, dg, ls, as, ors, fs, mf). \<lparr>gmName = n,
            gmGenerateName = gn, gmNamespace = ns, gmSelfLink = sl, gmUID = u, gmResourceVersion = rv,
            gmGeneration = g, gmCreationTimestamp = ct, gmDeletionTimestamp = dt, gmDeletionGracePeriodSeconds = dg,
            gmLabels = ls, gmAnnotations = as, gmOwnerReferences = ors, gmFinalizers = fs,
            gmManagedFields = mf\<rparr>"])
    ((rule copier_intros)+, simp add: case_prod_unfold, rule read_meta_def,
      simp add: ObjectMeta_DeepCopyInto_def copier_simps)

declare ObjectMeta.deep_copier_axioms [copier_intros]

definition ECSNodeClass_DeepCopyInto :: "go_nodeclass \<Rightarrow> cell store \<Rightarrow> go_nodeclass \<times> cell store" where
  "ECSNodeClass_DeepCopyInto k h =
     (let (m, h) = ObjectMeta_DeepCopyInto (gcMeta k) h;
          (sp, h) = ECSNodeClassSpec_DeepCopyInto (gcSpec k) h;
          (st, h) = ECSNodeClassStatus_DeepCopyInto (gcStatus k) h
      in (k\<lparr>gcMeta := m, gcSpec := sp, gcStatus := st\<rparr>, h))"

interpretation ECSNodeClass: deep_copier read_nodeclass ECSNodeClass_DeepCopyInto
  by (rule struct_copier[where c = "copy_pair copy_plain (copy_pair copy_plain (copy_pair ObjectMeta_DeepCopyInto
        (copy_pair ECSNodeClassSpec_DeepCopyInto ECSNodeClassStatus_DeepCopyInto)))"
        and tup = "\<lambda>k. (gcKind k, gcAPIVersion k, gcMeta k, gcSpec k, gcStatus k)"
        and mks = "\<lambda>(k, a, m, sp, st). \<lparr>gcKind = k, gcAPIVersion = a, gcMeta = m, gcSpec = sp,
            gcStatus = st\<rparr>"])
    ((rule copier_intros)+, simp add: case_prod_unfold, rule read_nodeclass_def,
      simp add: ECSNodeClass_DeepCopyInto_def copier_simps)

declare ECSNodeClass.deep_copier_axioms [copier_intros]

definition ListMeta_DeepCopyInto :: "go_list_meta \<Rightarrow> cell store \<Rightarrow> go_list_meta \<times> cell store" where
  "ListMeta_DeepCopyInto k h =
     (let (r, h) = copy_int64 (glRemainingItemCount k) h
      in (k\<lparr>glRemainingItemCount := r\<rparr>, h))"

interpretation ListMeta: deep_copier read_list_meta ListMeta_DeepCopyInto
  by (rule struct_copier[where c = "copy_pair copy_plain (copy_pair copy_plain (copy_pair copy_plain copy_int64))"
        and tup = "\<lambda>k. (glSelfLink k, glResourceVersion k, glContinue k, glRemainingItemCount k)"
        and mks = "\<lambda>(sl, rv, c, r). \<lparr>glSelfLink = sl, glResourceVersion = rv, glContinue = c,
            glRemainingItemCount = r\<rparr>"])
    ((rule copier_intros)+, simp add: case_prod_unfold, rule read_list_meta_def,
      simp add: ListMeta_DeepCopyInto_def copier_simps)

declare ListMeta.deep_copier_axioms [copier_intros]

definition ECSNodeClassList_DeepCopyInto :: "go_nodeclass_list \<Rightarrow> cell store \<Rightarrow> go_nodeclass_list \<times> cell store" where
  "ECSNodeClassList_DeepCopyInto k h =
     (let (m, h) = ListMeta_DeepCopyInto (gnListMeta k) h;
          (is, h) = copy_slice NodeClassArray the_NodeClassArray zero_nodeclass_ref ECSNodeClass_DeepCopyInto (gnItems k) h
      in (k\<lparr>gnListMeta := m, gnItems := is\<rparr>, h))"

interpretation ECSNodeClassList: deep_copier read_nodeclass_list ECSNodeClassList_DeepCopyInto
  by (rule struct_copier[where c = "copy_pair copy_plain (copy_pair copy_plain (copy_pair ListMeta_DeepCopyInto
        (copy_slice NodeClassArray the_NodeClassArray zero_nodeclass_ref ECSNodeClass_DeepCopyInto)))"
        and tup = "\<lambda>k. (gnKind k, gnAPIVersion k, gnListMeta k, gnItems k)"
        and mks = "\<lambda>(k, a, m, is). \<lparr>gnKind = k, gnAPIVersion = a, gnListMeta = m,
            gnItems = is\<rparr>"])
    ((rule copier_intros)+, simp add: case_prod_unfold, rule read_nodeclass_list_def,
      simp add: ECSNodeClassList_DeepCopyInto_def copier_simps)

declare ECSNodeClassList.deep_copier_axioms [copier_intros]
section \<open>DeepCopy\<close>

text \<open>From a pointer to a new pointer; the copy of nil is nil. \<^verbatim>\<open>DeepCopyObject\<close> is the same
  pointer as an interface value.\<close>

named_theorems deep_copy_defs \<open>the DeepCopy functions\<close>

definition ECSNodeClass_DeepCopy :: "nat option \<Rightarrow> cell store \<Rightarrow> nat option \<times> cell store" where
  [deep_copy_defs]: "ECSNodeClass_DeepCopy = copy_ptr NodeClassCell the_NodeClassCell ECSNodeClass_DeepCopyInto"
definition ECSNodeClassList_DeepCopy :: "nat option \<Rightarrow> cell store \<Rightarrow> nat option \<times> cell store" where
  [deep_copy_defs]: "ECSNodeClassList_DeepCopy = copy_ptr NodeClassListCell the_NodeClassListCell ECSNodeClassList_DeepCopyInto"
definition ECSNodeClassSpec_DeepCopy :: "nat option \<Rightarrow> cell store \<Rightarrow> nat option \<times> cell store" where
  [deep_copy_defs]: "ECSNodeClassSpec_DeepCopy = copy_ptr SpecCell the_SpecCell ECSNodeClassSpec_DeepCopyInto"
definition ECSNodeClassStatus_DeepCopy :: "nat option \<Rightarrow> cell store \<Rightarrow> nat option \<times> cell store" where
  [deep_copy_defs]: "ECSNodeClassStatus_DeepCopy = copy_ptr StatusCell the_StatusCell ECSNodeClassStatus_DeepCopyInto"
definition Image_DeepCopy :: "nat option \<Rightarrow> cell store \<Rightarrow> nat option \<times> cell store" where
  [deep_copy_defs]: "Image_DeepCopy = copy_ptr ImageCell the_ImageCell Image_DeepCopyInto"
definition ImageSelectorTerm_DeepCopy :: "nat option \<Rightarrow> cell store \<Rightarrow> nat option \<times> cell store" where
  [deep_copy_defs]: "ImageSelectorTerm_DeepCopy = copy_ptr ImageTermCell the_ImageTermCell ImageSelectorTerm_DeepCopyInto"
definition KubeletConfiguration_DeepCopy :: "nat option \<Rightarrow> cell store \<Rightarrow> nat option \<times> cell store" where
  [deep_copy_defs]: "KubeletConfiguration_DeepCopy = copy_ptr KubeletCell the_KubeletCell KubeletConfiguration_DeepCopyInto"
definition SecurityGroup_DeepCopy :: "nat option \<Rightarrow> cell store \<Rightarrow> nat option \<times> cell store" where
  [deep_copy_defs]: "SecurityGroup_DeepCopy = copy_ptr SecurityGroupCell the_SecurityGroupCell SecurityGroup_DeepCopyInto"
definition SecurityGroupSelectorTerm_DeepCopy :: "nat option \<Rightarrow> cell store \<Rightarrow> nat option \<times> cell store" where
  [deep_copy_defs]: "SecurityGroupSelectorTerm_DeepCopy = copy_ptr SecurityGroupTermCell the_SecurityGroupTermCell SecurityGroupSelectorTerm_DeepCopyInto"
definition SystemDisk_DeepCopy :: "nat option \<Rightarrow> cell store \<Rightarrow> nat option \<times> cell store" where
  [deep_copy_defs]: "SystemDisk_DeepCopy = copy_ptr SystemDiskCell the_SystemDiskCell SystemDisk_DeepCopyInto"
definition VSwitch_DeepCopy :: "nat option \<Rightarrow> cell store \<Rightarrow> nat option \<times> cell store" where
  [deep_copy_defs]: "VSwitch_DeepCopy = copy_ptr VSwitchCell the_VSwitchCell VSwitch_DeepCopyInto"
definition VSwitchSelectorTerm_DeepCopy :: "nat option \<Rightarrow> cell store \<Rightarrow> nat option \<times> cell store" where
  [deep_copy_defs]: "VSwitchSelectorTerm_DeepCopy = copy_ptr VSwitchTermCell the_VSwitchTermCell VSwitchSelectorTerm_DeepCopyInto"

definition ECSNodeClass_DeepCopyObject :: "nat option \<Rightarrow> cell store \<Rightarrow> nat option \<times> cell store" where
  "ECSNodeClass_DeepCopyObject p h =
     (let (c, h) = ECSNodeClass_DeepCopy p h in case c of Some a \<Rightarrow> (Some a, h) | None \<Rightarrow> (None, h))"
definition ECSNodeClassList_DeepCopyObject :: "nat option \<Rightarrow> cell store \<Rightarrow> nat option \<times> cell store" where
  "ECSNodeClassList_DeepCopyObject p h =
     (let (c, h) = ECSNodeClassList_DeepCopy p h in case c of Some a \<Rightarrow> (Some a, h) | None \<Rightarrow> (None, h))"

lemma deep_copies:
  "deep_copier (read_ptr the_NodeClassCell read_nodeclass) ECSNodeClass_DeepCopy"
  "deep_copier (read_ptr the_NodeClassListCell read_nodeclass_list) ECSNodeClassList_DeepCopy"
  "deep_copier (read_ptr the_SpecCell read_spec) ECSNodeClassSpec_DeepCopy"
  "deep_copier (read_ptr the_StatusCell read_status) ECSNodeClassStatus_DeepCopy"
  "deep_copier (read_ptr the_ImageCell read_image) Image_DeepCopy"
  "deep_copier (read_ptr the_ImageTermCell rd_return) ImageSelectorTerm_DeepCopy"
  "deep_copier (read_ptr the_KubeletCell read_kubelet) KubeletConfiguration_DeepCopy"
  "deep_copier (read_ptr the_SecurityGroupCell rd_return) SecurityGroup_DeepCopy"
  "deep_copier (read_ptr the_SecurityGroupTermCell read_group_term) SecurityGroupSelectorTerm_DeepCopy"
  "deep_copier (read_ptr the_SystemDiskCell read_disk) SystemDisk_DeepCopy"
  "deep_copier (read_ptr the_VSwitchCell rd_return) VSwitch_DeepCopy"
  "deep_copier (read_ptr the_VSwitchTermCell read_vswitch_term) VSwitchSelectorTerm_DeepCopy"
  unfolding deep_copy_defs by (rule copier_intros)+

lemma DeepCopyObject_DeepCopy:
  "ECSNodeClass_DeepCopyObject = ECSNodeClass_DeepCopy" "ECSNodeClassList_DeepCopyObject = ECSNodeClassList_DeepCopy"
  by (auto simp: fun_eq_iff ECSNodeClass_DeepCopyObject_def ECSNodeClassList_DeepCopyObject_def Let_def
      split: prod.splits option.splits)

abbreviation "read_nodeclass_ptr \<equiv> read_ptr the_NodeClassCell read_nodeclass"

interpretation nodeclass_copy: deep_copier read_nodeclass_ptr ECSNodeClass_DeepCopy
  by (rule deep_copies)

interpretation string_array: cell_kind StringArray the_StringArray
  by (rule cell_kinds)

end
