(* ===== verification/Aliasing.thy ===== *)
theory Aliasing
  imports Deep_Copy Nodeclass_Lifecycle
begin

text \<open>
  Why the controllers keep a deep copy. \<^verbatim>\<open>finalize\<close> of the termination controller stores a
  \<^verbatim>\<open>DeepCopy\<close> of the node class, removes the finalizer with \<^verbatim>\<open>RemoveFinalizer\<close>, which
  moves the remaining finalizers within their array, and compares the two to build its patch. The value-level model of the
  controllers (\<open>Nodeclass_Lifecycle\<close>) takes the old and the new class as two values; this theory
  shows that the program's memory really holds these two values.
\<close>

section \<open>Removing a finalizer in place\<close>

text \<open>One iteration of the loop of \<^verbatim>\<open>controllerutil.RemoveFinalizer\<close> on the array \<open>f\<close>, of
  which the finalizers are the window at \<open>off\<close>.\<close>

definition remove_step :: "string \<Rightarrow> nat \<Rightarrow> nat \<Rightarrow> string list \<times> nat \<Rightarrow> string list \<times> nat" where
  "remove_step finalizer off i st =
     (let (f, index) = st in
      if f ! (off + i) = finalizer then (f, index) else (f[off + index := f ! (off + i)], Suc index))"

definition RemoveFinalizer_in_place :: "string \<Rightarrow> nat \<Rightarrow> cell store \<Rightarrow> bool \<times> cell store" where
  "RemoveFinalizer_in_place finalizer a h =
     (case Option.bind (cell_at h a) the_NodeClassCell of
        None \<Rightarrow> (False, h)
      | Some c \<Rightarrow>
          (case gmFinalizers (gcMeta c) of
             None \<Rightarrow> (False, h)
           | Some sl \<Rightarrow>
               (case Option.bind (cell_at h (slArray sl)) the_StringArray of
                  None \<Rightarrow> (False, h)
                | Some xs \<Rightarrow>
                    (let (f, index) = fold (remove_step finalizer (slOffset sl)) [0..<slLen sl] (xs, 0);
                         c' = c\<lparr>gcMeta := (gcMeta c)\<lparr>gmFinalizers := Some (sl\<lparr>slLen := index\<rparr>)\<rparr>\<rparr>
                     in (slLen sl \<noteq> index, h[slArray sl := StringArray f, a := NodeClassCell c'])))))"

text \<open>The first lines of \<^verbatim>\<open>finalize\<close>, up to the comparison.\<close>

definition finalize_in_memory :: "nat \<Rightarrow> cell store \<Rightarrow> nat option \<times> cell store" where
  "finalize_in_memory a h =
     (let (stored, h1) = ECSNodeClass_DeepCopy (Some a) h;
          (updated, h2) = RemoveFinalizer_in_place TerminationFinalizer a h1
      in (stored, h2))"

section \<open>The loop\<close>

lemma remove_loop:
  assumes "off + n \<le> length xs"
  shows "\<exists>f index. fold (remove_step fin off) [0..<n] (xs, 0) = (f, index) \<and> length f = length xs \<and> index \<le> n
    \<and> take index (drop off f) = filter (\<lambda>g. g \<noteq> fin) (take n (drop off xs)) \<and> drop (off + n) f = drop (off + n) xs"
  using assms
proof (induction n)
  case (Suc n)
  then obtain f index where IH: "fold (remove_step fin off) [0..<n] (xs, 0) = (f, index)" "length f = length xs" "index \<le> n"
    "take index (drop off f) = filter (\<lambda>g. g \<noteq> fin) (take n (drop off xs))" "drop (off + n) f = drop (off + n) xs" by auto
  have elem: "f ! (off + n) = xs ! (off + n)"
    using IH(2,5) Suc.prems by (metis Cons_nth_drop_Suc Suc_le_eq add_Suc_right nth_via_drop)
  have rest: "drop (off + Suc n) f = drop (off + Suc n) xs" using IH(5) by (metis add_Suc_right drop_drop plus_1_eq_Suc)
  have tk: "take (Suc n) (drop off xs) = take n (drop off xs) @ [xs ! (off + n)]"
    using Suc.prems by (simp add: take_Suc_conv_app_nth)
  have step: "fold (remove_step fin off) [0..<Suc n] (xs, 0) =
      (if xs ! (off + n) = fin then (f, index) else (f[off + index := xs ! (off + n)], Suc index))"
    using IH(1) elem by (simp add: remove_step_def[of _ _ _ "(f, index)"])
  show ?case
  proof (cases "xs ! (off + n) = fin")
    case True
    with IH rest tk step show ?thesis by simp
  next
    case False
    let ?f = "f[off + index := xs ! (off + n)]"
    have "take (Suc index) (drop off ?f) = take index (drop off f) @ [xs ! (off + n)]"
      using IH(2,3) Suc.prems by (simp add: drop_update_swap take_Suc_conv_app_nth)
    moreover have "drop (off + Suc n) ?f = drop (off + Suc n) xs" using IH(3) rest by (simp add: drop_update_cancel)
    ultimately show ?thesis using IH tk step False by simp
  qed
qed simp

section \<open>Reading an object whose finalizers changed\<close>

lemma field_reads_locally:
  "reads_locally (read_time p)" "reads_locally (read_int64 p)" "reads_locally (read_map p)"
  "reads_locally (read_slice the_OwnerArray read_owner s)" "reads_locally (read_slice the_ManagedFieldsArray read_managed s)"
  "reads_locally (read_strings s)"
  by (rule deep_copier.locally, (rule copier_intros)+)+

lemma read_meta_Some:
  "read_meta m h = Some (v, fp) \<longleftrightarrow>
    (\<exists>dt p1 dg p2 ls p3 as p4 ors p5 fs p6 mf p7.
       read_time (gmDeletionTimestamp m) h = Some (dt, p1) \<and> read_int64 (gmDeletionGracePeriodSeconds m) h = Some (dg, p2)
       \<and> read_map (gmLabels m) h = Some (ls, p3) \<and> read_map (gmAnnotations m) h = Some (as, p4)
       \<and> read_slice the_OwnerArray read_owner (gmOwnerReferences m) h = Some (ors, p5)
       \<and> read_strings (gmFinalizers m) h = Some (fs, p6)
       \<and> read_slice the_ManagedFieldsArray read_managed (gmManagedFields m) h = Some (mf, p7)
       \<and> v = \<lparr>omName = gmName m, omGenerateName = gmGenerateName m, omNamespace = gmNamespace m, omSelfLink = gmSelfLink m,
              omUID = gmUID m, omResourceVersion = gmResourceVersion m, omGeneration = gmGeneration m,
              omCreationTimestamp = gmCreationTimestamp m, omDeletionTimestamp = dt, omDeletionGracePeriodSeconds = dg,
              omLabels = or_empty ls, omAnnotations = or_empty as, omOwnerReferences = or_empty ors,
              omFinalizers = or_empty fs, omManagedFields = or_empty mf\<rparr>
       \<and> fp = p1 @ p2 @ p3 @ p4 @ p5 @ p6 @ p7)"
  unfolding read_meta_def read_pair_def
  by (rule iffI; (elim exE conjE)?; fastforce simp: reading_Some rd_return_def)

lemma read_nodeclass_Some:
  "read_nodeclass c h = Some (v, fp) \<longleftrightarrow>
    (\<exists>m p1 sp p2 st p3. read_meta (gcMeta c) h = Some (m, p1) \<and> read_spec (gcSpec c) h = Some (sp, p2)
       \<and> read_status (gcStatus c) h = Some (st, p3)
       \<and> v = \<lparr>noKind = gcKind c, noAPIVersion = gcAPIVersion c, noMeta = m, noSpec = sp, noStatus = st\<rparr> \<and> fp = p1 @ p2 @ p3)"
  unfolding read_nodeclass_def read_pair_def by (auto simp: reading_Some rd_return_def)

lemma read_ptr_Some:
  "read_ptr dest rd (Some a) h = Some (v, fp) \<longleftrightarrow>
    (\<exists>x w q. Option.bind (cell_at h a) dest = Some x \<and> rd x h = Some (w, q) \<and> v = Some w \<and> fp = a # q)"
  by (auto simp: read_ptr_def reading_Some Option.bind_eq_Some_conv)

lemma read_strings_Some:
  "read_strings (Some sl) h = Some (v, fp) \<longleftrightarrow>
    (\<exists>xs. Option.bind (cell_at h (slArray sl)) the_StringArray = Some xs \<and> slOffset sl + slLen sl \<le> length xs
       \<and> v = Some (window sl xs) \<and> fp = [slArray sl])"
  by (auto simp: read_slice_def reading_Some rd_list_return rd_fail_def Option.bind_eq_Some_conv split: if_splits)

text \<open>A meta object of which only the cell of the finalizers changes.\<close>

lemma read_meta_new_finalizers:
  assumes rd: "read_meta m h = Some (v, fp)" "distinct fp" and fin: "gmFinalizers m = Some sl"
    and same: "\<And>a. a \<in> set fp \<Longrightarrow> a \<noteq> slArray sl \<Longrightarrow> cell_at h2 a = cell_at h a"
    and new: "read_strings (Some sl') h2 = Some (Some fs, q)"
  shows "\<exists>fp'. read_meta (m\<lparr>gmFinalizers := Some sl'\<rparr>) h2 = Some (v\<lparr>omFinalizers := fs\<rparr>, fp')"
proof -
  from rd(1) obtain dt p1 dg p2 ls p3 as p4 ors p5 fs0 p6 mf p7 where
    f: "read_time (gmDeletionTimestamp m) h = Some (dt, p1)" "read_int64 (gmDeletionGracePeriodSeconds m) h = Some (dg, p2)"
      "read_map (gmLabels m) h = Some (ls, p3)" "read_map (gmAnnotations m) h = Some (as, p4)"
      "read_slice the_OwnerArray read_owner (gmOwnerReferences m) h = Some (ors, p5)"
      "read_strings (gmFinalizers m) h = Some (fs0, p6)"
      "read_slice the_ManagedFieldsArray read_managed (gmManagedFields m) h = Some (mf, p7)"
    and v: "v = \<lparr>omName = gmName m, omGenerateName = gmGenerateName m, omNamespace = gmNamespace m, omSelfLink = gmSelfLink m,
              omUID = gmUID m, omResourceVersion = gmResourceVersion m, omGeneration = gmGeneration m,
              omCreationTimestamp = gmCreationTimestamp m, omDeletionTimestamp = dt, omDeletionGracePeriodSeconds = dg,
              omLabels = or_empty ls, omAnnotations = or_empty as, omOwnerReferences = or_empty ors,
              omFinalizers = or_empty fs0, omManagedFields = or_empty mf\<rparr>"
    and fp: "fp = p1 @ p2 @ p3 @ p4 @ p5 @ p6 @ p7" unfolding read_meta_Some by blast
  from f(6) fin have "p6 = [slArray sl]" by (auto simp: read_strings_Some)
  with rd(2) fp have other: "cell_at h2 a = cell_at h a" if "a \<in> set p1 \<union> set p2 \<union> set p3 \<union> set p4 \<union> set p5 \<union> set p7" for a
    using that by (intro same) auto
  note loc = reads_locallyD(2)[OF field_reads_locally(1) f(1)] reads_locallyD(2)[OF field_reads_locally(2) f(2)]
    reads_locallyD(2)[OF field_reads_locally(3) f(3)] reads_locallyD(2)[OF field_reads_locally(3) f(4)]
    reads_locallyD(2)[OF field_reads_locally(4) f(5)] reads_locallyD(2)[OF field_reads_locally(5) f(7)]
  have "read_meta (m\<lparr>gmFinalizers := Some sl'\<rparr>) h2 = Some (v\<lparr>omFinalizers := fs\<rparr>, p1 @ p2 @ p3 @ p4 @ p5 @ q @ p7)"
    unfolding read_meta_Some using loc[where h' = h2] other new v by (auto simp: or_empty_def)
  then show ?thesis ..
qed

text \<open>The two cells that change: the array of the finalizers and the struct with its new slice.\<close>

lemma RemoveFinalizer_in_place_cells:
  assumes c: "Option.bind (cell_at h a) the_NodeClassCell = Some c" "gmFinalizers (gcMeta c) = Some sl" "a \<noteq> slArray sl"
    and xs: "Option.bind (cell_at h (slArray sl)) the_StringArray = Some xs" "slOffset sl + slLen sl \<le> length xs"
    and run: "RemoveFinalizer_in_place fin a h = (updated, h')"
  obtains sl' where
    "Option.bind (cell_at h' a) the_NodeClassCell = Some (c\<lparr>gcMeta := (gcMeta c)\<lparr>gmFinalizers := Some sl'\<rparr>\<rparr>)"
    "read_strings (Some sl') h' = Some (Some (filter (\<lambda>g. g \<noteq> fin) (window sl xs)), [slArray sl])"
    "\<And>b. b \<noteq> a \<Longrightarrow> b \<noteq> slArray sl \<Longrightarrow> cell_at h' b = cell_at h b"
proof -
  obtain f index where f: "fold (remove_step fin (slOffset sl)) [0..<slLen sl] (xs, 0) = (f, index)" "length f = length xs"
    "index \<le> slLen sl" "take index (drop (slOffset sl) f) = filter (\<lambda>g. g \<noteq> fin) (window sl xs)"
    using remove_loop[OF xs(2), of fin] by (auto simp: window_def)
  let ?sl = "sl\<lparr>slLen := index\<rparr>" and ?c = "c\<lparr>gcMeta := (gcMeta c)\<lparr>gmFinalizers := Some (sl\<lparr>slLen := index\<rparr>)\<rparr>\<rparr>"
  have h': "h' = h[slArray sl := StringArray f, a := NodeClassCell ?c]"
    using run c xs(1) f(1) by (simp add: RemoveFinalizer_in_place_def)
  have bound: "a < length h" "slArray sl < length h"
    using c(1) xs(1) by (auto simp: Option.bind_eq_Some_conv dest: cell_at_bound)
  have "Option.bind (cell_at h' a) the_NodeClassCell = Some ?c" using bound by (simp add: h' cell_at_def cell_defs)
  moreover have "cell_at h' (slArray sl) = Some (StringArray f)" using bound c(3) by (simp add: h' cell_at_def)
  then have "read_strings (Some ?sl) h' = Some (Some (filter (\<lambda>g. g \<noteq> fin) (window sl xs)), [slArray sl])"
    using f xs(2) string_array.dest_mk by (simp add: read_strings_Some window_def)
  ultimately show thesis by (rule that) (simp add: h')
qed

lemma RemoveFinalizer_in_place_value:
  assumes rd: "read_nodeclass_ptr (Some a) h = Some (Some obj, fp)" "distinct fp"
    and run: "RemoveFinalizer_in_place fin a h = (updated, h')"
  shows "(\<exists>fp'. read_nodeclass_ptr (Some a) h' =
      Some (Some (obj\<lparr>noMeta := (noMeta obj)\<lparr>omFinalizers := filter (\<lambda>g. g \<noteq> fin) (omFinalizers (noMeta obj))\<rparr>\<rparr>), fp'))
    \<and> (\<forall>b. b \<notin> set fp \<longrightarrow> cell_at h' b = cell_at h b)"
proof -
  from rd(1) obtain c q where c: "Option.bind (cell_at h a) the_NodeClassCell = Some c" "read_nodeclass c h = Some (obj, q)"
    and fp: "fp = a # q" by (auto simp: read_ptr_Some)
  from c(2) obtain m p1 sp p2 st p3 where
    parts: "read_meta (gcMeta c) h = Some (m, p1)" "read_spec (gcSpec c) h = Some (sp, p2)" "read_status (gcStatus c) h = Some (st, p3)"
    and obj: "obj = \<lparr>noKind = gcKind c, noAPIVersion = gcAPIVersion c, noMeta = m, noSpec = sp, noStatus = st\<rparr>"
    and q: "q = p1 @ p2 @ p3" unfolding read_nodeclass_Some by blast
  show ?thesis
  proof (cases "gmFinalizers (gcMeta c)")
    case None
    with parts(1) have "omFinalizers m = []" by (auto simp: read_meta_Some read_slice_def rd_return_def or_empty_def)
    with None c(1) run rd(1) obj show ?thesis by (simp add: RemoveFinalizer_in_place_def)
  next
    case (Some sl)
    from parts(1) Some obtain xs where xs: "Option.bind (cell_at h (slArray sl)) the_StringArray = Some xs"
      "slOffset sl + slLen sl \<le> length xs" and fins: "omFinalizers m = window sl xs" and p1: "slArray sl \<in> set p1"
      by (auto simp: read_meta_Some read_strings_Some or_empty_def)
    have ne: "a \<noteq> slArray sl" "a \<notin> set q" "slArray sl \<notin> set p2" "slArray sl \<notin> set p3" using rd(2) fp q p1 by auto
    from RemoveFinalizer_in_place_cells[OF c(1) Some ne(1) xs run] obtain sl' where
      c': "Option.bind (cell_at h' a) the_NodeClassCell = Some (c\<lparr>gcMeta := (gcMeta c)\<lparr>gmFinalizers := Some sl'\<rparr>\<rparr>)"
      and strs: "read_strings (Some sl') h' = Some (Some (filter (\<lambda>g. g \<noteq> fin) (window sl xs)), [slArray sl])"
      and same: "\<And>b. b \<noteq> a \<Longrightarrow> b \<noteq> slArray sl \<Longrightarrow> cell_at h' b = cell_at h b" by blast
    have meta: "\<exists>p1'. read_meta ((gcMeta c)\<lparr>gmFinalizers := Some sl'\<rparr>) h' =
        Some (m\<lparr>omFinalizers := filter (\<lambda>g. g \<noteq> fin) (omFinalizers m)\<rparr>, p1')"
      unfolding fins
    proof (rule read_meta_new_finalizers[OF parts(1) _ Some _ strs])
      show "distinct p1" using rd(2) fp q by simp
      show "cell_at h' b = cell_at h b" if "b \<in> set p1" "b \<noteq> slArray sl" for b
        by (rule same) (use that ne(2) q in auto)
    qed
    have rest: "cell_at h' b = cell_at h b" if "b \<in> set p2 \<union> set p3" for b by (rule same) (use that ne q in auto)
    have "read_spec (gcSpec c) h' = Some (sp, p2)" "read_status (gcStatus c) h' = Some (st, p3)"
      by (rule reads_locallyD(2)[OF ECSNodeClassSpec.locally parts(2)], use rest in blast,
          rule reads_locallyD(2)[OF ECSNodeClassStatus.locally parts(3)], use rest in blast)
    with meta have "\<exists>q'. read_nodeclass (c\<lparr>gcMeta := (gcMeta c)\<lparr>gmFinalizers := Some sl'\<rparr>\<rparr>) h' =
        Some (obj\<lparr>noMeta := (noMeta obj)\<lparr>omFinalizers := filter (\<lambda>g. g \<noteq> fin) (omFinalizers (noMeta obj))\<rparr>\<rparr>, q')"
      unfolding read_nodeclass_Some by (auto simp: obj)
    with c' show ?thesis using same fp q p1 by (auto simp: read_ptr_Some)
  qed
qed

section \<open>The stored copy\<close>

text \<open>
  C15. The node class a controller stores before it changes the class keeps its value. In any memory in
  which a node class can be read without two of its fields sharing a cell, \<^verbatim>\<open>DeepCopy\<close> gives
  a class with the same value that shares no cell with the original, and when the termination
  controller then removes its finalizer in place, the stored copy still has the old value and the class has
  the value that \<open>RemoveFinalizer\<close> of the value-level model gives; so the comparison of the
  two finds a difference exactly when there was a finalizer to remove.
\<close>

theorem stored_class_keeps_its_value:
  assumes rd: "read_nodeclass_ptr (Some a) h = Some (Some obj, fp)" "distinct fp"
    and copy: "ECSNodeClass_DeepCopy (Some a) h = (stored, h1)"
    and run: "finalize_in_memory a h = (stored', h2)"
  shows "stored' = stored
    \<and> (\<exists>fq. read_nodeclass_ptr stored h1 = Some (Some obj, fq) \<and> set fp \<inter> set fq = {}
         \<and> read_nodeclass_ptr stored h2 = Some (Some obj, fq))
    \<and> (\<exists>obj' fr. read_nodeclass_ptr (Some a) h2 = Some (Some obj', fr)
         \<and> class_of_object obj' = RemoveFinalizer TerminationFinalizer (class_of_object obj)
         \<and> (obj' \<noteq> obj \<longleftrightarrow> TerminationFinalizer \<in> set (ncFinalizers (class_of_object obj))))"
proof -
  obtain u where rem: "RemoveFinalizer_in_place TerminationFinalizer a h1 = (u, h2)" and st: "stored' = stored"
    using copy run by (auto simp: finalize_in_memory_def split: prod.splits)
  from nodeclass_copy.independent[OF rd(1) copy] obtain fq where
    ind: "read_nodeclass_ptr (Some a) h1 = Some (Some obj, fp)" "read_nodeclass_ptr stored h1 = Some (Some obj, fq)"
      "set fp \<inter> set fq = {}"
      "\<And>h2. (\<forall>b. b \<notin> set fp \<longrightarrow> cell_at h2 b = cell_at h1 b) \<Longrightarrow> read_nodeclass_ptr stored h2 = Some (Some obj, fq)"
    by blast
  let ?obj = "obj\<lparr>noMeta := (noMeta obj)\<lparr>omFinalizers := filter (\<lambda>g. g \<noteq> TerminationFinalizer) (omFinalizers (noMeta obj))\<rparr>\<rparr>"
  from RemoveFinalizer_in_place_value[OF ind(1) rd(2) rem] obtain fr where
    new: "read_nodeclass_ptr (Some a) h2 = Some (Some ?obj, fr)" "\<forall>b. b \<notin> set fp \<longrightarrow> cell_at h2 b = cell_at h1 b" by blast
  have "class_of_object ?obj = RemoveFinalizer TerminationFinalizer (class_of_object obj)"
    by (simp add: class_of_object_def RemoveFinalizer_def)
  moreover have "?obj \<noteq> obj \<longleftrightarrow> TerminationFinalizer \<in> set (ncFinalizers (class_of_object obj))"
  proof -
    have "?obj = obj \<longleftrightarrow> filter (\<lambda>g. g \<noteq> TerminationFinalizer) (omFinalizers (noMeta obj)) = omFinalizers (noMeta obj)"
      by (cases obj, cases "noMeta obj") simp
    then show ?thesis by (auto simp: filter_id_conv class_of_object_def)
  qed
  ultimately show ?thesis using st ind(2,3) ind(4)[OF new(2)] new(1) by blast
qed

text \<open>A class with the termination finalizer in front of another one, in two cells.\<close>

definition sample_memory_class :: go_nodeclass where
  "sample_memory_class = zero_nodeclass_ref\<lparr>gcMeta := (gcMeta zero_nodeclass_ref)\<lparr>
     gmFinalizers := Some \<lparr>slArray = 1, slOffset = 0, slLen = 2\<rparr>\<rparr>\<rparr>"

definition sample_memory :: "cell store" where
  "sample_memory = [NodeClassCell sample_memory_class, StringArray [TerminationFinalizer, ''other'']]"

definition finalizers_at :: "nat option \<Rightarrow> cell store \<Rightarrow> string list option" where
  "finalizers_at p h = (case read_nodeclass_ptr p h of
     Some (Some obj, fp) \<Rightarrow> Some (omFinalizers (noMeta obj)) | _ \<Rightarrow> None)"

lemma sample_memory_readable:
  "\<exists>obj. read_nodeclass_ptr (Some 0) sample_memory = Some (Some obj, [0, 1])
     \<and> omFinalizers (noMeta obj) = [TerminationFinalizer, ''other'']"
proof -
  have "map_option (map_prod (map_option (omFinalizers \<circ> noMeta)) id) (read_nodeclass_ptr (Some 0) sample_memory)
      = Some (Some [TerminationFinalizer, ''other''], [0, 1])" by code_simp
  then show ?thesis by auto
qed

theorem stored_class_keeps_its_value_witness:
  "\<exists>stored h2. finalize_in_memory 0 sample_memory = (stored, h2)
     \<and> finalizers_at stored h2 = Some [TerminationFinalizer, ''other''] \<and> finalizers_at (Some 0) h2 = Some [''other'']"
proof -
  obtain obj where rd: "read_nodeclass_ptr (Some 0) sample_memory = Some (Some obj, [0, 1])"
    "omFinalizers (noMeta obj) = [TerminationFinalizer, ''other'']" using sample_memory_readable by blast
  obtain stored h1 where copy: "ECSNodeClass_DeepCopy (Some 0) sample_memory = (stored, h1)" by fastforce
  obtain stored' h2 where run: "finalize_in_memory 0 sample_memory = (stored', h2)" by fastforce
  have d: "distinct [0 :: nat, 1]" by simp
  from stored_class_keeps_its_value[OF rd(1) d copy run] obtain fq obj' fr where
    "stored' = stored" "read_nodeclass_ptr stored h2 = Some (Some obj, fq)" "read_nodeclass_ptr (Some 0) h2 = Some (Some obj', fr)"
    "class_of_object obj' = RemoveFinalizer TerminationFinalizer (class_of_object obj)" by blast
  then show ?thesis using run rd(2)
    by (auto simp: finalizers_at_def class_of_object_def RemoveFinalizer_def TerminationFinalizer_def Group_def)
qed

text \<open>Without the deep copy the stored class would change with the original: a copy of the struct
  shares the array, and reads the finalizers as the loop left them.\<close>

lemma struct_copy_changes:
  "finalizers_at (Some 2) (sample_memory @ [NodeClassCell sample_memory_class]) = Some [TerminationFinalizer, ''other'']"
  "finalizers_at (Some 2) (snd (RemoveFinalizer_in_place TerminationFinalizer 0
     (sample_memory @ [NodeClassCell sample_memory_class]))) = Some [''other'', ''other'']"
  by code_simp+

end
