(* ===== verification/Spec2Isabelle.thy ===== *)
theory Spec2Isabelle
  imports Cluster_Wf Startup Ownership Tags Aliasing
begin

text \<open>
  Karpenter for Alibaba Cloud, a verification development.

  \<^bold>\<open>The program.\<close> The repository is the cloud provider that karpenter (a vendored library)
  uses to launch ECS instances for unschedulable pods. \<^verbatim>\<open>pkg/operator\<close> reads the options,
  builds the providers of \<^verbatim>\<open>pkg/providers\<close> and starts the controllers of
  \<^verbatim>\<open>pkg/controllers\<close>. Karpenter calls \<^verbatim>\<open>pkg/cloudprovider\<close>: it asks for the
  instance types of a node pool, creates and deletes instances for node claims, and asks whether a
  node claim drifted from its node class. The providers share state: a launch or an interruption
  marks offerings in the unavailable-offerings cache, the change counter of that cache is part of
  the key under which the instance type provider caches its answers, and the prices and the
  vSwitches' free addresses steer the choice of a launch. The controllers keep the node class'
  status, hash and finalizer, collect instances without a claim, tag instances, remove a start-up
  taint, react to spot interruptions and refresh prices and types.

  \<^bold>\<open>How it is modelled.\<close> Every operation is a total, executable function that takes the state it
  reads and returns the state it leaves. A Go error is a value of \<open>gerror\<close>, a result is
  \<open>outcome\<close> (\<open>Ok\<close>, \<open>Err\<close>, or \<open>Panic\<close> for a nil dereference or an index out of
  range), a pointer is an \<open>option\<close>, a Go map is an association list in iteration order, times
  and durations are nanoseconds in \<open>int\<close>, counters that can wrap are \<open>64 word\<close>, quantities
  and prices are \<open>rat\<close> (rounded explicitly where the code computes in \<^verbatim>\<open>float64\<close> or
  \<^verbatim>\<open>float32\<close>). Code outside the repository is an argument: the ECS, VPC and ACK APIs, the
  Kubernetes API server (its answers to lists and writes), the price server, structure hashes,
  random numbers, the rate limiter, \<^verbatim>\<open>sort.Slice\<close> and the order in which parallel workers
  finish. The time of a call is an argument too; one call happens at one instant. Loops that follow
  page tokens of an API may run for ever, so they return an option (\<open>token_loop\<close>,
  \<open>partial_function\<close>); no fuel is used anywhere, and loops with a fixed bound (the 359 pages of
  vSwitches, the five attempts of a conflicting patch) recurse on that bound. Logging and metrics
  are left out.

  \<^bold>\<open>The Go and karpenter library.\<close>
  \<^item> \<open>Prelude\<close>: outcomes, errors and their classification (\<^verbatim>\<open>errors.As\<close>, multierr,
    karpenter's and Kubernetes' error predicates), samber/lo helpers, page-token loops.
  \<^item> \<open>Go_Strings\<close>, \<open>Go_Regexp\<close>, \<open>Go_Float\<close>: string functions, the regular expressions
    the code uses with leftmost-first matching, rounding and printing of floats.
  \<^item> \<open>Go_Cache\<close>: patrickmn/go-cache with expiry and janitor, and the locale \<open>ttl_store\<close> of
    read-through caching.
  \<^item> \<open>Go_Sort\<close>: the contract of \<^verbatim>\<open>sort.Slice\<close>, the locale \<open>slice_sorter\<close> and Go's
    insertion sort as its instance.
  \<^item> \<open>Go_Heap\<close>: an explicit store of cells with pointers, slices (an array, an offset and a
    length) and maps, the value an address denotes together with the cells it is read from, and the
    locales \<open>cell_kind\<close> and \<open>deep_copier\<close> with one law per type constructor: a deep copy has
    the value of the original, lives in new cells and keeps its value whatever is written to the
    original.
  \<^item> \<open>Sched\<close>, \<open>Cloud_Types\<close>, \<open>Karp_Objects\<close>: karpenter's requirement algebra,
    instance types and offerings, node claims, nodes and writes to the API server.

  \<^bold>\<open>The program's components.\<close>
  \<^item> \<open>Labels\<close>, \<open>Apis\<close>: \<^verbatim>\<open>pkg/apis\<close>, the node class with its status conditions (the
    Ready condition follows its dependents) and its hash.
  \<^item> \<open>Go_Objects\<close>, \<open>Deep_Copy\<close>: the API types as they lie in memory and
    \<^verbatim>\<open>zz_generated.deepcopy.go\<close>; every \<^verbatim>\<open>DeepCopyInto\<close> is an interpretation of
    \<open>deep_copier\<close>. \<open>Aliasing\<close>: the termination controller's \<^verbatim>\<open>finalize\<close> on that
    store, where the copy it stores keeps the old finalizers while \<^verbatim>\<open>RemoveFinalizer\<close>
    overwrites the array of the original. All other theories pass objects as values.
  \<^item> \<open>Unavailable\<close>: \<^verbatim>\<open>pkg/cache\<close>. The cache refines a map of expiry instants, the
    counter detects every change; its clients use the locale \<open>unavailability\<close>.
  \<^item> \<open>Pricing\<close>, \<open>VSwitch\<close>, \<open>Security_Group\<close>, \<open>Image_Family\<close>, \<open>Ack\<close>,
    \<open>Version\<close>, \<open>Utils\<close>: the providers of the same names. Failed updates keep the prices; a
    launch gets the vSwitch with the most free addresses per zone and the addresses it takes are
    accounted for; discovery reads all pages; images are resolved first match first; the runtime
    comes from the best node pool and every start-up script taints the node; the version range is
    enforced.
  \<^item> \<open>Instance_Types\<close>: \<^verbatim>\<open>instancetype/types.go\<close>. The floating-point overhead formulas are
    equal to exact integer schedules, and the allocatable resources are what is left of the
    capacity.
  \<^item> \<open>Instance_Type_Provider\<close>: \<^verbatim>\<open>instancetype/instancetype.go\<close>. What is launchable is
    exactly what is in stock, priced and not marked; a cached answer is never read under other
    counters.
  \<^item> \<open>Instance\<close>, \<open>Instance_Provider\<close>: \<^verbatim>\<open>pkg/providers/instance\<close>; the lemmas are in
    \<open>Instance_Launch\<close> (filtering, vSwitch choice, the bounds of a request, what happens without
    stock) and \<open>Instance_Cache\<close> (listing, look-up, deletion).
  \<^item> \<open>Cloud_Provider\<close>: \<^verbatim>\<open>pkg/cloudprovider\<close>. How failures are classified for karpenter,
    what a created claim says, and drift.
  \<^item> \<open>Nodeclass_Status\<close>, \<open>Nodeclass_Lifecycle\<close>: \<^verbatim>\<open>pkg/controllers/nodeclass\<close>. The
    three status reconcilers are interpretations of the locale \<open>status_reconciler\<close>, from which
    the controller's readiness theorem follows; hash upgrades never drift nodes; the finalizer
    waits for the claims.
  \<^item> \<open>Nodeclaim_Controllers\<close>: garbage collection, tagging, the unregistered taint and
    \<^verbatim>\<open>pkg/controllers/interruption\<close>.
  \<^item> \<open>Refresh\<close>: \<^verbatim>\<open>pkg/controllers/providers\<close>. The two updates of the instance type
    provider are an interpretation of the locale \<open>independent_work\<close> of updates that commute; the
    two pricing updates, which share the time of the last synchronisation and hold no lock while
    they ask the price service, are run step by step in every interleaving.
  \<^item> \<open>Events\<close>: the events of \<^verbatim>\<open>pkg/cloudprovider/events\<close>,
    \<^verbatim>\<open>interruption/events\<close> and \<^verbatim>\<open>nodeclass/termination/events.go\<close>; which handler
    publishes which, and that an event says what really happened.
  \<^item> \<open>Ownership\<close>: the provider lists, looks up and collects only instances of the account that
    carry the cluster's tag, and deletes none of another cluster. \<open>Tags\<close>: the reserved tag keys of \<^verbatim>\<open>labels.go\<close>, the admission rules of
    \<^verbatim>\<open>ecsnodeclass.go\<close> on the user's tags and what reaches the instance.
  \<^item> \<open>Operator\<close>: \<^verbatim>\<open>pkg/operator\<close>, \<^verbatim>\<open>pkg/controllers/controllers.go\<close> and what the
    telemetry controller sends. \<open>Startup\<close>: the client configuration, the decoders of
    \<^verbatim>\<open>pkg/utils/object\<close>, the options in the context, the liveness probes, the registration of
    every controller, and the tool of \<^verbatim>\<open>hack/tools/price_gen\<close> together with the price list the
    pricing provider starts from.

  \<^bold>\<open>The process.\<close> \<open>System\<close> has a small step relation \<open>sys_step\<close> on the unavailable
  offerings and the instance type provider (marking, evicting, listing, refreshing, sweeping) with
  the invariant that no cached answer offers what its counter says is marked. \<open>Cluster\<close> has the
  state of the process as \<^verbatim>\<open>cmd/controller/main.go\<close> wires it and \<open>cluster_step\<close>, one rule
  per handler that changes a provider: the calls of karpenter (create, list, get, delete, drift,
  instance types), garbage collection, tagging, interruption, the status controller, the two
  refresh controllers and the janitors. The locale \<open>simulation\<close>, interpreted as
  \<open>process\<close>, carries the invariants of \<open>sys_step\<close> to every reachable state of the process;
  \<open>Cluster_Wf\<close> proves that every reachable state is well-formed, cache by cache. The
  properties at the end of this theory follow: a marked offering is withheld until its mark expires,
  an expired one comes back, and static drift is exactly a change of the hash.

  \<^bold>\<open>Assumptions the theorems state.\<close> Instance type and capacity type names do not contain the
  colon that separates the parts of a cache key; the change counters do not wrap around within a
  run of fewer than \<open>2 ^ 64\<close> changes (\<open>counter_fits\<close>, a guard of the steps that mark or
  evict); an API that pages its answer serves finitely many pages; an instance that ECS answers with
  exists and has the tags the request asked for (\<open>serves_fleet\<close>), and an instance does not move to
  another cluster (\<open>keeps_cluster\<close>); decoding JSON inverts encoding it;
  \<^verbatim>\<open>sort.Slice\<close> permutes and sorts when its argument is a strict weak order; parallel workers
  all run; no two fields of a decoded node class share a cell. Each theorem with such a hypothesis is followed by an instance at concrete values.

  \<^bold>\<open>Not modelled.\<close> Logs and metrics (no effect on a decision); the transport of HTTP requests and
  the JSON syntax (parameters); the registration of the API types with the scheme; Go interfaces, constructors that only store their arguments, and
  the types \<^verbatim>\<open>Options\<close> and \<^verbatim>\<open>LaunchTemplate\<close> of \<^verbatim>\<open>imagefamily/resolver.go\<close>, which
  nothing uses; karpenter's own controllers and the controller manager (library code) with the rate
  limiters handed to it; computeEvictionSignal, mustParsePercentage and getInstanceBandwidth of
  \<^verbatim>\<open>instancetype/types.go\<close> and New of \<^verbatim>\<open>utils/object\<close> (never called). Locks are not
  modelled: a handler is one step at one instant, and the interleavings considered are those of
  whole handlers (\<open>cluster_step\<close>), of the smaller operations of \<open>sys_step\<close>, of the
  parallel workers inside one handler, and of the steps of the two pricing updates. The Kubernetes client fills its argument in place; only
  \<open>Aliasing\<close> has addresses, and the deep copies of the other controllers are the value copied.

  \<^bold>\<open>Deviations found.\<close> \<open>missed_lookup_renews_cached_instances\<close>,
  \<open>list_shares_types_across_disks\<close>, \<open>disk_without_size_panics\<close>,
  \<open>on_demand_vswitch_ignores_zones\<close>, \<open>launched_instance_lacks_pool\<close>,
  \<open>other_effect_patched_in_vain\<close>, \<open>push_without_request_panics\<close>,
  \<open>spot_only_zone_not_offered\<close>, \<open>documented_minimum_refused\<close>, \<open>sync_race\<close> and the last two conjuncts of
  \<open>user_tags_reach_the_instance\<close> state behaviour of the code that its comments or its use do
  not suggest.
\<close>

section \<open>Marked offerings are withheld\<close>

text \<open>
  C1. An offering that is marked unavailable, by a launch without stock or by an interruption, is
  not offered again before its mark expires: whatever the process does in between, launches,
  interruptions, listings, refreshes, garbage collections and janitor runs in any order, no
  instance type listed within that time, for the scheduler or for a creation, can be launched with
  it, even when the answer comes from the cache.
\<close>

theorem marked_offering_withheld:
  assumes "reachable c" "IsUnavailable until it z ct (ctUnavailable c)" "until \<le> clusterTime c + UnavailableOfferingsTTL"
    and "cluster_step\<^sup>*\<^sup>* c c'" "clusterTime c' \<le> now" "now \<le> until"
    and "list_types env now nc (ctCloud c') = (Ok its, s)" "ty \<in> set its" "itName ty = it"
  shows "\<not> HasCompatible (launch_reqs ct z) (AvailableOfferings (Offerings ty))"
  using assms by (rule mark_withheld)

theorem marked_offering_withheld_witness:
  "\<exists>ty s. reachable sample_marked
     \<and> list_types sample_listing_env 3 sample_nc (ctCloud sample_marked) = (Ok [ty], s)
     \<and> \<not> HasCompatible (launch_reqs CapacityTypeSpot ''b'') (AvailableOfferings (Offerings ty))"
proof -
  obtain ty s where list: "list_types sample_listing_env 3 sample_nc (ctCloud sample_marked) = (Ok [ty], s)"
    and name: "itName ty = ''ecs.g7.large''"
    using sample_listing[of "ctCloud sample_marked" 3] by (auto simp: sample_marked_fields)
  have "\<not> HasCompatible (launch_reqs CapacityTypeSpot ''b'') (AvailableOfferings (Offerings ty))"
    by (rule marked_offering_withheld[OF reachable_marked _ _ rtranclp.rtrancl_refl _ _ list _ name,
          where until = "2 + UnavailableOfferingsTTL"])
      (simp_all add: sample_marked_fields, simp add: go_simps)
  with list reachable_marked show ?thesis by blast
qed

text \<open>
  C2. A mark does not outlive its time. Whenever an offering is marked, the janitor's ticker fires at
  most ten seconds after the mark expired; that run removes the mark, and the next listing of any
  node class afterwards computes its answer anew, so that the offering can be launched exactly
  when its zone has a vSwitch, it is in stock, its price is known and it has not been marked
  again; a spot offering needs, in addition, some type with on-demand stock in its zone, since
  \<^verbatim>\<open>List\<close> takes its zones from the on-demand offerings.
\<close>

theorem expired_offering_returns:
  assumes "reachable c" "start \<le> clusterTime c"
    and "map_of (cache_items (uoCache (ctUnavailable c))) (key it z ct) = Some item"
    and "counter_fits (length (cache_items (uoCache (ctUnavailable c)))) (ctUnavailable c)"
  shows "\<exists>n t c1. t = janitor_tick start UnavailableOfferingsCleanupInterval n
    \<and> t \<le> max (clusterTime c) (Expiration item) + UnavailableOfferingsCleanupInterval
    \<and> c1 = c\<lparr>clusterTime := t, ctCloud := with_unavailable (uo_evict t (ctUnavailable c)) (ctCloud c)\<rparr>
    \<and> cluster_step c c1 \<and> \<not> IsUnavailable t it z ct (ctUnavailable c1)
    \<and> (\<forall>c2 env now nc its s ty. cluster_step\<^sup>*\<^sup>* c1 c2 \<longrightarrow>
        instanceTypesCache (csTypes (ctCloud c2)) = instanceTypesCache (csTypes (ctCloud c1)) \<longrightarrow>
        list_types env now nc (ctCloud c2) = (Ok its, s) \<longrightarrow> ty \<in> set its \<longrightarrow> itName ty = it \<longrightarrow>
        (HasCompatible (launch_reqs ct z) (AvailableOfferings (Offerings ty)) \<longleftrightarrow>
          z \<in> svZoneID ` set (stVSwitches (ncStatus nc))
          \<and> \<not> IsUnavailable now it z ct (ctUnavailable c2)
          \<and> (ct = CapacityTypeOnDemand \<and> z \<in> set (zones_of (instanceTypesOfferings (csTypes (ctCloud c2))) it)
               \<and> OnDemandPrice it (csPricing (ctCloud c2)) \<noteq> None
           \<or> ct = CapacityTypeSpot \<and> z \<in> set (zones_of (spotInstanceTypesOfferings (csTypes (ctCloud c2))) it)
               \<and> (\<exists>t zs. (t, zs) \<in> set (instanceTypesOfferings (csTypes (ctCloud c2))) \<and> z \<in> set zs)
               \<and> SpotPrice it z (csPricing (ctCloud c2)) \<noteq> None)))"
proof -
  have "0 < UnavailableOfferingsCleanupInterval" by (simp add: go_simps)
  moreover have "start \<le> max (clusterTime c) (Expiration item)" using assms(2) by simp
  ultimately obtain n
    where n: "max (clusterTime c) (Expiration item) < janitor_tick start UnavailableOfferingsCleanupInterval n"
      "janitor_tick start UnavailableOfferingsCleanupInterval n
        \<le> max (clusterTime c) (Expiration item) + UnavailableOfferingsCleanupInterval"
    using janitor_runs_soon by blast
  define t where "t = janitor_tick start UnavailableOfferingsCleanupInterval n"
  define c1 where "c1 = c\<lparr>clusterTime := t, ctCloud := with_unavailable (uo_evict t (ctUnavailable c)) (ctCloud c)\<rparr>"
  have time: "clusterTime c \<le> t" and exp: "item_expired t item"
    using n(1) stored_mark_expires[OF assms(1,3)] by (simp_all add: t_def item_expired_def)
  have fits: "counter_fits (evictions t (ctUnavailable c)) (ctUnavailable c)"
    by (rule evictions_fit[OF assms(4)])
  have "cluster_step c c1" unfolding c1_def by (rule cluster_step.expired[OF time fits])
  moreover have "\<not> IsUnavailable t it z ct (ctUnavailable c1)"
    using expired_mark_gone[OF assms(1,3) exp] by (simp add: c1_def)
  moreover note expired_mark_returns[OF assms(1) time fits assms(3) exp c1_def]
  ultimately show ?thesis
    using n(2)[folded t_def] by (intro exI[of _ n] exI[of _ t] exI[of _ c1] conjI allI impI t_def c1_def)
qed

theorem expired_offering_returns_witness:
  "\<exists>n t c1 ty s. t = janitor_tick 0 UnavailableOfferingsCleanupInterval n
     \<and> list_types sample_listing_env t sample_nc (ctCloud c1) = (Ok [ty], s) \<and> cluster_step sample_marked c1
     \<and> HasCompatible (launch_reqs CapacityTypeSpot ''b'') (AvailableOfferings (Offerings ty))"
proof -
  have "(0 :: int) \<le> clusterTime sample_marked" by (simp add: sample_marked_fields)
  from expired_offering_returns[OF reachable_marked this sample_mark_stored sample_marks_fit] obtain n t c1 where
    t: "t = janitor_tick 0 UnavailableOfferingsCleanupInterval n"
    and c1: "c1 = sample_marked\<lparr>clusterTime := t, ctCloud :=
        with_unavailable (uo_evict t (ctUnavailable sample_marked)) (ctCloud sample_marked)\<rparr>"
    and step: "cluster_step sample_marked c1"
    and free: "\<not> IsUnavailable t ''ecs.g7.large'' ''b'' CapacityTypeSpot (ctUnavailable c1)"
    and again: "\<forall>c2 env now nc its s ty. cluster_step\<^sup>*\<^sup>* c1 c2 \<longrightarrow>
        instanceTypesCache (csTypes (ctCloud c2)) = instanceTypesCache (csTypes (ctCloud c1)) \<longrightarrow>
        list_types env now nc (ctCloud c2) = (Ok its, s) \<longrightarrow> ty \<in> set its \<longrightarrow> itName ty = ''ecs.g7.large'' \<longrightarrow>
        (HasCompatible (launch_reqs CapacityTypeSpot ''b'') (AvailableOfferings (Offerings ty)) \<longleftrightarrow>
          ''b'' \<in> svZoneID ` set (stVSwitches (ncStatus nc))
          \<and> \<not> IsUnavailable now ''ecs.g7.large'' ''b'' CapacityTypeSpot (ctUnavailable c2)
          \<and> (CapacityTypeSpot = CapacityTypeOnDemand
               \<and> ''b'' \<in> set (zones_of (instanceTypesOfferings (csTypes (ctCloud c2))) ''ecs.g7.large'')
               \<and> OnDemandPrice ''ecs.g7.large'' (csPricing (ctCloud c2)) \<noteq> None
           \<or> CapacityTypeSpot = CapacityTypeSpot
               \<and> ''b'' \<in> set (zones_of (spotInstanceTypesOfferings (csTypes (ctCloud c2))) ''ecs.g7.large'')
               \<and> (\<exists>t zs. (t, zs) \<in> set (instanceTypesOfferings (csTypes (ctCloud c2))) \<and> ''b'' \<in> set zs)
               \<and> SpotPrice ''ecs.g7.large'' ''b'' (csPricing (ctCloud c2)) \<noteq> None))" by blast
  have fields: "csTypes (ctCloud c1) = sample_sys_offers" "csPricing (ctCloud c1) = lePricing sample_env"
    "lsAck (csLaunch (ctCloud c1)) = NewAckProvider ''c1'' (cache_new ClusterAttachScriptTTL)"
    by (simp_all add: c1 sample_marked_fields)
  from sample_listing[OF fields, of t] obtain ty s
    where list: "list_types sample_listing_env t sample_nc (ctCloud c1) = (Ok [ty], s)" and name: "itName ty = ''ecs.g7.large''"
    by blast
  have "SpotPrice ''ecs.g7.large'' ''b'' (lePricing sample_env) \<noteq> None" by code_simp
  moreover have "''b'' \<in> svZoneID ` set (stVSwitches (ncStatus sample_nc))" by (simp add: sample_nc_def)
  ultimately have "HasCompatible (launch_reqs CapacityTypeSpot ''b'') (AvailableOfferings (Offerings ty))"
    using again[rule_format, OF rtranclp.rtrancl_refl refl list _ name] free
    by (simp add: fields sample_sys_fields allZones_def zones_of_def)
  with t list step show ?thesis by blast
qed

section \<open>Creation and drift\<close>

text \<open>
  C9. Static drift follows the hashed specification: a node claim created from a node class is
  reported as drifted against the class as the hash controller leaves it exactly when the hash of
  the class changed since the creation; a class whose hashed fields are the same (the selectors
  are not hashed) never drifts it.
\<close>

theorem created_claim_drifts_iff_hash_changed:
  assumes create: "cp_Create env now cl s = (Ok c, s')" and nc: "resolveNodeClassFromNodeClaim env cl = Ok nc"
    and a: "a = hash_Reconcile (ceSpecHash env) listed write nc2" "caError a = None"
  shows "areStaticFieldsDrifted c (caClass a) =
      (if Hash (ceSpecHash env) nc2 = Hash (ceSpecHash env) nc then [] else NodeClassDrift)
    \<and> (hashed_spec (ncSpec nc2) = hashed_spec (ncSpec nc) \<longrightarrow> areStaticFieldsDrifted c (caClass a) = [])"
proof -
  have "map_of (clAnnotations c) AnnotationECSNodeClassHash = Some (Hash (ceSpecHash env) nc)"
    "map_of (clAnnotations c) AnnotationECSNodeClassHashVersion = Some ECSNodeClassHashVersion"
    by (rule cp_Create_annotations[OF create nc])+
  with hash_Reconcile_annotations[of "ceSpecHash env" listed "write" nc2] a show ?thesis
    by (auto simp: areStaticFieldsDrifted_def Hash_def)
qed

theorem created_claim_drifts_iff_hash_changed_witness:
  "\<exists>c s'. cp_Create sample_cloud_env 1 sample_claim sample_cloud_state = (Ok c, s')
     \<and> areStaticFieldsDrifted c (caClass (hash_Reconcile (ceSpecHash sample_cloud_env) (Inr []) (\<lambda>_. None)
          (sample_ready_class\<lparr>ncName := ''other''\<rparr>))) = []"
proof -
  obtain c s' where run: "cp_Create sample_cloud_env 1 sample_claim sample_cloud_state = (Ok c, s')"
    using sample_cp_Create by blast
  have "caError (hash_Reconcile (ceSpecHash sample_cloud_env) (Inr []) (\<lambda>_. None)
      (sample_ready_class\<lparr>ncName := ''other''\<rparr>)) = None"
    by (simp add: hash_Reconcile_def updateNodeClaimHash_def class_answer_of_def Let_def multierr_Combine_def List.map_filter_def)
  from created_claim_drifts_iff_hash_changed[OF run sample_resolve refl this] run show ?thesis by auto
qed

end
